(* ===== verification/Prelude.thy ===== *)
theory Prelude
  imports Main "HOL-Library.Multiset" "HOL-Library.Word" "HOL-Library.AList" "HOL-Library.List_Lexorder" "HOL-Library.Char_ord"
begin

text \<open>
  The prelude of the library: machine integers with Rust's checked and saturating operations,
  the hash map (an association list with distinct keys, whose order stands for the unspecified
  iteration order of \<open>HashMap\<close>), and the stable \<open>sort_by\<close> of slices with its comparators. The two
  collections below gather what the component proofs use again and again.
\<close>

named_theorems hmap_simps \<open>lookup equations of the hash map operations\<close>
named_theorems code_defs \<open>definitions of the straight-line handlers\<close>

type_synonym u8 = "8 word"
type_synonym u32 = "32 word"
type_synonym u64 = "64 word"

section \<open>Rust integer arithmetic\<close>

definition saturating_add :: "'a::len word \<Rightarrow> 'a word \<Rightarrow> 'a word" where
  "saturating_add a b = (if unat a + unat b < 2 ^ LENGTH('a) then a + b else - 1)"

definition checked_add :: "'a::len word \<Rightarrow> 'a word \<Rightarrow> 'a word option" where
  "checked_add a b = (if unat a + unat b < 2 ^ LENGTH('a) then Some (a + b) else None)"

definition saturating_sub :: "'a::len word \<Rightarrow> 'a word \<Rightarrow> 'a word" where
  "saturating_sub a b = (if b \<le> a then a - b else 0)"

definition checked_sub :: "'a::len word \<Rightarrow> 'a word \<Rightarrow> 'a word option" where
  "checked_sub a b = (if b \<le> a then Some (a - b) else None)"

definition abs_diff :: "'a::len word \<Rightarrow> 'a word \<Rightarrow> 'a word" where
  "abs_diff a b = (if b \<le> a then a - b else b - a)"

text \<open>\<open>u64::try_from\<close> of a signed value.\<close>

definition u64_try_from :: "int \<Rightarrow> u64 option" where
  "u64_try_from i = (if 0 \<le> i \<and> i < 2 ^ 64 then Some (word_of_int i) else None)"

lemma unat_saturating_add:
  "unat (saturating_add a b) = min (unat a + unat b) (2 ^ LENGTH('a) - 1)"
  for a b :: "'a::len word"
proof (cases "unat a + unat b < 2 ^ LENGTH('a)")
  case True
  then show ?thesis
    by (simp add: saturating_add_def unat_word_ariths)
next
  case False
  then have "unat (saturating_add a b) = 2 ^ LENGTH('a) - 1"
    by (simp add: saturating_add_def unsigned_minus_1_eq_mask mask_eq_exp_minus_1)
  with False show ?thesis by linarith
qed

lemma saturating_add_ge: "a \<le> saturating_add a b"
  for a b :: "'a::len word"
proof -
  have "unat a < 2 ^ LENGTH('a)" by simp
  then show ?thesis
    unfolding word_le_nat_alt unat_saturating_add by (simp add: less_eq_Suc_le le_diff_conv2)
qed

lemma saturating_add_one_neq: "a \<noteq> - 1 \<Longrightarrow> saturating_add a 1 \<noteq> a"
  for a :: "'a::len word"
  by (metis add_cancel_left_right saturating_add_def zero_neq_one)

lemma checked_add_Some:
  "checked_add a b = Some c \<Longrightarrow> unat c = unat a + unat b"
  by (auto simp: checked_add_def unat_word_ariths split: if_splits)

lemma unat_saturating_sub: "unat (saturating_sub a b) = unat a - unat b"
  by (auto simp: saturating_sub_def unat_sub word_le_nat_alt)

lemma saturating_sub_le: "saturating_sub a b \<le> a"
  by (simp add: word_le_nat_alt unat_saturating_sub)

lemma checked_sub_Some: "checked_sub a b = Some c \<longleftrightarrow> b \<le> a \<and> c = a - b"
  by (auto simp: checked_sub_def)

lemma unat_abs_diff:
  "unat (abs_diff a b) = (if unat b \<le> unat a then unat a - unat b else unat b - unat a)"
  by (auto simp: abs_diff_def word_le_nat_alt unat_sub)

lemma abs_diff_commute: "abs_diff a b = abs_diff b a"
  by (rule word_unat_eq_iff [THEN iffD2]) (simp add: unat_abs_diff)

section \<open>Hash maps\<close>

text \<open>
  What the daemon relies on of \<open>std::collections::HashMap\<close>, as an interface: a lookup sees the
  last insert under its key, a removal hides exactly its key, and both keep the representation
  well formed.
\<close>

locale map_store =
  fixes lookup :: "'m \<Rightarrow> 'k \<Rightarrow> 'v option"
    and ins :: "'k \<Rightarrow> 'v \<Rightarrow> 'm \<Rightarrow> 'm"
    and del :: "'k \<Rightarrow> 'm \<Rightarrow> 'm"
    and invar :: "'m \<Rightarrow> bool"
  assumes lookup_ins: "lookup (ins k v m) = (lookup m)(k \<mapsto> v)"
    and lookup_del: "invar m \<Longrightarrow> lookup (del k m) = (lookup m)(k := None)"
    and invar_ins: "invar m \<Longrightarrow> invar (ins k v m)"
    and invar_del: "invar m \<Longrightarrow> invar (del k m)"
begin

lemma invar_fold_ins: "invar m \<Longrightarrow> invar (fold (\<lambda>(k, v). ins k v) kvs m)"
  by (induction kvs arbitrary: m) (auto simp: invar_ins)

lemma lookup_fold_ins:
  "lookup (fold (\<lambda>(k, v). ins k v) kvs m) k =
    (case map_of (rev kvs) k of None \<Rightarrow> lookup m k | Some v \<Rightarrow> Some v)"
  by (induction kvs arbitrary: m)
    (auto simp: lookup_ins map_add_def split: option.splits)

lemma dom_fold_ins:
  "dom (lookup (fold (\<lambda>(k, v). ins k v) kvs m)) = dom (lookup m) \<union> fst ` set kvs"
  by (induction kvs arbitrary: m) (auto simp: lookup_ins split: if_splits)

end

lemma map_of_rev_distinct: "distinct (map fst kvs) \<Longrightarrow> map_of (rev kvs) = map_of kvs"
  by (rule map_of_inject_set [THEN iffD2]) (simp_all add: rev_map [symmetric])

type_synonym ('k, 'v) hmap = "('k \<times> 'v) list"

abbreviation hget :: "('k, 'v) hmap \<Rightarrow> 'k \<Rightarrow> 'v option" where
  "hget \<equiv> map_of"

definition hinsert :: "'k \<Rightarrow> 'v \<Rightarrow> ('k, 'v) hmap \<Rightarrow> ('k, 'v) hmap" where
  "hinsert k v m = AList.update k v m"

definition hremove :: "'k \<Rightarrow> ('k, 'v) hmap \<Rightarrow> ('k, 'v) hmap" where
  "hremove k m = AList.delete k m"

definition hretain :: "('k \<Rightarrow> 'v \<Rightarrow> bool) \<Rightarrow> ('k, 'v) hmap \<Rightarrow> ('k, 'v) hmap" where
  "hretain p m = filter (\<lambda>(k, v). p k v) m"

definition hextend :: "('k \<times> 'v) list \<Rightarrow> ('k, 'v) hmap \<Rightarrow> ('k, 'v) hmap" where
  "hextend kvs m = fold (\<lambda>(k, v). hinsert k v) kvs m"

definition hmap_ok :: "('k, 'v) hmap \<Rightarrow> bool" where
  "hmap_ok m = distinct (map fst m)"

lemma hmap_ok_Nil [simp]: "hmap_ok []"
  by (simp add: hmap_ok_def)

lemma hget_hinsert [hmap_simps]: "hget (hinsert k v m) = (hget m)(k \<mapsto> v)"
  by (simp add: hinsert_def update_conv')

lemma hget_hremove [hmap_simps]: "hget (hremove k m) = (hget m)(k := None)"
  by (simp add: hremove_def delete_conv')

lemma hmap_ok_hinsert [simp]: "hmap_ok m \<Longrightarrow> hmap_ok (hinsert k v m)"
  by (simp add: hmap_ok_def hinsert_def distinct_update)

lemma hmap_ok_hremove [simp]: "hmap_ok m \<Longrightarrow> hmap_ok (hremove k m)"
  by (simp add: hmap_ok_def hremove_def distinct_delete)

interpretation hm: map_store hget hinsert hremove hmap_ok
  by unfold_locales (simp_all add: hmap_simps)

lemma hmap_ok_hextend [simp]: "hmap_ok m \<Longrightarrow> hmap_ok (hextend kvs m)"
  unfolding hextend_def by (rule hm.invar_fold_ins)

lemma dom_hextend: "dom (hget (hextend kvs m)) = dom (hget m) \<union> fst ` set kvs"
  unfolding hextend_def by (rule hm.dom_fold_ins)

lemma hget_hextend_in:
  "hget (hextend kvs m) k = Some v \<Longrightarrow> (k, v) \<in> set kvs \<or> hget m k = Some v"
  by (simp add: hextend_def hm.lookup_fold_ins split: option.splits) (metis map_of_SomeD set_rev)

lemma hget_hextend_distinct:
  "distinct (map fst kvs) \<Longrightarrow> hget (hextend kvs []) = map_of kvs"
  by (rule ext) (simp add: hextend_def hm.lookup_fold_ins map_of_rev_distinct split: option.split)

lemma set_hinsert: "set (hinsert k v m) \<subseteq> insert (k, v) (set m)"
  unfolding hinsert_def by (induction m) auto

lemma set_hextend: "set (hextend kvs m) \<subseteq> set kvs \<union> set m"
proof (induction kvs arbitrary: m)
  case (Cons kv kvs)
  then show ?case
    using set_hinsert [of "fst kv" "snd kv" m] by (force simp: hextend_def split_beta)
qed (simp add: hextend_def)

lemma hmap_ok_hretain [simp]: "hmap_ok m \<Longrightarrow> hmap_ok (hretain p m)"
  by (auto simp: hmap_ok_def hretain_def distinct_map_filter)

lemma hget_hretain:
  assumes "hmap_ok m"
  shows "hget (hretain p m) k =
    (case hget m k of None \<Rightarrow> None | Some v \<Rightarrow> if p k v then Some v else None)"
  using assms
  by (induction m) (auto simp: hmap_ok_def hretain_def map_of_eq_None_iff rev_image_eqI
      split: option.splits dest: map_of_SomeD)

section \<open>Results\<close>

text \<open>A fallible value, with the text of its error.\<close>

type_synonym 'a result = "string + 'a"

text \<open>The question mark: the first failure is the result.\<close>

definition and_then :: "'a result \<Rightarrow> ('a \<Rightarrow> 'b result) \<Rightarrow> 'b result" where
  "and_then r f = (case r of Inl e \<Rightarrow> Inl e | Inr x \<Rightarrow> f x)"

fun collect_results :: "('a \<Rightarrow> 'b result) \<Rightarrow> 'a list \<Rightarrow> 'b list result" where
  "collect_results f [] = Inr []"
| "collect_results f (x # xs) =
     and_then (f x) (\<lambda>y. and_then (collect_results f xs) (\<lambda>ys. Inr (y # ys)))"

lemma and_then_Inr: "and_then r f = Inr y \<longleftrightarrow> (\<exists>x. r = Inr x \<and> f x = Inr y)"
  by (cases r) (simp_all add: and_then_def)

lemma collect_results_Inr:
  "collect_results f xs = Inr ys \<longleftrightarrow> list_all2 (\<lambda>x y. f x = Inr y) xs ys"
proof (induction xs arbitrary: ys)
  case Nil
  show ?case by (cases ys) auto
next
  case (Cons x xs)
  then show ?case by (cases ys) (auto simp: and_then_Inr)
qed

section \<open>Comparators and stable sorting\<close>

datatype ordering = Less | Equal | Greater

fun then_with :: "ordering \<Rightarrow> ordering \<Rightarrow> ordering" where
  "then_with Equal o2 = o2"
| "then_with o1 _ = o1"

definition cmp :: "'a::linorder \<Rightarrow> 'a \<Rightarrow> ordering" where
  "cmp a b = (if a < b then Less else if a = b then Equal else Greater)"

lemma cmp_simps [simp]:
  "cmp a b = Less \<longleftrightarrow> a < b" "cmp a b = Equal \<longleftrightarrow> a = b" "cmp a b = Greater \<longleftrightarrow> b < a"
  by (auto simp: cmp_def)

primrec insert_by :: "('a \<Rightarrow> 'a \<Rightarrow> ordering) \<Rightarrow> 'a \<Rightarrow> 'a list \<Rightarrow> 'a list" where
  "insert_by c x [] = [x]"
| "insert_by c x (y # ys) = (if c x y = Greater then y # insert_by c x ys else x # y # ys)"

text \<open>\<open>slice::sort_by\<close>: the stable sort of a slice under a comparator.\<close>

definition sort_by :: "('a \<Rightarrow> 'a \<Rightarrow> ordering) \<Rightarrow> 'a list \<Rightarrow> 'a list" where
  "sort_by c xs = foldr (insert_by c) xs []"

lemma sort_by_simps [simp]:
  "sort_by c [] = []" "sort_by c (x # xs) = insert_by c x (sort_by c xs)"
  by (simp_all add: sort_by_def)

lemma mset_insert_by [simp]: "mset (insert_by c x xs) = add_mset x (mset xs)"
  by (induction xs) auto

lemma set_insert_by [simp]: "set (insert_by c x xs) = insert x (set xs)"
  by (metis mset_insert_by set_mset_add_mset_insert set_mset_mset)

lemma mset_sort_by [simp]: "mset (sort_by c xs) = mset xs"
  by (induction xs) auto

lemma set_sort_by [simp]: "set (sort_by c xs) = set xs"
  by (metis mset_sort_by set_mset_mset)

lemma length_sort_by [simp]: "length (sort_by c xs) = length xs"
  by (metis mset_sort_by size_mset)

lemma distinct_map_sort_by [simp]: "distinct (map f (sort_by c xs)) = distinct (map f xs)"
  by (metis mset_eq_imp_distinct_iff mset_map mset_sort_by)

text \<open>The contract between a comparator and the sort: a total preorder, read as an ordering.\<close>

locale total_cmp =
  fixes c :: "'a \<Rightarrow> 'a \<Rightarrow> ordering"
  assumes c_refl: "c x x = Equal"
    and c_swap: "c x y = Greater \<longleftrightarrow> c y x = Less"
    and c_trans: "c x y \<noteq> Greater \<Longrightarrow> c y z \<noteq> Greater \<Longrightarrow> c x z \<noteq> Greater"
begin

lemma c_total: "c x y = Greater \<Longrightarrow> c y x \<noteq> Greater"
  using c_swap by auto

lemma c_Equal_sym: "c x y = Equal \<Longrightarrow> c y x = Equal"
  by (metis c_swap ordering.exhaust)

lemma sorted_insert_by:
  assumes "sorted_wrt (\<lambda>x y. c x y \<noteq> Greater) xs"
  shows "sorted_wrt (\<lambda>x y. c x y \<noteq> Greater) (insert_by c x xs)"
  using assms
proof (induction xs)
  case Nil
  then show ?case by simp
next
  case (Cons y ys)
  show ?case
  proof (cases "c x y = Greater")
    case True
    with Cons show ?thesis by (auto dest: c_total)
  next
    case False
    with Cons.prems have "\<forall>z \<in> set ys. c x z \<noteq> Greater"
      using c_trans [OF False] by auto
    with False Cons.prems show ?thesis by auto
  qed
qed

lemma sorted_sort_by: "sorted_wrt (\<lambda>x y. c x y \<noteq> Greater) (sort_by c xs)"
  by (induction xs) (auto intro: sorted_insert_by)

lemma insert_by_sorted:
  "sorted_wrt (\<lambda>x y. c x y \<noteq> Greater) (x # xs) \<Longrightarrow> insert_by c x xs = x # xs"
  by (cases xs) auto

lemma sort_by_id: "sorted_wrt (\<lambda>x y. c x y \<noteq> Greater) xs \<Longrightarrow> sort_by c xs = xs"
  by (induction xs) (auto simp: insert_by_sorted)

lemma sort_by_idem: "sort_by c (sort_by c xs) = sort_by c xs"
  by (rule sort_by_id) (rule sorted_sort_by)

lemma filter_insert_by:
  "filter (\<lambda>y. c a y = Equal) (insert_by c x xs) = filter (\<lambda>y. c a y = Equal) (x # xs)"
proof (induction xs)
  case Nil
  then show ?case by simp
next
  case (Cons y ys)
  have "c a y \<noteq> Equal" if "c x y = Greater" and "c a x = Equal"
  proof
    assume "c a y = Equal"
    with that(2) have "c x y \<noteq> Greater"
      by (intro c_trans [of x a y]) (auto dest: c_Equal_sym)
    with that(1) show False by simp
  qed
  with Cons show ?case by auto
qed

text \<open>Stability: elements that compare equal keep their order.\<close>

lemma sort_by_stable:
  "filter (\<lambda>y. c a y = Equal) (sort_by c xs) = filter (\<lambda>y. c a y = Equal) xs"
  by (induction xs) (simp_all add: filter_insert_by)

text \<open>Where only an element compares equal to itself, the result depends on the elements only.\<close>

lemma sorted_unique:
  assumes "sorted_wrt (\<lambda>x y. c x y \<noteq> Greater) xs" "sorted_wrt (\<lambda>x y. c x y \<noteq> Greater) ys"
    and "mset xs = mset ys"
    and "\<And>x y. x \<in> set xs \<Longrightarrow> y \<in> set xs \<Longrightarrow> c x y = Equal \<Longrightarrow> x = y"
  shows "xs = ys"
  using assms
proof (induction xs arbitrary: ys)
  case Nil
  then show ?case by simp
next
  case (Cons x xs)
  then obtain y ys' where ys: "ys = y # ys'" by (cases ys) auto
  have sets: "set (x # xs) = set ys" using Cons.prems(3) by (metis set_mset_mset)
  have "x = y"
  proof (rule ccontr)
    assume "x \<noteq> y"
    with sets ys have "y \<in> set xs" "x \<in> set ys'" by auto
    with Cons.prems(1,2) ys have "c x y \<noteq> Greater" "c y x \<noteq> Greater" by auto
    then have "c x y = Equal" using c_swap by (metis ordering.exhaust)
    with Cons.prems(4) [of x y] \<open>y \<in> set xs\<close> \<open>x \<noteq> y\<close> show False by simp
  qed
  with Cons ys show ?case by auto
qed

lemma sort_by_mset_cong:
  assumes "mset xs = mset ys"
    and "\<And>x y. x \<in> set xs \<Longrightarrow> y \<in> set xs \<Longrightarrow> c x y = Equal \<Longrightarrow> x = y"
  shows "sort_by c xs = sort_by c ys"
  using assms by (intro sorted_unique) (simp_all add: sorted_sort_by)

end

lemma total_cmp_key: "total_cmp (\<lambda>x y. cmp (f x) (f y))" for f :: "'a \<Rightarrow> 'b::linorder"
  by unfold_locales auto

lemma total_cmp_key_rev: "total_cmp (\<lambda>x y. cmp (f y) (f x))" for f :: "'a \<Rightarrow> 'b::linorder"
  by unfold_locales auto

lemma then_with_eq: "then_with a b = (if a = Equal then b else a)"
  by (cases a) auto

lemma total_cmp_then_with:
  assumes "total_cmp c1" "total_cmp c2"
  shows "total_cmp (\<lambda>x y. then_with (c1 x y) (c2 x y))"
proof -
  note l1 = total_cmp.c_refl [OF assms(1)] total_cmp.c_swap [OF assms(1)]
  note l2 = total_cmp.c_refl [OF assms(2)] total_cmp.c_swap [OF assms(2)]
  note t1 = total_cmp.c_trans [OF assms(1)] and t2 = total_cmp.c_trans [OF assms(2)]
  note s1 = total_cmp.c_Equal_sym [OF assms(1)] and s2 = total_cmp.c_Equal_sym [OF assms(2)]
  show ?thesis
  proof
    fix x show "then_with (c1 x x) (c2 x x) = Equal" by (simp add: l1 l2)
  next
    fix x y show "(then_with (c1 x y) (c2 x y) = Greater) = (then_with (c1 y x) (c2 y x) = Less)"
      using l1(2) l2(2) s1 by (auto simp: then_with_eq)
  next
    fix x y z
    assume a: "then_with (c1 x y) (c2 x y) \<noteq> Greater" "then_with (c1 y z) (c2 y z) \<noteq> Greater"
    then have g: "c1 x y \<noteq> Greater" "c1 y z \<noteq> Greater"
      by (auto simp: then_with_eq split: if_splits)
    then have "c1 x z \<noteq> Greater" by (rule t1)
    moreover have "c2 x z \<noteq> Greater" if "c1 x z = Equal"
    proof -
      from that have "c1 z x \<noteq> Greater" using s1 by fastforce
      with g have "c1 y x \<noteq> Greater" "c1 z y \<noteq> Greater" using t1 by blast+
      with g l1(2) have "c1 x y = Equal" "c1 y z = Equal"
        by (metis ordering.exhaust)+
      with a have "c2 x y \<noteq> Greater" "c2 y z \<noteq> Greater" by simp_all
      then show ?thesis by (rule t2)
    qed
    ultimately show "then_with (c1 x z) (c2 x z) \<noteq> Greater" by (simp add: then_with_eq)
  qed
qed

lemma distinct_map_Cons_neq:
  "distinct (map f (b # bs)) \<Longrightarrow> x \<in> set bs \<Longrightarrow> f x \<noteq> f b"
  by (metis distinct.simps(2) list.simps(9) image_eqI set_map)

lemma find_SomeD: "find P xs = Some x \<Longrightarrow> x \<in> set xs \<and> P x"
  by (auto simp: find_Some_iff)

lemma find_distinct_key:
  "distinct (map f xs) \<Longrightarrow> a \<in> set xs \<Longrightarrow> find (\<lambda>b. f b = f a) xs = Some a"
proof (induction xs)
  case (Cons x xs)
  then show ?case
    using distinct_map_Cons_neq [OF Cons.prems(1)] by (cases "a = x") auto
qed simp

lemma rev_filter_Cons: "rev (filter p xs) = a # as \<Longrightarrow> a \<in> set xs \<and> p a"
  by (drule arg_cong [of _ _ set]) auto

lemma hget_map_apsnd: "hget (map (apsnd f) m) k = map_option f (hget m k)"
  by (induction m) auto

lemma fst_apsnd_comp [simp]: "fst \<circ> apsnd f = fst"
  by auto

end
