(* ===== verification/Rust_Str.thy ===== *)
theory Rust_Str
  imports Prelude "HOL-Library.Sublist"
begin

text \<open>
  Rust strings as the byte lists they are: a \<open>char\<close> here is one byte of the UTF-8 encoding, so
  \<open>length\<close> is \<open>str::len\<close> and the order of \<open>List_Lexorder\<close> is the order of \<open>str\<close>. A Unicode scalar
  value is a chunk of bytes, a lead byte with its continuation bytes; \<open>chars\<close> cuts a string into
  its chunks. The functions below are the methods of \<open>str\<close>, \<open>char\<close> and \<open>Path\<close> the program uses.
\<close>

section \<open>Characters of a string\<close>

abbreviation byte :: "char \<Rightarrow> nat" where
  "byte \<equiv> of_char"

definition is_cont :: "char \<Rightarrow> bool" where
  "is_cont b \<longleftrightarrow> 128 \<le> byte b \<and> byte b < 192"

function chars :: "string \<Rightarrow> string list" where
  "chars [] = []"
| "chars (b # bs) = (b # takeWhile is_cont bs) # chars (dropWhile is_cont bs)"
  by pat_completeness auto
termination
  by (relation "measure length") (auto simp: le_imp_less_Suc length_dropWhile_le)

lemma concat_chars [simp]: "concat (chars s) = s"
  by (induction s rule: chars.induct) auto

definition wf_chunks :: "string list \<Rightarrow> bool" where
  "wf_chunks cs \<longleftrightarrow> (\<forall>c \<in> set cs. c \<noteq> [] \<and> list_all is_cont (tl c)) \<and>
     (\<forall>c \<in> set (tl cs). \<not> is_cont (hd c))"

lemma chars_hd: "c \<in> set (chars s) \<Longrightarrow> c \<noteq> [] \<and> list_all is_cont (tl c)"
  by (induction s rule: chars.induct) (auto simp: list_all_iff dest: set_takeWhileD)

lemma chars_not_cont:
  "s = [] \<or> \<not> is_cont (hd s) \<Longrightarrow> c \<in> set (chars s) \<Longrightarrow> \<not> is_cont (hd c)"
proof (induction s rule: chars.induct)
  case 1
  then show ?case by simp
next
  case (2 b bs)
  have "dropWhile is_cont bs = [] \<or> \<not> is_cont (hd (dropWhile is_cont bs))"
    using hd_dropWhile by blast
  with 2 show ?case by auto
qed

lemma wf_chunks_chars [simp]: "wf_chunks (chars s)"
proof (cases s)
  case (Cons b bs)
  have "dropWhile is_cont bs = [] \<or> \<not> is_cont (hd (dropWhile is_cont bs))"
    using hd_dropWhile by blast
  then show ?thesis
    using Cons chars_hd [of _ s] chars_not_cont [of "dropWhile is_cont bs"]
    by (auto simp: wf_chunks_def)
qed (simp add: wf_chunks_def)

lemma wf_chunks_Cons:
  "wf_chunks (c # cs) \<longleftrightarrow> c \<noteq> [] \<and> list_all is_cont (tl c) \<and> wf_chunks cs \<and>
     (\<forall>d \<in> set cs. \<not> is_cont (hd d))"
  by (cases cs) (auto simp: wf_chunks_def)

lemma chars_concat: "wf_chunks cs \<Longrightarrow> chars (concat cs) = cs"
proof (induction cs)
  case Nil
  then show ?case by simp
next
  case (Cons c cs)
  then obtain b bs where c: "c = b # bs" "list_all is_cont bs"
    by (cases c) (auto simp: wf_chunks_Cons)
  have "concat cs = [] \<or> \<not> is_cont (hd (concat cs))"
    using Cons.prems by (cases cs) (auto simp: wf_chunks_Cons)
  then have "takeWhile is_cont (bs @ concat cs) = bs" "dropWhile is_cont (bs @ concat cs) = concat cs"
    using c(2)
    by (auto simp: list_all_iff takeWhile_append takeWhile_eq_Nil_iff dropWhile_append
        dropWhile_eq_self_iff)
  with Cons c(1) show ?case by (simp add: wf_chunks_Cons)
qed

lemma subseq_set: "subseq xs ys \<Longrightarrow> set xs \<subseteq> set ys"
  by (induction rule: list_emb.induct) auto

lemma wf_chunks_subseq: "subseq ds cs \<Longrightarrow> wf_chunks cs \<Longrightarrow> wf_chunks ds"
proof (induction rule: list_emb.induct)
  case (list_emb_Nil ys)
  show ?case by (simp add: wf_chunks_def)
next
  case (list_emb_Cons xs ys y)
  then show ?case by (simp add: wf_chunks_Cons)
next
  case (list_emb_Cons2 x y xs ys)
  from list_emb_Cons2.hyps have "set xs \<subseteq> set ys" by (simp add: subseq_set)
  with list_emb_Cons2 show ?case by (auto simp: wf_chunks_Cons)
qed

lemma wf_chunks_filter [simp]: "wf_chunks cs \<Longrightarrow> wf_chunks (filter p cs)"
  by (erule wf_chunks_subseq [rotated]) simp

lemma wf_chunks_take [simp]: "wf_chunks cs \<Longrightarrow> wf_chunks (take n cs)"
  by (erule wf_chunks_subseq [rotated]) (simp add: prefix_imp_subseq take_is_prefix)

lemma wf_chunks_dropWhile [simp]: "wf_chunks cs \<Longrightarrow> wf_chunks (dropWhile p cs)"
  by (erule wf_chunks_subseq [rotated]) (simp add: suffix_imp_subseq suffix_dropWhile)

section \<open>Whitespace, control characters, trimming\<close>

text \<open>The code points with the property \<open>White_Space\<close>, in UTF-8.\<close>

definition is_whitespace :: "string \<Rightarrow> bool" where
  "is_whitespace c \<longleftrightarrow> c \<in> set ([[CHR 0x09], [CHR 0x0A], [CHR 0x0B], [CHR 0x0C], [CHR 0x0D],
     [CHR 0x20], [CHR 0xC2, CHR 0x85], [CHR 0xC2, CHR 0xA0], [CHR 0xE1, CHR 0x9A, CHR 0x80],
     [CHR 0xE2, CHR 0x80, CHR 0x80], [CHR 0xE2, CHR 0x80, CHR 0x81], [CHR 0xE2, CHR 0x80, CHR 0x82],
     [CHR 0xE2, CHR 0x80, CHR 0x83], [CHR 0xE2, CHR 0x80, CHR 0x84], [CHR 0xE2, CHR 0x80, CHR 0x85],
     [CHR 0xE2, CHR 0x80, CHR 0x86], [CHR 0xE2, CHR 0x80, CHR 0x87], [CHR 0xE2, CHR 0x80, CHR 0x88],
     [CHR 0xE2, CHR 0x80, CHR 0x89], [CHR 0xE2, CHR 0x80, CHR 0x8A], [CHR 0xE2, CHR 0x80, CHR 0xA8],
     [CHR 0xE2, CHR 0x80, CHR 0xA9], [CHR 0xE2, CHR 0x80, CHR 0xAF], [CHR 0xE2, CHR 0x81, CHR 0x9F],
     [CHR 0xE3, CHR 0x80, CHR 0x80]])"

text \<open>\<open>char::is_control\<close>: the general category \<open>Cc\<close>.\<close>

definition is_control :: "string \<Rightarrow> bool" where
  "is_control c \<longleftrightarrow> (case c of
      [b] \<Rightarrow> byte b < 32 \<or> byte b = 127
    | [a, b] \<Rightarrow> a = CHR 0xC2 \<and> 128 \<le> byte b \<and> byte b < 160
    | _ \<Rightarrow> False)"

definition trim_chunks :: "string list \<Rightarrow> string list" where
  "trim_chunks cs = rev (dropWhile is_whitespace (rev (dropWhile is_whitespace cs)))"

definition trim :: "string \<Rightarrow> string" where
  "trim s = concat (trim_chunks (chars s))"

definition trim_end :: "string \<Rightarrow> string" where
  "trim_end s = concat (rev (dropWhile is_whitespace (rev (chars s))))"

lemma subseq_rev_dropWhile: "subseq (rev (dropWhile p (rev cs))) cs"
  by (metis prefix_imp_subseq rev_rev_ident suffix_dropWhile suffix_to_prefix)

lemma wf_chunks_rtrim [simp]: "wf_chunks cs \<Longrightarrow> wf_chunks (rev (dropWhile p (rev cs)))"
  by (erule wf_chunks_subseq [rotated]) (rule subseq_rev_dropWhile)

lemma chars_trim: "chars (trim s) = trim_chunks (chars s)"
  by (simp add: trim_def trim_chunks_def chars_concat)

lemma hd_rev_dropWhile_rev:
  "rev (dropWhile p (rev cs)) \<noteq> [] \<Longrightarrow> hd (rev (dropWhile p (rev cs))) = hd cs"
  by (metis append_is_Nil_conv hd_append2 prefix_def rev_rev_ident suffix_dropWhile suffix_to_prefix)

lemma trim_chunks_idem: "trim_chunks (trim_chunks cs) = trim_chunks cs"
proof (cases "trim_chunks cs = []")
  case True
  then show ?thesis by (simp add: trim_chunks_def [of "[]"])
next
  case False
  let ?ds = "dropWhile is_whitespace cs"
  have "?ds \<noteq> []"
  proof
    assume "?ds = []"
    then have "trim_chunks cs = []" by (simp only: trim_chunks_def) simp
    with False show False by simp
  qed
  moreover have "hd (trim_chunks cs) = hd ?ds"
    using False unfolding trim_chunks_def by (rule hd_rev_dropWhile_rev)
  ultimately have "\<not> is_whitespace (hd (trim_chunks cs))"
    using hd_dropWhile by metis
  then have f: "dropWhile is_whitespace (trim_chunks cs) = trim_chunks cs"
    by (simp add: dropWhile_eq_self_iff)
  have "trim_chunks (trim_chunks cs) = rev (dropWhile is_whitespace (rev (trim_chunks cs)))"
    by (simp only: trim_chunks_def [of "trim_chunks cs"] f)
  also have "\<dots> = trim_chunks cs"
    by (simp only: trim_chunks_def rev_rev_ident dropWhile_idem)
  finally show ?thesis .
qed

lemma trim_idem: "trim (trim s) = trim s"
  by (simp add: trim_def [of "trim s"] chars_trim trim_chunks_idem) (simp add: trim_def)

lemma trim_eq_Nil_iff: "trim s = [] \<longleftrightarrow> (\<forall>c \<in> set (chars s). is_whitespace c)"
proof -
  have "trim s = [] \<longleftrightarrow> trim_chunks (chars s) = []"
    by (metis chars.simps(1) chars_trim concat.simps(1) trim_def)
  also have "\<dots> \<longleftrightarrow> dropWhile is_whitespace (chars s) = []"
  proof
    assume "trim_chunks (chars s) = []"
    then have "\<forall>c \<in> set (dropWhile is_whitespace (chars s)). is_whitespace c"
      by (simp add: trim_chunks_def)
    then show "dropWhile is_whitespace (chars s) = []"
      by (metis hd_dropWhile hd_in_set)
  qed (auto simp: trim_chunks_def dest: set_dropWhileD)
  finally show ?thesis by simp
qed

text \<open>A string of ASCII bytes has one character per byte.\<close>

lemma chars_ascii: "list_all (\<lambda>b. byte b < 128) s \<Longrightarrow> chars s = map (\<lambda>b. [b]) s"
proof (induction s)
  case (Cons b bs)
  then have "takeWhile is_cont bs = []" "dropWhile is_cont bs = bs"
    by (cases bs; simp add: is_cont_def)+
  with Cons show ?case by simp
qed simp

section \<open>Slicing and searching\<close>

definition strip_prefix :: "string \<Rightarrow> string \<Rightarrow> string option" where
  "strip_prefix p s = (if take (length p) s = p then Some (drop (length p) s) else None)"

lemma strip_prefix_Some: "strip_prefix p s = Some r \<longleftrightarrow> s = p @ r"
  by (auto simp: strip_prefix_def) (metis append_take_drop_id)

definition starts_with :: "string \<Rightarrow> string \<Rightarrow> bool" where
  "starts_with p s \<longleftrightarrow> take (length p) s = p"

fun contains :: "string \<Rightarrow> string \<Rightarrow> bool" where
  "contains n [] = (n = [])"
| "contains n (c # s) = (starts_with n (c # s) \<or> contains n s)"

primrec split_by :: "('a \<Rightarrow> bool) \<Rightarrow> 'a list \<Rightarrow> 'a list list" where
  "split_by p [] = [[]]"
| "split_by p (x # xs) =
     (if p x then [] # split_by p xs
      else (case split_by p xs of [] \<Rightarrow> [[x]] | y # ys \<Rightarrow> (x # y) # ys))"

lemma split_by_neq_Nil [simp]: "split_by p xs \<noteq> []"
  by (induction xs) (auto split: list.splits)

lemma split_by_no_sep: "ys \<in> set (split_by p xs) \<Longrightarrow> x \<in> set ys \<Longrightarrow> \<not> p x"
  by (induction xs arbitrary: ys) (auto split: list.splits if_splits, fastforce+)

definition split_whitespace :: "string \<Rightarrow> string list" where
  "split_whitespace s = map concat (filter (\<lambda>w. w \<noteq> []) (split_by is_whitespace (chars s)))"

text \<open>\<open>str::lines\<close>: a line ends at a line feed, with the carriage return before it, if any.\<close>

definition strip_cr :: "string \<Rightarrow> string" where
  "strip_cr s = (if s \<noteq> [] \<and> last s = CHR 0x0D then butlast s else s)"

definition lines :: "string \<Rightarrow> string list" where
  "lines s = (let ps = split_by (\<lambda>b. b = CHR 0x0A) s in
     map strip_cr (butlast ps) @ (if last ps = [] then [] else [last ps]))"

definition split_once :: "char \<Rightarrow> string \<Rightarrow> (string \<times> string) option" where
  "split_once c s = (case dropWhile (\<lambda>b. b \<noteq> c) s of
     [] \<Rightarrow> None | _ # r \<Rightarrow> Some (takeWhile (\<lambda>b. b \<noteq> c) s, r))"

definition rsplit_once :: "char \<Rightarrow> string \<Rightarrow> (string \<times> string) option" where
  "rsplit_once c s = map_option (\<lambda>(a, b). (rev b, rev a)) (split_once c (rev s))"

lemma split_once_Some: "split_once c s = Some (a, b) \<longleftrightarrow> s = a @ c # b \<and> c \<notin> set a"
proof
  assume h: "split_once c s = Some (a, b)"
  then obtain d where d: "dropWhile (\<lambda>b. b \<noteq> c) s = d # b" "a = takeWhile (\<lambda>b. b \<noteq> c) s"
    by (auto simp: split_once_def split: list.splits)
  then have "d = c" using hd_dropWhile [of "\<lambda>b. b \<noteq> c" s] by simp
  moreover have "s = a @ d # b" using d takeWhile_dropWhile_id [of "\<lambda>b. b \<noteq> c" s] by simp
  moreover have "c \<notin> set a" using d(2) by (auto dest: set_takeWhileD)
  ultimately show "s = a @ c # b \<and> c \<notin> set a" by simp
next
  assume "s = a @ c # b \<and> c \<notin> set a"
  then have s: "s = a @ c # b" and ne: "\<forall>x \<in> set a. x \<noteq> c" by auto
  from ne have "takeWhile (\<lambda>x. x \<noteq> c) s = a" "dropWhile (\<lambda>x. x \<noteq> c) s = c # b"
    unfolding s by (simp_all add: takeWhile_append2 dropWhile_append2)
  then show "split_once c s = Some (a, b)" by (simp add: split_once_def)
qed

lemma rsplit_once_Some: "rsplit_once c s = Some (a, b) \<longleftrightarrow> s = a @ c # b \<and> c \<notin> set b"
proof -
  have "rsplit_once c s = Some (a, b) \<longleftrightarrow> split_once c (rev s) = Some (rev b, rev a)"
    by (auto simp: rsplit_once_def)
  also have "\<dots> \<longleftrightarrow> rev s = rev b @ c # rev a \<and> c \<notin> set b"
    by (simp add: split_once_Some)
  also have "\<dots> \<longleftrightarrow> s = a @ c # b \<and> c \<notin> set b"
    using rev_is_rev_conv [of s "a @ c # b"] by simp
  finally show ?thesis .
qed

section \<open>ASCII\<close>

definition is_ascii_digit :: "char \<Rightarrow> bool" where
  "is_ascii_digit b \<longleftrightarrow> 48 \<le> byte b \<and> byte b \<le> 57"

definition is_ascii_alphanumeric :: "char \<Rightarrow> bool" where
  "is_ascii_alphanumeric b \<longleftrightarrow> is_ascii_digit b \<or> (65 \<le> byte b \<and> byte b \<le> 90) \<or>
     (97 \<le> byte b \<and> byte b \<le> 122)"

definition is_ascii_hexdigit :: "char \<Rightarrow> bool" where
  "is_ascii_hexdigit b \<longleftrightarrow> is_ascii_digit b \<or> (65 \<le> byte b \<and> byte b \<le> 70) \<or>
     (97 \<le> byte b \<and> byte b \<le> 102)"

definition to_ascii_lowercase :: "string \<Rightarrow> string" where
  "to_ascii_lowercase s =
     map (\<lambda>b. if 65 \<le> byte b \<and> byte b \<le> 90 then char_of (byte b + 32) else b) s"

definition eq_ignore_ascii_case :: "string \<Rightarrow> string \<Rightarrow> bool" where
  "eq_ignore_ascii_case a b \<longleftrightarrow> to_ascii_lowercase a = to_ascii_lowercase b"

section \<open>Numbers\<close>

fun parse_digits :: "nat \<Rightarrow> string \<Rightarrow> nat option" where
  "parse_digits n [] = Some n"
| "parse_digits n (b # bs) =
     (if is_ascii_digit b then parse_digits (10 * n + (byte b - 48)) bs else None)"

text \<open>\<open>parse\<close> of an unsigned integer type with the given maximum: an optional plus sign.\<close>

definition parse_unsigned :: "nat \<Rightarrow> string \<Rightarrow> nat option" where
  "parse_unsigned mx s =
     (let ds = (if starts_with ''+'' s then tl s else s) in
      if ds = [] then None
      else (case parse_digits 0 ds of Some n \<Rightarrow> if n \<le> mx then Some n else None | None \<Rightarrow> None))"

definition parse_u64 :: "string \<Rightarrow> u64 option" where
  "parse_u64 s = map_option of_nat (parse_unsigned (2 ^ 64 - 1) s)"

definition parse_u16 :: "string \<Rightarrow> nat option" where
  "parse_u16 = parse_unsigned (2 ^ 16 - 1)"

definition parse_i32 :: "string \<Rightarrow> int option" where
  "parse_i32 s =
     (if starts_with ''-'' s
      then (if tl s = [] \<or> starts_with ''+'' (tl s) then None
            else map_option (\<lambda>n. - int n) (parse_unsigned (2 ^ 31) (tl s)))
      else map_option int (parse_unsigned (2 ^ 31 - 1) s))"

fun nat_to_string :: "nat \<Rightarrow> string" where
  "nat_to_string n =
     (if n < 10 then [char_of (48 + n)] else nat_to_string (n div 10) @ [char_of (48 + n mod 10)])"

declare nat_to_string.simps [simp del]

section \<open>Paths\<close>

definition path_join :: "string \<Rightarrow> string \<Rightarrow> string" where
  "path_join p n =
     (if starts_with ''/'' n then n
      else if p = [] \<or> last p = CHR ''/'' then p @ n else p @ ''/'' @ n)"

text \<open>\<open>Path::file_name\<close>: the last component, when it is a name.\<close>

definition file_name :: "string \<Rightarrow> string option" where
  "file_name p =
     (case rev (filter (\<lambda>c. c \<noteq> [] \<and> c \<noteq> ''.'') (split_by (\<lambda>b. b = CHR ''/'') p)) of
        [] \<Rightarrow> None
      | c # _ \<Rightarrow> if c = ''..'' then None else Some c)"

text \<open>\<open>Path::parent\<close>: the path without its last component; separators and single dots at the end
  of what remains do not count. It works on the reversed path.\<close>

fun trim_path :: "string \<Rightarrow> string" where
  "trim_path (a # b # r) =
     (if a = CHR ''/'' then trim_path (b # r)
      else if a = CHR ''.'' \<and> b = CHR ''/'' then trim_path (b # r)
      else a # b # r)"
| "trim_path r = r"

definition path_parent :: "string \<Rightarrow> string option" where
  "path_parent p =
     (let r = trim_path (rev p) in
      if r = [] \<or> r = ''/'' then None
      else Some (rev (trim_path (dropWhile (\<lambda>b. b \<noteq> CHR ''/'') r))))"

lemma file_name_no_slash: "file_name p = Some n \<Longrightarrow> n \<noteq> [] \<and> CHR ''/'' \<notin> set n"
proof -
  define cs where "cs = filter (\<lambda>c. c \<noteq> [] \<and> c \<noteq> ''.'') (split_by (\<lambda>b. b = CHR ''/'') p)"
  assume "file_name p = Some n"
  then have "n \<in> set (rev cs)"
    by (cases "rev cs") (auto simp: file_name_def cs_def [symmetric] split: if_splits)
  then show ?thesis using split_by_no_sep [of n "\<lambda>b. b = CHR ''/''" p] by (auto simp: cs_def)
qed

section \<open>Decoding\<close>

text \<open>The next step of decoding UTF-8: whether a character is well formed, and how many bytes it or
  the maximal part of an ill-formed one takes.\<close>

definition byte_in :: "nat \<Rightarrow> nat \<Rightarrow> string \<Rightarrow> nat \<Rightarrow> bool" where
  "byte_in lo hi s i \<longleftrightarrow> i < length s \<and> lo \<le> byte (s ! i) \<and> byte (s ! i) \<le> hi"

definition utf8_step :: "string \<Rightarrow> bool \<times> nat" where
  "utf8_step s =
     (let b = byte (hd s); cont = byte_in 128 191 s in
      if b < 128 then (True, 1)
      else if 194 \<le> b \<and> b \<le> 223 then (if cont 1 then (True, 2) else (False, 1))
      else if 224 \<le> b \<and> b \<le> 239 then
        (if \<not> byte_in (if b = 224 then 160 else 128) (if b = 237 then 159 else 191) s 1
         then (False, 1)
         else if \<not> cont 2 then (False, 2) else (True, 3))
      else if 240 \<le> b \<and> b \<le> 244 then
        (if \<not> byte_in (if b = 240 then 144 else 128) (if b = 244 then 143 else 191) s 1
         then (False, 1)
         else if \<not> cont 2 then (False, 2) else if \<not> cont 3 then (False, 3) else (True, 4))
      else (False, 1))"

lemma utf8_step_pos: "0 < snd (utf8_step s)"
  by (auto simp: utf8_step_def Let_def)

text \<open>\<open>String::from_utf8_lossy\<close> puts U+FFFD for every ill-formed part; \<open>String::from_utf8\<close> fails.\<close>

function from_utf8_lossy :: "string \<Rightarrow> string" where
  "from_utf8_lossy [] = []"
| "from_utf8_lossy (b # bs) =
     (let (ok, n) = utf8_step (b # bs)
      in (if ok then take n (b # bs) else [CHR 0xEF, CHR 0xBF, CHR 0xBD]) @
         from_utf8_lossy (drop n (b # bs)))"
  by pat_completeness auto
termination
proof (relation "measure length")
  fix b :: char and bs x ok n
  assume "x = utf8_step (b # bs)" "(ok, n) = x"
  then have "0 < n" using utf8_step_pos [of "b # bs"] by (metis snd_conv)
  then show "(drop n (b # bs), b # bs) \<in> measure length" by simp
qed simp

function utf8_valid :: "string \<Rightarrow> bool" where
  "utf8_valid [] = True"
| "utf8_valid (b # bs) =
     (let (ok, n) = utf8_step (b # bs) in ok \<and> utf8_valid (drop n (b # bs)))"
  by pat_completeness auto
termination
proof (relation "measure length")
  fix b :: char and bs x ok n
  assume "x = utf8_step (b # bs)" "(ok, n) = x"
  then have "0 < n" using utf8_step_pos [of "b # bs"] by (metis snd_conv)
  then show "(drop n (b # bs), b # bs) \<in> measure length" by simp
qed simp

lemma from_utf8_lossy_valid: "utf8_valid s \<Longrightarrow> from_utf8_lossy s = s"
proof (induction s rule: utf8_valid.induct)
  case (2 b bs)
  obtain ok n where u: "utf8_step (b # bs) = (ok, n)" by (cases "utf8_step (b # bs)")
  with 2 have "ok" "from_utf8_lossy (drop n (b # bs)) = drop n (b # bs)" by auto
  then show ?case by (simp only: from_utf8_lossy.simps u Let_def prod.case if_True append_take_drop_id)
qed simp

end
