(* ===== verification/Rust_Float.thy ===== *)
theory Rust_Float
  imports Complex_Main Rust_Str
begin

text \<open>
  The \<open>f64\<close> of Rust: a NaN, the two infinities, or the rational number a finite value denotes
  (the sign of zero is not kept: the program only shows it when it prints a zero). Arithmetic is
  the exact result rounded to 53 bits, ties to even, with gradual underflow and overflow to an
  infinity. \<open>parse_f64\<close> is \<open>str::parse::<f64>\<close> and \<open>f64_to_u64\<close> the saturating cast \<open>as u64\<close>.
\<close>

datatype f64 = NaN | Inf (neg: bool) | Fin rat

section \<open>Rounding\<close>

definition pow2 :: "int \<Rightarrow> rat" where
  "pow2 k = (if 0 \<le> k then 2 ^ nat k else 1 / 2 ^ nat (- k))"

fun blen :: "nat \<Rightarrow> nat" where
  "blen n = (if n = 0 then 0 else Suc (blen (n div 2)))"

declare blen.simps [simp del]

text \<open>The binary exponent of a positive rational.\<close>

definition flog2 :: "rat \<Rightarrow> int" where
  "flog2 q = (let (n, d) = quotient_of q; k = int (blen (nat n)) - int (blen (nat d))
     in if pow2 k \<le> q then k else k - 1)"

definition round_half_even :: "rat \<Rightarrow> int" where
  "round_half_even x = (let f = \<lfloor>x\<rfloor>; r = x - of_int f in
     if r < 1 / 2 then f else if 1 / 2 < r then f + 1 else if even f then f else f + 1)"

definition f64_round :: "rat \<Rightarrow> f64" where
  "f64_round q =
     (if q = 0 then Fin 0
      else let u = pow2 (max (flog2 \<bar>q\<bar>) (- 1022) - 52);
               v = of_int (round_half_even (q / u)) * u
           in if pow2 1024 \<le> \<bar>v\<bar> then Inf (v < 0) else Fin v)"

lemma pow2_pos [simp]: "0 < pow2 k"
  by (simp add: pow2_def)

lemma pow2_neq_0 [simp]: "pow2 k \<noteq> 0"
  using pow2_pos [of k] by linarith

lemma pow2_powi: "pow2 k = 2 powi k"
  by (simp add: pow2_def power_int_def inverse_eq_divide power_divide)

lemma pow2_add: "pow2 (j + k) = pow2 j * pow2 k"
  by (simp add: pow2_powi power_int_add)

lemma pow2_of_nat: "pow2 (int n) = 2 ^ n"
  by (simp add: pow2_def)

lemma pow2_mono: "j \<le> k \<Longrightarrow> pow2 j \<le> pow2 k"
  by (simp add: pow2_powi power_int_increasing)

lemma blen_bounds: "0 < n \<Longrightarrow> 2 ^ (blen n - 1) \<le> n \<and> n < 2 ^ blen n \<and> 0 < blen n"
proof (induction n rule: blen.induct)
  case (1 n)
  show ?case
  proof (cases "n div 2 = 0")
    case True
    with "1.prems" have "n = 1" by presburger
    then show ?thesis by (simp add: blen.simps)
  next
    case False
    with 1 have ih: "2 ^ (blen (n div 2) - 1) \<le> n div 2" "n div 2 < 2 ^ blen (n div 2)"
      "0 < blen (n div 2)" by auto
    then obtain b where b: "blen (n div 2) = Suc b" by (cases "blen (n div 2)") auto
    with "1.prems" have "blen n = Suc (Suc b)" by (simp add: blen.simps [of n])
    with ih b show ?thesis by auto
  qed
qed

lemma pow2_int_bounds:
  assumes "0 < n" "2 ^ a \<le> nat n" "nat n < 2 ^ Suc a"
  shows "pow2 (int a) \<le> of_int n" "of_int n < pow2 (int a + 1)"
proof -
  have n: "(of_int n :: rat) = of_nat (nat n)" using assms(1) by simp
  have "(of_nat (2 ^ a) :: rat) \<le> of_nat (nat n)" using assms(2) by (simp only: of_nat_le_iff)
  then show "pow2 (int a) \<le> of_int n" by (simp add: n pow2_of_nat)
  have "(of_nat (nat n) :: rat) < of_nat (2 ^ Suc a)" using assms(3) by (simp only: of_nat_less_iff)
  then have "of_int n < (2 ^ Suc a :: rat)" by (simp only: n of_nat_power of_nat_numeral)
  also have "2 ^ Suc a = pow2 (int a + 1)" by (simp only: flip: pow2_of_nat) (simp add: algebra_simps)
  finally show "of_int n < pow2 (int a + 1)" .
qed

lemma flog2_bounds:
  assumes "0 < q"
  shows "pow2 (flog2 q) \<le> q \<and> q < pow2 (flog2 q + 1)"
proof -
  obtain n d where q: "quotient_of q = (n, d)" by (cases "quotient_of q")
  then have d: "0 < d" and qn: "q = of_int n / of_int d"
    by (auto dest: quotient_of_denom_pos quotient_of_div)
  with assms have n: "0 < n" by (simp add: zero_less_divide_iff)
  define a b where "a = blen (nat n)" and "b = blen (nat d)"
  have "2 ^ (a - 1) \<le> nat n \<and> nat n < 2 ^ a \<and> 0 < a"
    unfolding a_def using n by (intro blen_bounds) simp
  moreover have "2 ^ (b - 1) \<le> nat d \<and> nat d < 2 ^ b \<and> 0 < b"
    unfolding b_def using d by (intro blen_bounds) simp
  ultimately obtain a' b' where a': "a = Suc a'" "2 ^ a' \<le> nat n" "nat n < 2 ^ Suc a'"
    and b': "b = Suc b'" "2 ^ b' \<le> nat d" "nat d < 2 ^ Suc b'"
    by (metis diff_Suc_1 gr0_implies_Suc)
  note N = pow2_int_bounds [OF n a'(2,3)] and D = pow2_int_bounds [OF d b'(2,3)]
  define k where "k = int a' - int b'"
  have ab: "int a' = k + int b'" by (simp add: k_def)
  have up: "q < pow2 (k + 1)"
  proof -
    have "of_int n < pow2 (k + 1) * pow2 (int b')"
      using N(2) by (simp add: ab pow2_add ac_simps)
    also have "\<dots> \<le> pow2 (k + 1) * of_int d" using D(1) by (simp add: mult_left_mono less_imp_le)
    finally show ?thesis using d by (simp add: qn pos_divide_less_eq)
  qed
  have lo: "pow2 (k - 1) \<le> q"
  proof -
    have "pow2 (k - 1) * of_int d \<le> pow2 (k - 1) * pow2 (int b' + 1)"
      using D(2) by (simp add: mult_left_mono less_imp_le)
    also have "\<dots> = pow2 (int a')" by (simp add: ab flip: pow2_add)
    also have "\<dots> \<le> of_int n" by (rule N(1))
    finally show ?thesis using d by (simp add: qn pos_le_divide_eq)
  qed
  have "flog2 q = (if pow2 k \<le> q then k else k - 1)"
    using a' b' by (simp add: flog2_def q Let_def k_def flip: a_def b_def)
  with up lo show ?thesis by auto
qed

lemma round_half_even_of_int [simp]: "round_half_even (of_int i) = i"
  by (simp add: round_half_even_def)

text \<open>A value with at most 53 significant bits is its own rounding.\<close>

lemma f64_round_exact:
  assumes "q / pow2 (max (flog2 \<bar>q\<bar>) (- 1022) - 52) = of_int i" and "\<bar>q\<bar> < pow2 1024"
  shows "f64_round q = Fin q"
proof (cases "q = 0")
  case False
  let ?u = "pow2 (max (flog2 \<bar>q\<bar>) (- 1022) - 52)"
  have "of_int (round_half_even (q / ?u)) * ?u = of_int i * ?u"
    by (simp only: assms(1) round_half_even_of_int)
  also have "\<dots> = q" using assms(1) by (simp add: field_simps)
  finally have "of_int (round_half_even (q / ?u)) * ?u = q" .
  with False assms(2) show ?thesis by (simp add: f64_round_def Let_def)
qed (simp add: f64_round_def)

definition f64_of_nat :: "nat \<Rightarrow> f64" where
  "f64_of_nat n = f64_round (of_nat n)"

lemma f64_of_nat_exact:
  assumes "n < 2 ^ 53"
  shows "f64_of_nat n = Fin (of_nat n)"
proof (cases "n = 0")
  case False
  let ?q = "of_nat n :: rat"
  have b: "pow2 (flog2 ?q) \<le> ?q" "?q < pow2 (flog2 ?q + 1)"
    using flog2_bounds [of ?q] False by auto
  have "flog2 ?q < 53"
  proof (rule ccontr)
    assume "\<not> flog2 ?q < 53"
    then have "pow2 53 \<le> pow2 (flog2 ?q)" by (intro pow2_mono) simp
    with b(1) have "(2 ^ 53 :: rat) \<le> of_nat n" by (simp add: pow2_def)
    then have "2 ^ 53 \<le> n" by (metis of_nat_le_iff of_nat_numeral of_nat_power)
    with assms show False by simp
  qed
  moreover have "0 \<le> flog2 ?q"
  proof (rule ccontr)
    assume "\<not> 0 \<le> flog2 ?q"
    then have "pow2 (flog2 ?q + 1) \<le> pow2 0" by (intro pow2_mono) simp
    with b(2) have "?q < 1" by (simp add: pow2_def)
    with False show False by simp
  qed
  moreover define e where "e = nat (52 - flog2 ?q)"
  ultimately have "pow2 (max (flog2 \<bar>?q\<bar>) (- 1022) - 52) = 1 / 2 ^ e"
    by (simp add: pow2_def max_def)
  then have "?q / pow2 (max (flog2 \<bar>?q\<bar>) (- 1022) - 52) = of_int (int n * 2 ^ e)" by simp
  moreover have "\<bar>?q\<bar> < pow2 1024"
  proof -
    have "?q < 2 ^ 53" using assms by (metis of_nat_less_iff of_nat_numeral of_nat_power)
    also have "(2 ^ 53 :: rat) \<le> pow2 1024" by (simp add: pow2_def)
    finally show ?thesis by simp
  qed
  ultimately show ?thesis unfolding f64_of_nat_def by (rule f64_round_exact)
qed (simp add: f64_of_nat_def f64_round_def)

section \<open>Arithmetic, order and casts\<close>

fun f64_mul :: "f64 \<Rightarrow> f64 \<Rightarrow> f64" where
  "f64_mul (Fin a) (Fin b) = f64_round (a * b)"
| "f64_mul (Inf s) (Inf t) = Inf (s \<noteq> t)"
| "f64_mul (Inf s) (Fin a) = (if a = 0 then NaN else Inf (s \<noteq> (a < 0)))"
| "f64_mul (Fin a) (Inf s) = (if a = 0 then NaN else Inf (s \<noteq> (a < 0)))"
| "f64_mul _ _ = NaN"

fun f64_div :: "f64 \<Rightarrow> f64 \<Rightarrow> f64" where
  "f64_div (Fin a) (Fin b) =
     (if b = 0 then (if a = 0 then NaN else Inf (a < 0)) else f64_round (a / b))"
| "f64_div (Fin a) (Inf s) = Fin 0"
| "f64_div (Inf s) (Fin b) = Inf (s \<noteq> (b < 0))"
| "f64_div _ _ = NaN"

fun f64_sub :: "f64 \<Rightarrow> f64 \<Rightarrow> f64" where
  "f64_sub (Fin a) (Fin b) = f64_round (a - b)"
| "f64_sub (Inf s) (Fin b) = Inf s"
| "f64_sub (Fin a) (Inf s) = Inf (\<not> s)"
| "f64_sub (Inf s) (Inf t) = (if s = t then NaN else Inf s)"
| "f64_sub _ _ = NaN"

fun f64_add :: "f64 \<Rightarrow> f64 \<Rightarrow> f64" where
  "f64_add (Fin a) (Fin b) = f64_round (a + b)"
| "f64_add (Inf s) (Fin b) = Inf s"
| "f64_add (Fin a) (Inf s) = Inf s"
| "f64_add (Inf s) (Inf t) = (if s = t then Inf s else NaN)"
| "f64_add _ _ = NaN"

fun f64_le :: "f64 \<Rightarrow> f64 \<Rightarrow> bool" where
  "f64_le (Fin a) (Fin b) = (a \<le> b)"
| "f64_le (Inf s) (Inf t) = (s \<or> \<not> t)"
| "f64_le (Inf s) (Fin b) = s"
| "f64_le (Fin a) (Inf s) = (\<not> s)"
| "f64_le _ _ = False"

definition f64_lt :: "f64 \<Rightarrow> f64 \<Rightarrow> bool" where
  "f64_lt a b \<longleftrightarrow> f64_le a b \<and> \<not> f64_le b a"

fun is_finite :: "f64 \<Rightarrow> bool" where
  "is_finite (Fin _) = True"
| "is_finite _ = False"

lemma f64_lt_Fin [simp]: "f64_lt (Fin a) (Fin b) \<longleftrightarrow> a < b"
  by (auto simp: f64_lt_def)

definition f64_clamp :: "f64 \<Rightarrow> f64 \<Rightarrow> f64 \<Rightarrow> f64" where
  "f64_clamp lo hi x = (if f64_lt x lo then lo else if f64_lt hi x then hi else x)"

fun f64_floor :: "f64 \<Rightarrow> f64" where
  "f64_floor (Fin a) = Fin (of_int \<lfloor>a\<rfloor>)"
| "f64_floor x = x"

fun f64_to_u64 :: "f64 \<Rightarrow> u64" where
  "f64_to_u64 NaN = 0"
| "f64_to_u64 (Inf s) = (if s then 0 else - 1)"
| "f64_to_u64 (Fin a) = (if a < 0 then 0 else if 2 ^ 64 \<le> \<lfloor>a\<rfloor> then - 1 else word_of_int \<lfloor>a\<rfloor>)"

lemma f64_round_not_NaN: "f64_round a \<noteq> NaN"
  by (simp only: f64_round_def Let_def f64.distinct split: if_split) simp

lemma f64_div_round_not_NaN: "b \<noteq> 0 \<Longrightarrow> f64_div (f64_round a) (Fin b) \<noteq> NaN"
  using f64_round_not_NaN [of a] f64_round_not_NaN [of "q / b" for q] by (cases "f64_round a") simp_all

lemma f64_clamp_01:
  assumes "is_finite x"
  obtains v where "f64_clamp (Fin 0) (Fin 1) x = Fin v" "0 \<le> v" "v \<le> 1"
proof -
  from assms obtain a where "x = Fin a" by (cases x) auto
  then show ?thesis
    using that [of "max 0 (min 1 a)"] by (auto simp: f64_clamp_def max_def min_def)
qed

lemma unat_f64_to_u64_floor:
  assumes "0 \<le> a" "a \<le> of_nat n" "n < 2 ^ 64"
  shows "unat (f64_to_u64 (f64_floor (Fin a))) = nat \<lfloor>a\<rfloor>"
proof -
  have "a < of_nat (2 ^ 64)"
    using assms(2,3) by (metis of_nat_less_iff order_le_less_trans)
  then have lt: "a < 2 ^ 64" by simp
  then have "\<lfloor>a\<rfloor> < 2 ^ 64" "0 \<le> \<lfloor>a\<rfloor>" using assms(1) by (simp_all add: floor_less_iff)
  then have "uint (word_of_int \<lfloor>a\<rfloor> :: u64) = \<lfloor>a\<rfloor>"
    unfolding uint_word_of_int by (intro mod_pos_pos_trivial) simp_all
  then have "unat (word_of_int \<lfloor>a\<rfloor> :: u64) = nat \<lfloor>a\<rfloor>"
    by (simp only: unat_eq_nat_uint)
  moreover have "f64_to_u64 (f64_floor (Fin a)) = word_of_int \<lfloor>a\<rfloor>"
    using lt assms(1) by simp
  ultimately show ?thesis by simp
qed

text \<open>Rounding does not leave an interval whose ends are representable.\<close>

lemma round_half_even_le: "x \<le> of_int n \<Longrightarrow> round_half_even x \<le> n"
  by (auto simp: round_half_even_def Let_def) linarith+

lemma round_half_even_nonneg: "0 \<le> x \<Longrightarrow> 0 \<le> round_half_even x"
  by (auto simp: round_half_even_def Let_def)

lemma f64_round_nonneg: "0 \<le> q \<Longrightarrow> f64_le (Fin 0) (f64_round q)"
  using round_half_even_nonneg [of "q / u" for u] pow2_pos
  by (simp add: f64_round_def Let_def not_less less_imp_le)

lemma f64_round_le:
  assumes "0 \<le> q" "q \<le> of_nat n" "n < 2 ^ 53"
  shows "\<exists>v. f64_round q = Fin v \<and> 0 \<le> v \<and> v \<le> of_nat n"
proof (cases "q = 0")
  case True
  then show ?thesis by (simp add: f64_round_def)
next
  case False
  then have q: "0 < q" using assms(1) by simp
  have n53: "(of_nat n :: rat) < pow2 53"
  proof -
    have "(of_nat n :: rat) < of_nat (2 ^ 53)" using assms(3) by (simp only: of_nat_less_iff)
    then show ?thesis using pow2_of_nat [of 53] by simp
  qed
  have "flog2 q < 53"
  proof (rule ccontr)
    assume "\<not> flog2 q < 53"
    then have "pow2 53 \<le> pow2 (flog2 q)" by (intro pow2_mono) simp
    with flog2_bounds [OF q] assms(2) n53 show False by simp
  qed
  then obtain e where e: "max (flog2 \<bar>q\<bar>) (- 1022) - 52 = - int e"
    using q by (intro that [of "nat (52 - max (flog2 q) (- 1022))"]) (simp add: abs_of_pos)
  define u where "u = pow2 (- int e)"
  have u: "u = 1 / 2 ^ e" by (simp add: u_def pow2_def)
  let ?r = "round_half_even (q / u)"
  have up: "0 < u" by (simp add: u_def)
  have "q / u \<le> of_int (int n * 2 ^ e)" using assms(2) by (simp add: u)
  then have "?r \<le> int n * 2 ^ e" by (rule round_half_even_le)
  then have "(of_int ?r :: rat) \<le> of_int (int n * 2 ^ e)" by (simp only: of_int_le_iff)
  then have le: "of_int ?r * u \<le> of_nat n" by (simp add: u field_simps)
  have ge: "0 \<le> of_int ?r * u"
    using round_half_even_nonneg [of "q / u"] q up by simp
  have "pow2 53 \<le> pow2 1024" by (rule pow2_mono) simp
  then have lt: "\<not> pow2 1024 \<le> \<bar>of_int ?r * u\<bar>" using le ge n53 by linarith
  have "f64_round q = Fin (of_int ?r * u)"
    unfolding f64_round_def Let_def e u_def [symmetric] using False lt by simp
  with le ge show ?thesis by simp
qed

lemma pow2_less_iff: "pow2 j < pow2 k \<longleftrightarrow> j < k"
proof
  show "pow2 j < pow2 k \<Longrightarrow> j < k" using pow2_mono [of k j] by linarith
  show "j < k \<Longrightarrow> pow2 j < pow2 k" unfolding pow2_powi by (rule power_int_strict_increasing) simp_all
qed

lemma f64_round_le_pow2:
  assumes "0 \<le> q" "q \<le> pow2 m" "- 1022 \<le> m" "m < 1024"
  shows "\<exists>v. f64_round q = Fin v \<and> 0 \<le> v \<and> v \<le> pow2 m"
proof (cases "q = 0")
  case True
  then show ?thesis by (simp add: f64_round_def less_imp_le)
next
  case False
  then have q: "0 < q" using assms(1) by simp
  have "pow2 (flog2 q) < pow2 (m + 1)"
    using flog2_bounds [OF q] assms(2) pow2_less_iff [of m "m + 1"] by linarith
  then have fl: "flog2 q \<le> m" by (simp add: pow2_less_iff)
  define k where "k = max (flog2 \<bar>q\<bar>) (- 1022) - 52"
  define u where "u = pow2 k"
  let ?r = "round_half_even (q / u)"
  have km: "k \<le> m" using fl q assms(3) by (simp add: k_def abs_of_pos)
  define e where "e = nat (m - k)"
  have "pow2 m = pow2 (int e) * u" using km by (simp add: e_def u_def flip: pow2_add)
  then have m: "pow2 m = of_int (2 ^ e) * u" by (simp add: pow2_of_nat)
  have up: "0 < u" by (simp add: u_def)
  have "q / u \<le> of_int (2 ^ e)" using assms(2) up by (simp add: m pos_divide_le_eq)
  then have "?r \<le> 2 ^ e" by (rule round_half_even_le)
  then have "(of_int ?r :: rat) \<le> of_int (2 ^ e)" by (simp only: of_int_le_iff)
  then have le: "of_int ?r * u \<le> pow2 m" unfolding m by (rule mult_right_mono) (simp add: up less_imp_le)
  have ge: "0 \<le> of_int ?r * u" using round_half_even_nonneg [of "q / u"] q up by simp
  have "pow2 m < pow2 1024" using assms(4) by (simp only: pow2_less_iff)
  then have lt: "\<not> pow2 1024 \<le> \<bar>of_int ?r * u\<bar>" using le ge by linarith
  have "f64_round q = Fin (of_int ?r * u)"
    unfolding f64_round_def Let_def k_def [symmetric] u_def [symmetric] using False lt by simp
  with le ge show ?thesis by simp
qed

lemma f64_of_nat_u64: "\<exists>v. f64_of_nat (unat w) = Fin v \<and> 0 \<le> v \<and> v \<le> 2 ^ 64" for w :: u64
proof -
  have "(of_nat (unat w) :: rat) \<le> of_nat (2 ^ 64)"
    using unsigned_less [of w, where ?'a = nat] by (simp only: of_nat_le_iff) simp
  then have "(of_nat (unat w) :: rat) \<le> pow2 64" using pow2_of_nat [of 64] by simp
  from f64_round_le_pow2 [OF of_nat_0_le_iff this] show ?thesis
    using pow2_of_nat [of 64] by (simp add: f64_of_nat_def)
qed

section \<open>Parsing\<close>

definition parse_exponent :: "string \<Rightarrow> int option" where
  "parse_exponent s =
     (case s of
        [] \<Rightarrow> Some 0
      | c # r \<Rightarrow>
          if c = CHR ''e'' \<or> c = CHR ''E'' then
            (let n = starts_with ''-'' r; ds = (if n \<or> starts_with ''+'' r then tl r else r) in
             if ds = [] then None
             else map_option (\<lambda>k. if n then - int k else int k) (parse_digits 0 ds))
          else None)"

definition pow10 :: "int \<Rightarrow> rat" where
  "pow10 k = (if 0 \<le> k then 10 ^ nat k else 1 / 10 ^ nat (- k))"

definition parse_f64 :: "string \<Rightarrow> f64 option" where
  "parse_f64 s =
     (let n = starts_with ''-'' s; r = (if n \<or> starts_with ''+'' s then tl s else s) in
      if to_ascii_lowercase r \<in> {''inf'', ''infinity''} then Some (Inf n)
      else if to_ascii_lowercase r = ''nan'' then Some NaN
      else
        let ip = takeWhile is_ascii_digit r; r1 = dropWhile is_ascii_digit r;
            dot = starts_with ''.'' r1;
            fp = (if dot then takeWhile is_ascii_digit (tl r1) else []);
            r2 = (if dot then dropWhile is_ascii_digit (tl r1) else r1)
        in if ip @ fp = [] then None
           else case (parse_digits 0 (ip @ fp), parse_exponent r2) of
             (Some m, Some e) \<Rightarrow>
               Some (f64_round ((if n then - 1 else 1) * of_nat m * pow10 (e - int (length fp))))
           | _ \<Rightarrow> None)"

end
