(* ===== verification/Json.thy ===== *)
theory Json
  imports Rust_Float
begin

text \<open>
  \<open>serde_json::Value\<close> and the accessors the adapters use. Parsing JSON text is the library's work:
  the models start from a value. An object is an association list with distinct keys.
\<close>

datatype jnumber = PosInt u64 | NegInt int | Float f64

datatype json = JNull | JBool bool | JNum jnumber | JStr string | JArr "json list"
  | JObj "(string \<times> json) list"

text \<open>\<open>Value::get\<close>, and indexing, which yields \<open>Null\<close> where there is no such member.\<close>

fun jget :: "string \<Rightarrow> json \<Rightarrow> json option" where
  "jget k (JObj m) = map_of m k"
| "jget k _ = None"

definition jindex :: "json \<Rightarrow> string \<Rightarrow> json" where
  "jindex v k = (case jget k v of Some x \<Rightarrow> x | None \<Rightarrow> JNull)"

fun as_str :: "json \<Rightarrow> string option" where
  "as_str (JStr s) = Some s"
| "as_str _ = None"

fun as_bool :: "json \<Rightarrow> bool option" where
  "as_bool (JBool b) = Some b"
| "as_bool _ = None"

fun as_array :: "json \<Rightarrow> json list option" where
  "as_array (JArr xs) = Some xs"
| "as_array _ = None"

fun as_object :: "json \<Rightarrow> json option" where
  "as_object (JObj m) = Some (JObj m)"
| "as_object _ = None"

fun as_u64 :: "json \<Rightarrow> u64 option" where
  "as_u64 (JNum (PosInt n)) = Some n"
| "as_u64 _ = None"

fun as_f64 :: "json \<Rightarrow> f64 option" where
  "as_f64 (JNum (PosInt n)) = Some (f64_of_nat (unat n))"
| "as_f64 (JNum (NegInt i)) = Some (f64_round (of_int i))"
| "as_f64 (JNum (Float f)) = Some f"
| "as_f64 _ = None"

text \<open>\<open>value.get(k).and_then(Value::as_...)\<close>, the most common access.\<close>

definition get_str :: "string \<Rightarrow> json \<Rightarrow> string option" where
  "get_str k v = Option.bind (jget k v) as_str"

definition get_bool :: "string \<Rightarrow> json \<Rightarrow> bool option" where
  "get_bool k v = Option.bind (jget k v) as_bool"

definition get_u64 :: "string \<Rightarrow> json \<Rightarrow> u64 option" where
  "get_u64 k v = Option.bind (jget k v) as_u64"

definition get_array :: "string \<Rightarrow> json \<Rightarrow> json list option" where
  "get_array k v = Option.bind (jget k v) as_array"

lemmas json_access = get_str_def get_bool_def get_u64_def get_array_def jindex_def

end
