(* ===== verification/Model.thy ===== *)
theory Model
  imports Json
begin

text \<open>
  The data of \<open>model.rs\<close>: the enums and structs that cross the portal socket, the attention order
  of the cards (\<open>sort_agents\<close>), and the empty snapshot. Record fields carry the initials of their
  struct (\<open>av_status\<close> is \<open>AgentView::status\<close>). Strings are byte strings, \<open>u64\<close> and \<open>u32\<close> fields
  words of that width, \<open>usize\<close> indices natural numbers.
\<close>

definition SCHEMA_VERSION :: u32 where
  "SCHEMA_VERSION = 1"

section \<open>Enums\<close>

datatype agent_status = Blocked | Done | Working | Idle | Unknown

fun attention_rank :: "agent_status \<Rightarrow> u8" where
  "attention_rank Blocked = 0"
| "attention_rank Done = 1"
| "attention_rank Working = 2"
| "attention_rank Idle = 3"
| "attention_rank Unknown = 4"

text \<open>\<open>impl Ord\<close> and \<open>impl PartialOrd\<close> for \<open>AgentStatus\<close>: statuses compare by their rank.\<close>

definition agent_status_cmp :: "agent_status \<Rightarrow> agent_status \<Rightarrow> ordering" where
  "agent_status_cmp a b = cmp (attention_rank a) (attention_rank b)"

definition agent_status_partial_cmp :: "agent_status \<Rightarrow> agent_status \<Rightarrow> ordering option" where
  "agent_status_partial_cmp a b = Some (agent_status_cmp a b)"

lemma agent_status_cmp_rank:
  "agent_status_partial_cmp a b = Some Greater \<longleftrightarrow> attention_rank b < attention_rank a"
  "agent_status_partial_cmp a b = Some Less \<longleftrightarrow> attention_rank a < attention_rank b"
  by (auto simp: agent_status_partial_cmp_def agent_status_cmp_def)

instantiation agent_status :: linorder
begin

definition less_eq_agent_status :: "agent_status \<Rightarrow> agent_status \<Rightarrow> bool" where
  "a \<le> b \<longleftrightarrow> agent_status_partial_cmp a b \<noteq> Some Greater"

definition less_agent_status :: "agent_status \<Rightarrow> agent_status \<Rightarrow> bool" where
  "a < b \<longleftrightarrow> agent_status_partial_cmp a b = Some Less"

instance
proof
  fix x y z :: agent_status
  show "x < y \<longleftrightarrow> x \<le> y \<and> \<not> y \<le> x"
    by (auto simp: less_eq_agent_status_def less_agent_status_def agent_status_cmp_rank not_less)
  show "x \<le> x" by (simp add: less_eq_agent_status_def agent_status_cmp_rank not_less)
  show "x \<le> y \<Longrightarrow> y \<le> z \<Longrightarrow> x \<le> z" by (simp add: less_eq_agent_status_def agent_status_cmp_rank not_less)
  show "x \<le> y \<Longrightarrow> y \<le> x \<Longrightarrow> x = y"
    by (cases x; cases y) (simp_all add: less_eq_agent_status_def agent_status_cmp_rank not_less word_le_nat_alt)
  show "x \<le> y \<or> y \<le> x" by (auto simp: less_eq_agent_status_def agent_status_cmp_rank not_less)
qed

end

datatype connection_state = ConnConnected | ConnDegraded | ConnReconnecting | ConnOffline

datatype session_state = SessConnected | SessStale | SessIncompatible | SessOffline

datatype voice_state = VIdle | VRecording | VProcessing | VError | VUnavailable

record voice_snapshot =
  vs_state :: voice_state
  vs_owned :: bool

datatype action_kind = Open | Zoom | Approve | Interrupt | RestoreFocus | ChatgptDesktop
  | ClaudeDesktop | VoiceStart | VoiceStop | VoiceCancel | OrderGrouped | OrderPriority
  | BackendHerdr | BackendT3code

datatype agent_backend = Herdr | T3code

fun backend_as_str :: "agent_backend \<Rightarrow> string" where
  "backend_as_str Herdr = ''herdr''"
| "backend_as_str T3code = ''t3code''"

record agent_backend_snapshot =
  bs_mode :: agent_backend
  bs_switchable :: bool

datatype agent_order_mode = Grouped | Priority

record agent_order_snapshot =
  os_available :: bool
  os_mode :: agent_order_mode

definition default_order :: agent_order_snapshot where
  "default_order = \<lparr>os_available = False, os_mode = Grouped\<rparr>"

section \<open>Agents\<close>

record action_capability =
  cap_id :: string
  cap_kind :: action_kind
  cap_expires_at_ms :: u64
  cap_expected_revision :: u64

record agent_actions =
  aa_open :: bool
  aa_zoom :: bool
  aa_approve :: "action_capability option"
  aa_interrupt :: "action_capability option"

definition default_actions :: agent_actions where
  "default_actions = \<lparr>aa_open = False, aa_zoom = False, aa_approve = None, aa_interrupt = None\<rparr>"

record agent_view =
  av_id :: string
  av_display_name :: string
  av_agent :: string
  av_status :: agent_status
  av_review_ready :: bool
  av_launch_pending :: bool
  av_workspace :: string
  av_repository :: "string option"
  av_worktree :: "string option"
  av_session :: string
  av_focused :: bool
  av_observed_for_seconds :: nat
  av_state_change_seq :: u64
  av_source_order :: nat
  av_actions :: agent_actions

section \<open>Usage, Micro, sessions, health\<close>

datatype usage_kind = Quota | LocalBudget

record usage_window =
  uw_label :: string
  uw_utilization :: f64
  uw_reset_at_ms :: "u64 option"

record provider_usage =
  pu_id :: string
  pu_label :: string
  pu_kind :: usage_kind
  pu_available :: bool
  pu_stale :: bool
  pu_source :: string
  pu_status :: string
  pu_plan :: "string option"
  pu_model :: "string option"
  pu_primary :: "usage_window option"
  pu_secondary :: "usage_window option"
  pu_today_tokens :: "u64 option"
  pu_tokens_per_hour :: "u64 option"
  pu_last_updated_ms :: "u64 option"

record ai_usage_snapshot =
  us_providers :: "provider_usage list"

record micro_snapshot =
  ms_connected :: bool
  ms_controlled :: bool
  ms_slots :: "string list"
  ms_firmware :: "string option"
  ms_battery :: "u8 option"
  ms_charging :: bool
  ms_layer :: "u8 option"
  ms_profile :: "u8 option"
  ms_last_updated_ms :: "u64 option"

definition default_micro :: micro_snapshot where
  "default_micro = \<lparr>ms_connected = False, ms_controlled = False, ms_slots = [], ms_firmware = None,
     ms_battery = None, ms_charging = False, ms_layer = None, ms_profile = None,
     ms_last_updated_ms = None\<rparr>"

record session_view =
  sv_name :: string
  sv_state :: session_state
  sv_version :: "string option"
  sv_protocol :: "u32 option"
  sv_last_sync_ms :: "u64 option"
  sv_message :: "string option"

record metric =
  m_available :: bool
  m_value :: "f64 option"
  m_unit :: string

definition metric_unavailable :: "string \<Rightarrow> metric" where
  "metric_unavailable u = \<lparr>m_available = False, m_value = None, m_unit = u\<rparr>"

definition metric_available :: "f64 \<Rightarrow> string \<Rightarrow> metric" where
  "metric_available v u = \<lparr>m_available = True, m_value = Some v, m_unit = u\<rparr>"

text \<open>The degree sign is two bytes of UTF-8.\<close>

definition celsius :: string where
  "celsius = [CHR 0xC2, CHR 0xB0, CHR ''C'']"

record health_snapshot =
  hs_cpu :: metric
  hs_cpu_temperature :: metric
  hs_gpu :: metric
  hs_gpu_temperature :: metric
  hs_memory :: metric
  hs_network_down :: metric
  hs_network_up :: metric
  hs_battery :: metric

definition default_health :: health_snapshot where
  "default_health = \<lparr>
     hs_cpu = metric_unavailable ''%'',
     hs_cpu_temperature = metric_unavailable celsius,
     hs_gpu = metric_unavailable ''%'',
     hs_gpu_temperature = metric_unavailable celsius,
     hs_memory = metric_unavailable ''%'',
     hs_network_down = metric_unavailable ''B/s'',
     hs_network_up = metric_unavailable ''B/s'',
     hs_battery = metric_unavailable ''%''\<rparr>"

section \<open>Snapshots, commands, results\<close>

record portal_snapshot =
  ps_schema_version :: u32
  ps_sequence :: u64
  ps_daemon_epoch :: string
  ps_generated_at_ms :: u64
  ps_connection :: connection_state
  ps_sessions :: "session_view list"
  ps_agents :: "agent_view list"
  ps_agent_order :: agent_order_snapshot
  ps_backend :: agent_backend_snapshot
  ps_voice :: voice_snapshot
  ps_usage :: ai_usage_snapshot
  ps_micro :: micro_snapshot
  ps_health :: health_snapshot

definition empty_snapshot :: "string \<Rightarrow> portal_snapshot" where
  "empty_snapshot epoch = \<lparr>
     ps_schema_version = SCHEMA_VERSION,
     ps_sequence = 0,
     ps_daemon_epoch = epoch,
     ps_generated_at_ms = 0,
     ps_connection = ConnOffline,
     ps_sessions = [],
     ps_agents = [],
     ps_agent_order = default_order,
     ps_backend = \<lparr>bs_mode = Herdr, bs_switchable = False\<rparr>,
     ps_voice = \<lparr>vs_state = VUnavailable, vs_owned = False\<rparr>,
     ps_usage = \<lparr>us_providers = []\<rparr>,
     ps_micro = default_micro,
     ps_health = default_health\<rparr>"

record portal_command =
  pc_schema_version :: u32
  pc_request_id :: string
  pc_sequence :: u64
  pc_agent_id :: "string option"
  pc_action :: action_kind
  pc_capability_id :: "string option"

record action_result =
  ar_schema_version :: u32
  ar_request_id :: string
  ar_ok :: bool
  ar_code :: string
  ar_message :: string

datatype server_message =
    Snapshot portal_snapshot
  | ActionResult action_result
  | Notice u32 string string string

section \<open>The attention order\<close>

definition agent_attention_rank :: "agent_view \<Rightarrow> u8" where
  "agent_attention_rank agent =
     (if av_review_ready agent \<and> (av_status agent = Done \<or> av_status agent = Idle)
      then attention_rank Done
      else if av_status agent = Done then attention_rank Idle
      else attention_rank (av_status agent))"

definition attention_cmp :: "agent_view \<Rightarrow> agent_view \<Rightarrow> ordering" where
  "attention_cmp l r =
     then_with (cmp (agent_attention_rank l) (agent_attention_rank r))
       (then_with (cmp (av_state_change_seq r) (av_state_change_seq l))
         (then_with (cmp (av_source_order l) (av_source_order r))
           (cmp (av_id l) (av_id r))))"

definition sort_agents :: "agent_view list \<Rightarrow> agent_view list" where
  "sort_agents agents = sort_by attention_cmp agents"

interpretation attention: total_cmp attention_cmp
  unfolding attention_cmp_def [abs_def]
  by (intro total_cmp_then_with total_cmp_key total_cmp_key_rev)

lemma attention_cmp_Equal: "attention_cmp x y = Equal \<Longrightarrow> av_id x = av_id y"
  by (auto simp: attention_cmp_def then_with_eq split: if_splits)

lemma distinct_ids_eq:
  "distinct (map av_id as) \<Longrightarrow> x \<in> set as \<Longrightarrow> y \<in> set as \<Longrightarrow> av_id x = av_id y \<Longrightarrow> x = y"
  by (induction as) (auto simp: image_iff)

lemma sort_agents_mset [simp]: "mset (sort_agents as) = mset as"
  by (simp add: sort_agents_def)

lemma sort_agents_set [simp]: "set (sort_agents as) = set as"
  by (simp add: sort_agents_def)

text \<open>With distinct card ids the order is a function of the set of cards alone.\<close>

lemma sort_agents_mset_cong:
  assumes "mset as = mset bs" "distinct (map av_id as)"
  shows "sort_agents as = sort_agents bs"
  unfolding sort_agents_def
  by (rule attention.sort_by_mset_cong [OF assms(1)])
    (blast dest: attention_cmp_Equal intro: distinct_ids_eq [OF assms(2)])

section \<open>Properties\<close>

text \<open>The order the cards are to be in, said apart from the comparator: blocked, waiting for a review,
  working, idle (a finished card that is not waiting for a review counts as idle), unknown; then the
  latest change; then the place in the source; then the id.\<close>

definition urgency :: "agent_view \<Rightarrow> nat" where
  "urgency a = (case av_status a of
     Blocked \<Rightarrow> 0 | Working \<Rightarrow> 2 | Unknown \<Rightarrow> 4
   | Done \<Rightarrow> if av_review_ready a then 1 else 3
   | Idle \<Rightarrow> if av_review_ready a then 1 else 3)"

definition not_after :: "agent_view \<Rightarrow> agent_view \<Rightarrow> bool" where
  "not_after x y \<longleftrightarrow> urgency x < urgency y \<or> urgency x = urgency y \<and>
     (av_state_change_seq y < av_state_change_seq x \<or> av_state_change_seq x = av_state_change_seq y \<and>
      (av_source_order x < av_source_order y \<or> av_source_order x = av_source_order y \<and> av_id x \<le> av_id y))"

lemma urgency_rank: "unat (agent_attention_rank a) = urgency a"
  by (cases "av_status a") (simp_all add: agent_attention_rank_def urgency_def)

lemma attention_cmp_not_after: "attention_cmp x y \<noteq> Greater \<longleftrightarrow> not_after x y"
proof -
  have "agent_attention_rank x < agent_attention_rank y \<longleftrightarrow> urgency x < urgency y"
    "agent_attention_rank x = agent_attention_rank y \<longleftrightarrow> urgency x = urgency y"
    by (simp_all add: word_less_nat_alt unsigned_word_eqI word_unat_eq_iff flip: urgency_rank)
  then show ?thesis by (auto simp: attention_cmp_def not_after_def then_with_eq cmp_def)
qed

text \<open>C38 The attention order lists exactly the given cards, sorted: by falling urgency (blocked, then
  ready for review, working, idle and unknown; an acknowledged done card counts as idle), within
  one urgency the latest change first, then by their place in the source, then by id. With distinct
  ids there is only one such list, so the order depends on the cards alone and not on the order they
  came in, and sorting again changes nothing.\<close>

theorem attention_order_canonical:
  assumes "distinct (map av_id cards)"
  shows "mset (sort_agents cards) = mset cards \<and> sorted_wrt not_after (sort_agents cards) \<and>
    (\<forall>cards'. mset cards' = mset cards \<and> sorted_wrt not_after cards' \<longrightarrow> cards' = sort_agents cards) \<and>
    (\<forall>cards'. mset cards' = mset cards \<longrightarrow> sort_agents cards' = sort_agents cards) \<and>
    sort_agents (sort_agents cards) = sort_agents cards"
proof -
  note rel = attention_cmp_not_after [symmetric]
  have "sorted_wrt not_after (sort_agents cards)"
    unfolding rel [abs_def] sort_agents_def by (rule attention.sorted_sort_by)
  moreover have cong: "sort_agents cards' = sort_agents cards" if "mset cards' = mset cards" for cards'
    by (rule sort_agents_mset_cong [symmetric]) (use assms that in simp_all)
  moreover have "cards' = sort_agents cards" if "mset cards' = mset cards" "sorted_wrt not_after cards'" for cards'
    using attention.sort_by_id [of cards'] cong [OF that(1)] that(2)
    unfolding rel [abs_def] by (simp add: sort_agents_def)
  moreover have "sort_agents (sort_agents cards) = sort_agents cards"
    unfolding sort_agents_def by (rule attention.sort_by_idem)
  ultimately show ?thesis using sort_agents_mset by blast
qed

lemma attention_order_canonical_witness:
  "let card = (\<lambda>i st. \<lparr>av_id = i, av_display_name = i, av_agent = i, av_status = st, av_review_ready = False,
       av_launch_pending = False, av_workspace = i, av_repository = None, av_worktree = None,
       av_session = ''s'', av_focused = False, av_observed_for_seconds = 0, av_state_change_seq = 0,
       av_source_order = 0, av_actions = default_actions\<rparr>)
   in sort_agents [card ''a'' Idle, card ''b'' Blocked] = [card ''b'' Blocked, card ''a'' Idle] \<and>
      sort_agents [card ''b'' Blocked, card ''a'' Idle] = sort_agents [card ''a'' Idle, card ''b'' Blocked]"
proof -
  define card where "card = (\<lambda>i st. \<lparr>av_id = i, av_display_name = i, av_agent = i, av_status = st,
     av_review_ready = False, av_launch_pending = False, av_workspace = i, av_repository = None,
     av_worktree = None, av_session = ''s'', av_focused = False, av_observed_for_seconds = 0,
     av_state_change_seq = 0, av_source_order = 0, av_actions = default_actions\<rparr>)"
  have s: "sort_agents [card ''a'' Idle, card ''b'' Blocked] = [card ''b'' Blocked, card ''a'' Idle]"
    unfolding card_def by code_simp
  have d: "distinct (map av_id [card ''a'' Idle, card ''b'' Blocked])" by (simp add: card_def)
  have "mset [card ''b'' Blocked, card ''a'' Idle] = mset [card ''a'' Idle, card ''b'' Blocked]" by simp
  then have "sort_agents [card ''b'' Blocked, card ''a'' Idle] = sort_agents [card ''a'' Idle, card ''b'' Blocked]"
    using attention_order_canonical [OF d] by blast
  with s show ?thesis unfolding Let_def card_def [symmetric] by blast
qed

end
