(* ===== verification/Sql.thy ===== *)
theory Sql
  imports Json
begin

text \<open>
  The part of SQL the program's statements use, as functions on lists: values with their storage
  classes and their order, comparisons with the third truth value of \<open>NULL\<close>, \<open>LEFT JOIN\<close>, \<open>ORDER BY\<close>,
  \<open>LIMIT\<close>, \<open>MAX\<close>, \<open>json_extract\<close>, and the typed reads of a column. A table is the list of its rows in
  the order in which they are visited. Where a statement leaves rows tied, their order is that of the
  list, whatever it is; so a theorem about every list is one about every order of the ties.
\<close>

section \<open>Values\<close>

datatype sql_value = SqlNull | SqlInteger int | SqlReal f64 | SqlText string | SqlBlob string

text \<open>A NaN is stored as \<open>NULL\<close>. Integers and reals compare as numbers, below every text, and texts
  below every blob; texts and blobs compare bytewise.\<close>

fun storage_class :: "sql_value \<Rightarrow> nat" where
  "storage_class SqlNull = 0"
| "storage_class (SqlInteger _) = 1"
| "storage_class (SqlReal r) = (if r = NaN then 0 else 1)"
| "storage_class (SqlText _) = 2"
| "storage_class (SqlBlob _) = 3"

fun infinite_side :: "sql_value \<Rightarrow> int" where
  "infinite_side (SqlReal (Inf negative)) = (if negative then - 1 else 1)"
| "infinite_side _ = 0"

fun finite_number :: "sql_value \<Rightarrow> rat" where
  "finite_number (SqlInteger i) = of_int i"
| "finite_number (SqlReal (Fin q)) = q"
| "finite_number _ = 0"

fun sql_bytes :: "sql_value \<Rightarrow> string" where
  "sql_bytes (SqlText s) = s"
| "sql_bytes (SqlBlob s) = s"
| "sql_bytes _ = []"

definition sql_cmp :: "sql_value \<Rightarrow> sql_value \<Rightarrow> ordering" where
  "sql_cmp a b =
     then_with (cmp (storage_class a) (storage_class b))
       (then_with (cmp (infinite_side a) (infinite_side b))
         (then_with (cmp (finite_number a) (finite_number b)) (cmp (sql_bytes a) (sql_bytes b))))"

interpretation sql_order: total_cmp sql_cmp
  unfolding sql_cmp_def [abs_def] by (intro total_cmp_then_with total_cmp_key)

definition is_null :: "sql_value \<Rightarrow> bool" where
  "is_null v \<longleftrightarrow> storage_class v = 0"

lemma sql_cmp_text [simp]: "sql_cmp (SqlText a) (SqlText b) = cmp a b"
  by (simp add: sql_cmp_def cmp_def)

lemma sql_cmp_integer [simp]: "sql_cmp (SqlInteger a) (SqlInteger b) = cmp a b"
  by (simp add: sql_cmp_def cmp_def)

lemma sql_cmp_Equal_text [simp]: "sql_cmp v (SqlText s) = Equal \<longleftrightarrow> v = SqlText s"
  by (cases v) (auto simp: sql_cmp_def then_with_eq cmp_def split: if_splits)

lemma is_null_simps [simp]:
  "is_null SqlNull" "\<not> is_null (SqlInteger i)" "\<not> is_null (SqlText s)" "\<not> is_null (SqlBlob s)"
  by (simp_all add: is_null_def)

section \<open>Conditions\<close>

text \<open>\<open>NULL\<close> makes a comparison unknown; \<open>IS\<close> is never unknown. A row is kept when its condition is true.\<close>

definition eq3 :: "sql_value \<Rightarrow> sql_value \<Rightarrow> bool option" where
  "eq3 a b = (if is_null a \<or> is_null b then None else Some (sql_cmp a b = Equal))"

definition ge3 :: "sql_value \<Rightarrow> sql_value \<Rightarrow> bool option" where
  "ge3 a b = (if is_null a \<or> is_null b then None else Some (sql_cmp a b \<noteq> Less))"

definition sql_is :: "sql_value \<Rightarrow> sql_value \<Rightarrow> bool" where
  "sql_is a b \<longleftrightarrow> sql_cmp a b = Equal"

fun not3 :: "bool option \<Rightarrow> bool option" where
  "not3 None = None"
| "not3 (Some b) = Some (\<not> b)"

fun and3 :: "bool option \<Rightarrow> bool option \<Rightarrow> bool option" where
  "and3 (Some False) _ = Some False"
| "and3 (Some True) b = b"
| "and3 None (Some False) = Some False"
| "and3 None _ = None"

definition or3 :: "bool option \<Rightarrow> bool option \<Rightarrow> bool option" where
  "or3 a b = not3 (and3 (not3 a) (not3 b))"

text \<open>\<open>IN\<close> over literals.\<close>

definition in3 :: "sql_value \<Rightarrow> string list \<Rightarrow> bool option" where
  "in3 v literals = foldr (\<lambda>s. or3 (eq3 v (SqlText s))) literals (Some False)"

lemma and3_True [simp]: "and3 a b = Some True \<longleftrightarrow> a = Some True \<and> b = Some True"
  by (cases "(a, b)" rule: and3.cases) auto

lemma not3_True [simp]: "not3 a = Some True \<longleftrightarrow> a = Some False"
  by (cases a) auto

lemma and3_False [simp]: "and3 a b = Some False \<longleftrightarrow> a = Some False \<or> b = Some False"
  by (cases "(a, b)" rule: and3.cases) auto

lemma not3_False [simp]: "not3 a = Some False \<longleftrightarrow> a = Some True"
  by (cases a) auto

lemma or3_True [simp]: "or3 a b = Some True \<longleftrightarrow> a = Some True \<or> b = Some True"
  by (simp add: or3_def)

lemma eq3_text [simp]: "eq3 v (SqlText s) = Some True \<longleftrightarrow> v = SqlText s"
  by (auto simp: eq3_def)

lemma in3_True [simp]: "in3 v literals = Some True \<longleftrightarrow> (\<exists>s \<in> set literals. v = SqlText s)"
  by (induction literals) (auto simp: in3_def)

lemma sql_is_text [simp]: "sql_is v (SqlText s) \<longleftrightarrow> v = SqlText s"
  by (simp add: sql_is_def)

section \<open>Clauses\<close>

definition where3 :: "('a \<Rightarrow> bool option) \<Rightarrow> 'a list \<Rightarrow> 'a list" where
  "where3 condition rows = filter (\<lambda>r. condition r = Some True) rows"

definition exists3 :: "('a \<Rightarrow> bool option) \<Rightarrow> 'a list \<Rightarrow> bool" where
  "exists3 condition rows = list_ex (\<lambda>r. condition r = Some True) rows"

definition left_join :: "('a \<Rightarrow> 'b \<Rightarrow> bool option) \<Rightarrow> 'b list \<Rightarrow> 'a \<Rightarrow> 'b option list" where
  "left_join on right row =
     (let matches = where3 (on row) right in if matches = [] then [None] else map Some matches)"

text \<open>A column of a joined row: \<open>NULL\<close> where there was no match.\<close>

definition column :: "('a \<Rightarrow> sql_value) \<Rightarrow> 'a option \<Rightarrow> sql_value" where
  "column f row = (case row of None \<Rightarrow> SqlNull | Some r \<Rightarrow> f r)"

definition ascending :: "('a \<Rightarrow> sql_value) \<Rightarrow> 'a \<Rightarrow> 'a \<Rightarrow> ordering" where
  "ascending key a b = sql_cmp (key a) (key b)"

definition descending :: "('a \<Rightarrow> sql_value) \<Rightarrow> 'a \<Rightarrow> 'a \<Rightarrow> ordering" where
  "descending key a b = sql_cmp (key b) (key a)"

fun in_turn :: "('a \<Rightarrow> 'a \<Rightarrow> ordering) list \<Rightarrow> 'a \<Rightarrow> 'a \<Rightarrow> ordering" where
  "in_turn [] a b = Equal"
| "in_turn (c # cs) a b = then_with (c a b) (in_turn cs a b)"

definition order_by :: "('a \<Rightarrow> 'a \<Rightarrow> ordering) list \<Rightarrow> 'a list \<Rightarrow> 'a list" where
  "order_by keys rows = sort_by (in_turn keys) rows"

definition coalesce :: "sql_value \<Rightarrow> sql_value \<Rightarrow> sql_value" where
  "coalesce a b = (if is_null a then b else a)"

text \<open>\<open>MAX\<close> of a column: \<open>NULL\<close> when there is no other value.\<close>

definition sql_max :: "sql_value list \<Rightarrow> sql_value" where
  "sql_max vs = (case order_by [descending (\<lambda>v. v)] (filter (\<lambda>v. \<not> is_null v) vs) of
     [] \<Rightarrow> SqlNull | v # _ \<Rightarrow> v)"

section \<open>Documents\<close>

text \<open>\<open>json_extract\<close> along a path of members, from a column that is \<open>NULL\<close> or a document. A member that
  is an array or an object becomes its minified text, which the parameter gives; an integer that does
  not fit becomes a real.\<close>

fun json_path :: "string list \<Rightarrow> json \<Rightarrow> json option" where
  "json_path [] v = Some v"
| "json_path (k # ks) v = Option.bind (jget k v) (json_path ks)"

fun sql_of_json :: "(json \<Rightarrow> string) \<Rightarrow> json \<Rightarrow> sql_value" where
  "sql_of_json minify JNull = SqlNull"
| "sql_of_json minify (JBool b) = SqlInteger (of_bool b)"
| "sql_of_json minify (JNum (PosInt n)) =
     (if unat n < 2 ^ 63 then SqlInteger (uint n) else SqlReal (f64_of_nat (unat n)))"
| "sql_of_json minify (JNum (NegInt i)) = SqlInteger i"
| "sql_of_json minify (JNum (Float r)) = SqlReal r"
| "sql_of_json minify (JStr s) = SqlText s"
| "sql_of_json minify (JArr vs) = SqlText (minify (JArr vs))"
| "sql_of_json minify (JObj m) = SqlText (minify (JObj m))"

definition json_extract :: "(json \<Rightarrow> string) \<Rightarrow> string list \<Rightarrow> json option \<Rightarrow> sql_value" where
  "json_extract minify path doc =
     (case Option.bind doc (json_path path) of None \<Rightarrow> SqlNull | Some v \<Rightarrow> sql_of_json minify v)"

section \<open>Reading a column\<close>

text \<open>The conversions of the client library: each reads one storage class, and \<open>Option\<close> adds \<open>NULL\<close>.\<close>

definition invalid_type :: "string" where
  "invalid_type = ''Invalid column type''"

fun get_text :: "sql_value \<Rightarrow> string result" where
  "get_text (SqlText s) = Inr s"
| "get_text _ = Inl invalid_type"

fun get_i64 :: "sql_value \<Rightarrow> int result" where
  "get_i64 (SqlInteger i) = Inr i"
| "get_i64 _ = Inl invalid_type"

fun get_flag :: "sql_value \<Rightarrow> bool result" where
  "get_flag (SqlInteger i) = Inr (i \<noteq> 0)"
| "get_flag _ = Inl invalid_type"

definition get_opt :: "(sql_value \<Rightarrow> 'a result) \<Rightarrow> sql_value \<Rightarrow> 'a option result" where
  "get_opt get v = (if is_null v then Inr None else map_sum id Some (get v))"

section \<open>Facts about the clauses\<close>

lemma set_where3 [simp]: "r \<in> set (where3 p rows) \<longleftrightarrow> r \<in> set rows \<and> p r = Some True"
  by (simp add: where3_def)

lemma exists3_iff [simp]: "exists3 p rows \<longleftrightarrow> (\<exists>r \<in> set rows. p r = Some True)"
  by (simp add: exists3_def list_ex_iff)

lemma where3_Nil: "where3 p rows = [] \<longleftrightarrow> \<not> (\<exists>r \<in> set rows. p r = Some True)"
  by (auto simp: where3_def filter_empty_conv)

lemma set_left_join:
  "set (left_join on right row) =
     (if \<exists>r \<in> set right. on row r = Some True
      then Some ` {r \<in> set right. on row r = Some True} else {None})"
proof -
  have "set (where3 (on row) right) = {r \<in> set right. on row r = Some True}" by auto
  then show ?thesis by (simp add: left_join_def where3_Nil Let_def)
qed

lemma set_order_by [simp]: "set (order_by keys rows) = set rows"
  by (simp add: order_by_def)

lemma length_order_by [simp]: "length (order_by keys rows) = length rows"
  by (simp add: order_by_def)

lemma total_cmp_ascending: "total_cmp (ascending key)"
proof
  show "ascending key x x = Equal" for x by (simp add: ascending_def sql_order.c_refl)
  show "ascending key x y = Greater \<longleftrightarrow> ascending key y x = Less" for x y
    unfolding ascending_def by (rule sql_order.c_swap)
  show "ascending key x y \<noteq> Greater \<Longrightarrow> ascending key y z \<noteq> Greater \<Longrightarrow> ascending key x z \<noteq> Greater" for x y z
    unfolding ascending_def by (rule sql_order.c_trans)
qed

lemma total_cmp_descending: "total_cmp (descending key)"
proof
  show "descending key x x = Equal" for x by (simp add: descending_def sql_order.c_refl)
  show "descending key x y = Greater \<longleftrightarrow> descending key y x = Less" for x y
    unfolding descending_def by (rule sql_order.c_swap)
  show "descending key x y \<noteq> Greater \<Longrightarrow> descending key y z \<noteq> Greater \<Longrightarrow> descending key x z \<noteq> Greater" for x y z
    unfolding descending_def using sql_order.c_trans by blast
qed

lemma total_cmp_in_turn: "list_all total_cmp keys \<Longrightarrow> total_cmp (in_turn keys)"
proof (induction keys)
  case Nil
  show ?case by unfold_locales simp_all
next
  case (Cons c cs)
  have "in_turn (c # cs) = (\<lambda>a b. then_with (c a b) (in_turn cs a b))" by (simp add: fun_eq_iff)
  with Cons show ?case by (simp add: total_cmp_then_with)
qed

text \<open>The rows of a sorted result never go down in the first key.\<close>

lemma order_by_first_key:
  assumes keys: "list_all total_cmp (c # cs)" and i: "j \<le> i" "i < length rows"
  shows "c (order_by (c # cs) rows ! j) (order_by (c # cs) rows ! i) \<noteq> Greater"
proof -
  note sorted = total_cmp.sorted_sort_by [OF total_cmp_in_turn [OF keys], of rows]
  have c: "total_cmp c" using keys by simp
  have "in_turn (c # cs) (order_by (c # cs) rows ! j) (order_by (c # cs) rows ! i) \<noteq> Greater"
    if "j < i"
    using sorted that i(2) unfolding order_by_def
    by (simp add: sorted_wrt_iff_nth_less)
  then show ?thesis
    using total_cmp.c_refl [OF c] i(1) by (cases "j = i") (auto simp: then_with_eq split: if_splits)
qed

lemma sort_by_map: "sort_by c (map f xs) = map f (sort_by (\<lambda>a b. c (f a) (f b)) xs)"
proof (induction xs)
  case (Cons x xs)
  have "insert_by c (f x) (map f ys) = map f (insert_by (\<lambda>a b. c (f a) (f b)) x ys)" for ys
    by (induction ys) auto
  with Cons show ?case by simp
qed simp

text \<open>Filtering before or after a sort is the same.\<close>

context total_cmp
begin

lemma insert_by_filter:
  assumes "sorted_wrt (\<lambda>x y. c x y \<noteq> Greater) ys"
  shows "filter P (insert_by c x ys) = (if P x then insert_by c x (filter P ys) else filter P ys)"
  using assms
proof (induction ys)
  case (Cons y ys)
  show ?case
  proof (cases "c x y = Greater")
    case True
    with Cons show ?thesis by auto
  next
    case False
    then have "\<forall>z \<in> set (y # ys). c x z \<noteq> Greater"
      using Cons.prems c_trans [OF False] by auto
    moreover have "sorted_wrt (\<lambda>x y. c x y \<noteq> Greater) (filter P (y # ys))"
      using Cons.prems by (rule sorted_wrt_filter)
    ultimately have "insert_by c x (filter P (y # ys)) = x # filter P (y # ys)"
      by (intro insert_by_sorted) auto
    with False show ?thesis by auto
  qed
qed simp

lemma filter_sort_by: "filter P (sort_by c xs) = sort_by c (filter P xs)"
  by (induction xs) (simp_all add: insert_by_filter sorted_sort_by)

end

lemma where3_order_by:
  "list_all total_cmp keys \<Longrightarrow> order_by keys (where3 p rows) = where3 p (order_by keys rows)"
  by (simp add: order_by_def where3_def total_cmp.filter_sort_by [OF total_cmp_in_turn])

end
