(* ===== verification/Usage.thy ===== *)
theory Usage
  imports Model Sql
begin

text \<open>
  The collector of AI usage (\<open>usage.rs\<close>). Three sources feed one card per provider: the records
  of Omarchy, the legacy cache files, and the local OpenCode database. Opening, reading and parsing
  the files, the RFC 3339 parser and SQLite are fields of \<open>usage_env\<close>; the query's rows arrive with
  the columns the statement selects, each \<open>None\<close> where reading it as its Rust type fails. Times are
  milliseconds.
\<close>

section \<open>What the collector reads\<close>

record opened_file =
  of_is_file :: bool
  of_length :: nat
  of_contents :: "string option"

record message_row =
  mr_time_created :: "int option"
  mr_time_updated :: "int option"
  mr_role :: "string option option"
  mr_model_id :: "string option option"
  mr_provider_id :: "string option option"
  mr_tokens :: "sql_value option list"

record usage_env =
  ue_home :: "string option"
  ue_xdg_cache_home :: "string option"
  ue_xdg_state_home :: "string option"
  ue_xdg_data_home :: "string option"
  ue_exists :: "string \<Rightarrow> bool"
  ue_modified :: "string \<Rightarrow> u64 option"
  ue_open :: "string \<Rightarrow> opened_file option"
  ue_parse_json :: "string \<Rightarrow> json option"
  ue_parse_rfc3339_ns :: "string \<Rightarrow> int option"
  ue_query_messages :: "string \<Rightarrow> int \<Rightarrow> int \<Rightarrow> int \<Rightarrow> message_row option list option"
  ue_now_quota :: "string \<Rightarrow> u64"
  ue_now_query :: u64
  ue_now_stale :: u64

record usage_collector =
  uc_legacy_cache_dir :: string
  uc_state_usage_dir :: string
  uc_opencode_db :: string

definition FRESH_FOR_MS :: u64 where "FRESH_FOR_MS = 900000"
definition MAX_CACHE_BYTES :: nat where "MAX_CACHE_BYTES = 64 * 1024"
definition MAX_AGGREGATE_TOKENS :: u64 where "MAX_AGGREGATE_TOKENS = 1000000000000000"
definition MAX_OPENCODE_ROWS :: nat where "MAX_OPENCODE_ROWS = 100000"
definition OPENCODE_5H_LIMIT :: u64 where "OPENCODE_5H_LIMIT = 1000000"
definition OPENCODE_7D_LIMIT :: u64 where "OPENCODE_7D_LIMIT = 20000000"
definition FIVE_HOURS_MS :: u64 where "FIVE_HOURS_MS = 18000000"
definition SEVEN_DAYS_MS :: u64 where "SEVEN_DAYS_MS = 604800000"
definition ONE_HOUR_MS :: u64 where "ONE_HOUR_MS = 3600000"

definition xdg_dir :: "string option \<Rightarrow> string option \<Rightarrow> string \<Rightarrow> string" where
  "xdg_dir dir home below =
     (case dir of Some d \<Rightarrow> d
      | None \<Rightarrow> (case home of Some h \<Rightarrow> path_join h below | None \<Rightarrow> below))"

definition default_collector :: "usage_env \<Rightarrow> usage_collector" where
  "default_collector env =
     \<lparr>uc_legacy_cache_dir = xdg_dir (ue_xdg_cache_home env) (ue_home env) ''.cache'',
      uc_state_usage_dir = path_join (xdg_dir (ue_xdg_state_home env) (ue_home env) ''.local/state'')
        ''omarchy/agents/usage'',
      uc_opencode_db = path_join (xdg_dir (ue_xdg_data_home env) (ue_home env) ''.local/share'')
        ''opencode/opencode.db''\<rparr>"

section \<open>Numbers and strings\<close>

definition numeric :: "json option \<Rightarrow> f64 option" where
  "numeric value =
     Option.bind value (\<lambda>v.
       case (case as_f64 v of Some n \<Rightarrow> Some n | None \<Rightarrow> Option.bind (as_str v) parse_f64) of
         Some n \<Rightarrow> if is_finite n then Some n else None
       | None \<Rightarrow> None)"

text \<open>\<open>(0.0..=limit).contains\<close>\<close>

definition in_range :: "f64 \<Rightarrow> f64 \<Rightarrow> f64 \<Rightarrow> bool" where
  "in_range lo hi v \<longleftrightarrow> f64_le lo v \<and> f64_le v hi"

definition token_range :: "f64 \<Rightarrow> bool" where
  "token_range v = in_range (Fin 0) (f64_of_nat (unat MAX_AGGREGATE_TOKENS)) v"

definition aggregate_tokens :: "json option \<Rightarrow> u64 option" where
  "aggregate_tokens value =
     Option.bind (numeric value)
       (\<lambda>v. if \<not> token_range v then None else Some (f64_to_u64 (f64_floor v)))"

definition aggregate_number :: "f64 \<Rightarrow> u64 option" where
  "aggregate_number v =
     (if \<not> is_finite v \<or> \<not> token_range v then None else Some (f64_to_u64 (f64_floor v)))"

definition sql_aggregate_tokens :: "sql_value \<Rightarrow> u64 option" where
  "sql_aggregate_tokens value =
     (case value of
        SqlNull \<Rightarrow> Some 0
      | SqlInteger i \<Rightarrow>
          (case u64_try_from i of
             Some v \<Rightarrow> if v \<le> MAX_AGGREGATE_TOKENS then Some v else None
           | None \<Rightarrow> None)
      | SqlReal r \<Rightarrow> aggregate_number r
      | SqlText s \<Rightarrow> Option.bind (parse_f64 s) aggregate_number
      | SqlBlob _ \<Rightarrow> None)"

definition bounded_add :: "u64 \<Rightarrow> u64 \<Rightarrow> u64 option" where
  "bounded_add acc value =
     (case checked_add acc value of
        Some s \<Rightarrow> if s \<le> MAX_AGGREGATE_TOKENS then Some s else None
      | None \<Rightarrow> None)"

definition bounded :: "string option \<Rightarrow> nat \<Rightarrow> string option" where
  "bounded value limit =
     Option.bind value
       (\<lambda>v. let v = trim v in if v = [] then None else Some (concat (take limit (chars v))))"

definition safe_source :: "string option \<Rightarrow> string" where
  "safe_source value =
     (case value of
        Some v \<Rightarrow>
          if v \<in> {''oauth'', ''rpc'', ''rollout'', ''sqlite'', ''fixture'', ''stale''} then v else ''unknown''
      | None \<Rightarrow> ''unknown'')"

definition safe_status :: "string option \<Rightarrow> string" where
  "safe_status value =
     (case value of
        Some v \<Rightarrow>
          if v \<in> {''allowed'', ''allowed_warning'', ''blocked'', ''rejected''} then v else ''unknown''
      | None \<Rightarrow> ''unknown'')"

definition source_is_usable :: "string \<Rightarrow> string \<Rightarrow> bool" where
  "source_is_usable provider source \<longleftrightarrow>
     source = ''fixture'' \<or> source = ''stale'' \<or>
     (provider, source) \<in> {(''claude'', ''oauth''), (''codex'', ''rpc''), (''codex'', ''rollout''),
       (''opencode'', ''sqlite'')}"

definition status_is_usable :: "string \<Rightarrow> bool" where
  "status_is_usable status \<longleftrightarrow> status \<in> {''allowed'', ''allowed_warning''}"

definition stale_by_age :: "u64 \<Rightarrow> u64 option \<Rightarrow> bool" where
  "stale_by_age now last_updated_ms =
     (case Option.bind last_updated_ms (checked_sub now) of
        None \<Rightarrow> True | Some age \<Rightarrow> FRESH_FOR_MS < age)"

text \<open>The division of a signed number of nanoseconds truncates towards zero.\<close>

definition parse_rfc3339_ms :: "usage_env \<Rightarrow> string \<Rightarrow> u64 option" where
  "parse_rfc3339_ms env value =
     Option.bind (ue_parse_rfc3339_ns env value)
       (\<lambda>ns. u64_try_from (if 0 \<le> ns then ns div 1000000 else - ((- ns) div 1000000)))"

definition read_bounded_json :: "usage_env \<Rightarrow> string \<Rightarrow> json option" where
  "read_bounded_json env path =
     Option.bind (ue_open env path) (\<lambda>file.
       if \<not> of_is_file file \<or> MAX_CACHE_BYTES < of_length file then None
       else Option.bind (of_contents file) (\<lambda>contents.
         if MAX_CACHE_BYTES < length (take (MAX_CACHE_BYTES + 1) contents) then None
         else ue_parse_json env (take (MAX_CACHE_BYTES + 1) contents)))"

definition unavailable_provider ::
  "string \<Rightarrow> string \<Rightarrow> usage_kind \<Rightarrow> u64 option \<Rightarrow> provider_usage" where
  "unavailable_provider i label kind last_updated_ms =
     \<lparr>pu_id = i, pu_label = label, pu_kind = kind, pu_available = False, pu_stale = True,
      pu_source = ''unavailable'', pu_status = ''unavailable'', pu_plan = None, pu_model = None,
      pu_primary = None, pu_secondary = None, pu_today_tokens = None, pu_tokens_per_hour = None,
      pu_last_updated_ms = last_updated_ms\<rparr>"


section \<open>The cache records\<close>

definition unit_interval :: "f64 \<Rightarrow> f64" where
  "unit_interval = f64_clamp (Fin 0) (Fin 1)"

text \<open>\<open>numeric(..).filter(|reset| *reset > 0.0).map(|reset| (reset * 1_000.0) as u64)\<close>\<close>

definition reset_ms :: "json option \<Rightarrow> u64 option" where
  "reset_ms value =
     Option.bind (numeric value)
       (\<lambda>r. if f64_lt (Fin 0) r then Some (f64_to_u64 (f64_mul r (Fin 1000))) else None)"

definition legacy_window :: "json \<Rightarrow> string \<Rightarrow> string \<Rightarrow> string \<Rightarrow> usage_window option" where
  "legacy_window value label utilization_key reset_key =
     map_option (\<lambda>u. \<lparr>uw_label = label, uw_utilization = unit_interval u,
         uw_reset_at_ms = reset_ms (jget reset_key value)\<rparr>)
       (numeric (jget utilization_key value))"

definition codex_window :: "json \<Rightarrow> usage_window option" where
  "codex_window value =
     map_option (\<lambda>u.
         \<lparr>uw_label = (case bounded (get_str ''label'' value) 24 of Some l \<Rightarrow> l | None \<Rightarrow> ''Usage''),
          uw_utilization = unit_interval u, uw_reset_at_ms = reset_ms (jget ''reset'' value)\<rparr>)
       (numeric (jget ''utilization'' value))"

definition omarchy_window :: "usage_env \<Rightarrow> json \<Rightarrow> usage_window option" where
  "omarchy_window env value =
     Option.bind (numeric (jget ''percent'' value)) (\<lambda>u.
     Option.bind (bounded (get_str ''label'' value) 24) (\<lambda>label.
       Some \<lparr>uw_label = label, uw_utilization = unit_interval u,
             uw_reset_at_ms = Option.bind (get_str ''resetsAt'' value) (parse_rfc3339_ms env)\<rparr>))"

definition or_else :: "'a option \<Rightarrow> 'a option \<Rightarrow> 'a option" where
  "or_else a b = (case a of Some x \<Rightarrow> Some x | None \<Rightarrow> b)"

definition codex_bucket :: "json \<Rightarrow> json option" where
  "codex_bucket value =
     Option.bind (get_array ''buckets'' value) (\<lambda>buckets.
       or_else (find (\<lambda>b. get_bool ''isGeneral'' b = Some True) buckets)
         (find (\<lambda>b. get_str ''id'' b = Some ''codex'') buckets))"

definition nth_opt :: "'a list \<Rightarrow> nat \<Rightarrow> 'a option" where
  "nth_opt xs n = (if n < length xs then Some (xs ! n) else None)"

definition apply_codex_windows :: "json \<Rightarrow> provider_usage \<Rightarrow> provider_usage" where
  "apply_codex_windows value provider =
     (let bucket = codex_bucket value;
          windows = Option.bind (or_else (Option.bind bucket (jget ''windows'')) (jget ''windows'' value)) as_array;
          provider = (case bucket of
              Some b \<Rightarrow> provider\<lparr>pu_plan :=
                bounded (or_else (get_str ''plan'' b) (get_str ''_plan'' value)) 32\<rparr>
            | None \<Rightarrow> provider)
      in case windows of
           None \<Rightarrow> provider\<lparr>pu_secondary := legacy_window value ''Weekly'' ''7d-utilization'' ''7d-reset''\<rparr>
         | Some ws \<Rightarrow> provider\<lparr>pu_primary := Option.bind (nth_opt ws 0) codex_window,
                              pu_secondary := Option.bind (nth_opt ws 1) codex_window\<rparr>)"

definition legacy_record :: "string \<Rightarrow> string \<Rightarrow> usage_kind \<Rightarrow> bool \<Rightarrow> u64 option \<Rightarrow> json \<Rightarrow> provider_usage" where
  "legacy_record i label kind old last_updated_ms value =
     (let source = safe_source (get_str ''_source'' value);
          status = safe_status (get_str ''status'' value);
          provider = \<lparr>pu_id = i, pu_label = label, pu_kind = kind, pu_available = False,
            pu_stale = (old \<or> source = ''stale''), pu_source = source, pu_status = status,
            pu_plan = bounded (get_str ''_plan'' value) 32, pu_model = bounded (get_str ''_model'' value) 80,
            pu_primary = None, pu_secondary = None,
            pu_today_tokens = aggregate_tokens (jget ''_today_tokens'' value),
            pu_tokens_per_hour = aggregate_tokens (jget ''_rate_per_hour'' value),
            pu_last_updated_ms = last_updated_ms\<rparr>;
          provider = (if i = ''codex'' then apply_codex_windows value provider
            else provider\<lparr>pu_primary := legacy_window value ''5h'' ''5h-utilization'' ''5h-reset'',
                          pu_secondary := legacy_window value ''Weekly'' ''7d-utilization'' ''7d-reset''\<rparr>);
          trusted = source_is_usable i (pu_source provider) \<and> status_is_usable (pu_status provider);
          provider = provider\<lparr>pu_available :=
            (trusted \<and> (pu_primary provider \<noteq> None \<or> pu_secondary provider \<noteq> None))\<rparr>
      in if trusted then provider
         else provider\<lparr>pu_stale := True, pu_plan := None, pu_model := None, pu_primary := None,
                pu_secondary := None, pu_today_tokens := None, pu_tokens_per_hour := None\<rparr>)"

definition read_legacy_provider ::
  "usage_env \<Rightarrow> usage_collector \<Rightarrow> u64 \<Rightarrow> string \<Rightarrow> string \<Rightarrow> usage_kind \<Rightarrow> provider_usage" where
  "read_legacy_provider env c now i label kind =
     (let path = path_join (uc_legacy_cache_dir c) (i @ ''-usage.json'');
          last_updated_ms = ue_modified env path
      in case read_bounded_json env path of
           None \<Rightarrow> unavailable_provider i label kind last_updated_ms
         | Some value \<Rightarrow>
             legacy_record i label kind (stale_by_age now last_updated_ms) last_updated_ms value)"

definition trusted_record :: "string \<Rightarrow> json \<Rightarrow> bool" where
  "trusted_record i value \<longleftrightarrow>
     get_u64 ''schemaVersion'' value = Some 1 \<and> get_str ''id'' value = Some i \<and>
     get_bool ''ready'' value = Some True \<and>
     (case get_str ''usageStatusText'' value of Some s \<Rightarrow> trim s = [] | None \<Rightarrow> False)"

definition read_omarchy_provider ::
  "usage_env \<Rightarrow> u64 \<Rightarrow> string \<Rightarrow> string \<Rightarrow> string \<Rightarrow> provider_usage" where
  "read_omarchy_provider env now path i label =
     (let last_updated_ms = ue_modified env path;
          stale = stale_by_age now last_updated_ms;
          unavailable = unavailable_provider i label Quota last_updated_ms
      in case read_bounded_json env path of
           None \<Rightarrow> unavailable
         | Some value \<Rightarrow>
             if \<not> trusted_record i value then unavailable
             else
               let windows = (case get_array ''limits'' value of
                     Some limits \<Rightarrow> take 2 (List.map_filter (omarchy_window env) limits) | None \<Rightarrow> []);
                   primary = nth_opt windows 0; secondary = nth_opt windows 1
               in if primary = None \<and> secondary = None then unavailable
                  else \<lparr>pu_id = i, pu_label = label, pu_kind = Quota, pu_available = True,
                        pu_stale = stale, pu_source = ''omarchy'', pu_status = ''allowed'',
                        pu_plan = bounded (get_str ''tierLabel'' value) 32, pu_model = None,
                        pu_primary = primary, pu_secondary = secondary,
                        pu_today_tokens = aggregate_tokens (jget ''todayTotalTokens'' value),
                        pu_tokens_per_hour = None, pu_last_updated_ms = last_updated_ms\<rparr>)"

definition read_quota_provider ::
  "usage_env \<Rightarrow> usage_collector \<Rightarrow> string \<Rightarrow> string \<Rightarrow> provider_usage" where
  "read_quota_provider env c i label =
     (let path = path_join (uc_state_usage_dir c) (i @ ''.json'') in
      if ue_exists env path then read_omarchy_provider env (ue_now_quota env i) path i label
      else read_legacy_provider env c (ue_now_quota env i) i label Quota)"

section \<open>The OpenCode database\<close>

record opencode_message =
  om_updated_ms :: u64
  om_tokens :: u64
  om_model :: "string option"

fun sum_tokens :: "u64 \<Rightarrow> sql_value list \<Rightarrow> u64 option" where
  "sum_tokens acc [] = Some acc"
| "sum_tokens acc (v # vs) =
     Option.bind (sql_aggregate_tokens v) (\<lambda>n.
     Option.bind (bounded_add acc n) (\<lambda>acc. sum_tokens acc vs))"

definition parse_opencode_scalars ::
  "int \<Rightarrow> int \<Rightarrow> string option \<Rightarrow> string option \<Rightarrow> string option \<Rightarrow> sql_value list \<Rightarrow>
     opencode_message option" where
  "parse_opencode_scalars time_created time_updated role model_id provider_id token_values =
     (if role \<noteq> Some ''assistant'' then None
      else if list_all (\<lambda>v. v = SqlNull) token_values then None
      else
        Option.bind (bounded model_id 48) (\<lambda>model_id.
        let provider_id = bounded provider_id 24 in
        Option.bind (sum_tokens 0 token_values) (\<lambda>acc.
        Option.bind (u64_try_from (max time_updated time_created)) (\<lambda>updated_ms.
        let model_label = (case provider_id of
              Some provider \<Rightarrow> model_id @ '' ('' @ provider @ '')'' | None \<Rightarrow> model_id)
        in Some \<lparr>om_updated_ms = updated_ms, om_tokens = acc,
                 om_model = bounded (Some model_label) 80\<rparr>))))"

text \<open>The typed reads of a row; the first that fails ends the whole pass.\<close>

definition read_row :: "message_row \<Rightarrow> opencode_message option option" where
  "read_row r =
     (case (mr_time_created r, mr_time_updated r, mr_role r, mr_model_id r, mr_provider_id r,
            those (mr_tokens r)) of
        (Some created, Some updated, Some role, Some model, Some provider, Some tokens) \<Rightarrow>
          Some (parse_opencode_scalars created updated role model provider tokens)
      | _ \<Rightarrow> None)"

record opencode_totals =
  ot_5h :: u64
  ot_7d :: u64
  ot_1h :: u64
  ot_latest :: "opencode_message option"

definition add_tokens :: "bool \<Rightarrow> u64 \<Rightarrow> u64 \<Rightarrow> u64 option" where
  "add_tokens counts acc value = (if counts then bounded_add acc value else Some acc)"

definition add_message :: "u64 \<Rightarrow> opencode_message \<Rightarrow> opencode_totals \<Rightarrow> opencode_totals option" where
  "add_message now m t =
     (if saturating_add now FRESH_FOR_MS < om_updated_ms m then Some t
      else if om_updated_ms m < saturating_sub now SEVEN_DAYS_MS then Some t
      else
        Option.bind (bounded_add (ot_7d t) (om_tokens m)) (\<lambda>t7.
        Option.bind (add_tokens (saturating_sub now FIVE_HOURS_MS \<le> om_updated_ms m) (ot_5h t) (om_tokens m)) (\<lambda>t5.
        Option.bind (add_tokens (saturating_sub now ONE_HOUR_MS \<le> om_updated_ms m) (ot_1h t) (om_tokens m)) (\<lambda>t1.
          Some \<lparr>ot_5h = t5, ot_7d = t7, ot_1h = t1,
                ot_latest = (case ot_latest t of
                    None \<Rightarrow> Some m
                  | Some current \<Rightarrow>
                      if om_updated_ms current < om_updated_ms m then Some m else Some current)\<rparr>))))"

fun collect_rows ::
  "u64 \<Rightarrow> nat \<Rightarrow> nat \<Rightarrow> message_row option list \<Rightarrow> opencode_totals \<Rightarrow> opencode_totals option" where
  "collect_rows now max_rows row_count [] t = Some t"
| "collect_rows now max_rows row_count (None # rows) t = None"
| "collect_rows now max_rows row_count (Some r # rows) t =
     (if max_rows < row_count + 1 then None
      else case read_row r of
          None \<Rightarrow> None
        | Some None \<Rightarrow> collect_rows now max_rows (row_count + 1) rows t
        | Some (Some m) \<Rightarrow>
            Option.bind (add_message now m t) (collect_rows now max_rows (row_count + 1) rows))"

definition i64_try_from :: "nat \<Rightarrow> int option" where
  "i64_try_from n = (if n < 2 ^ 63 then Some (int n) else None)"

definition collect_opencode_usage_bounded ::
  "usage_env \<Rightarrow> string \<Rightarrow> nat \<Rightarrow> opencode_totals option" where
  "collect_opencode_usage_bounded env path max_rows =
     (let now = ue_now_query env in
      case (i64_try_from (max_rows + 1), i64_try_from MAX_CACHE_BYTES,
            i64_try_from (unat (saturating_sub now SEVEN_DAYS_MS))) of
        (Some rows_limit, Some bytes_limit, Some since) \<Rightarrow>
          Option.bind (ue_query_messages env path rows_limit bytes_limit since) (\<lambda>rows.
            collect_rows now max_rows 0 rows \<lparr>ot_5h = 0, ot_7d = 0, ot_1h = 0, ot_latest = None\<rparr>)
      | _ \<Rightarrow> None)"

definition token_window :: "string \<Rightarrow> u64 \<Rightarrow> u64 \<Rightarrow> usage_window" where
  "token_window label tokens limit =
     \<lparr>uw_label = label,
      uw_utilization = unit_interval (f64_div (f64_of_nat (unat tokens)) (f64_of_nat (unat limit))),
      uw_reset_at_ms = None\<rparr>"

definition read_opencode_db :: "usage_env \<Rightarrow> string \<Rightarrow> provider_usage" where
  "read_opencode_db env path =
     (let unavailable = unavailable_provider ''opencode'' ''OpenCode'' LocalBudget (ue_modified env path) in
      case collect_opencode_usage_bounded env path MAX_OPENCODE_ROWS of
        None \<Rightarrow> unavailable
      | Some t \<Rightarrow>
          (case ot_latest t of
             None \<Rightarrow> unavailable
           | Some latest \<Rightarrow>
               let last_updated_ms = Some (om_updated_ms latest) in
               \<lparr>pu_id = ''opencode'', pu_label = ''OpenCode'', pu_kind = LocalBudget, pu_available = True,
                pu_stale = stale_by_age (ue_now_stale env) last_updated_ms, pu_source = ''sqlite'',
                pu_status = (if OPENCODE_5H_LIMIT * 9 div 10 \<le> ot_5h t then ''allowed_warning''
                             else ''allowed''),
                pu_plan = Some ''local messages'', pu_model = om_model latest,
                pu_primary = Some (token_window ''5h'' (ot_5h t) OPENCODE_5H_LIMIT),
                pu_secondary = Some (token_window ''Weekly'' (ot_7d t) OPENCODE_7D_LIMIT),
                pu_today_tokens = None, pu_tokens_per_hour = Some (ot_1h t),
                pu_last_updated_ms = last_updated_ms\<rparr>))"

definition read_opencode :: "usage_env \<Rightarrow> usage_collector \<Rightarrow> provider_usage" where
  "read_opencode env c =
     (let database = read_opencode_db env (uc_opencode_db c) in
      if pu_available database then database
      else if ue_exists env (path_join (uc_legacy_cache_dir c) ''opencode-usage.json'')
      then read_legacy_provider env c (ue_now_stale env) ''opencode'' ''OpenCode'' LocalBudget
      else database)"

definition sample_usage :: "usage_env \<Rightarrow> usage_collector \<Rightarrow> ai_usage_snapshot" where
  "sample_usage env c =
     \<lparr>us_providers = [read_quota_provider env c ''claude'' ''Claude'',
        read_quota_provider env c ''codex'' ''Codex'', read_opencode env c]\<rparr>"

section \<open>What a card may show\<close>

definition chars_at_most :: "nat \<Rightarrow> string option \<Rightarrow> bool" where
  "chars_at_most n s = (case s of Some v \<Rightarrow> length (chars v) \<le> n | None \<Rightarrow> True)"

definition tokens_at_most :: "u64 option \<Rightarrow> bool" where
  "tokens_at_most t = (case t of Some n \<Rightarrow> n \<le> MAX_AGGREGATE_TOKENS | None \<Rightarrow> True)"

definition window_ok :: "usage_window option \<Rightarrow> bool" where
  "window_ok w = (case w of
      Some w \<Rightarrow> length (chars (uw_label w)) \<le> 24 \<and>
        (case uw_utilization w of Fin v \<Rightarrow> 0 \<le> v \<and> v \<le> 1 | _ \<Rightarrow> False)
    | None \<Rightarrow> True)"

definition data_free :: "provider_usage \<Rightarrow> bool" where
  "data_free p \<longleftrightarrow> \<not> pu_available p \<and> pu_stale p \<and> pu_plan p = None \<and> pu_model p = None \<and>
     pu_primary p = None \<and> pu_secondary p = None \<and> pu_today_tokens p = None \<and>
     pu_tokens_per_hour p = None"

definition trusted :: "provider_usage \<Rightarrow> bool" where
  "trusted p \<longleftrightarrow> status_is_usable (pu_status p) \<and>
     (source_is_usable (pu_id p) (pu_source p) \<or> (pu_source p = ''omarchy'' \<and> pu_kind p = Quota))"

definition provider_ok :: "provider_usage \<Rightarrow> bool" where
  "provider_ok p \<longleftrightarrow> window_ok (pu_primary p) \<and> window_ok (pu_secondary p) \<and>
     tokens_at_most (pu_today_tokens p) \<and> tokens_at_most (pu_tokens_per_hour p) \<and>
     chars_at_most 32 (pu_plan p) \<and> chars_at_most 80 (pu_model p) \<and>
     (trusted p \<or> data_free p) \<and>
     (pu_available p \<longrightarrow> pu_primary p \<noteq> None \<or> pu_secondary p \<noteq> None)"

lemma numeric_finite: "numeric value = Some v \<Longrightarrow> is_finite v"
  by (auto simp: numeric_def bind_eq_Some_conv split: option.splits if_splits)

lemma unit_interval_not_NaN:
  "x \<noteq> NaN \<Longrightarrow> (case unit_interval x of Fin v \<Rightarrow> 0 \<le> v \<and> v \<le> 1 | _ \<Rightarrow> False)"
  by (cases x) (auto simp: unit_interval_def f64_clamp_def f64_lt_def)

lemma unit_interval_ok:
  "is_finite x \<Longrightarrow> (case unit_interval x of Fin v \<Rightarrow> 0 \<le> v \<and> v \<le> 1 | _ \<Rightarrow> False)"
  by (rule unit_interval_not_NaN) auto

lemma length_bounded: "bounded v n = Some s \<Longrightarrow> length (chars s) \<le> n"
  by (auto simp: bounded_def bind_eq_Some_conv Let_def chars_concat split: if_splits)

lemma chars_at_most_bounded [simp]: "n \<le> m \<Longrightarrow> chars_at_most m (bounded v n)"
  using length_bounded [of v n] by (fastforce simp: chars_at_most_def split: option.split)

lemma window_ok_None [simp]: "window_ok None"
  by (simp add: window_ok_def)

lemma chars_literal: "list_all (\<lambda>b. byte b < 128) s \<Longrightarrow> length (chars s) = length s"
  by (simp add: chars_ascii)

lemma window_ok_legacy:
  "label \<in> {''5h'', ''Weekly''} \<Longrightarrow> window_ok (legacy_window value label k r)"
  by (auto simp: window_ok_def legacy_window_def chars_literal unit_interval_ok numeric_finite
      split: option.split)

lemma window_ok_codex: "window_ok (codex_window value)"
  by (auto simp: window_ok_def codex_window_def chars_literal unit_interval_ok numeric_finite
      split: option.splits dest: length_bounded)

lemma window_ok_omarchy: "window_ok (omarchy_window env value)"
  by (auto simp: window_ok_def omarchy_window_def bind_eq_Some_conv unit_interval_ok numeric_finite
      split: option.splits dest: length_bounded)

lemma aggregate_ok:
  assumes "is_finite v" "token_range v"
  shows "f64_to_u64 (f64_floor v) \<le> MAX_AGGREGATE_TOKENS"
proof -
  obtain a where v: "v = Fin a" using assms(1) by (cases v) auto
  have "f64_of_nat (unat MAX_AGGREGATE_TOKENS) = Fin (of_nat 1000000000000000)"
    by (subst f64_of_nat_exact) (simp_all add: MAX_AGGREGATE_TOKENS_def)
  with assms(2) v have a: "0 \<le> a" "a \<le> of_nat 1000000000000000"
    by (simp_all add: token_range_def in_range_def)
  then have "unat (f64_to_u64 (f64_floor v)) = nat \<lfloor>a\<rfloor>"
    unfolding v by (rule unat_f64_to_u64_floor) simp
  moreover have "nat \<lfloor>a\<rfloor> \<le> 1000000000000000" using a by (simp add: floor_le_iff nat_le_iff)
  ultimately show ?thesis by (simp add: word_le_nat_alt MAX_AGGREGATE_TOKENS_def)
qed

lemma tokens_at_most_aggregate [simp]: "tokens_at_most (aggregate_tokens v)"
  by (auto simp: tokens_at_most_def aggregate_tokens_def bind_eq_Some_conv aggregate_ok numeric_finite
      split: option.split)

lemma bounded_add_Some:
  "bounded_add a b = Some c \<longleftrightarrow> unat c = unat a + unat b \<and> unat c \<le> unat MAX_AGGREGATE_TOKENS"
proof
  assume "bounded_add a b = Some c"
  then show "unat c = unat a + unat b \<and> unat c \<le> unat MAX_AGGREGATE_TOKENS"
    by (auto simp: bounded_add_def word_le_nat_alt checked_add_Some split: option.splits if_splits)
next
  assume c: "unat c = unat a + unat b \<and> unat c \<le> unat MAX_AGGREGATE_TOKENS"
  have lt: "unat a + unat b < 2 ^ 64" using c by (simp add: MAX_AGGREGATE_TOKENS_def)
  with c have "c = a + b" by (simp add: word_unat_eq_iff unat_word_ariths)
  moreover note lt
  ultimately show "bounded_add a b = Some c"
    using c by (simp add: bounded_add_def checked_add_def word_le_nat_alt)
qed


lemma provider_ok_unavailable: "provider_ok (unavailable_provider i label kind t)"
  by (simp add: provider_ok_def unavailable_provider_def data_free_def tokens_at_most_def
      chars_at_most_def)

lemma window_ok_bind_codex: "window_ok (Option.bind w codex_window)"
  by (cases w) (simp_all add: window_ok_codex)

lemma apply_codex_windows_ok:
  assumes "window_ok (pu_primary p)" "window_ok (pu_secondary p)" "chars_at_most 32 (pu_plan p)"
  shows "window_ok (pu_primary (apply_codex_windows v p))"
    and "window_ok (pu_secondary (apply_codex_windows v p))"
    and "chars_at_most 32 (pu_plan (apply_codex_windows v p))"
  using assms
  by (simp_all add: apply_codex_windows_def Let_def window_ok_bind_codex window_ok_legacy
      split: option.split)

lemma apply_codex_windows_frame [simp]:
  "pu_id (apply_codex_windows v p) = pu_id p" "pu_source (apply_codex_windows v p) = pu_source p"
  "pu_status (apply_codex_windows v p) = pu_status p" "pu_model (apply_codex_windows v p) = pu_model p"
  "pu_today_tokens (apply_codex_windows v p) = pu_today_tokens p"
  "pu_tokens_per_hour (apply_codex_windows v p) = pu_tokens_per_hour p"
  by (simp_all add: apply_codex_windows_def Let_def split: option.split)

lemma provider_ok_legacy_record: "provider_ok (legacy_record i label kind old t value)"
  by (auto simp: legacy_record_def Let_def provider_ok_def trusted_def data_free_def
      window_ok_legacy apply_codex_windows_ok tokens_at_most_def [of None] chars_at_most_def [of _ None])

lemma nth_opt_map_filter_window:
  "window_ok (nth_opt (take n (List.map_filter (omarchy_window env) limits)) k)"
proof (cases "nth_opt (take n (List.map_filter (omarchy_window env) limits)) k")
  case (Some w)
  then have "w \<in> set (List.map_filter (omarchy_window env) limits)"
    by (auto simp: nth_opt_def split: if_splits dest: in_set_takeD [OF nth_mem])
  then obtain v where "omarchy_window env v = Some w"
    by (auto simp: List.map_filter_def)
  with Some show ?thesis by (metis window_ok_omarchy)
qed simp

lemma window_ok_nth_opt_Nil [simp]: "window_ok (nth_opt [] k)"
  by (simp add: nth_opt_def)

lemma provider_ok_omarchy: "provider_ok (read_omarchy_provider env now path i label)"
  by (simp add: read_omarchy_provider_def Let_def provider_ok_unavailable split: option.split)
    (simp add: provider_ok_def trusted_def status_is_usable_def nth_opt_map_filter_window
      tokens_at_most_def [of None] chars_at_most_def [of _ None])

lemma provider_ok_legacy: "provider_ok (read_legacy_provider env c now i label kind)"
  by (simp add: read_legacy_provider_def Let_def provider_ok_unavailable provider_ok_legacy_record
      split: option.split)


section \<open>The OpenCode totals\<close>

text \<open>What the pass over the rows is to compute: the messages of the rows, those within the last
  seven days and at most fifteen minutes ahead, and the sum of the tokens of the recent ones.\<close>

fun row_messages :: "message_row option list \<Rightarrow> opencode_message list option" where
  "row_messages [] = Some []"
| "row_messages (None # rows) = None"
| "row_messages (Some r # rows) =
     (case (read_row r, row_messages rows) of
        (Some None, Some ms) \<Rightarrow> Some ms
      | (Some (Some m), Some ms) \<Rightarrow> Some (m # ms)
      | _ \<Rightarrow> None)"

definition counted :: "u64 \<Rightarrow> opencode_message \<Rightarrow> bool" where
  "counted now m \<longleftrightarrow> om_updated_ms m \<le> saturating_add now FRESH_FOR_MS \<and>
     saturating_sub now SEVEN_DAYS_MS \<le> om_updated_ms m"

definition tokens_since :: "u64 \<Rightarrow> u64 \<Rightarrow> opencode_message list \<Rightarrow> nat" where
  "tokens_since now period ms =
     sum_list (map (unat \<circ> om_tokens)
       (filter (\<lambda>m. saturating_sub now period \<le> om_updated_ms m) (filter (counted now) ms)))"

definition newest :: "opencode_message option \<Rightarrow> opencode_message \<Rightarrow> opencode_message option" where
  "newest best m = (case best of
      None \<Rightarrow> Some m
    | Some b \<Rightarrow> if om_updated_ms b < om_updated_ms m then Some m else Some b)"

lemma add_tokens_Some:
  "add_tokens p a b = Some c \<Longrightarrow> unat c = unat a + (if p then unat b else 0)"
  by (auto simp: add_tokens_def bounded_add_Some split: if_splits)

lemma counted_seven_days: "counted now m \<Longrightarrow> saturating_sub now SEVEN_DAYS_MS \<le> om_updated_ms m"
  by (simp add: counted_def)

lemma add_message_Some:
  assumes "add_message now m t = Some t'"
  shows "if counted now m then
      unat (ot_7d t') = unat (ot_7d t) + unat (om_tokens m) \<and>
      unat (ot_7d t') \<le> unat MAX_AGGREGATE_TOKENS \<and>
      unat (ot_5h t') = unat (ot_5h t) +
        (if saturating_sub now FIVE_HOURS_MS \<le> om_updated_ms m then unat (om_tokens m) else 0) \<and>
      unat (ot_1h t') = unat (ot_1h t) +
        (if saturating_sub now ONE_HOUR_MS \<le> om_updated_ms m then unat (om_tokens m) else 0) \<and>
      ot_latest t' = newest (ot_latest t) m
    else t' = t"
proof (cases "counted now m")
  case False
  then show ?thesis using assms by (auto simp: add_message_def counted_def split: if_splits)
next
  case True
  then have "\<not> saturating_add now FRESH_FOR_MS < om_updated_ms m"
    "\<not> om_updated_ms m < saturating_sub now SEVEN_DAYS_MS" by (auto simp: counted_def)
  with assms obtain t7 t5 t1 where t: "bounded_add (ot_7d t) (om_tokens m) = Some t7"
    "add_tokens (saturating_sub now FIVE_HOURS_MS \<le> om_updated_ms m) (ot_5h t) (om_tokens m) = Some t5"
    "add_tokens (saturating_sub now ONE_HOUR_MS \<le> om_updated_ms m) (ot_1h t) (om_tokens m) = Some t1"
    "t' = \<lparr>ot_5h = t5, ot_7d = t7, ot_1h = t1, ot_latest = newest (ot_latest t) m\<rparr>"
    by (auto simp: add_message_def bind_eq_Some_conv newest_def)
  with True add_tokens_Some [OF t(2)] add_tokens_Some [OF t(3)] show ?thesis
    by (simp add: bounded_add_Some)
qed

lemma foldl_newest:
  "foldl newest best ms = Some l \<Longrightarrow>
     (best = Some l \<or> l \<in> set ms) \<and> (\<forall>m \<in> set ms. om_updated_ms m \<le> om_updated_ms l) \<and>
     (\<forall>b. best = Some b \<longrightarrow> om_updated_ms b \<le> om_updated_ms l)"
proof (induction ms arbitrary: best)
  case (Cons m ms)
  then have "foldl newest (newest best m) ms = Some l" by simp
  from Cons.IH [OF this] show ?case
    by (auto simp: newest_def split: option.splits if_splits)
qed simp

text \<open>The totals \<open>t'\<close> are \<open>t\<close> with the messages \<open>ms\<close> added.\<close>

definition totals_with ::
  "u64 \<Rightarrow> opencode_totals \<Rightarrow> opencode_message list \<Rightarrow> opencode_totals \<Rightarrow> bool" where
  "totals_with now t ms t' \<longleftrightarrow>
     unat (ot_7d t') = unat (ot_7d t) + tokens_since now SEVEN_DAYS_MS ms \<and>
     unat (ot_5h t') = unat (ot_5h t) + tokens_since now FIVE_HOURS_MS ms \<and>
     unat (ot_1h t') = unat (ot_1h t) + tokens_since now ONE_HOUR_MS ms \<and>
     ot_latest t' = foldl newest (ot_latest t) (filter (counted now) ms) \<and>
     (unat (ot_7d t) \<le> unat MAX_AGGREGATE_TOKENS \<longrightarrow> unat (ot_7d t') \<le> unat MAX_AGGREGATE_TOKENS)"

lemma totals_with_Cons:
  assumes "add_message now m t = Some t1" "totals_with now t1 ms t'"
  shows "totals_with now t (m # ms) t'"
  using add_message_Some [OF assms(1)] assms(2) counted_seven_days [of now m]
  by (auto simp: totals_with_def tokens_since_def split: if_splits)

lemma foldl_newest_None: "foldl newest None xs = None \<Longrightarrow> xs = []"
proof (cases xs)
  case (Cons x ys)
  have "foldl newest (Some b) ys \<noteq> None" for b
    by (induction ys arbitrary: b) (auto simp: newest_def)
  then show "foldl newest None xs = None \<Longrightarrow> xs = []" using Cons by (simp add: newest_def)
qed simp

lemma collect_rows_totals:
  "collect_rows now max_rows n rows t = Some t' \<Longrightarrow>
     (\<exists>ms. row_messages rows = Some ms \<and> totals_with now t ms t') \<and>
     (rows \<noteq> [] \<longrightarrow> n + length rows \<le> max_rows)"
proof (induction rows arbitrary: n t)
  case Nil
  then show ?case by (simp add: totals_with_def tokens_since_def)
next
  case (Cons row rows)
  from Cons.prems obtain r where row: "row = Some r" by (cases row) auto
  from Cons.prems row have le: "n + 1 \<le> max_rows" by (auto split: if_splits)
  from Cons.prems row le obtain o' where o': "read_row r = Some o'" by (auto split: option.splits)
  obtain t1 where t1: "collect_rows now max_rows (n + 1) rows t1 = Some t'"
    and first: "case o' of None \<Rightarrow> t1 = t | Some m \<Rightarrow> add_message now m t = Some t1"
    using Cons.prems row le o' by (cases o') (auto simp: bind_eq_Some_conv)
  from Cons.IH [OF t1] obtain ms where ms: "row_messages rows = Some ms" "totals_with now t1 ms t'"
    and len: "rows \<noteq> [] \<longrightarrow> n + 1 + length rows \<le> max_rows" by blast
  have "n + length (row # rows) \<le> max_rows" using len le by (cases rows) auto
  moreover have "\<exists>ms'. row_messages (row # rows) = Some ms' \<and> totals_with now t ms' t'"
    using ms first o' row by (cases o') (auto intro: totals_with_Cons)
  ultimately show ?case by simp
qed

lemma tokens_since_mono: "period \<le> period' \<Longrightarrow> tokens_since now period ms \<le> tokens_since now period' ms"
proof -
  assume le: "period \<le> period'"
  have sub: "saturating_sub now period' \<le> saturating_sub now period"
    using le by (auto simp: word_le_nat_alt unat_saturating_sub)
  show ?thesis
    unfolding tokens_since_def
    by (induction ms) (use sub in \<open>auto simp: trans_le_add2 intro: order_trans\<close>)
qed

lemma collect_opencode_totals:
  assumes "collect_opencode_usage_bounded env path max_rows = Some t"
  shows "\<exists>rows ms. ue_query_messages env path (int (max_rows + 1)) (int MAX_CACHE_BYTES)
      (int (unat (saturating_sub (ue_now_query env) SEVEN_DAYS_MS))) = Some rows \<and>
    row_messages rows = Some ms \<and> length rows \<le> max_rows \<and>
    unat (ot_7d t) = tokens_since (ue_now_query env) SEVEN_DAYS_MS ms \<and>
    unat (ot_5h t) = tokens_since (ue_now_query env) FIVE_HOURS_MS ms \<and>
    unat (ot_1h t) = tokens_since (ue_now_query env) ONE_HOUR_MS ms \<and>
    ot_1h t \<le> ot_5h t \<and> ot_5h t \<le> ot_7d t \<and> ot_7d t \<le> MAX_AGGREGATE_TOKENS \<and>
    (case ot_latest t of
       None \<Rightarrow> filter (counted (ue_now_query env)) ms = []
     | Some l \<Rightarrow> l \<in> set ms \<and> counted (ue_now_query env) l \<and>
         list_all (\<lambda>m. om_updated_ms m \<le> om_updated_ms l) (filter (counted (ue_now_query env)) ms))"
proof -
  let ?t0 = "\<lparr>ot_5h = 0, ot_7d = 0, ot_1h = 0, ot_latest = None\<rparr>"
  let ?now = "ue_now_query env"
  from assms obtain rows where run: "collect_rows ?now max_rows 0 rows ?t0 = Some t"
    and query: "ue_query_messages env path (int (max_rows + 1)) (int MAX_CACHE_BYTES)
      (int (unat (saturating_sub ?now SEVEN_DAYS_MS))) = Some rows"
    by (auto simp: collect_opencode_usage_bounded_def Let_def bind_eq_Some_conv i64_try_from_def
        split: option.splits if_splits)
  from collect_rows_totals [OF run] obtain ms where ms: "row_messages rows = Some ms"
    "totals_with ?now ?t0 ms t" and len: "length rows \<le> max_rows" by (cases "rows = []") auto
  have latest: "case ot_latest t of
       None \<Rightarrow> filter (counted ?now) ms = []
     | Some l \<Rightarrow> l \<in> set ms \<and> counted ?now l \<and>
         list_all (\<lambda>m. om_updated_ms m \<le> om_updated_ms l) (filter (counted ?now) ms)"
  proof (cases "ot_latest t")
    case None
    then have "foldl newest None (filter (counted ?now) ms) = None" using ms(2) by (simp add: totals_with_def)
    with None show ?thesis by (simp add: foldl_newest_None)
  next
    case (Some l)
    then have "foldl newest None (filter (counted ?now) ms) = Some l" using ms(2) by (simp add: totals_with_def)
    from foldl_newest [OF this] Some show ?thesis by (simp add: list_all_iff)
  qed
  have "FIVE_HOURS_MS \<le> SEVEN_DAYS_MS" "ONE_HOUR_MS \<le> FIVE_HOURS_MS"
    by (simp_all add: FIVE_HOURS_MS_def SEVEN_DAYS_MS_def ONE_HOUR_MS_def word_le_nat_alt)
  then have "tokens_since ?now ONE_HOUR_MS ms \<le> tokens_since ?now FIVE_HOURS_MS ms"
    "tokens_since ?now FIVE_HOURS_MS ms \<le> tokens_since ?now SEVEN_DAYS_MS ms"
    by (simp_all add: tokens_since_mono)
  with ms(2) have "unat (ot_7d t) = tokens_since ?now SEVEN_DAYS_MS ms"
    "unat (ot_5h t) = tokens_since ?now FIVE_HOURS_MS ms"
    "unat (ot_1h t) = tokens_since ?now ONE_HOUR_MS ms"
    "ot_1h t \<le> ot_5h t" "ot_5h t \<le> ot_7d t" "ot_7d t \<le> MAX_AGGREGATE_TOKENS"
    by (simp_all add: totals_with_def word_le_nat_alt)
  with query ms(1) len latest show ?thesis by blast
qed

lemma row_messages_model:
  "row_messages rows = Some ms \<Longrightarrow> m \<in> set ms \<Longrightarrow> chars_at_most 80 (om_model m)"
proof (induction rows arbitrary: ms rule: row_messages.induct)
  case (3 r rows)
  have "chars_at_most 80 (om_model x)" if "read_row r = Some (Some x)" for x
    using that by (auto simp: read_row_def parse_opencode_scalars_def bind_eq_Some_conv Let_def
        split: option.splits if_splits)
  with 3 show ?case by (auto split: option.splits)
qed auto

lemma provider_ok_opencode_db: "provider_ok (read_opencode_db env path)"
proof (cases "\<exists>t m. collect_opencode_usage_bounded env path MAX_OPENCODE_ROWS = Some t \<and> ot_latest t = Some m")
  case False
  then show ?thesis
    by (auto simp: read_opencode_db_def Let_def provider_ok_unavailable split: option.split)
next
  case True
  then obtain t m where t: "collect_opencode_usage_bounded env path MAX_OPENCODE_ROWS = Some t" "ot_latest t = Some m"
    by blast
  from collect_opencode_totals [OF t(1)] t(2)
  have le: "ot_1h t \<le> MAX_AGGREGATE_TOKENS" and m: "chars_at_most 80 (om_model m)"
    by (auto intro: row_messages_model)
  have lit: "chars_at_most 32 (Some ''local messages'')" by (simp add: chars_at_most_def chars_literal)
  have win: "window_ok (Some (token_window label x limit))"
    if "label \<in> {''5h'', ''Weekly''}" "0 < unat limit" "unat limit < 2 ^ 53" for label x limit
  proof -
    have "(of_nat (unat limit) :: rat) \<noteq> 0" using that(2) by (simp only: of_nat_eq_0_iff)
    then have "f64_div (f64_of_nat (unat x)) (f64_of_nat (unat limit)) \<noteq> NaN"
      unfolding f64_of_nat_exact [OF that(3)] f64_of_nat_def [of "unat x"] by (rule f64_div_round_not_NaN)
    with that(1) show ?thesis
      by (auto simp: window_ok_def token_window_def chars_literal unit_interval_not_NaN)
  qed
  show ?thesis
    by (simp add: read_opencode_db_def t Let_def provider_ok_def trusted_def status_is_usable_def
        source_is_usable_def m lit le win tokens_at_most_def OPENCODE_5H_LIMIT_def OPENCODE_7D_LIMIT_def)
qed

section \<open>Properties\<close>

text \<open>C33 The pass over the OpenCode messages computes the stated sums: when it succeeds, the query of
  the messages of the last week, with one row more than the limit and the bound on the data, has an
  answer of at most the row limit, every row of it is readable, and the three totals are exactly the sums
  of the tokens of all its messages updated in the last week, five hours and hour (and at most fifteen
  minutes ahead of the clock); a shorter period never has more; none passes the token bound, so no
  sum has wrapped; and the message reported as latest is a counted one that no other is newer than.\<close>

theorem opencode_totals_exact:
  assumes "collect_opencode_usage_bounded env path max_rows = Some t"
  shows "\<exists>rows ms. ue_query_messages env path (int (max_rows + 1)) (int MAX_CACHE_BYTES)
      (int (unat (saturating_sub (ue_now_query env) SEVEN_DAYS_MS))) = Some rows \<and>
    row_messages rows = Some ms \<and> length rows \<le> max_rows \<and>
    unat (ot_7d t) = tokens_since (ue_now_query env) SEVEN_DAYS_MS ms \<and>
    unat (ot_5h t) = tokens_since (ue_now_query env) FIVE_HOURS_MS ms \<and>
    unat (ot_1h t) = tokens_since (ue_now_query env) ONE_HOUR_MS ms \<and>
    ot_1h t \<le> ot_5h t \<and> ot_5h t \<le> ot_7d t \<and> ot_7d t \<le> MAX_AGGREGATE_TOKENS \<and>
    (case ot_latest t of
       None \<Rightarrow> filter (counted (ue_now_query env)) ms = []
     | Some l \<Rightarrow> l \<in> set ms \<and> counted (ue_now_query env) l \<and>
         list_all (\<lambda>m. om_updated_ms m \<le> om_updated_ms l) (filter (counted (ue_now_query env)) ms))"
  using assms by (rule collect_opencode_totals)

text \<open>A machine with nothing but an OpenCode database of one message.\<close>

definition example_row :: message_row where
  "example_row = \<lparr>mr_time_created = Some 100, mr_time_updated = Some 200, mr_role = Some (Some ''assistant''),
     mr_model_id = Some (Some ''m''), mr_provider_id = Some None,
     mr_tokens = [Some (SqlInteger 5), Some SqlNull, Some (SqlInteger 7), Some SqlNull]\<rparr>"

definition example_usage_env :: usage_env where
  "example_usage_env = \<lparr>ue_home = Some ''/h'', ue_xdg_cache_home = None, ue_xdg_state_home = None,
     ue_xdg_data_home = None, ue_exists = (\<lambda>_. False), ue_modified = (\<lambda>_. None), ue_open = (\<lambda>_. None),
     ue_parse_json = (\<lambda>_. None), ue_parse_rfc3339_ns = (\<lambda>_. None),
     ue_query_messages = (\<lambda>_ _ _ _. Some [Some example_row]), ue_now_quota = (\<lambda>_. 300),
     ue_now_query = 300, ue_now_stale = 300\<rparr>"

lemma example_bounded: "bounded (Some ''m'') (Suc n) = Some ''m''"
proof -
  have c: "chars ''m'' = [''m'']" by (subst chars_ascii) simp_all
  then have "trim ''m'' = ''m''" by (simp add: trim_def trim_chunks_def is_whitespace_def)
  with c show ?thesis by (simp add: bounded_def)
qed

lemma example_read_row:
  "read_row example_row = Some (Some \<lparr>om_updated_ms = 200, om_tokens = 12, om_model = Some ''m''\<rparr>)"
  using example_bounded [of 47] example_bounded [of 79]
  by (simp add: read_row_def example_row_def parse_opencode_scalars_def bounded_def [of None]
      sql_aggregate_tokens_def u64_try_from_def bounded_add_def checked_add_def MAX_AGGREGATE_TOKENS_def)

lemma example_collect:
  "collect_opencode_usage_bounded example_usage_env path 3 = Some \<lparr>ot_5h = 12, ot_7d = 12, ot_1h = 12,
     ot_latest = Some \<lparr>om_updated_ms = 200, om_tokens = 12, om_model = Some ''m''\<rparr>\<rparr>"
  by (simp add: collect_opencode_usage_bounded_def example_usage_env_def i64_try_from_def MAX_CACHE_BYTES_def
      saturating_sub_def SEVEN_DAYS_MS_def FIVE_HOURS_MS_def ONE_HOUR_MS_def FRESH_FOR_MS_def
      example_read_row add_message_def add_tokens_def bounded_add_def checked_add_def saturating_add_def
      MAX_AGGREGATE_TOKENS_def)

lemma opencode_totals_exact_witness:
  "\<exists>t. collect_opencode_usage_bounded example_usage_env ''db'' 3 = Some t \<and> ot_7d t = 12 \<and>
     ot_1h t \<le> ot_5h t \<and> ot_5h t \<le> ot_7d t"
  using opencode_totals_exact [OF example_collect [of "''db''"]] example_collect [of "''db''"] by auto

text \<open>C35 Every usage card the collector produces is fit to show: there is one card for each of Claude,
  Codex and OpenCode in this order; utilizations are finite and within the unit interval, labels,
  plans and models within their lengths, token counts within the bound; a card whose source or
  status is not trusted shows no data at all and is marked stale; and an available card has a
  window.\<close>

theorem usage_cards_bounded:
  "map pu_id (us_providers (sample_usage env c)) = [''claude'', ''codex'', ''opencode''] \<and>
   list_all provider_ok (us_providers (sample_usage env c))"
proof -
  have ids: "pu_id (read_legacy_provider env c now i label kind) = i" for now i label kind
    by (simp add: read_legacy_provider_def legacy_record_def unavailable_provider_def Let_def split: option.split)
  have om: "pu_id (read_omarchy_provider env now path i label) = i" for now path i label
    by (simp add: read_omarchy_provider_def unavailable_provider_def Let_def split: option.split)
  have db: "pu_id (read_opencode_db env path) = ''opencode''" for path
    by (simp add: read_opencode_db_def unavailable_provider_def Let_def split: option.split)
  show ?thesis
    by (simp add: sample_usage_def read_quota_provider_def read_opencode_def Let_def ids om db
        provider_ok_omarchy provider_ok_legacy provider_ok_opencode_db)
qed

end
