(* ===== verification/Micro.thy ===== *)
theory Micro
  imports Model
begin

text \<open>
  The collector of the keyboard's status (\<open>micro.rs\<close>). A connection to \<open>microd\<close> yields the lines
  received before the end, an error or the deadline, whichever comes first; where connecting or
  writing the request fails or takes too long there are none. Parsing JSON and reading the
  controller's file are arguments.
\<close>

record micro_env =
  me_xdg_runtime_dir :: "string option"
  me_lines :: "string \<Rightarrow> string list option"
  me_read :: "string \<Rightarrow> string option"
  me_parse_json :: "string \<Rightarrow> json option"
  me_now_message :: u64
  me_now_file :: u64

definition default_socket_path :: "micro_env \<Rightarrow> string" where
  "default_socket_path env =
     path_join (case me_xdg_runtime_dir env of Some d \<Rightarrow> d | None \<Rightarrow> ''/run/user/0'') ''microd/microd.sock''"

definition u8_try_from :: "u64 \<Rightarrow> u8 option" where
  "u8_try_from n = (if n < 256 then Some (ucast n) else None)"

definition get_member :: "string \<Rightarrow> json \<Rightarrow> json option" where
  "get_member k v = Option.bind (jget k v) as_object"

definition firmware_text :: "string \<Rightarrow> string" where
  "firmware_text version =
     concat (take 32 (dropWhile (\<lambda>c. c = ''v'') (chars (trim version))))"

definition status_from_message :: "u64 \<Rightarrow> json \<Rightarrow> micro_snapshot option" where
  "status_from_message now value =
     (if get_str ''event'' value \<noteq> Some ''device_message'' then None else
      Option.bind (jget ''message'' value) (\<lambda>message.
      if get_str ''method'' message \<noteq> Some ''device.status'' then None else
      Option.bind (get_member ''result'' message) (\<lambda>r.
      Option.bind (get_str ''version'' r) (\<lambda>version.
      let firmware = firmware_text version in
      if firmware = [] then None
      else Some \<lparr>ms_connected = True, ms_controlled = False, ms_slots = [], ms_firmware = Some firmware,
        ms_battery = map_option (\<lambda>b. ucast (min b 100)) (get_u64 ''battery'' r),
        ms_charging = (get_bool ''is_charging'' r = Some True),
        ms_layer = Option.bind (get_u64 ''layer_index'' r) u8_try_from,
        ms_profile = Option.bind (get_u64 ''profile_index'' r) u8_try_from,
        ms_last_updated_ms = Some now\<rparr>))))"

text \<open>The first line that is a status; a line that is not JSON is skipped.\<close>

fun first_status :: "micro_env \<Rightarrow> string list \<Rightarrow> micro_snapshot option" where
  "first_status env [] = None"
| "first_status env (line # rest) =
     (case Option.bind (me_parse_json env line) (status_from_message (me_now_message env)) of
        Some status \<Rightarrow> Some status
      | None \<Rightarrow> first_status env rest)"

definition controller_path :: "string \<Rightarrow> string option" where
  "controller_path socket =
     map_option (\<lambda>runtime. path_join runtime ''xeneon-edge-agents/micro-controller.json'')
       (Option.bind (path_parent socket) path_parent)"

definition controls :: "u64 \<Rightarrow> json \<Rightarrow> bool" where
  "controls now status \<longleftrightarrow>
     get_bool ''controlled'' status = Some True \<and> get_str ''backend'' status = Some ''t3code'' \<and>
     (case get_u64 ''updated_at_ms'' status of Some t \<Rightarrow> abs_diff now t < 15000 | None \<Rightarrow> False)"

definition slot_ids :: "json \<Rightarrow> string list" where
  "slot_ids status =
     (case get_array ''slots'' status of
        None \<Rightarrow> []
      | Some slots \<Rightarrow> filter (\<lambda>i. length i \<le> 128) (List.map_filter as_str (take 6 slots)))"

definition controller_status :: "micro_env \<Rightarrow> string \<Rightarrow> json option" where
  "controller_status env socket =
     Option.bind (controller_path socket) (\<lambda>path.
     Option.bind (me_read env path) (\<lambda>bytes.
       if length bytes \<le> 4096 then me_parse_json env bytes else None))"

definition sample_micro :: "micro_env \<Rightarrow> string \<Rightarrow> micro_snapshot" where
  "sample_micro env socket =
     (case Option.bind (me_lines env socket) (first_status env) of
        None \<Rightarrow> default_micro
      | Some sample \<Rightarrow>
          (case controller_status env socket of
             Some status \<Rightarrow>
               if controls (me_now_file env) status
               then sample\<lparr>ms_controlled := True, ms_slots := slot_ids status\<rparr> else sample
           | None \<Rightarrow> sample))"

section \<open>What a sample may hold\<close>

definition micro_ok :: "micro_snapshot \<Rightarrow> bool" where
  "micro_ok m \<longleftrightarrow>
     (case ms_firmware m of Some f \<Rightarrow> f \<noteq> [] \<and> length (chars f) \<le> 32 | None \<Rightarrow> m = default_micro) \<and>
     (case ms_battery m of Some b \<Rightarrow> b \<le> 100 | None \<Rightarrow> True) \<and>
     length (ms_slots m) \<le> 6 \<and> list_all (\<lambda>i. length i \<le> 128) (ms_slots m) \<and>
     (ms_controlled m \<or> ms_slots m = []) \<and> (ms_connected m \<or> m = default_micro)"

lemma length_chars_firmware: "length (chars (firmware_text v)) \<le> 32"
  by (simp add: firmware_text_def chars_concat)

lemma ucast_min_100: "(ucast (min b 100) :: u8) \<le> 100" for b :: u64
proof -
  have le: "unat (min b 100) \<le> 100" by (auto simp: min_def word_le_nat_alt)
  then have "unat (ucast (min b 100) :: u8) = unat (min b 100)"
    by (simp add: unsigned_ucast_eq take_bit_nat_eq_self_iff)
  with le show ?thesis by (simp add: word_le_nat_alt)
qed

lemma status_from_message_Some:
  assumes "status_from_message now v = Some m"
  shows "micro_ok m \<and> ms_connected m \<and> \<not> ms_controlled m \<and> ms_slots m = [] \<and> ms_last_updated_ms m = Some now"
  using assms
  by (auto simp: status_from_message_def bind_eq_Some_conv Let_def micro_ok_def length_chars_firmware
      ucast_min_100 split: if_splits option.split)

lemma first_status_Some:
  "first_status env ls = Some m \<Longrightarrow>
     \<exists>l \<in> set ls. \<exists>v. me_parse_json env l = Some v \<and> status_from_message (me_now_message env) v = Some m"
  by (induction ls) (auto simp: bind_eq_Some_conv split: option.splits)

lemma map_filter_le: "length (List.map_filter f xs) \<le> length xs"
  by (induction xs) (auto simp: map_filter_simps split: option.split)

lemma slot_ids_ok: "length (slot_ids status) \<le> 6 \<and> list_all (\<lambda>i. length i \<le> 128) (slot_ids status)"
proof -
  have "length (filter p (List.map_filter f (take 6 xs))) \<le> 6"
    for p :: "string \<Rightarrow> bool" and f :: "json \<Rightarrow> string option" and xs
  proof -
    have "length (filter p (List.map_filter f (take 6 xs))) \<le> length (List.map_filter f (take 6 xs))"
      by (rule length_filter_le)
    also have "\<dots> \<le> length (take 6 xs)" using map_filter_le [of f "take 6 xs"] .
    also have "\<dots> \<le> 6" by simp
    finally show ?thesis .
  qed
  then show ?thesis by (auto simp: slot_ids_def list_all_iff split: option.split)
qed

definition controlled_by :: "micro_env \<Rightarrow> string \<Rightarrow> bool" where
  "controlled_by env socket \<longleftrightarrow>
     (\<exists>status. controller_status env socket = Some status \<and> controls (me_now_file env) status)"

lemma controlled_by_iff:
  "controlled_by env socket \<longleftrightarrow>
     (\<exists>path bytes status. controller_path socket = Some path \<and> me_read env path = Some bytes \<and>
         length bytes \<le> 4096 \<and> me_parse_json env bytes = Some status \<and>
         get_bool ''controlled'' status = Some True \<and> get_str ''backend'' status = Some ''t3code'' \<and>
         (\<exists>t. get_u64 ''updated_at_ms'' status = Some t \<and> abs_diff (me_now_file env) t < 15000))"
proof -
  have "controls now status \<longleftrightarrow> get_bool ''controlled'' status = Some True \<and>
      get_str ''backend'' status = Some ''t3code'' \<and>
      (\<exists>t. get_u64 ''updated_at_ms'' status = Some t \<and> abs_diff now t < 15000)" for now status
    by (auto simp: controls_def split: option.split)
  moreover have "controller_status env socket = Some status \<longleftrightarrow>
      (\<exists>path bytes. controller_path socket = Some path \<and> me_read env path = Some bytes \<and>
         length bytes \<le> 4096 \<and> me_parse_json env bytes = Some status)" for status
    by (auto simp: controller_status_def bind_eq_Some_conv split: if_splits)
  ultimately show ?thesis unfolding controlled_by_def by blast
qed

section \<open>Properties\<close>

text \<open>The keyboard's status fails closed and is bounded: without a status message the sample is the
  empty one; with one it has a firmware of at most 32 characters and a battery of at most 100; the
  sample is marked as controlled, and has slots (at most six, of at most 128 bytes), only while a
  controller file of at most 4096 bytes says that T3 Code controls it, within fifteen seconds of
  the clock.\<close>

lemma micro_sample_bounded:
  "micro_ok (sample_micro env socket) \<and>
   (ms_connected (sample_micro env socket) \<longleftrightarrow>
      (\<exists>ls. me_lines env socket = Some ls \<and> first_status env ls \<noteq> None)) \<and>
   (ms_controlled (sample_micro env socket) \<longleftrightarrow> ms_connected (sample_micro env socket) \<and>
      (\<exists>path bytes status. controller_path socket = Some path \<and> me_read env path = Some bytes \<and>
         length bytes \<le> 4096 \<and> me_parse_json env bytes = Some status \<and>
         get_bool ''controlled'' status = Some True \<and> get_str ''backend'' status = Some ''t3code'' \<and>
         (\<exists>t. get_u64 ''updated_at_ms'' status = Some t \<and> abs_diff (me_now_file env) t < 15000)))"
proof (cases "Option.bind (me_lines env socket) (first_status env)")
  case None
  then have s: "sample_micro env socket = default_micro" by (simp add: sample_micro_def)
  have no: "\<nexists>ls. me_lines env socket = Some ls \<and> first_status env ls \<noteq> None" using None by auto
  have d: "micro_ok default_micro" "\<not> ms_connected default_micro" "\<not> ms_controlled default_micro"
    by (simp_all add: micro_ok_def default_micro_def)
  show ?thesis unfolding s using no d by blast
next
  case (Some m)
  then obtain ls where ls: "me_lines env socket = Some ls" "first_status env ls = Some m"
    by (auto simp: bind_eq_Some_conv)
  from first_status_Some [OF ls(2)] obtain v
    where "status_from_message (me_now_message env) v = Some m" by blast
  note m = status_from_message_Some [OF this]
  have ok: "micro_ok (m\<lparr>ms_controlled := True, ms_slots := slot_ids status\<rparr>)" for status
    using m slot_ids_ok [of status] by (auto simp: micro_ok_def default_micro_def split: option.splits)
  have sample: "sample_micro env socket = (case controller_status env socket of
      Some status \<Rightarrow> if controls (me_now_file env) status
        then m\<lparr>ms_controlled := True, ms_slots := slot_ids status\<rparr> else m
    | None \<Rightarrow> m)"
    using ls by (simp add: sample_micro_def)
  have some: "\<exists>ls. me_lines env socket = Some ls \<and> first_status env ls \<noteq> None" using ls by auto
  show ?thesis
  proof (cases "controlled_by env socket")
    case True
    then obtain status where "controller_status env socket = Some status" "controls (me_now_file env) status"
      by (auto simp: controlled_by_def)
    then have "sample_micro env socket = m\<lparr>ms_controlled := True, ms_slots := slot_ids status\<rparr>"
      by (simp add: sample)
    with True m ok some show ?thesis unfolding controlled_by_iff [symmetric] by simp
  next
    case False
    then have "sample_micro env socket = m"
      by (auto simp: sample controlled_by_def split: option.split)
    with False m some show ?thesis unfolding controlled_by_iff [symmetric] by simp
  qed
qed

end
