(* ===== verification/Health.thy ===== *)
theory Health
  imports Model
begin

text \<open>
  The collector of the machine's health (\<open>health.rs\<close>): it reads \<open>/proc\<close> and \<open>/sys\<close>, and keeps the
  previous counters of the processor and the network. Reading a file (\<open>None\<close> where it fails or is
  not UTF-8) and listing a directory (the entries that can be read) are the environment; an instant
  is in nanoseconds. Sums of counters are those of a release build, where they wrap.
\<close>

record directory_entry =
  hd_name :: string
  hd_is_dir :: bool
  hd_leads_to_dir :: bool

record health_env =
  he_read :: "string \<Rightarrow> string option"
  he_entries :: "string \<Rightarrow> directory_entry list"

record cpu_totals =
  ct_total :: u64
  ct_idle :: u64

record network_totals =
  nt_down :: u64
  nt_up :: u64

record health_collector =
  hc_proc_root :: string
  hc_sys_root :: string
  hc_previous_cpu :: "cpu_totals option"
  hc_previous_network :: "(network_totals \<times> nat) option"

definition new_health_collector :: "string \<Rightarrow> string \<Rightarrow> health_collector" where
  "new_health_collector proc_root sys_root =
     \<lparr>hc_proc_root = proc_root, hc_sys_root = sys_root, hc_previous_cpu = None,
      hc_previous_network = None\<rparr>"

definition default_health_collector :: health_collector where
  "default_health_collector = new_health_collector ''/proc'' ''/sys''"

definition metric_of :: "f64 option \<Rightarrow> string \<Rightarrow> metric" where
  "metric_of value u = (case value of Some v \<Rightarrow> metric_available v u | None \<Rightarrow> metric_unavailable u)"

fun find_map :: "('a \<Rightarrow> 'b option) \<Rightarrow> 'a list \<Rightarrow> 'b option" where
  "find_map f [] = None"
| "find_map f (x # xs) = (case f x of Some y \<Rightarrow> Some y | None \<Rightarrow> find_map f xs)"

section \<open>Reading /proc\<close>

definition read_cpu_totals :: "health_env \<Rightarrow> string \<Rightarrow> cpu_totals option" where
  "read_cpu_totals env path =
     Option.bind (he_read env path) (\<lambda>contents.
       case lines contents of
         [] \<Rightarrow> None
       | line # _ \<Rightarrow>
           Option.bind (strip_prefix ''cpu '' line) (\<lambda>columns.
             let vals = List.map_filter parse_u64 (split_whitespace columns) in
             if length vals < 4 then None
             else Some \<lparr>ct_total = sum_list vals,
                        ct_idle = vals ! 3 + (if 4 < length vals then vals ! 4 else 0)\<rparr>))"

text \<open>The two columns; a line without a field, or a sought one without a value, ends the search.\<close>

fun memory_fields :: "string list \<Rightarrow> f64 option \<times> f64 option \<Rightarrow> (f64 option \<times> f64 option) option" where
  "memory_fields [] found = Some found"
| "memory_fields (line # rest) (total_kb, available_kb) =
     (case split_whitespace line of
        [] \<Rightarrow> None
      | key # columns \<Rightarrow>
          if key = ''MemTotal:'' then
            (case columns of [] \<Rightarrow> None | v # _ \<Rightarrow> memory_fields rest (parse_f64 v, available_kb))
          else if key = ''MemAvailable:'' then
            (case columns of [] \<Rightarrow> None | v # _ \<Rightarrow> memory_fields rest (total_kb, parse_f64 v))
          else memory_fields rest (total_kb, available_kb))"

definition memory_percent :: "health_env \<Rightarrow> string \<Rightarrow> f64 option" where
  "memory_percent env path =
     Option.bind (he_read env path) (\<lambda>contents.
     Option.bind (memory_fields (lines contents) (None, None)) (\<lambda>(total_kb, available_kb).
     Option.bind total_kb (\<lambda>t.
     Option.bind available_kb (\<lambda>a.
       if f64_lt (Fin 0) t then Some (f64_div (f64_mul (Fin 100) (f64_sub t a)) t) else None))))"

definition network_line :: "string \<Rightarrow> (u64 \<times> u64) option" where
  "network_line line =
     Option.bind (split_once (CHR '':'') line) (\<lambda>(name, counters).
       if trim name = ''lo'' then None
       else let columns = split_whitespace counters in
         if length columns < 9 then None
         else (case (parse_u64 (columns ! 0), parse_u64 (columns ! 8)) of
             (Some down, Some up) \<Rightarrow> Some (down, up) | _ \<Rightarrow> None))"

definition add_interface :: "u64 \<times> u64 \<Rightarrow> network_totals \<Rightarrow> network_totals" where
  "add_interface = (\<lambda>(down, up) t.
     \<lparr>nt_down = saturating_add (nt_down t) down, nt_up = saturating_add (nt_up t) up\<rparr>)"

definition read_network_totals :: "health_env \<Rightarrow> string \<Rightarrow> network_totals option" where
  "read_network_totals env path =
     Option.bind (he_read env path) (\<lambda>contents.
       let interfaces = List.map_filter network_line (drop 2 (lines contents)) in
       if interfaces = [] then None
       else Some (fold add_interface interfaces \<lparr>nt_down = 0, nt_up = 0\<rparr>))"

section \<open>Reading /sys\<close>

definition read_number :: "health_env \<Rightarrow> string \<Rightarrow> f64 \<Rightarrow> f64 option" where
  "read_number env path divisor =
     Option.bind (he_read env path) (\<lambda>contents.
       map_option (\<lambda>v. f64_div v divisor) (parse_f64 (trim contents)))"

text \<open>Sorting the paths of one directory is sorting their names, byte by byte.\<close>

definition sorted_paths :: "(directory_entry \<Rightarrow> bool) \<Rightarrow> health_env \<Rightarrow> string \<Rightarrow> string list" where
  "sorted_paths p env dir = map (path_join dir) (sort (map hd_name (filter p (he_entries env dir))))"

definition sorted_dirs :: "health_env \<Rightarrow> string \<Rightarrow> string list" where
  "sorted_dirs = sorted_paths hd_is_dir"

definition sorted_dirs_following_symlinks :: "health_env \<Rightarrow> string \<Rightarrow> string list" where
  "sorted_dirs_following_symlinks = sorted_paths hd_leads_to_dir"

definition is_card :: "directory_entry \<Rightarrow> bool" where
  "is_card entry \<longleftrightarrow> utf8_valid (hd_name entry) \<and>
     (case strip_prefix ''card'' (hd_name entry) of
        Some index \<Rightarrow> index \<noteq> [] \<and> list_all is_ascii_digit index | None \<Rightarrow> False)"

definition drm_cards :: "health_env \<Rightarrow> string \<Rightarrow> string list" where
  "drm_cards = sorted_paths is_card"

definition battery_percent :: "health_env \<Rightarrow> string \<Rightarrow> f64 option" where
  "battery_percent env dir =
     find_map (\<lambda>path. read_number env (path_join path ''capacity'') (Fin 1))
       (filter (\<lambda>path. case he_read env (path_join path ''type'') of
            Some v \<Rightarrow> trim v = ''Battery'' | None \<Rightarrow> False) (sorted_dirs env dir))"

text \<open>\<open>max_by(f64::total_cmp)\<close>: of several greatest values the last.\<close>

definition greatest :: "f64 list \<Rightarrow> f64 option" where
  "greatest vs = foldl (\<lambda>best v. case best of
       None \<Rightarrow> Some v | Some b \<Rightarrow> if f64_le b v then Some v else Some b) None vs"

definition plausible :: "f64 \<Rightarrow> bool" where
  "plausible v \<longleftrightarrow> f64_le (Fin (- 20)) v \<and> f64_le v (Fin 150)"

definition first_temperature :: "health_env \<Rightarrow> string \<Rightarrow> f64 option" where
  "first_temperature env dir =
     greatest (filter plausible (List.map_filter
       (\<lambda>path. read_number env (path_join path ''temp'') (Fin 1000)) (sorted_dirs env dir)))"

definition gpu_temperature :: "health_env \<Rightarrow> string \<Rightarrow> f64 option" where
  "gpu_temperature env sys_root =
     find_map (\<lambda>card.
       find_map (\<lambda>hwmon. read_number env (path_join hwmon ''temp1_input'') (Fin 1000))
         (sorted_dirs_following_symlinks env (path_join (path_join card ''device'') ''hwmon'')))
       (drm_cards env (path_join sys_root ''class/drm''))"

definition gpu_busy_percent :: "health_env \<Rightarrow> string \<Rightarrow> f64 option" where
  "gpu_busy_percent env sys_root =
     find_map (\<lambda>card.
       case read_number env (path_join card ''device/gpu_busy_percent'') (Fin 1) of
         Some v \<Rightarrow> Some v
       | None \<Rightarrow> read_number env (path_join card ''gpu_busy_percent'') (Fin 1))
       (drm_cards env (path_join sys_root ''class/drm''))"

section \<open>Sampling\<close>

definition cpu_percent :: "cpu_totals \<Rightarrow> cpu_totals \<Rightarrow> f64 option" where
  "cpu_percent current previous =
     Option.bind (checked_sub (ct_total current) (ct_total previous)) (\<lambda>t.
     Option.bind (checked_sub (ct_idle current) (ct_idle previous)) (\<lambda>idle.
       if 0 < t then Some (f64_div (f64_mul (Fin 100) (f64_of_nat (unat (saturating_sub t idle))))
                                   (f64_of_nat (unat t)))
       else None))"

definition sample_cpu :: "health_env \<Rightarrow> health_collector \<Rightarrow> metric \<times> health_collector" where
  "sample_cpu env c =
     (let current = read_cpu_totals env (path_join (hc_proc_root c) ''stat'') in
      (metric_of (Option.bind current (\<lambda>now. Option.bind (hc_previous_cpu c) (cpu_percent now))) ''%'',
       c\<lparr>hc_previous_cpu := current\<rparr>))"

text \<open>\<open>Duration::as_secs_f64\<close> of the time between two instants, none where it would be negative.\<close>

definition as_secs_f64 :: "nat \<Rightarrow> f64" where
  "as_secs_f64 ns = f64_add (f64_of_nat (ns div 1000000000))
     (f64_div (f64_of_nat (ns mod 1000000000)) (Fin 1000000000))"

definition network_rate :: "u64 \<Rightarrow> u64 \<Rightarrow> f64 \<Rightarrow> metric" where
  "network_rate current previous elapsed =
     metric_available (f64_div (f64_of_nat (unat (saturating_sub current previous))) elapsed) ''B/s''"

definition sample_network ::
  "health_env \<Rightarrow> nat \<Rightarrow> health_collector \<Rightarrow> (metric \<times> metric) \<times> health_collector" where
  "sample_network env now c =
     (let unavailable = (metric_unavailable ''B/s'', metric_unavailable ''B/s'') in
      case read_network_totals env (path_join (hc_proc_root c) ''net/dev'') of
        None \<Rightarrow> (unavailable, c)
      | Some current \<Rightarrow>
          ((case hc_previous_network c of
              None \<Rightarrow> unavailable
            | Some (previous, previous_at) \<Rightarrow>
                let elapsed = as_secs_f64 (now - previous_at) in
                if f64_lt (Fin 0) elapsed
                then (network_rate (nt_down current) (nt_down previous) elapsed,
                      network_rate (nt_up current) (nt_up previous) elapsed)
                else unavailable),
           c\<lparr>hc_previous_network := Some (current, now)\<rparr>))"

definition sample_health ::
  "health_env \<Rightarrow> nat \<Rightarrow> health_collector \<Rightarrow> health_snapshot \<times> health_collector" where
  "sample_health env now c =
     (let (cpu, c) = sample_cpu env c;
          ((down, up), c) = sample_network env now c;
          sys = hc_sys_root c
      in (\<lparr>hs_cpu = cpu,
           hs_cpu_temperature = metric_of (first_temperature env (path_join sys ''class/thermal'')) celsius,
           hs_gpu = metric_of (gpu_busy_percent env sys) ''%'',
           hs_gpu_temperature = metric_of (gpu_temperature env sys) celsius,
           hs_memory = metric_of (memory_percent env (path_join (hc_proc_root c) ''meminfo'')) ''%'',
           hs_network_down = down, hs_network_up = up,
           hs_battery = metric_of (battery_percent env (path_join sys ''class/power_supply'')) ''%''\<rparr>, c))"


section \<open>Ranges\<close>

lemma f64_le_trans: "f64_le a b \<Longrightarrow> f64_le b c \<Longrightarrow> f64_le a c"
  by (cases a; cases b; cases c) auto

lemma f64_le_total: "a \<noteq> NaN \<Longrightarrow> b \<noteq> NaN \<Longrightarrow> f64_le a b \<or> f64_le b a"
  by (cases a; cases b) auto

lemma f64_le_refl: "a \<noteq> NaN \<Longrightarrow> f64_le a a"
  by (cases a) auto

abbreviation greater :: "f64 option \<Rightarrow> f64 \<Rightarrow> f64 option" where
  "greater \<equiv> (\<lambda>best v. case best of None \<Rightarrow> Some v | Some b \<Rightarrow> if f64_le b v then Some v else Some b)"

lemma foldl_greater:
  "foldl greater (Some b) vs = Some m \<Longrightarrow> b \<noteq> NaN \<Longrightarrow> NaN \<notin> set vs \<Longrightarrow>
     (m = b \<or> m \<in> set vs) \<and> f64_le b m \<and> list_all (\<lambda>v. f64_le v m) vs"
proof (induction vs arbitrary: b)
  case Nil
  then show ?case by (simp add: f64_le_refl)
next
  case (Cons v vs)
  show ?case
  proof (cases "f64_le b v")
    case True
    then show ?thesis using Cons.IH [of v] Cons.prems by (auto intro: f64_le_trans)
  next
    case False
    then have "f64_le v b" using f64_le_total [of b v] Cons.prems by auto
    with False show ?thesis using Cons.IH [of b] Cons.prems by (auto intro: f64_le_trans)
  qed
qed

lemma greatest_Some:
  assumes "greatest vs = Some m" "NaN \<notin> set vs"
  shows "m \<in> set vs \<and> list_all (\<lambda>v. f64_le v m) vs"
proof (cases vs)
  case Nil
  then show ?thesis using assms(1) by (simp add: greatest_def)
next
  case (Cons v ws)
  then have "foldl greater (Some v) ws = Some m" using assms(1) by (simp add: greatest_def)
  from foldl_greater [OF this] show ?thesis using assms(2) Cons by auto
qed

lemma cpu_percent_range:
  assumes "cpu_percent current previous = Some v"
    and "unat (ct_total current) < unat (ct_total previous) + 2 ^ 46"
  shows "\<exists>p. v = Fin p \<and> 0 \<le> p \<and> p \<le> 100"
proof -
  from assms(1) obtain idle where
    tot: "ct_total previous \<le> ct_total current" and "ct_idle previous \<le> ct_idle current"
    and pos: "0 < ct_total current - ct_total previous"
    and v: "v = f64_div (f64_mul (Fin 100) (f64_of_nat (unat (saturating_sub (ct_total current - ct_total previous) idle))))
       (f64_of_nat (unat (ct_total current - ct_total previous)))"
    by (auto simp: cpu_percent_def bind_eq_Some_conv checked_sub_Some split: if_splits)
  define t where "t = unat (ct_total current - ct_total previous)"
  define b where "b = unat (saturating_sub (ct_total current - ct_total previous) idle)"
  have "t = unat (ct_total current) - unat (ct_total previous)"
    using tot by (simp add: t_def unat_sub)
  then have t46: "t < 2 ^ 46" using assms(2) by simp
  have bt: "b \<le> t" by (simp add: b_def t_def unat_saturating_sub)
  have t0: "0 < t" using pos by (simp add: t_def word_less_nat_alt)
  have "f64_mul (Fin 100) (f64_of_nat b) = f64_of_nat (100 * b)"
    using f64_of_nat_exact [of b] bt t46 by (simp add: f64_of_nat_def [of "100 * b"])
  also have "\<dots> = Fin (of_nat (100 * b))" using bt t46 by (intro f64_of_nat_exact) simp
  finally have m: "f64_mul (Fin 100) (f64_of_nat b) = Fin (of_nat (100 * b))" .
  have "f64_of_nat t = Fin (of_nat t)" using t46 by (intro f64_of_nat_exact) simp
  with m t0 have "v = f64_round (of_nat (100 * b) / of_nat t)"
    by (simp add: v flip: b_def t_def)
  moreover have "(of_nat (100 * b) / of_nat t :: rat) \<le> of_nat 100"
  proof -
    have "(of_nat (100 * b) :: rat) \<le> of_nat (100 * t)" using bt by (simp only: of_nat_le_iff)
    then show ?thesis using t0 by (simp add: pos_divide_le_eq)
  qed
  ultimately show ?thesis
    using f64_round_le [of "of_nat (100 * b) / of_nat t" 100] by simp
qed

lemma network_rate_nonneg:
  assumes "f64_lt (Fin 0) elapsed"
  shows "\<exists>r. m_value (network_rate current previous elapsed) = Some r \<and> f64_le (Fin 0) r"
proof -
  obtain v where "f64_of_nat (unat (saturating_sub current previous)) = Fin v" "0 \<le> v"
    using f64_of_nat_u64 by blast
  then have "f64_le (Fin 0) (f64_div (f64_of_nat (unat (saturating_sub current previous))) elapsed)"
    using assms by (cases elapsed) (auto simp: f64_lt_def f64_round_nonneg)
  then show ?thesis by (simp add: network_rate_def metric_available_def)
qed


lemma metric_of_value [simp]: "m_value (metric_of v u) = v" "m_unit (metric_of v u) = u"
  "m_available (metric_of v u) \<longleftrightarrow> v \<noteq> None"
  by (simp_all add: metric_of_def metric_available_def metric_unavailable_def split: option.split)

lemma first_temperature_plausible:
  assumes "first_temperature env dir = Some v"
  shows "\<exists>t. v = Fin t \<and> - 20 \<le> t \<and> t \<le> 150"
proof -
  have "NaN \<notin> set (filter plausible vs)" for vs by (auto simp: plausible_def)
  with assms have "v \<in> set (filter plausible (List.map_filter
      (\<lambda>path. read_number env (path_join path ''temp'') (Fin 1000)) (sorted_dirs env dir)))"
    unfolding first_temperature_def by (blast dest: greatest_Some)
  then have "plausible v" by simp
  then show ?thesis by (cases v) (auto simp: plausible_def)
qed

lemma sample_network_nonneg:
  assumes "sample_network env now c = ((down, up), c')" "m_value down = Some v \<or> m_value up = Some v"
  shows "f64_le (Fin 0) v"
proof -
  have none: "m_value (metric_unavailable u) = None" for u by (simp add: metric_unavailable_def)
  have "\<exists>(q :: network_totals) (p :: network_totals) since. f64_lt (Fin 0) (as_secs_f64 (now - since)) \<and>
    down = network_rate (nt_down q) (nt_down p) (as_secs_f64 (now - since)) \<and>
    up = network_rate (nt_up q) (nt_up p) (as_secs_f64 (now - since))"
    using assms none by (auto simp: sample_network_def Let_def split: option.splits if_splits) blast+
  then obtain q p :: network_totals and since where "f64_lt (Fin 0) (as_secs_f64 (now - since))"
    "down = network_rate (nt_down q) (nt_down p) (as_secs_f64 (now - since))"
    "up = network_rate (nt_up q) (nt_up p) (as_secs_f64 (now - since))" by blast
  then show ?thesis using assms(2) network_rate_nonneg by (metis option.inject)
qed

lemma sample_network_frame:
  "sample_network env now c = (m, c') \<Longrightarrow> hc_previous_cpu c' = hc_previous_cpu c \<and>
     hc_proc_root c' = hc_proc_root c \<and> hc_sys_root c' = hc_sys_root c"
  by (auto simp: sample_network_def Let_def split: option.splits)

lemma sample_health_parts:
  assumes "sample_health env now c = (s, c')"
  obtains current down up where
    "current = read_cpu_totals env (path_join (hc_proc_root c) ''stat'')"
    "hs_cpu s = metric_of (Option.bind current (\<lambda>now. Option.bind (hc_previous_cpu c) (cpu_percent now))) ''%''"
    "hc_previous_cpu c' = current"
    "sample_network env now (c\<lparr>hc_previous_cpu := current\<rparr>) = ((hs_network_down s, hs_network_up s), c')"
    "hs_cpu_temperature s = metric_of (first_temperature env (path_join (hc_sys_root c) ''class/thermal'')) celsius"
proof -
  define current where "current = read_cpu_totals env (path_join (hc_proc_root c) ''stat'')"
  obtain down up c1 where net: "sample_network env now (c\<lparr>hc_previous_cpu := current\<rparr>) = ((down, up), c1)"
    by (metis surj_pair)
  from sample_network_frame [OF net] assms net show ?thesis
    by (intro that [of current]) (auto simp: current_def sample_health_def sample_cpu_def Let_def)
qed

section \<open>Properties\<close>

text \<open>C36 What a health sample shows is in range: the processor's temperature is between -20 and 150
  degrees, the network rates are not negative even when a counter was reset, and the processor's
  load is between 0 and 100 per cent while its counters advance by less than \<open>2 ^ 46\<close> ticks.\<close>

theorem health_sample_ranges:
  assumes "sample_health env now c = (s, c')"
  shows "(\<forall>v. m_value (hs_cpu_temperature s) = Some v \<longrightarrow> (\<exists>t. v = Fin t \<and> - 20 \<le> t \<and> t \<le> 150)) \<and>
    (\<forall>v. m_value (hs_network_down s) = Some v \<or> m_value (hs_network_up s) = Some v \<longrightarrow> f64_le (Fin 0) v) \<and>
    (\<forall>v p q. m_value (hs_cpu s) = Some v \<longrightarrow> hc_previous_cpu c = Some p \<longrightarrow> hc_previous_cpu c' = Some q \<longrightarrow>
       unat (ct_total q) < unat (ct_total p) + 2 ^ 46 \<longrightarrow> (\<exists>x. v = Fin x \<and> 0 \<le> x \<and> x \<le> 100))"
  using assms
proof (rule sample_health_parts)
  fix current
  assume cpu: "hs_cpu s = metric_of (Option.bind current (\<lambda>now. Option.bind (hc_previous_cpu c) (cpu_percent now))) ''%''"
      "hc_previous_cpu c' = current"
    and net: "sample_network env now (c\<lparr>hc_previous_cpu := current\<rparr>) = ((hs_network_down s, hs_network_up s), c')"
    and temp: "hs_cpu_temperature s =
      metric_of (first_temperature env (path_join (hc_sys_root c) ''class/thermal'')) celsius"
  have "\<exists>x. v = Fin x \<and> 0 \<le> x \<and> x \<le> 100"
    if "m_value (hs_cpu s) = Some v" "hc_previous_cpu c = Some p" "hc_previous_cpu c' = Some q"
      "unat (ct_total q) < unat (ct_total p) + 2 ^ 46" for v p q
    using cpu_percent_range [of q p v] that cpu by simp
  with sample_network_nonneg [OF net] first_temperature_plausible temp show ?thesis by auto
qed

text \<open>A machine with one thermal sensor, whose processor was busy for half of the last hundred ticks.\<close>

definition example_health_env :: health_env where
  "example_health_env =
     \<lparr>he_read = (\<lambda>path. if path = ''/sys/class/thermal/t0/temp'' then Some ''0'' else
        if path = ''/proc/stat'' then Some ''cpu 50 0 0 50'' else None),
      he_entries = (\<lambda>path. if path = ''/sys/class/thermal''
        then [\<lparr>hd_name = ''t0'', hd_is_dir = True, hd_leads_to_dir = True\<rparr>] else [])\<rparr>"

definition example_collector :: health_collector where
  "example_collector = default_health_collector\<lparr>hc_previous_cpu := Some \<lparr>ct_total = 0, ct_idle = 0\<rparr>\<rparr>"

lemma example_temperature: "\<exists>v. first_temperature example_health_env ''/sys/class/thermal'' = Some v"
proof -
  have dirs: "sorted_dirs example_health_env ''/sys/class/thermal'' = [''/sys/class/thermal/t0'']"
    "path_join ''/sys/class/thermal/t0'' ''temp'' = ''/sys/class/thermal/t0/temp''"
    "he_read example_health_env ''/sys/class/thermal/t0/temp'' = Some ''0''"
    by code_simp+
  have c: "chars ''0'' = [''0'']" by (subst chars_ascii) simp_all
  then have "trim ''0'' = ''0''" by (simp add: trim_def trim_chunks_def is_whitespace_def)
  moreover have "parse_f64 ''0'' = Some (Fin 0)"
    by (simp add: parse_f64_def starts_with_def to_ascii_lowercase_def is_ascii_digit_def parse_exponent_def
        f64_round_def)
  ultimately have "read_number example_health_env ''/sys/class/thermal/t0/temp'' (Fin 1000) = Some (Fin 0)"
    using dirs(3) by (simp add: read_number_def f64_round_def)
  then show ?thesis
    by (simp add: first_temperature_def dirs(1,2) map_filter_def plausible_def greatest_def)
qed

lemma example_cpu:
  "\<exists>v. cpu_percent \<lparr>ct_total = 100, ct_idle = 50\<rparr> \<lparr>ct_total = 0, ct_idle = 0\<rparr> = Some v"
  by (simp add: cpu_percent_def checked_sub_def)

lemma health_sample_ranges_witness:
  "\<exists>t x. m_value (hs_cpu_temperature (fst (sample_health example_health_env 0 example_collector))) = Some (Fin t) \<and>
     - 20 \<le> t \<and> t \<le> 150 \<and>
     m_value (hs_cpu (fst (sample_health example_health_env 0 example_collector))) = Some (Fin x) \<and>
     0 \<le> x \<and> x \<le> 100"
proof -
  obtain s c' where sc: "sample_health example_health_env 0 example_collector = (s, c')"
    by (cases "sample_health example_health_env 0 example_collector")
  have roots: "path_join (hc_proc_root example_collector) ''stat'' = ''/proc/stat''"
    "path_join (hc_sys_root example_collector) ''class/thermal'' = ''/sys/class/thermal''"
    by code_simp+
  have cols: "lines ''cpu 50 0 0 50'' = [''cpu 50 0 0 50'']"
    "strip_prefix ''cpu '' ''cpu 50 0 0 50'' = Some ''50 0 0 50''"
    "split_whitespace ''50 0 0 50'' = [''50'', ''0'', ''0'', ''50'']"
    "he_read example_health_env ''/proc/stat'' = Some ''cpu 50 0 0 50''"
    by code_simp+
  have num: "parse_u64 ''50'' = Some 50" "parse_u64 ''0'' = Some 0"
    by (simp_all add: parse_u64_def parse_unsigned_def starts_with_def is_ascii_digit_def)
  have read: "read_cpu_totals example_health_env ''/proc/stat'' = Some \<lparr>ct_total = 100, ct_idle = 50\<rparr>"
    by (simp add: read_cpu_totals_def cols num map_filter_def)
  have prev: "hc_previous_cpu example_collector = Some \<lparr>ct_total = 0, ct_idle = 0\<rparr>"
    by (simp add: example_collector_def)
  obtain v t where v: "m_value (hs_cpu s) = Some v" "m_value (hs_cpu_temperature s) = Some t"
    and q: "hc_previous_cpu c' = Some \<lparr>ct_total = 100, ct_idle = 50\<rparr>"
    using example_cpu example_temperature
    by (rule_tac sample_health_parts [OF sc]) (auto simp: roots read prev)
  show ?thesis
    using health_sample_ranges [OF sc] v prev q by (force simp: sc)
qed

text \<open>The load of the processor is shown exactly from the second readable sample on, and only while
  its counters advance and none runs backwards; an unreadable sample starts the count anew.\<close>

lemma cpu_load_needs_two_samples:
  "m_available (hs_cpu (fst (sample_health env now c))) \<longleftrightarrow>
     (\<exists>p q. hc_previous_cpu c = Some p \<and>
        read_cpu_totals env (path_join (hc_proc_root c) ''stat'') = Some q \<and>
        ct_total p < ct_total q \<and> ct_idle p \<le> ct_idle q)"
proof -
  have pct: "(\<exists>v. cpu_percent q p = Some v) \<longleftrightarrow> ct_total p < ct_total q \<and> ct_idle p \<le> ct_idle q" for p q
    by (auto simp: cpu_percent_def checked_sub_def word_less_nat_alt word_le_nat_alt unat_sub
        split: if_splits)
  obtain s c' where sc: "sample_health env now c = (s, c')" by (cases "sample_health env now c")
  then have "hs_cpu s = metric_of (Option.bind (read_cpu_totals env (path_join (hc_proc_root c) ''stat''))
      (\<lambda>now. Option.bind (hc_previous_cpu c) (cpu_percent now))) ''%''"
    by (rule sample_health_parts) simp
  then have "m_available (hs_cpu s) \<longleftrightarrow> (\<exists>v. Option.bind (read_cpu_totals env (path_join (hc_proc_root c) ''stat''))
      (\<lambda>now. Option.bind (hc_previous_cpu c) (cpu_percent now)) = Some v)"
    by (simp only: metric_of_value not_None_eq)
  then show ?thesis unfolding sc fst_conv bind_eq_Some_conv using pct by blast
qed

end
