(* ===== verification/Protocol.thy ===== *)
theory Protocol
  imports Model
begin

text \<open>
  The command gate of \<open>protocol.rs\<close>: which fields each action kind must and must not carry, and
  the match of a guarded action against the capability the card currently shows.
\<close>

datatype command_error =
    UnsupportedSchema u32 | MissingRequestId | MissingAgentId | UnexpectedAgentId
  | MissingCapability | UnexpectedCapability

fun command_error_to_string :: "command_error \<Rightarrow> string" where
  "command_error_to_string (UnsupportedSchema v) =
     ''unsupported portal schema version '' @ nat_to_string (unat v)"
| "command_error_to_string MissingRequestId = ''request_id is required''"
| "command_error_to_string MissingAgentId = ''agent_id is required for this action''"
| "command_error_to_string UnexpectedAgentId = ''agent_id is not accepted for this action''"
| "command_error_to_string MissingCapability = ''capability_id is required for guarded actions''"
| "command_error_to_string UnexpectedCapability =
     ''capability_id is not accepted for this action''"

definition validate_command :: "portal_command \<Rightarrow> command_error + unit" where
  "validate_command command =
     (if pc_schema_version command \<noteq> SCHEMA_VERSION
      then Inl (UnsupportedSchema (pc_schema_version command))
      else if trim (pc_request_id command) = [] then Inl MissingRequestId
      else (case pc_action command of
          Open \<Rightarrow>
            if pc_agent_id command = None then Inl MissingAgentId
            else if pc_capability_id command \<noteq> None then Inl UnexpectedCapability
            else Inr ()
        | Zoom \<Rightarrow>
            if pc_agent_id command = None then Inl MissingAgentId
            else if pc_capability_id command \<noteq> None then Inl UnexpectedCapability
            else Inr ()
        | Approve \<Rightarrow>
            if pc_agent_id command = None then Inl MissingAgentId
            else if pc_capability_id command = None then Inl MissingCapability
            else Inr ()
        | Interrupt \<Rightarrow>
            if pc_agent_id command = None then Inl MissingAgentId
            else if pc_capability_id command = None then Inl MissingCapability
            else Inr ()
        | _ \<Rightarrow>
            if pc_agent_id command \<noteq> None then Inl UnexpectedAgentId
            else if pc_capability_id command \<noteq> None then Inl UnexpectedCapability
            else Inr ()))"

definition command_capability_matches :: "portal_command \<Rightarrow> agent_view \<Rightarrow> bool" where
  "command_capability_matches command agent =
     (let matches = (\<lambda>expected. case (expected, pc_capability_id command) of
          (Some capability, Some supplied) \<Rightarrow> cap_id capability = supplied
        | _ \<Rightarrow> False)
      in case pc_action command of
          Approve \<Rightarrow> matches (aa_approve (av_actions agent))
        | Interrupt \<Rightarrow> matches (aa_interrupt (av_actions agent))
        | _ \<Rightarrow> True)"

text \<open>The two families of actions the protocol document names.\<close>

definition agent_action :: "action_kind \<Rightarrow> bool" where
  "agent_action k \<longleftrightarrow> k \<in> {Open, Zoom, Approve, Interrupt}"

definition guarded_action :: "action_kind \<Rightarrow> bool" where
  "guarded_action k \<longleftrightarrow> k \<in> {Approve, Interrupt}"

lemma validate_command_iff:
  "validate_command c = Inr () \<longleftrightarrow>
     pc_schema_version c = SCHEMA_VERSION \<and> trim (pc_request_id c) \<noteq> [] \<and>
     (pc_agent_id c \<noteq> None \<longleftrightarrow> agent_action (pc_action c)) \<and>
     (pc_capability_id c \<noteq> None \<longleftrightarrow> guarded_action (pc_action c))"
  by (cases "pc_action c"; cases "pc_agent_id c"; cases "pc_capability_id c")
    (simp_all add: validate_command_def agent_action_def guarded_action_def)

lemma capability_matches_guarded:
  assumes "guarded_action (pc_action c)" "command_capability_matches c a"
  obtains cap where "pc_capability_id c = Some (cap_id cap)"
    and "(if pc_action c = Approve then aa_approve (av_actions a) else aa_interrupt (av_actions a))
         = Some cap"
  using assms
  by (cases "pc_action c")
    (auto simp: guarded_action_def command_capability_matches_def split: option.splits)


section \<open>Properties\<close>

text \<open>The gate accepts exactly the commands of the protocol: of this schema, with a request id that is
  not blank, with an agent id exactly for the four actions on a card, and with a capability exactly
  for approve and interrupt.\<close>

lemma command_gate_exact:
  "validate_command c = Inr () \<longleftrightarrow>
     pc_schema_version c = 1 \<and> trim (pc_request_id c) \<noteq> [] \<and>
     (pc_agent_id c \<noteq> None \<longleftrightarrow> pc_action c \<in> {Open, Zoom, Approve, Interrupt}) \<and>
     (pc_capability_id c \<noteq> None \<longleftrightarrow> pc_action c \<in> {Approve, Interrupt})"
  by (simp add: validate_command_iff SCHEMA_VERSION_def agent_action_def guarded_action_def)

end
