(* ===== verification/Config.thy ===== *)
theory Config
  imports Model
begin

text \<open>
  \<open>config.rs\<close>: the configuration file's structs with their defaults, the refresh intervals, the
  validation of the screen identity, and the runtime output override. Reading and parsing the file
  is an argument of \<open>load_with_runtime_output\<close>: the parsed configuration, or the error, or \<open>None\<close>
  where no file exists. \<open>XENEON_EDGE_OUTPUT\<close> is \<open>None\<close> when unset and \<open>Some None\<close> when it is not
  valid UTF-8.
\<close>

record t3code_config =
  tc_app_bin :: "string option"
  tc_status_file :: "string option"
  tc_home :: "string option"
  tc_refresh_ms :: u64

definition default_t3code_config :: t3code_config where
  "default_t3code_config =
     \<lparr>tc_app_bin = None, tc_status_file = None, tc_home = None, tc_refresh_ms = 1000\<rparr>"

record screen_config =
  sc_connector :: "string option"
  sc_serial :: "string option"
  sc_model :: "string option"
  sc_touch_device :: "string option"

record desktop_config =
  dc_edge_output :: "string option"
  dc_herdr_class :: string

record config =
  cfg_agent_backend :: agent_backend
  cfg_herdr_bin :: string
  cfg_voxtype_bin :: string
  cfg_herdr_refresh_ms :: u64
  cfg_health_refresh_ms :: u64
  cfg_voice_refresh_ms :: u64
  cfg_usage_refresh_ms :: u64
  cfg_micro_refresh_ms :: u64
  cfg_screen :: screen_config
  cfg_desktop :: desktop_config
  cfg_t3code :: t3code_config

definition default_desktop_config :: desktop_config where
  "default_desktop_config = \<lparr>dc_edge_output = None, dc_herdr_class = ''herdr''\<rparr>"

definition default_config :: config where
  "default_config = \<lparr>
     cfg_agent_backend = Herdr,
     cfg_herdr_bin = ''herdr'',
     cfg_voxtype_bin = ''voxtype'',
     cfg_herdr_refresh_ms = 5000,
     cfg_health_refresh_ms = 1000,
     cfg_voice_refresh_ms = 250,
     cfg_usage_refresh_ms = 30000,
     cfg_micro_refresh_ms = 5000,
     cfg_screen = \<lparr>sc_connector = None, sc_serial = None, sc_model = None, sc_touch_device = None\<rparr>,
     cfg_desktop = default_desktop_config,
     cfg_t3code = default_t3code_config\<rparr>"

section \<open>Refresh intervals, in milliseconds\<close>

definition herdr_refresh_interval :: "config \<Rightarrow> u64" where
  "herdr_refresh_interval c = max (cfg_herdr_refresh_ms c) 250"

definition health_refresh_interval :: "config \<Rightarrow> u64" where
  "health_refresh_interval c = max (cfg_health_refresh_ms c) 250"

definition voice_refresh_interval :: "config \<Rightarrow> u64" where
  "voice_refresh_interval c = max (cfg_voice_refresh_ms c) 250"

definition usage_refresh_interval :: "config \<Rightarrow> u64" where
  "usage_refresh_interval c = max (cfg_usage_refresh_ms c) 5000"

definition micro_refresh_interval :: "config \<Rightarrow> u64" where
  "micro_refresh_interval c = max (cfg_micro_refresh_ms c) 1000"

definition t3code_refresh_interval :: "config \<Rightarrow> u64" where
  "t3code_refresh_interval c = max (tc_refresh_ms (cfg_t3code c)) 250"

lemmas interval_defs = herdr_refresh_interval_def health_refresh_interval_def
  voice_refresh_interval_def usage_refresh_interval_def micro_refresh_interval_def
  t3code_refresh_interval_def

section \<open>Validation\<close>

definition screen_identity :: "config \<Rightarrow> (string \<times> string option) list" where
  "screen_identity c =
     [(''screen.connector'', sc_connector (cfg_screen c)),
      (''screen.serial'', sc_serial (cfg_screen c)),
      (''screen.model'', sc_model (cfg_screen c)),
      (''screen.touch_device'', sc_touch_device (cfg_screen c))]"

definition blank :: "string option \<Rightarrow> bool" where
  "blank v = (case v of Some s \<Rightarrow> trim s = [] | None \<Rightarrow> False)"

definition validate :: "config \<Rightarrow> string + unit" where
  "validate c =
     (let identity = screen_identity c;
          configured = length (filter (\<lambda>(_, v). v \<noteq> None) identity);
          edge = dc_edge_output (cfg_desktop c)
      in case find (\<lambda>(_, v). blank v) identity of
           Some (name, _) \<Rightarrow> Inl (name @ '' must not be empty'')
         | None \<Rightarrow>
           if configured \<noteq> 0 \<and> configured \<noteq> length identity
           then Inl ''screen identity must configure connector, serial, model, and touch_device together''
           else if blank edge then Inl ''desktop.edge_output must not be empty''
           else if edge \<noteq> None \<and> configured = 0
           then Inl ''desktop.edge_output requires a complete screen identity''
           else if configured = length identity \<and> edge \<noteq> sc_connector (cfg_screen c)
           then Inl ''desktop.edge_output must match screen.connector''
           else if cfg_herdr_bin c = [] then Inl ''herdr_bin must not be empty''
           else if cfg_voxtype_bin c = [] then Inl ''voxtype_bin must not be empty''
           else if trim (dc_herdr_class (cfg_desktop c)) = []
           then Inl ''desktop.herdr_class must not be empty''
           else if cfg_herdr_refresh_ms c < 250 \<or> cfg_health_refresh_ms c < 250 \<or>
                   cfg_voice_refresh_ms c < 250 \<or> cfg_usage_refresh_ms c < 5000 \<or>
                   cfg_micro_refresh_ms c < 1000 \<or> tc_refresh_ms (cfg_t3code c) < 250
           then Inl ''refresh intervals are below their safe minimum''
           else if tc_home (cfg_t3code c) = Some [] then Inl ''t3code.home must not be empty''
           else Inr ())"

section \<open>The runtime output\<close>

definition safe_connector_char :: "char \<Rightarrow> bool" where
  "safe_connector_char b \<longleftrightarrow> is_ascii_alphanumeric b \<or> b \<in> set ''_.:-''"

definition apply_runtime_output :: "config \<Rightarrow> string option option \<Rightarrow> string + config" where
  "apply_runtime_output c output =
     (case output of
        None \<Rightarrow> Inr c
      | Some None \<Rightarrow> Inl ''XENEON_EDGE_OUTPUT must be valid UTF-8''
      | Some (Some out) \<Rightarrow>
          if out = [] \<or> \<not> list_all safe_connector_char out
          then Inl ''XENEON_EDGE_OUTPUT is not a safe connector name''
          else if sc_serial (cfg_screen c) = None \<or> sc_model (cfg_screen c) = None \<or>
                  sc_touch_device (cfg_screen c) = None
          then Inl ''XENEON_EDGE_OUTPUT requires a commissioned screen identity''
          else Inr (c\<lparr>cfg_screen := (cfg_screen c)\<lparr>sc_connector := Some out\<rparr>,
                      cfg_desktop := (cfg_desktop c)\<lparr>dc_edge_output := Some out\<rparr>\<rparr>))"

definition load_with_runtime_output ::
  "(string + config) option \<Rightarrow> string option option \<Rightarrow> string + config" where
  "load_with_runtime_output file output =
     (case file of
        None \<Rightarrow> apply_runtime_output default_config output
      | Some (Inl e) \<Rightarrow> Inl e
      | Some (Inr c) \<Rightarrow> apply_runtime_output c output)"

definition default_config_path :: "string option \<Rightarrow> string option \<Rightarrow> string option" where
  "default_config_path xdg_config_home home =
     map_option (\<lambda>root. path_join root ''xeneon-edge-agents/config.toml'')
       (case xdg_config_home of Some p \<Rightarrow> Some p
        | None \<Rightarrow> map_option (\<lambda>h. path_join h ''.config'') home)"

section \<open>What a valid configuration is\<close>

definition commissioned :: "config \<Rightarrow> bool" where
  "commissioned c \<longleftrightarrow> (\<exists>k s m t.
     cfg_screen c = \<lparr>sc_connector = Some k, sc_serial = Some s, sc_model = Some m,
       sc_touch_device = Some t\<rparr> \<and>
     trim k \<noteq> [] \<and> trim s \<noteq> [] \<and> trim m \<noteq> [] \<and> trim t \<noteq> [] \<and>
     dc_edge_output (cfg_desktop c) = Some k)"

definition uncommissioned :: "config \<Rightarrow> bool" where
  "uncommissioned c \<longleftrightarrow>
     cfg_screen c = \<lparr>sc_connector = None, sc_serial = None, sc_model = None, sc_touch_device = None\<rparr> \<and>
     dc_edge_output (cfg_desktop c) = None"

definition safe_settings :: "config \<Rightarrow> bool" where
  "safe_settings c \<longleftrightarrow> cfg_herdr_bin c \<noteq> [] \<and> cfg_voxtype_bin c \<noteq> [] \<and>
     trim (dc_herdr_class (cfg_desktop c)) \<noteq> [] \<and>
     250 \<le> cfg_herdr_refresh_ms c \<and> 250 \<le> cfg_health_refresh_ms c \<and> 250 \<le> cfg_voice_refresh_ms c \<and>
     5000 \<le> cfg_usage_refresh_ms c \<and> 1000 \<le> cfg_micro_refresh_ms c \<and>
     250 \<le> tc_refresh_ms (cfg_t3code c) \<and> tc_home (cfg_t3code c) \<noteq> Some []"

lemma validate_iff:
  "validate c = Inr () \<longleftrightarrow> (commissioned c \<or> uncommissioned c) \<and> safe_settings c"
proof -
  obtain k s m t where sc: "cfg_screen c = \<lparr>sc_connector = k, sc_serial = s, sc_model = m,
      sc_touch_device = t\<rparr>" by (cases "cfg_screen c")
  show ?thesis
    by (cases k; cases s; cases m; cases t; cases "dc_edge_output (cfg_desktop c)")
      (auto simp: validate_def screen_identity_def sc commissioned_def uncommissioned_def
        safe_settings_def blank_def not_less Let_def)
qed

lemma safe_connector_ascii: "safe_connector_char b \<Longrightarrow> byte b < 128 \<and> \<not> is_whitespace [b]"
  by (auto simp: safe_connector_char_def is_ascii_alphanumeric_def is_ascii_digit_def
      is_whitespace_def)

lemma safe_connector_not_blank:
  assumes "out \<noteq> []" "list_all safe_connector_char out"
  shows "trim out \<noteq> []"
proof -
  have "list_all (\<lambda>b. byte b < 128) out"
    using assms(2) safe_connector_ascii by (auto simp: list_all_iff)
  then have "chars out = map (\<lambda>b. [b]) out" by (rule chars_ascii)
  with assms safe_connector_ascii show ?thesis
    by (cases out) (auto simp: trim_eq_Nil_iff)
qed

lemma apply_runtime_output_Some:
  assumes "apply_runtime_output c (Some out) = Inr c'"
  obtains k where "out = Some k" "trim k \<noteq> []" "list_all safe_connector_char k"
    "sc_serial (cfg_screen c) \<noteq> None" "sc_model (cfg_screen c) \<noteq> None"
    "sc_touch_device (cfg_screen c) \<noteq> None"
    "c' = c\<lparr>cfg_screen := (cfg_screen c)\<lparr>sc_connector := Some k\<rparr>,
            cfg_desktop := (cfg_desktop c)\<lparr>dc_edge_output := Some k\<rparr>\<rparr>"
  using assms
  by (auto simp: apply_runtime_output_def safe_connector_not_blank split: option.splits if_splits)


section \<open>Properties\<close>

text \<open>C37 Validation accepts exactly the configurations that are either wholly commissioned (connector,
  serial, model and touch device present and not blank, the edge output being the connector) or not
  at all, with non-empty programs and class and intervals at their minimum; it accepts the default;
  and the runtime output keeps a valid configuration valid, changing nothing but the connector.\<close>

theorem configuration_validity:
  "(validate c = Inr () \<longleftrightarrow> (commissioned c \<or> uncommissioned c) \<and> safe_settings c) \<and>
   validate default_config = Inr () \<and>
   (validate c = Inr () \<longrightarrow> apply_runtime_output c out = Inr c' \<longrightarrow>
      validate c' = Inr () \<and>
      (case out of None \<Rightarrow> c' = c
       | Some k \<Rightarrow> sc_connector (cfg_screen c') = k \<and> dc_edge_output (cfg_desktop c') = k \<and>
           commissioned c'))"
proof -
  have "validate default_config = Inr ()"
    unfolding validate_iff
    by (simp add: uncommissioned_def safe_settings_def default_config_def default_desktop_config_def
        default_t3code_config_def trim_eq_Nil_iff is_whitespace_def)
  moreover have "validate c' = Inr () \<and>
      (case out of None \<Rightarrow> c' = c
       | Some k \<Rightarrow> sc_connector (cfg_screen c') = k \<and> dc_edge_output (cfg_desktop c') = k \<and> commissioned c')"
    if v: "validate c = Inr ()" and a: "apply_runtime_output c out = Inr c'"
  proof (cases out)
    case None
    with a v show ?thesis by (simp add: apply_runtime_output_def)
  next
    case (Some ov)
    from a [unfolded Some] obtain k where k: "ov = Some k" "trim k \<noteq> []"
      "sc_serial (cfg_screen c) \<noteq> None"
      "c' = c\<lparr>cfg_screen := (cfg_screen c)\<lparr>sc_connector := Some k\<rparr>,
              cfg_desktop := (cfg_desktop c)\<lparr>dc_edge_output := Some k\<rparr>\<rparr>"
      by (rule apply_runtime_output_Some)
    have "commissioned c" "safe_settings c" using v k(3) by (auto simp: validate_iff uncommissioned_def)
    then have "commissioned c'" "safe_settings c'"
      using k(2,4) by (auto simp: commissioned_def safe_settings_def)
    then show ?thesis using k(1,4) Some by (simp add: validate_iff)
  qed
  ultimately show ?thesis by (simp only: validate_iff) blast
qed

lemma configuration_validity_witness:
  "validate default_config = Inr () \<and> apply_runtime_output default_config None = Inr default_config \<and>
   safe_settings default_config"
proof -
  have a: "apply_runtime_output default_config None = Inr default_config"
    by (simp add: apply_runtime_output_def)
  show ?thesis using configuration_validity [of default_config None default_config] a by blast
qed

end
