(* ===== verification/Voice.thy ===== *)
theory Voice
  imports Config
begin

text \<open>
  The dictation boundary of \<open>voice.rs\<close>. Its world is Voxtype's state file, the portal's ownership
  marker and the list of \<open>voxtype record\<close> commands issued so far. What Voxtype does to its state
  file, and whether the command ends successfully within its ten seconds, is the argument
  \<open>voxtype\<close>; Voxtype does not know the marker. Which file operations on the marker succeed is the
  argument \<open>fs\<close>.
\<close>

datatype voice_action_error = VoiceUnavailable | NotIdle | NotOwned | CommandFailed | Ownership

text \<open>What is at the marker path: nothing, something that is not a regular file, or a regular
  file with its contents, if they can be read.\<close>

datatype marker = NoMarker | NotRegular | Marker "string option"

record voice_world =
  vw_state_file :: "string option"
  vw_marker :: marker
  vw_commands :: "string list list"

record marker_fs =
  fs_has_parent :: bool
  fs_create_dir :: bool
  fs_chmod :: bool
  fs_open :: bool
  fs_write :: bool
  fs_partial :: string
  fs_remove :: bool

type_synonym voxtype = "string list \<Rightarrow> string option \<Rightarrow> string option \<times> bool"

section \<open>Reading the state\<close>

definition normalize_voice_state :: "string \<Rightarrow> voice_state" where
  "normalize_voice_state value =
     (let v = trim value in
      if v = ''idle'' then VIdle
      else if v = ''recording'' then VRecording
      else if v = ''streaming'' \<or> v = ''transcribing'' then VProcessing
      else VUnavailable)"

definition read_voice_state :: "voice_world \<Rightarrow> voice_state" where
  "read_voice_state w =
     (case vw_state_file w of Some contents \<Rightarrow> normalize_voice_state contents
      | None \<Rightarrow> VUnavailable)"

definition owns_marker :: "string \<Rightarrow> voice_world \<Rightarrow> bool" where
  "owns_marker token w \<longleftrightarrow> vw_marker w = Marker (Some token)"

definition snapshot :: "string \<Rightarrow> voice_world \<Rightarrow> voice_snapshot" where
  "snapshot token w = \<lparr>vs_state = read_voice_state w, vs_owned = owns_marker token w\<rparr>"

section \<open>The marker\<close>

definition claim_marker ::
  "marker_fs \<Rightarrow> string \<Rightarrow> voice_world \<Rightarrow> (voice_action_error + unit) \<times> voice_world" where
  "claim_marker fs token w =
     (if \<not> fs_has_parent fs \<or> \<not> fs_create_dir fs \<or> \<not> fs_chmod fs then (Inl Ownership, w)
      else if vw_marker w \<noteq> NoMarker \<or> \<not> fs_open fs then (Inl Ownership, w)
      else if \<not> fs_write fs
      then (Inl Ownership,
            w\<lparr>vw_marker := (if fs_remove fs then NoMarker else Marker (Some (fs_partial fs)))\<rparr>)
      else (Inr (), w\<lparr>vw_marker := Marker (Some token)\<rparr>))"

definition remove_owned_marker ::
  "marker_fs \<Rightarrow> string \<Rightarrow> voice_world \<Rightarrow> (voice_action_error + unit) \<times> voice_world" where
  "remove_owned_marker fs token w =
     (if \<not> owns_marker token w then (Inl NotOwned, w)
      else if fs_remove fs then (Inr (), w\<lparr>vw_marker := NoMarker\<rparr>)
      else (Inl Ownership, w))"

section \<open>Commands\<close>

definition run_voxtype :: "voxtype \<Rightarrow> string list \<Rightarrow> voice_world \<Rightarrow> bool \<times> voice_world" where
  "run_voxtype voxtype args w =
     (let (st, success) = voxtype args (vw_state_file w) in
      (success, w\<lparr>vw_state_file := st, vw_commands := vw_commands w @ [args]\<rparr>))"

abbreviation start_args :: "string list" where
  "start_args \<equiv> [''record'', ''start'', ''--type'', ''--no-auto-submit'', ''--no-smart-auto-submit'']"

abbreviation cancel_args :: "string list" where
  "cancel_args \<equiv> [''record'', ''cancel'']"

definition start ::
  "voxtype \<Rightarrow> marker_fs \<Rightarrow> string \<Rightarrow> voice_world \<Rightarrow> (voice_action_error + voice_snapshot) \<times> voice_world"
where
  "start voxtype fs token w =
     (case read_voice_state w of
        VIdle \<Rightarrow>
          (case claim_marker fs token w of
             (Inl e, w1) \<Rightarrow> (Inl e, w1)
           | (Inr _, w1) \<Rightarrow>
               (case run_voxtype voxtype start_args w1 of
                  (False, w2) \<Rightarrow>
                    (let (_, w3) = run_voxtype voxtype cancel_args w2;
                         (_, w4) = remove_owned_marker fs token w3
                     in (Inl CommandFailed, w4))
                | (True, w2) \<Rightarrow> (Inr \<lparr>vs_state = VRecording, vs_owned = True\<rparr>, w2)))
      | VUnavailable \<Rightarrow> (Inl VoiceUnavailable, w)
      | _ \<Rightarrow> (Inl NotIdle, w))"

definition finish ::
  "voxtype \<Rightarrow> marker_fs \<Rightarrow> string \<Rightarrow> string \<Rightarrow> voice_state \<Rightarrow> voice_world \<Rightarrow>
     (voice_action_error + voice_snapshot) \<times> voice_world" where
  "finish voxtype fs token action resulting_state w =
     (if \<not> owns_marker token w then (Inl NotOwned, w)
      else case run_voxtype voxtype [''record'', action] w of
          (False, w1) \<Rightarrow> (Inl CommandFailed, w1)
        | (True, w1) \<Rightarrow>
            (case remove_owned_marker fs token w1 of
               (Inl e, w2) \<Rightarrow> (Inl e, w2)
             | (Inr _, w2) \<Rightarrow> (Inr \<lparr>vs_state = resulting_state, vs_owned = False\<rparr>, w2)))"

definition perform_voice ::
  "voxtype \<Rightarrow> marker_fs \<Rightarrow> string \<Rightarrow> action_kind \<Rightarrow> voice_world \<Rightarrow>
     (voice_action_error + voice_snapshot) \<times> voice_world" where
  "perform_voice voxtype fs token action w =
     (case action of
        VoiceStart \<Rightarrow> start voxtype fs token w
      | VoiceStop \<Rightarrow> finish voxtype fs token ''stop'' VProcessing w
      | VoiceCancel \<Rightarrow> finish voxtype fs token ''cancel'' VIdle w
      | _ \<Rightarrow> (Inl CommandFailed, w))"

text \<open>The cleanup pass of the service, which takes any regular marker for the portal's own.\<close>

definition cleanup_owned_dictation_at ::
  "voxtype \<Rightarrow> marker_fs \<Rightarrow> bool \<Rightarrow> voice_world \<Rightarrow> (string + unit) \<times> voice_world" where
  "cleanup_owned_dictation_at voxtype fs readable w =
     (if \<not> readable then (Inl ''voice ownership marker is unreadable'', w)
      else case vw_marker w of
          NoMarker \<Rightarrow> (Inr (), w)
        | NotRegular \<Rightarrow> (Inl ''voice ownership marker is not a regular file'', w)
        | Marker _ \<Rightarrow>
            (let (ok, w1) = (if read_voice_state w \<noteq> VIdle then run_voxtype voxtype cancel_args w
                             else (True, w))
             in if \<not> ok then (Inl ''voice cleanup failed'', w1)
                else if fs_remove fs then (Inr (), w1\<lparr>vw_marker := NoMarker\<rparr>)
                else (Inl ''removing voice ownership marker'', w1)))"

definition default_voice_state_path :: "string option \<Rightarrow> string option \<Rightarrow> string" where
  "default_voice_state_path xdg_runtime_dir uid =
     (case xdg_runtime_dir of
        Some runtime \<Rightarrow> path_join runtime ''voxtype/state''
      | None \<Rightarrow>
          (case uid of
             Some u \<Rightarrow> path_join (path_join ''/run/user'' u) ''voxtype/state''
           | None \<Rightarrow> path_join ''/run/user/xeneon-unavailable'' ''voxtype/state''))"

definition default_dictation_marker_path :: "string option \<Rightarrow> string option \<Rightarrow> string option" where
  "default_dictation_marker_path xdg_state_home home =
     map_option (\<lambda>s. path_join s ''xeneon-edge-agents/dictation-active'')
       (case xdg_state_home of Some p \<Rightarrow> Some p
        | None \<Rightarrow> map_option (\<lambda>h. path_join h ''.local/state'') home)"

section \<open>Ownership\<close>

lemmas [code_defs] = claim_marker_def remove_owned_marker_def run_voxtype_def start_def finish_def

lemma run_voxtype_marker [simp]:
  "run_voxtype voxtype args w = (ok, w') \<Longrightarrow> vw_marker w' = vw_marker w"
  by (auto simp: run_voxtype_def split: prod.splits)

lemma run_voxtype_commands:
  "run_voxtype voxtype args w = (ok, w') \<Longrightarrow> vw_commands w' = vw_commands w @ [args]"
  by (auto simp: run_voxtype_def split: prod.splits)

text \<open>A start succeeds only from an idle Voxtype and an absent marker, and leaves its own.\<close>

lemma start_ok:
  assumes "start voxtype fs token w = (Inr s, w')"
  shows "read_voice_state w = VIdle" "vw_marker w = NoMarker" "vw_marker w' = Marker (Some token)"
    "vw_commands w' = vw_commands w @ [start_args]"
    "s = \<lparr>vs_state = VRecording, vs_owned = True\<rparr>"
  using assms
  by (auto simp: code_defs split: voice_state.splits prod.splits sum.splits if_splits bool.splits)

lemma start_marker_kept:
  assumes "vw_marker w \<noteq> NoMarker"
  shows "\<exists>e. start voxtype fs token w = (Inl e, w)"
  using assms by (auto simp: code_defs split: voice_state.splits)

lemma finish_ok:
  assumes "finish voxtype fs token act st w = (Inr s, w')"
  shows "owns_marker token w" "vw_marker w' = NoMarker"
    "vw_commands w' = vw_commands w @ [[''record'', act]]"
    "s = \<lparr>vs_state = st, vs_owned = False\<rparr>"
  using assms
  by (auto simp: code_defs split: prod.splits sum.splits if_splits bool.splits)

lemma finish_error_marker:
  "finish voxtype fs token act st w = (Inl e, w') \<Longrightarrow> vw_marker w' = vw_marker w"
  by (auto simp: code_defs split: prod.splits sum.splits if_splits bool.splits)

lemma finish_not_owned:
  "\<not> owns_marker token w \<Longrightarrow> finish voxtype fs token act st w = (Inl NotOwned, w)"
  by (simp add: finish_def)

lemma start_error_marker:
  assumes "start voxtype fs token w = (Inl e, w')" "owns_marker token w"
  shows "vw_marker w' = vw_marker w"
  using start_marker_kept [of w voxtype fs token] assms by (auto simp: owns_marker_def)

text \<open>An action that fails leaves an owned marker in place; one that succeeds leaves an owned
  marker exactly after a start.\<close>

lemma perform_voice_error_keeps_marker:
  assumes "perform_voice voxtype fs token k w = (Inl e, w')" "owns_marker token w"
  shows "owns_marker token w'"
  using assms
  by (auto simp: perform_voice_def owns_marker_def split: action_kind.splits
      dest: start_error_marker finish_error_marker)

lemma perform_voice_ok_marker:
  assumes "perform_voice voxtype fs token k w = (Inr s, w')"
  shows "owns_marker token w' \<longleftrightarrow> k = VoiceStart"
    and "vs_owned s \<longleftrightarrow> k = VoiceStart"
  using assms
  by (cases k; auto simp: perform_voice_def owns_marker_def dest: start_ok finish_ok)+


section \<open>Properties\<close>

text \<open>C16 The portal drives only its own dictation. A start succeeds only while Voxtype is idle and no
  marker exists, and leaves the portal's marker; a stop or cancel succeeds only with the portal's
  marker, and removes it; each issues exactly its one command. A failing action keeps a marker the
  portal owns, so the recording can still be stopped; and while the marker is someone else's,
  nothing happens at all.\<close>

theorem dictation_ownership:
  assumes "perform_voice voxtype fs token k w = (r, w')"
  shows "(case r of
      Inr s \<Rightarrow>
        if k = VoiceStart
        then read_voice_state w = VIdle \<and> vw_marker w = NoMarker \<and> vw_marker w' = Marker (Some token) \<and>
          vw_commands w' = vw_commands w @ [start_args] \<and> s = \<lparr>vs_state = VRecording, vs_owned = True\<rparr>
        else (k = VoiceStop \<or> k = VoiceCancel) \<and> owns_marker token w \<and> vw_marker w' = NoMarker \<and>
          vw_commands w' = vw_commands w @ [[''record'', if k = VoiceStop then ''stop'' else ''cancel'']] \<and>
          s = \<lparr>vs_state = if k = VoiceStop then VProcessing else VIdle, vs_owned = False\<rparr>
    | Inl e \<Rightarrow> owns_marker token w \<longrightarrow> owns_marker token w') \<and>
    (vw_marker w = NoMarker \<or> owns_marker token w \<or> isl r \<and> w' = w)"
proof (cases r)
  case (Inl e)
  have "w' = w" if "vw_marker w \<noteq> NoMarker" "\<not> owns_marker token w"
    using assms that start_marker_kept [of w voxtype fs token]
    by (cases k) (auto simp: perform_voice_def finish_not_owned)
  then show ?thesis
    using Inl assms perform_voice_error_keeps_marker [of voxtype fs token k w e w'] by auto
next
  case (Inr s)
  show ?thesis
    using assms unfolding Inr
    by (cases k) (auto simp: perform_voice_def dest: start_ok finish_ok)
qed

lemma dictation_ownership_witness:
  "let fs = \<lparr>fs_has_parent = True, fs_create_dir = True, fs_chmod = True, fs_open = True,
        fs_write = True, fs_partial = [], fs_remove = True\<rparr>;
       w = \<lparr>vw_state_file = Some ''idle'', vw_marker = NoMarker, vw_commands = []\<rparr>
   in \<exists>w'. perform_voice (\<lambda>_ st. (st, True)) fs ''e'' VoiceStart w =
        (Inr \<lparr>vs_state = VRecording, vs_owned = True\<rparr>, w') \<and> vw_marker w' = Marker (Some ''e'')"
proof -
  define fs where "fs = \<lparr>fs_has_parent = True, fs_create_dir = True, fs_chmod = True, fs_open = True,
     fs_write = True, fs_partial = [], fs_remove = True\<rparr>"
  define w where "w = \<lparr>vw_state_file = Some ''idle'', vw_marker = NoMarker, vw_commands = []\<rparr>"
  obtain w' where p: "perform_voice (\<lambda>_ st. (st, True)) fs ''e'' VoiceStart w =
      (Inr \<lparr>vs_state = VRecording, vs_owned = True\<rparr>, w')"
  proof -
    have "fst (perform_voice (\<lambda>_ st. (st, True)) fs ''e'' VoiceStart w) =
        Inr \<lparr>vs_state = VRecording, vs_owned = True\<rparr>"
      unfolding fs_def w_def by code_simp
    then show ?thesis using that by (metis prod.collapse)
  qed
  show ?thesis
    unfolding Let_def fs_def [symmetric] w_def [symmetric]
    using dictation_ownership [OF p] p by auto
qed

end
