(* ===== verification/Desktop.thy ===== *)
theory Desktop
  imports Config Rust_Str
begin

text \<open>
  \<open>desktop.rs\<close>: how a window of the compositor is chosen and focused. The answers of \<open>hyprctl\<close>,
  of the launcher and of the monotonic clock are the functions of \<open>hypr_env\<close>; the controller's
  locked fields and the dispatched expressions are \<open>desktop_state\<close>. Choosing a window, checking
  its address, walking the process tree and reading a Herdr command line are the program's own
  code, and are modelled in full. \<open>/proc\<close> is a list of entries with the files read from them.
\<close>

section \<open>Data\<close>

definition PORTAL_PREVIEW_CLASS_PREFIX :: string where
  "PORTAL_PREVIEW_CLASS_PREFIX = ''org.xeneon-edge.agent-portal-preview''"

datatype desktop_app = ChatGpt | Claude | T3codeApp

datatype desktop_app_outcome = Focused | LaunchedAndFocused

record app_spec =
  spec_desktop_id :: string
  spec_class :: string
  spec_main_title :: string

record hypr_client =
  hc_address :: string
  hc_class :: string
  hc_initial_class :: string
  hc_title :: string
  hc_initial_title :: string
  hc_pid :: int
  hc_monitor :: int
  hc_floating :: bool
  hc_focus_history_id :: "int option"

record hypr_monitor =
  hm_id :: int
  hm_name :: string
  hm_focused :: bool

record process_info =
  pi_parent :: int
  pi_command :: "string list"
  pi_environment :: "string list"

type_synonym processes = "(int, process_info) hmap"

fun desktop_app_spec :: "desktop_app \<Rightarrow> app_spec" where
  "desktop_app_spec ChatGpt =
     \<lparr>spec_desktop_id = ''chatgpt.desktop'', spec_class = ''chatgpt'', spec_main_title = ''ChatGPT''\<rparr>"
| "desktop_app_spec Claude =
     \<lparr>spec_desktop_id = ''com.anthropic.Claude.desktop'', spec_class = ''com.anthropic.Claude'',
      spec_main_title = ''Claude''\<rparr>"
| "desktop_app_spec T3codeApp =
     \<lparr>spec_desktop_id = ''t3code.desktop'', spec_class = ''t3code'', spec_main_title = ''T3 Code''\<rparr>"

definition is_portal_preview_class :: "string \<Rightarrow> bool" where
  "is_portal_preview_class class_name = starts_with PORTAL_PREVIEW_CLASS_PREFIX class_name"

section \<open>Choosing a window\<close>

text \<open>Both choices narrow a list of candidates by a preference, unless no candidate has it.\<close>

definition preferring :: "('a \<Rightarrow> bool) \<Rightarrow> 'a list \<Rightarrow> 'a list" where
  "preferring p xs = (let ys = filter p xs in if ys = [] then xs else ys)"

definition least_history :: "hypr_client list \<Rightarrow> int option" where
  "least_history cs = (case List.map_filter hc_focus_history_id cs of
     [] \<Rightarrow> None | h # hs \<Rightarrow> Some (fold min hs h))"

definition desktop_candidates :: "hypr_client list \<Rightarrow> app_spec \<Rightarrow> hypr_client list" where
  "desktop_candidates clients spec =
     filter (\<lambda>c. eq_ignore_ascii_case (hc_class c) (spec_class spec) \<or>
                 eq_ignore_ascii_case (hc_initial_class c) (spec_class spec)) clients"

definition select_desktop_candidate ::
  "hypr_client list \<Rightarrow> app_spec \<Rightarrow> hypr_client option result" where
  "select_desktop_candidate clients spec =
     (let candidates = desktop_candidates clients spec in
      if length candidates \<le> 1 then Inr (case candidates of [] \<Rightarrow> None | c # _ \<Rightarrow> Some c) else
      let candidates =
        preferring (\<lambda>c. eq_ignore_ascii_case (hc_initial_title c) (spec_main_title spec)) candidates in
      if length candidates = 1 then Inr (Some (hd candidates)) else
      let candidates = preferring (\<lambda>c. \<not> hc_floating c) candidates in
      if length candidates = 1 then Inr (Some (hd candidates)) else
      if \<exists>c \<in> set candidates. hc_focus_history_id c = None
      then Inl ''desktop candidates lack complete focus history'' else
      let ambiguous = Inl (''ambiguous '' @ spec_class spec @
        '' desktop clients after title, tiling, and focus-history checks'') in
      (case least_history candidates of
         Some best \<Rightarrow>
           let recent = filter (\<lambda>c. hc_focus_history_id c = Some best) candidates in
           if length recent = 1 then Inr (Some (hd recent)) else ambiguous
       | None \<Rightarrow> ambiguous))"

section \<open>Herdr command lines\<close>

datatype herdr_client_session = DefaultSession | NamedSession string

text \<open>The arguments after the program's name; \<open>named\<close> is the session named so far.\<close>

fun herdr_arguments :: "string option \<Rightarrow> string list \<Rightarrow> herdr_client_session option" where
  "herdr_arguments named [] =
     Some (case named of None \<Rightarrow> DefaultSession | Some n \<Rightarrow> NamedSession n)"
| "herdr_arguments named (argument # arguments) =
     (if argument = ''--handoff'' then herdr_arguments named arguments
      else if argument = ''--session'' then
        (case arguments of
           [] \<Rightarrow> None
         | value # rest \<Rightarrow>
             if value = [] \<or> named \<noteq> None then None else herdr_arguments (Some value) rest)
      else (case strip_prefix ''--session='' argument of
              Some value \<Rightarrow>
                if value = [] \<or> named \<noteq> None then None
                else herdr_arguments (Some value) arguments
            | None \<Rightarrow> None))"

definition interactive_herdr_session :: "string list \<Rightarrow> herdr_client_session option" where
  "interactive_herdr_session command =
     (case command of
        [] \<Rightarrow> None
      | program # arguments \<Rightarrow>
          if file_name program \<noteq> Some ''herdr'' then None
          else (case arguments of
              [session, attach, name] \<Rightarrow>
                if session = ''session'' \<and> attach = ''attach'' \<and> name \<noteq> [] then Some (NamedSession name)
                else herdr_arguments None arguments
            | _ \<Rightarrow> herdr_arguments None arguments))"

definition find_var :: "string \<Rightarrow> string list \<Rightarrow> string option" where
  "find_var name environment =
     (case List.map_filter (strip_prefix name) environment of [] \<Rightarrow> None | v # _ \<Rightarrow> Some v)"

definition command_matches_session ::
  "string list \<Rightarrow> string list \<Rightarrow> string \<Rightarrow> string \<Rightarrow> bool" where
  "command_matches_session command environment session socket_path =
     (case interactive_herdr_session command of
        None \<Rightarrow> False
      | Some command_session \<Rightarrow>
          let expected_socket = from_utf8_lossy socket_path;
              environment_session = find_var ''HERDR_SESSION='' environment;
              environment_socket = find_var ''HERDR_SOCKET_PATH='' environment
          in (case command_session of
                NamedSession value \<Rightarrow>
                  \<not> (case environment_session of None \<Rightarrow> False | Some e \<Rightarrow> e \<noteq> value) \<and>
                  value = session
              | DefaultSession \<Rightarrow>
                  if (case environment_session of None \<Rightarrow> False | Some v \<Rightarrow> v \<noteq> session) \<or>
                     (case environment_socket of None \<Rightarrow> False | Some v \<Rightarrow> v \<noteq> expected_socket)
                  then False
                  else if environment_session \<noteq> None \<or> environment_socket \<noteq> None then True
                  else session = ''default''))"

section \<open>The process tree\<close>

fun descend :: "nat \<Rightarrow> int list \<Rightarrow> int \<Rightarrow> int \<Rightarrow> processes \<Rightarrow> bool" where
  "descend 0 visited current ancestor table = False"
| "descend (Suc n) visited current ancestor table =
     (if current = ancestor then True
      else if current \<in> set visited then False
      else (case hget table current of
          None \<Rightarrow> False
        | Some process \<Rightarrow>
            if pi_parent process \<le> 1 then False
            else descend n (current # visited) (pi_parent process) ancestor table))"

definition is_descendant :: "int \<Rightarrow> int \<Rightarrow> processes \<Rightarrow> bool" where
  "is_descendant pid ancestor table = descend 32 [] pid ancestor table"

definition client_hosts_session_in :: "int \<Rightarrow> string \<Rightarrow> string \<Rightarrow> processes \<Rightarrow> bool" where
  "client_hosts_session_in client_pid session socket_path processes =
     list_ex (\<lambda>(pid, process). is_descendant pid client_pid processes \<and>
        command_matches_session (pi_command process) (pi_environment process) session socket_path)
       processes"

text \<open>An entry of \<open>/proc\<close> with what reading its files gives.\<close>

record proc_entry =
  pe_file_name :: string
  pe_stat :: "string option"
  pe_cmdline :: "string option"
  pe_environ :: "string option"

definition process_parent :: "string option \<Rightarrow> int option" where
  "process_parent stat =
     (case stat of
        None \<Rightarrow> None
      | Some stat \<Rightarrow>
          if \<not> utf8_valid stat then None else
          (case rsplit_once (CHR '')'') stat of
             None \<Rightarrow> None
           | Some (_, rest) \<Rightarrow>
               if rest = [] \<or> (1 < length rest \<and> is_cont (rest ! 1)) then None
               else (case split_whitespace (tl rest) of
                   _ # parent # _ \<Rightarrow> parse_i32 parent
                 | _ \<Rightarrow> None)))"

definition nul_fields :: "string option \<Rightarrow> string list" where
  "nul_fields contents =
     map from_utf8_lossy
       (filter (\<lambda>f. f \<noteq> []) (split_by (\<lambda>b. b = CHR 0x00) (case contents of None \<Rightarrow> [] | Some s \<Rightarrow> s)))"

definition process_entry :: "proc_entry \<Rightarrow> (int \<times> process_info) option" where
  "process_entry entry =
     (case parse_i32 (from_utf8_lossy (pe_file_name entry)) of
        None \<Rightarrow> None
      | Some pid \<Rightarrow>
          (case process_parent (pe_stat entry) of
             None \<Rightarrow> None
           | Some parent \<Rightarrow>
               let command = nul_fields (pe_cmdline entry);
                   environment = (if interactive_herdr_session command \<noteq> None
                                  then nul_fields (pe_environ entry) else [])
               in Some (pid, \<lparr>pi_parent = parent, pi_command = command,
                              pi_environment = environment\<rparr>)))"

definition process_table :: "proc_entry list option \<Rightarrow> processes" where
  "process_table entries =
     (case entries of
        None \<Rightarrow> []
      | Some entries \<Rightarrow> hextend (List.map_filter process_entry entries) [])"

definition select_herdr_candidate ::
  "hypr_client list \<Rightarrow> processes \<Rightarrow> string \<Rightarrow> string \<Rightarrow> string \<Rightarrow> hypr_client result" where
  "select_herdr_candidate clients processes session socket_path identity_hint =
     (let session_clients =
        filter (\<lambda>c. client_hosts_session_in (hc_pid c) session socket_path processes) clients in
      if session_clients = [] then Inl (''no compositor window hosts Herdr session '' @ session) else
      let hint = to_ascii_lowercase identity_hint;
          candidates = preferring (\<lambda>c. contains hint (to_ascii_lowercase (hc_class c)) \<or>
            contains hint (to_ascii_lowercase (hc_initial_class c)) \<or>
            contains hint (to_ascii_lowercase (hc_title c)) \<or>
            contains hint (to_ascii_lowercase (hc_initial_title c))) session_clients in
      if length candidates = 1 then Inr (hd candidates) else
      if \<exists>c \<in> set candidates. hc_focus_history_id c = None
      then Inl (''Herdr session '' @ session @ '' has compositor windows without focus history'') else
      (case least_history candidates of
         None \<Rightarrow> Inl (''Herdr session '' @ session @ '' has no usable focus history'')
       | Some most_recent \<Rightarrow>
           let recent = filter (\<lambda>c. hc_focus_history_id c = Some most_recent) candidates in
           if length recent \<noteq> 1
           then Inl (''Herdr session '' @ session @ '' has '' @ nat_to_string (length recent) @
             '' equally recent compositor windows'')
           else Inr (hd recent)))"

section \<open>The controller\<close>

definition focus_expression :: "string \<Rightarrow> string result" where
  "focus_expression address =
     (case strip_prefix ''0x'' address of
        None \<Rightarrow> Inl ''Hyprland window address lacks 0x prefix''
      | Some hex \<Rightarrow>
          if hex = [] \<or> \<not> list_all is_ascii_hexdigit hex
          then Inl ''Hyprland window address is not hexadecimal''
          else Inr (''hl.dsp.focus({ window = '' @ [CHR 0x22] @ ''address:'' @ address @
                    [CHR 0x22] @ '' })''))"

datatype launch_observation =
    SpawnFailed string | WaitFailed string | Exited bool | StillRunning

text \<open>The n-th list of clients, what a dispatch and a launch come to, and the n-th reading of the
  monotonic clock, in milliseconds.\<close>

record hypr_env =
  he_clients :: "nat \<Rightarrow> hypr_client list result"
  he_monitors :: "hypr_monitor list result"
  he_active :: "hypr_client result"
  he_dispatch :: "string \<Rightarrow> unit result"
  he_launch :: "string list \<Rightarrow> launch_observation"
  he_now :: "nat \<Rightarrow> nat"

record desktop_state =
  ds_remembered :: "string option"
  ds_launching :: "(desktop_app, nat) hmap"
  ds_dispatched :: "string list"
  ds_launched :: "string list list"

definition launch_observation_timeout :: nat where
  "launch_observation_timeout = 12000"

definition launch_poll_interval :: nat where
  "launch_poll_interval = 100"

definition launch_coalesce_for :: nat where
  "launch_coalesce_for = 20000"

definition new_desktop_state :: desktop_state where
  "new_desktop_state =
     \<lparr>ds_remembered = None, ds_launching = [], ds_dispatched = [], ds_launched = []\<rparr>"

definition dispatch_focus ::
  "hypr_env \<Rightarrow> string \<Rightarrow> desktop_state \<Rightarrow> unit result \<times> desktop_state" where
  "dispatch_focus env address st =
     (case focus_expression address of
        Inl e \<Rightarrow> (Inl e, st)
      | Inr expression \<Rightarrow>
          (he_dispatch env expression, st\<lparr>ds_dispatched := ds_dispatched st @ [expression]\<rparr>))"

definition launch_desktop ::
  "hypr_env \<Rightarrow> app_spec \<Rightarrow> desktop_state \<Rightarrow> unit result \<times> desktop_state" where
  "launch_desktop env spec st =
     (let args = [''app'', ''-t'', ''service'', ''--'', spec_desktop_id spec];
          st = st\<lparr>ds_launched := ds_launched st @ [args]\<rparr>
      in (case he_launch env args of
            SpawnFailed e \<Rightarrow> (Inl (''launching desktop entry '' @ spec_desktop_id spec), st)
          | WaitFailed e \<Rightarrow> (Inl e, st)
          | Exited success \<Rightarrow>
              (if success then Inr () else Inl ''desktop launch command failed'', st)
          | StillRunning \<Rightarrow> (Inr (), st)))"

definition remember_non_edge_focus :: "config \<Rightarrow> hypr_env \<Rightarrow> desktop_state \<Rightarrow> desktop_state" where
  "remember_non_edge_focus cfg env st =
     (case he_active env of
        Inl _ \<Rightarrow> st
      | Inr active \<Rightarrow>
          (case he_monitors env of
             Inl _ \<Rightarrow> st
           | Inr monitors \<Rightarrow>
               (case (case find (\<lambda>m. hm_id m = hc_monitor active) monitors of
                        Some m \<Rightarrow> Some m | None \<Rightarrow> find hm_focused monitors) of
                  None \<Rightarrow> st
                | Some active_monitor \<Rightarrow>
                    if dc_edge_output (cfg_desktop cfg) = Some (hm_name active_monitor) then st
                    else if hc_address active = [] then st
                    else if is_portal_preview_class (hc_class active) then st
                    else st\<lparr>ds_remembered := Some (hc_address active)\<rparr>)))"

definition restore_focus :: "hypr_env \<Rightarrow> desktop_state \<Rightarrow> unit result \<times> desktop_state" where
  "restore_focus env st =
     (case ds_remembered st of
        None \<Rightarrow> (Inl ''no non-EDGE window has been observed'', st)
      | Some address \<Rightarrow>
          (case he_clients env 0 of
             Inl e \<Rightarrow> (Inl e, st)
           | Inr clients \<Rightarrow>
               (case he_monitors env of
                  Inl e \<Rightarrow> (Inl e, st)
                | Inr _ \<Rightarrow>
                    if \<not> (\<exists>c \<in> set clients. hc_address c = address)
                    then (Inl ''remembered window no longer exists'', st)
                    else dispatch_focus env address st)))"

definition forget_launch :: "desktop_app \<Rightarrow> desktop_state \<Rightarrow> desktop_state" where
  "forget_launch app st = st\<lparr>ds_launching := hremove app (ds_launching st)\<rparr>"

text \<open>The loop that waits for the window of a launched application; a fuel of one more than the
  number of polls is enough. The n-th poll reads the clients for the (n+2)-th time.\<close>

fun wait_loop ::
  "nat \<Rightarrow> hypr_env \<Rightarrow> desktop_app \<Rightarrow> nat \<Rightarrow> nat \<Rightarrow> desktop_state \<Rightarrow>
     (desktop_app_outcome result \<times> desktop_state) option" where
  "wait_loop 0 env app deadline n st = None"
| "wait_loop (Suc fuel) env app deadline n st =
     (case he_clients env (n + 1) of
        Inl e \<Rightarrow> Some (Inl e, forget_launch app st)
      | Inr clients \<Rightarrow>
          (case select_desktop_candidate clients (desktop_app_spec app) of
             Inl e \<Rightarrow> Some (Inl e, forget_launch app st)
           | Inr (Some client) \<Rightarrow>
               (case dispatch_focus env (hc_address client) (forget_launch app st) of
                  (Inl e, st) \<Rightarrow> Some (Inl e, st)
                | (Inr _, st) \<Rightarrow> Some (Inr LaunchedAndFocused, st))
           | Inr None \<Rightarrow>
               if he_now env (n + 2) < deadline then wait_loop fuel env app deadline (n + 1) st
               else Some (Inl ''desktop client did not map before the launch deadline'',
                          forget_launch app st)))"

definition wait_for_launched_client ::
  "nat \<Rightarrow> hypr_env \<Rightarrow> desktop_app \<Rightarrow> desktop_state \<Rightarrow>
     (desktop_app_outcome result \<times> desktop_state) option" where
  "wait_for_launched_client fuel env app st =
     wait_loop fuel env app (he_now env 1 + launch_observation_timeout) 0 st"

definition focus_or_launch ::
  "nat \<Rightarrow> hypr_env \<Rightarrow> desktop_app \<Rightarrow> desktop_state \<Rightarrow>
     (desktop_app_outcome result \<times> desktop_state) option" where
  "focus_or_launch fuel env app st =
     (case he_clients env 0 of
        Inl e \<Rightarrow> Some (Inl e, st)
      | Inr clients \<Rightarrow>
          (case select_desktop_candidate clients (desktop_app_spec app) of
             Inl e \<Rightarrow> Some (Inl e, st)
           | Inr (Some client) \<Rightarrow>
               (case dispatch_focus env (hc_address client) (forget_launch app st) of
                  (Inl e, st) \<Rightarrow> Some (Inl e, st)
                | (Inr _, st) \<Rightarrow> Some (Inr Focused, st))
           | Inr None \<Rightarrow>
               let now = he_now env 0;
                   launch_in_flight = (case hget (ds_launching st) app of
                       Some started \<Rightarrow> now - started < launch_coalesce_for | None \<Rightarrow> False)
               in if launch_in_flight then wait_for_launched_client fuel env app st
                  else (case launch_desktop env (desktop_app_spec app)
                               (st\<lparr>ds_launching := hinsert app now (ds_launching st)\<rparr>) of
                          (Inl e, st) \<Rightarrow> Some (Inl e, forget_launch app st)
                        | (Inr _, st) \<Rightarrow> wait_for_launched_client fuel env app st)))"

definition focus_existing ::
  "hypr_env \<Rightarrow> desktop_app \<Rightarrow> desktop_state \<Rightarrow> unit result \<times> desktop_state" where
  "focus_existing env app st =
     (case he_clients env 0 of
        Inl e \<Rightarrow> (Inl e, st)
      | Inr clients \<Rightarrow>
          (case select_desktop_candidate clients (desktop_app_spec app) of
             Inl e \<Rightarrow> (Inl e, st)
           | Inr (Some client) \<Rightarrow> dispatch_focus env (hc_address client) st
           | Inr None \<Rightarrow>
               (Inl (''no '' @ spec_class (desktop_app_spec app) @ '' desktop client is mapped''), st)))"

definition activate_herdr ::
  "config \<Rightarrow> hypr_env \<Rightarrow> proc_entry list option \<Rightarrow> string \<Rightarrow> string \<Rightarrow> desktop_state \<Rightarrow>
     unit result \<times> desktop_state" where
  "activate_herdr cfg env proc session socket_path st =
     (case he_clients env 0 of
        Inl e \<Rightarrow> (Inl e, st)
      | Inr clients \<Rightarrow>
          (case he_monitors env of
             Inl e \<Rightarrow> (Inl e, st)
           | Inr _ \<Rightarrow>
               (case select_herdr_candidate clients (process_table proc) session socket_path
                       (dc_herdr_class (cfg_desktop cfg)) of
                  Inl e \<Rightarrow> (Inl e, st)
                | Inr candidate \<Rightarrow> dispatch_focus env (hc_address candidate) st)))"

section \<open>Facts about the choice of a window\<close>

lemma preferring_subset: "set (preferring p xs) \<subseteq> set xs"
  by (auto simp: preferring_def Let_def)

lemma preferring_eq_Nil [simp]: "preferring p xs = [] \<longleftrightarrow> xs = []"
  by (auto simp: preferring_def Let_def)

lemma preferring_preferred: "c \<in> set (preferring p xs) \<Longrightarrow> d \<in> set xs \<Longrightarrow> p d \<Longrightarrow> p c"
  by (auto simp: preferring_def Let_def filter_empty_conv split: if_splits)

lemma mset_preferring:
  assumes "mset xs = mset ys"
  shows "mset (preferring p xs) = mset (preferring p ys)"
  using mset_eq_setD [OF assms] assms by (simp add: preferring_def Let_def filter_empty_conv)

lemma singleton_mset: "mset xs = mset ys \<Longrightarrow> length ys = 1 \<Longrightarrow> xs = ys"
  by (auto simp: length_Suc_conv mset_single_iff)

lemma singleton_hd_mset: "mset xs = mset ys \<Longrightarrow> length ys = 1 \<Longrightarrow> hd xs = hd ys"
  using singleton_mset by metis

lemma singleton_hd: "length xs = 1 \<Longrightarrow> hd xs \<in> set xs"
  by (cases xs) auto

lemma least_history_Min:
  "least_history cs = (if hs = {} then None else Some (Min hs))"
  if "hs = {h. \<exists>c \<in> set cs. hc_focus_history_id c = Some h}"
proof -
  have "set (List.map_filter hc_focus_history_id cs) = hs"
    using that by (force simp: map_filter_def)
  then show ?thesis
    unfolding least_history_def
    by (cases "List.map_filter hc_focus_history_id cs") (auto simp: Min.set_eq_fold [symmetric])
qed

lemma least_history_mset:
  assumes "mset cs = mset ds"
  shows "least_history cs = least_history ds"
  unfolding least_history_Min [OF refl] mset_eq_setD [OF assms] ..

lemma least_history_le:
  assumes "least_history cs = Some h" "c \<in> set cs" "hc_focus_history_id c = Some h'"
  shows "h \<le> h'"
proof -
  have hs: "{h. \<exists>c \<in> set cs. hc_focus_history_id c = Some h} =
      set (List.map_filter hc_focus_history_id cs)"
    by (force simp: map_filter_def)
  have "h = Min (set (List.map_filter hc_focus_history_id cs))"
    using assms(1) by (simp add: least_history_Min [OF refl] hs split: if_splits)
  moreover have "h' \<in> set (List.map_filter hc_focus_history_id cs)"
    unfolding hs [symmetric] using assms(2,3) by blast
  ultimately show ?thesis by simp
qed

lemma select_desktop_candidate_mset:
  assumes "mset clients = mset clients'"
  shows "select_desktop_candidate clients spec = select_desktop_candidate clients' spec"
proof -
  define c0 where "c0 = desktop_candidates clients spec"
  define d0 where "d0 = desktop_candidates clients' spec"
  define f1 where
    "f1 = preferring (\<lambda>c::hypr_client. eq_ignore_ascii_case (hc_initial_title c) (spec_main_title spec))"
  define f2 where "f2 = preferring (\<lambda>c::hypr_client. \<not> hc_floating c)"
  define f3 where "f3 h = filter (\<lambda>c::hypr_client. hc_focus_history_id c = Some h)" for h
  have m0: "mset c0 = mset d0"
    unfolding c0_def d0_def desktop_candidates_def using assms by simp
  have m1: "mset (f1 c0) = mset (f1 d0)" unfolding f1_def using m0 by (rule mset_preferring)
  have m2: "mset (f2 (f1 c0)) = mset (f2 (f1 d0))" unfolding f2_def using m1 by (rule mset_preferring)
  have m3: "mset (f3 h (f2 (f1 c0))) = mset (f3 h (f2 (f1 d0)))" for h
    unfolding f3_def using m2 by simp
  have first: "(case c0 of [] \<Rightarrow> None | c # _ \<Rightarrow> Some c) = (case d0 of [] \<Rightarrow> None | c # _ \<Rightarrow> Some c)"
    if "length d0 \<le> 1"
    using that m0 singleton_mset [OF m0] by (cases d0) auto
  note len = mset_eq_length [OF m0] mset_eq_length [OF m1] mset_eq_length [OF m2]
    mset_eq_length [OF m3]
  note one = singleton_hd_mset [OF m1] singleton_hd_mset [OF m2] singleton_hd_mset [OF m3]
  show ?thesis
    unfolding select_desktop_candidate_def Let_def c0_def [symmetric] d0_def [symmetric]
      f1_def [symmetric] f2_def [symmetric] f3_def [symmetric]
    by (intro if_cong) (simp_all add: len one first mset_eq_setD [OF m2] least_history_mset [OF m2]
        split: option.split)
qed

text \<open>The order of preference: a main title, then a tiled window, then the most recent one.\<close>

definition desktop_preferred :: "app_spec \<Rightarrow> hypr_client list \<Rightarrow> hypr_client \<Rightarrow> bool" where
  "desktop_preferred spec candidates c \<longleftrightarrow>
     (let titled = (\<lambda>c. eq_ignore_ascii_case (hc_initial_title c) (spec_main_title spec)) in
      \<forall>d \<in> set candidates.
        (titled d \<longrightarrow> titled c) \<and>
        (titled d = titled c \<longrightarrow> \<not> hc_floating d \<longrightarrow> \<not> hc_floating c) \<and>
        (titled d = titled c \<longrightarrow> hc_floating d = hc_floating c \<longrightarrow> d \<noteq> c \<longrightarrow>
           (\<exists>hc hd. hc_focus_history_id c = Some hc \<and> hc_focus_history_id d = Some hd \<and> hc < hd)))"

lemma preferring_cases:
  assumes "c \<in> set (preferring p xs)"
  obtains "p c" "preferring p xs = filter p xs" | "\<not> p c" "preferring p xs = xs" "\<forall>d \<in> set xs. \<not> p d"
  using assms by (auto simp: preferring_def Let_def filter_empty_conv split: if_splits)

lemma in_preferring_iff:
  "c \<in> set (preferring p xs) \<longleftrightarrow> c \<in> set xs \<and> (p c \<or> (\<forall>d \<in> set xs. \<not> p d))"
  by (auto simp: preferring_def Let_def filter_empty_conv)

lemma singleton_set: "length xs = 1 \<Longrightarrow> set xs = {hd xs}"
  by (cases xs) auto

lemma desktop_preferredI:
  fixes p :: "hypr_client \<Rightarrow> bool"
  assumes p: "p = (\<lambda>c. eq_ignore_ascii_case (hc_initial_title c) (spec_main_title spec))"
    and c: "c \<in> set (preferring (\<lambda>c. \<not> hc_floating c) (preferring p cs))"
    and least: "\<forall>d \<in> set (preferring (\<lambda>c. \<not> hc_floating c) (preferring p cs)). d \<noteq> c \<longrightarrow>
      (\<exists>hc hd. hc_focus_history_id c = Some hc \<and> hc_focus_history_id d = Some hd \<and> hc < hd)"
  shows "desktop_preferred spec cs c"
  unfolding desktop_preferred_def Let_def p [symmetric, THEN fun_cong]
proof
  fix d assume d: "d \<in> set cs"
  have "p d \<longrightarrow> p c" using c d by (auto simp: in_preferring_iff)
  moreover have "\<not> hc_floating d \<longrightarrow> \<not> hc_floating c" if "p d = p c"
    using c d that by (auto simp: in_preferring_iff)
  moreover have "\<exists>hc hd. hc_focus_history_id c = Some hc \<and> hc_focus_history_id d = Some hd \<and> hc < hd"
    if "p d = p c" "hc_floating d = hc_floating c" "d \<noteq> c"
  proof -
    have "d \<in> set (preferring (\<lambda>c. \<not> hc_floating c) (preferring p cs))"
      using c d that by (auto simp: in_preferring_iff)
    with least that show ?thesis by blast
  qed
  ultimately show "(p d \<longrightarrow> p c) \<and> (p d = p c \<longrightarrow> \<not> hc_floating d \<longrightarrow> \<not> hc_floating c) \<and>
      (p d = p c \<longrightarrow> hc_floating d = hc_floating c \<longrightarrow> d \<noteq> c \<longrightarrow>
        (\<exists>hc hd. hc_focus_history_id c = Some hc \<and> hc_focus_history_id d = Some hd \<and> hc < hd))"
    by blast
qed

lemma recent_unique:
  assumes "\<forall>c \<in> set cs. hc_focus_history_id c \<noteq> None" "least_history cs = Some h"
    and "length (filter (\<lambda>c. hc_focus_history_id c = Some h) cs) = 1"
    and "c = hd (filter (\<lambda>c. hc_focus_history_id c = Some h) cs)"
  shows "c \<in> set cs"
    and "\<forall>d \<in> set cs. d \<noteq> c \<longrightarrow>
      (\<exists>hc hd. hc_focus_history_id c = Some hc \<and> hc_focus_history_id d = Some hd \<and> hc < hd)"
proof -
  have only: "{x \<in> set cs. hc_focus_history_id x = Some h} = {c}"
    using singleton_set [OF assms(3)] assms(4) by simp
  then have c: "c \<in> set cs" "hc_focus_history_id c = Some h" by blast+
  show "c \<in> set cs" by (rule c(1))
  show "\<forall>d \<in> set cs. d \<noteq> c \<longrightarrow>
      (\<exists>hc hd. hc_focus_history_id c = Some hc \<and> hc_focus_history_id d = Some hd \<and> hc < hd)"
  proof (intro ballI impI)
    fix d assume d: "d \<in> set cs" "d \<noteq> c"
    then obtain h' where h': "hc_focus_history_id d = Some h'" using assms(1) by blast
    moreover have "h \<le> h'" by (rule least_history_le [OF assms(2) d(1) h'])
    moreover have "h \<noteq> h'" using only d h' by blast
    ultimately show "\<exists>hc hd. hc_focus_history_id c = Some hc \<and> hc_focus_history_id d = Some hd \<and> hc < hd"
      using c(2) by auto
  qed
qed

lemma desktop_preferred_single: "length cs \<le> 1 \<Longrightarrow> c \<in> set cs \<Longrightarrow> desktop_preferred spec cs c"
  by (cases cs) (auto simp: desktop_preferred_def Let_def)

lemma select_desktop_candidate_Some:
  assumes "select_desktop_candidate clients spec = Inr (Some c)"
  shows "c \<in> set (desktop_candidates clients spec) \<and>
    desktop_preferred spec (desktop_candidates clients spec) c"
proof -
  define cs where "cs = desktop_candidates clients spec"
  define p where
    "p = (\<lambda>c::hypr_client. eq_ignore_ascii_case (hc_initial_title c) (spec_main_title spec))"
  let ?c1 = "preferring p cs"
  let ?c2 = "preferring (\<lambda>c. \<not> hc_floating c) ?c1"
  let ?recent = "\<lambda>h. filter (\<lambda>c. hc_focus_history_id c = Some h) ?c2"
  have sub: "set ?c2 \<subseteq> set ?c1" "set ?c1 \<subseteq> set cs" by (rule preferring_subset)+
  note select = assms [unfolded select_desktop_candidate_def Let_def cs_def [symmetric]
      p_def [symmetric]]
  consider (single) "length cs \<le> 1" "c \<in> set cs"
    | (titled) "length ?c1 = 1" "c = hd ?c1"
    | (tiled) "length ?c2 = 1" "c = hd ?c2"
    | (recent) h where "\<forall>c \<in> set ?c2. hc_focus_history_id c \<noteq> None" "least_history ?c2 = Some h"
        "length (?recent h) = 1" "c = hd (?recent h)"
    using select by (fastforce split: if_splits option.splits list.splits)
  then show ?thesis
    unfolding cs_def [symmetric]
  proof cases
    case single
    then show "c \<in> set cs \<and> desktop_preferred spec cs c" by (simp add: desktop_preferred_single)
  next
    case titled
    then have "set ?c2 = {c}" using singleton_set sub by (metis preferring_eq_Nil set_empty subset_singletonD)
    then show "c \<in> set cs \<and> desktop_preferred spec cs c"
      using sub by (auto intro!: desktop_preferredI [OF p_def])
  next
    case tiled
    then show "c \<in> set cs \<and> desktop_preferred spec cs c"
      using sub singleton_set [OF tiled(1)] by (auto intro!: desktop_preferredI [OF p_def])
  next
    case recent
    from recent_unique [OF this] sub show "c \<in> set cs \<and> desktop_preferred spec cs c"
      by (auto intro!: desktop_preferredI [OF p_def])
  qed
qed

lemma select_desktop_candidate_None:
  "select_desktop_candidate clients spec = Inr None \<longleftrightarrow> desktop_candidates clients spec = []"
  by (auto simp: select_desktop_candidate_def Let_def split: list.splits option.splits)

lemma select_herdr_candidate_mset:
  assumes "mset clients = mset clients'"
  shows "select_herdr_candidate clients ps session path hint =
    select_herdr_candidate clients' ps session path hint"
proof -
  define c0 where
    "c0 = filter (\<lambda>c. client_hosts_session_in (hc_pid c) session path ps) clients"
  define d0 where
    "d0 = filter (\<lambda>c. client_hosts_session_in (hc_pid c) session path ps) clients'"
  define f1 where "f1 = preferring (\<lambda>c::hypr_client.
      contains (to_ascii_lowercase hint) (to_ascii_lowercase (hc_class c)) \<or>
      contains (to_ascii_lowercase hint) (to_ascii_lowercase (hc_initial_class c)) \<or>
      contains (to_ascii_lowercase hint) (to_ascii_lowercase (hc_title c)) \<or>
      contains (to_ascii_lowercase hint) (to_ascii_lowercase (hc_initial_title c)))"
  define f3 where "f3 h = filter (\<lambda>c::hypr_client. hc_focus_history_id c = Some h)" for h
  have m0: "mset c0 = mset d0" unfolding c0_def d0_def using assms by simp
  have m1: "mset (f1 c0) = mset (f1 d0)" unfolding f1_def using m0 by (rule mset_preferring)
  have m3: "mset (f3 h (f1 c0)) = mset (f3 h (f1 d0))" for h unfolding f3_def using m1 by simp
  have nil: "c0 = [] \<longleftrightarrow> d0 = []" using mset_eq_setD [OF m0] by (metis set_empty)
  note len = mset_eq_length [OF m1] mset_eq_length [OF m3]
  note one = singleton_hd_mset [OF m1] singleton_hd_mset [OF m3]
  show ?thesis
    unfolding select_herdr_candidate_def Let_def c0_def [symmetric] d0_def [symmetric]
      f1_def [symmetric] f3_def [symmetric]
    by (intro if_cong) (simp_all add: nil len one mset_eq_setD [OF m1] least_history_mset [OF m1]
        split: option.split)
qed

lemma select_herdr_candidate_hosts:
  assumes "select_herdr_candidate clients ps session path hint = Inr c"
  shows "c \<in> set clients \<and> client_hosts_session_in (hc_pid c) session path ps"
proof -
  define cs where "cs = filter (\<lambda>c. client_hosts_session_in (hc_pid c) session path ps) clients"
  obtain p where p: "(length (preferring p cs) = 1 \<and> c = hd (preferring p cs)) \<or>
      (\<exists>h. let r = filter (\<lambda>c. hc_focus_history_id c = Some h) (preferring p cs) in
        length r = 1 \<and> c = hd r)"
    using assms unfolding select_herdr_candidate_def Let_def cs_def [symmetric]
    by (fastforce split: if_splits option.splits)
  then have "c \<in> set (preferring p cs)"
    using singleton_hd by (auto simp: Let_def) (metis (no_types, lifting) One_nat_def filter_is_subset singleton_hd subsetD)
  then have "c \<in> set cs" using preferring_subset by fast
  then show ?thesis by (simp add: cs_def)
qed

section \<open>Facts about focusing\<close>

lemma focus_expression_Inr:
  "focus_expression address = Inr e \<longleftrightarrow>
     (\<exists>hex. address = ''0x'' @ hex \<and> hex \<noteq> [] \<and> list_all is_ascii_hexdigit hex \<and>
        e = ''hl.dsp.focus({ window = '' @ [CHR 0x22] @ ''address:'' @ address @ [CHR 0x22] @ '' })'')"
  by (auto simp: focus_expression_def strip_prefix_Some split: option.splits)
    (auto simp: strip_prefix_def)

lemma dispatch_focus_fields [simp]:
  "ds_launching (snd (dispatch_focus env a st)) = ds_launching st"
  "ds_remembered (snd (dispatch_focus env a st)) = ds_remembered st"
  "ds_launched (snd (dispatch_focus env a st)) = ds_launched st"
  by (simp_all add: dispatch_focus_def split: sum.splits)

lemma dispatch_focus_dispatched:
  "ds_dispatched (snd (dispatch_focus env a st)) =
     (case focus_expression a of Inl _ \<Rightarrow> ds_dispatched st | Inr e \<Rightarrow> ds_dispatched st @ [e])"
  by (simp add: dispatch_focus_def split: sum.splits)

lemma forget_launch_fields [simp]:
  "hget (ds_launching (forget_launch app st)) app = None"
  "ds_launched (forget_launch app st) = ds_launched st"
  "ds_dispatched (forget_launch app st) = ds_dispatched st"
  by (simp_all add: forget_launch_def hmap_simps)

text \<open>When the clock reaches the deadline within the fuel, the loop returns.\<close>

lemma wait_loop_returns:
  assumes "\<not> he_now env (n + k + 2) < deadline" "k < fuel"
  shows "wait_loop fuel env app deadline n st \<noteq> None"
  using assms
proof (induction fuel arbitrary: n k)
  case (Suc fuel)
  show ?case
  proof (cases k)
    case 0
    with Suc.prems show ?thesis by (auto split: sum.splits option.splits prod.splits)
  next
    case (Suc k')
    with Suc.prems Suc.IH [of "n + 1" k'] show ?thesis
      by (auto split: sum.splits option.splits prod.splits)
  qed
qed simp

text \<open>Once the loop returns, no launch of the application is in flight, and none was made.\<close>

lemma wait_loop_done:
  "wait_loop fuel env app deadline n st = Some (r, st') \<Longrightarrow>
     hget (ds_launching st') app = None \<and> ds_launched st' = ds_launched st"
proof (induction fuel arbitrary: n)
  case (Suc fuel)
  have d: "dispatch_focus env a (forget_launch app st) = (x, s) \<Longrightarrow>
      hget (ds_launching s) app = None \<and> ds_launched s = ds_launched st" for a x s
    using dispatch_focus_fields [of env a "forget_launch app st"] by simp
  show ?case
    using Suc.prems Suc.IH [of "n + 1"]
    by (auto split: sum.splits option.splits prod.splits if_splits dest: d)
qed simp

text \<open>The polls of a launch end within the fuel when the clock advances by the poll interval.\<close>

definition clock_advances :: "hypr_env \<Rightarrow> bool" where
  "clock_advances env \<longleftrightarrow> (\<forall>n. he_now env 1 + n * launch_poll_interval \<le> he_now env (n + 2))"

lemma clock_advances_late:
  "clock_advances env \<Longrightarrow> \<not> he_now env (0 + 120 + 2) < he_now env 1 + launch_observation_timeout"
  unfolding clock_advances_def
  by (drule spec [of _ 120]) (simp add: launch_poll_interval_def launch_observation_timeout_def)

lemma wait_for_launched_client_total:
  "clock_advances env \<Longrightarrow> wait_for_launched_client 121 env app s \<noteq> None"
  unfolding wait_for_launched_client_def
  using wait_loop_returns [OF clock_advances_late, of env 121 app s] by simp

lemma focus_or_launch_total:
  "clock_advances env \<Longrightarrow> focus_or_launch 121 env app st \<noteq> None"
  using wait_for_launched_client_total [of env app]
  by (auto simp: focus_or_launch_def Let_def split: option.splits prod.splits sum.splits)

section \<open>Facts about the process tree\<close>

text \<open>The parent of a process, unless it is the root of the tree; and the n-th ancestor.\<close>

definition parent_step :: "processes \<Rightarrow> int \<Rightarrow> int option" where
  "parent_step table pid =
     (case hget table pid of
        None \<Rightarrow> None
      | Some process \<Rightarrow> if pi_parent process \<le> 1 then None else Some (pi_parent process))"

primrec nth_ancestor :: "processes \<Rightarrow> nat \<Rightarrow> int \<Rightarrow> int option" where
  "nth_ancestor table 0 pid = Some pid"
| "nth_ancestor table (Suc n) pid =
     (case parent_step table pid of None \<Rightarrow> None | Some p \<Rightarrow> nth_ancestor table n p)"

lemma descend_Suc:
  "descend (Suc n) visited current ancestor table =
     (current = ancestor \<or> current \<notin> set visited \<and>
       (case parent_step table current of
          None \<Rightarrow> False | Some p \<Rightarrow> descend n (current # visited) p ancestor table))"
  by (auto simp: parent_step_def split: option.splits)

declare descend.simps(2) [simp del]

lemma descend_sound:
  "descend n visited current ancestor table \<Longrightarrow> \<exists>k<n. nth_ancestor table k current = Some ancestor"
proof (induction n arbitrary: visited current)
  case (Suc n)
  show ?case
  proof (cases "current = ancestor")
    case True
    then show ?thesis by (intro exI [of _ 0]) simp
  next
    case False
    with Suc.prems obtain p where p: "parent_step table current = Some p"
      "descend n (current # visited) p ancestor table"
      by (auto simp: descend_Suc split: option.splits)
    then obtain k where "k < n" "nth_ancestor table k p = Some ancestor" using Suc.IH by blast
    with p show ?thesis by (intro exI [of _ "Suc k"]) simp
  qed
qed simp

lemma nth_ancestor_closed:
  assumes "\<And>v. v \<in> V \<Longrightarrow> \<exists>w \<in> V. parent_step table v = Some w" "v \<in> V"
  shows "\<exists>w \<in> V. nth_ancestor table k v = Some w"
  using assms(2)
proof (induction k arbitrary: v)
  case (Suc k)
  with assms(1) [OF Suc.prems] show ?case by auto
qed simp

text \<open>Every visited process is not the ancestor, and its parent is visited or the current one.\<close>

lemma descend_complete:
  assumes "\<And>v. v \<in> set visited \<Longrightarrow>
      v \<noteq> ancestor \<and> (\<exists>w. parent_step table v = Some w \<and> (w = current \<or> w \<in> set visited))"
    and "k < n" "nth_ancestor table k current = Some ancestor"
  shows "descend n visited current ancestor table"
  using assms
proof (induction n arbitrary: visited current k)
  case (Suc n)
  show ?case
  proof (cases "current = ancestor")
    case False
    have fresh: "current \<notin> set visited"
    proof
      assume c: "current \<in> set visited"
      then have "\<exists>w \<in> set visited. parent_step table v = Some w" if "v \<in> set visited" for v
        using Suc.prems(1) [OF that] by auto
      from nth_ancestor_closed [OF this c, of k] Suc.prems(3)
      have "ancestor \<in> set visited" by auto
      with Suc.prems(1) show False by blast
    qed
    from False Suc.prems(3) obtain k' p where k: "k = Suc k'" "parent_step table current = Some p"
      "nth_ancestor table k' p = Some ancestor"
      by (cases k) (auto split: option.splits)
    have "descend n (current # visited) p ancestor table"
    proof (rule Suc.IH [OF _ _ k(3)])
      show "k' < n" using k(1) Suc.prems(2) by simp
      fix v assume "v \<in> set (current # visited)"
      then show "v \<noteq> ancestor \<and> (\<exists>w. parent_step table v = Some w \<and> (w = p \<or> w \<in> set (current # visited)))"
        using False k(2) Suc.prems(1) by fastforce
    qed
    with fresh k(2) show ?thesis by (simp add: descend_Suc)
  qed (simp add: descend_Suc)
qed simp

lemma is_descendant_chain:
  "is_descendant pid ancestor table \<longleftrightarrow> (\<exists>k<32. nth_ancestor table k pid = Some ancestor)"
  unfolding is_descendant_def
  using descend_sound descend_complete [of "[]"] by (metis empty_iff list.set(1))

section \<open>Properties\<close>

text \<open>When a window of a desktop application is chosen, it is one of the windows whose class or
  initial class is the application's; it is preferred to every other such window (a window with the
  application's main title to one without, then a tiled to a floating one, then the most recently
  focused one); and the choice does not depend on the order in which the compositor lists its
  windows.\<close>

lemma desktop_choice_preferred:
  assumes "select_desktop_candidate clients spec = Inr (Some c)"
    and "mset clients' = mset clients"
  shows "c \<in> set (desktop_candidates clients spec) \<and>
    desktop_preferred spec (desktop_candidates clients spec) c \<and>
    select_desktop_candidate clients' spec = Inr (Some c)"
  using select_desktop_candidate_Some [OF assms(1)]
    select_desktop_candidate_mset [OF assms(2), of spec] assms(1) by simp_all

definition example_client :: "string \<Rightarrow> bool \<Rightarrow> int \<Rightarrow> hypr_client" where
  "example_client address floating history =
     \<lparr>hc_address = address, hc_class = ''T3Code'', hc_initial_class = ''t3code'', hc_title = ''thread'',
      hc_initial_title = ''T3 Code'', hc_pid = 1, hc_monitor = 0, hc_floating = floating,
      hc_focus_history_id = Some history\<rparr>"

lemma desktop_choice_preferred_witness:
  "let spec = desktop_app_spec T3codeApp;
       clients = [example_client ''0xa'' True 0, example_client ''0xb'' False 4,
                  example_client ''0xc'' False 2]
   in example_client ''0xc'' False 2 \<in> set (desktop_candidates clients spec) \<and>
      desktop_preferred spec (desktop_candidates clients spec) (example_client ''0xc'' False 2) \<and>
      select_desktop_candidate (rev clients) spec = Inr (Some (example_client ''0xc'' False 2))"
proof -
  have sel: "select_desktop_candidate
      [example_client ''0xa'' True 0, example_client ''0xb'' False 4, example_client ''0xc'' False 2]
      (desktop_app_spec T3codeApp) = Inr (Some (example_client ''0xc'' False 2))"
    by code_simp
  show ?thesis
    unfolding Let_def by (rule desktop_choice_preferred [OF sel]) (simp only: mset_rev)
qed

text \<open>C32 The window that hosts a Herdr session is one of the compositor's windows, and its process has
  a descendant (or is itself) whose command line and environment belong to that session; which one
  is chosen does not depend on the order of the windows.\<close>

theorem herdr_window_hosts_session:
  assumes "select_herdr_candidate clients processes session path hint = Inr c"
    and "mset clients' = mset clients"
  shows "c \<in> set clients \<and> client_hosts_session_in (hc_pid c) session path processes \<and>
    select_herdr_candidate clients' processes session path hint = Inr c"
  using select_herdr_candidate_hosts [OF assms(1)]
    select_herdr_candidate_mset [OF assms(2), of processes session path hint] assms(1) by simp_all

lemma herdr_window_hosts_session_witness:
  "let processes = [(7, \<lparr>pi_parent = 1, pi_command = [''/usr/bin/herdr''], pi_environment = []\<rparr>)];
       c = (example_client ''0xa'' True 0)\<lparr>hc_pid := 7\<rparr>
   in client_hosts_session_in (hc_pid c) ''default'' ''/run/h.sock'' processes \<and>
      select_herdr_candidate [c, example_client ''0xb'' True 0] processes ''default'' ''/run/h.sock''
        ''herdr'' = Inr c"
proof -
  define ps :: processes where
    "ps = [(7, \<lparr>pi_parent = 1, pi_command = [''/usr/bin/herdr''], pi_environment = []\<rparr>)]"
  define c where "c = (example_client ''0xa'' True 0)\<lparr>hc_pid := 7\<rparr>"
  have sel: "select_herdr_candidate [example_client ''0xb'' True 0, c] ps ''default'' ''/run/h.sock''
      ''herdr'' = Inr c"
    unfolding ps_def c_def by code_simp
  show ?thesis
    unfolding Let_def ps_def [symmetric] c_def [symmetric]
    using herdr_window_hosts_session [OF sel, of "[c, example_client ''0xb'' True 0]"]
    by (simp add: add_mset_commute)
qed

text \<open>An interactive Herdr command line counts for at most one session name, unless it is the
  default client with no session in its environment; then the sockets it counts for have one name.\<close>

theorem command_matches_one_session:
  assumes "command_matches_session command environment session1 path1"
    and "command_matches_session command environment session2 path2"
  shows "session1 = session2 \<or>
    interactive_herdr_session command = Some DefaultSession \<and>
    find_var ''HERDR_SESSION='' environment = None \<and>
    find_var ''HERDR_SOCKET_PATH='' environment = Some (from_utf8_lossy path1) \<and>
    from_utf8_lossy path1 = from_utf8_lossy path2"
  using assms
  by (auto simp: command_matches_session_def Let_def
      split: option.splits herdr_client_session.splits if_splits)

lemma command_matches_one_session_witness:
  "let command = [''/opt/herdr'', ''--handoff'', ''--session=work'']
   in command_matches_session command [] ''work'' ''/run/a'' \<and>
      command_matches_session command [] ''work'' ''/run/b'' \<and>
      (''work'' = ''work'' \<or> interactive_herdr_session command = Some DefaultSession)"
proof -
  have m: "command_matches_session [''/opt/herdr'', ''--handoff'', ''--session=work''] [] ''work'' ''/run/a''"
    "command_matches_session [''/opt/herdr'', ''--handoff'', ''--session=work''] [] ''work'' ''/run/b''"
    by code_simp+
  show ?thesis using command_matches_one_session [OF m] m by (simp only: Let_def) blast
qed

text \<open>A process is a descendant of another exactly when that one is among its first 32 ancestors
  (itself included), following parents until the root; the test for processes already visited
  changes no answer.\<close>

lemma is_descendant_iff_ancestor:
  "is_descendant pid ancestor table \<longleftrightarrow> (\<exists>k<32. nth_ancestor table k pid = Some ancestor)"
  by (rule is_descendant_chain)

text \<open>The expression sent to the compositor is built only from an address of \<open>0x\<close> and hexadecimal
  digits, so the only quotation marks, braces and parentheses in it are those of the template: an
  address cannot inject code.\<close>

lemma focus_expression_safe:
  assumes "focus_expression address = Inr e"
  shows "(\<exists>hex. address = ''0x'' @ hex \<and> hex \<noteq> [] \<and> list_all is_ascii_hexdigit hex) \<and>
    e = ''hl.dsp.focus({ window = '' @ [CHR 0x22] @ ''address:'' @ address @ [CHR 0x22] @ '' })'' \<and>
    (\<forall>ch \<in> {CHR 0x22, CHR 0x5C, CHR 0x0A, CHR ''('', CHR '')'', CHR ''{'', CHR ''}''}. ch \<notin> set address)"
proof -
  from assms obtain hex where h: "address = ''0x'' @ hex" "hex \<noteq> []" "list_all is_ascii_hexdigit hex"
    and e: "e = ''hl.dsp.focus({ window = '' @ [CHR 0x22] @ ''address:'' @ address @ [CHR 0x22] @ '' })''"
    unfolding focus_expression_Inr by blast
  have "\<not> is_ascii_hexdigit ch"
    if "ch \<in> {CHR 0x22, CHR 0x5C, CHR 0x0A, CHR ''('', CHR '')'', CHR ''{'', CHR ''}''}" for ch
    using that by (auto simp: is_ascii_hexdigit_def is_ascii_digit_def)
  then have "\<forall>ch \<in> {CHR 0x22, CHR 0x5C, CHR 0x0A, CHR ''('', CHR '')'', CHR ''{'', CHR ''}''}.
      ch \<notin> set address"
    using h(3) by (auto simp: h(1) list_all_iff)
  with h e show ?thesis by blast
qed

lemma focus_expression_safe_witness:
  "focus_expression ''0x5aF'' =
     Inr (''hl.dsp.focus({ window = '' @ [CHR 0x22] @ ''address:0x5aF'' @ [CHR 0x22] @ '' })'') \<and>
   CHR 0x22 \<notin> set ''0x5aF''"
proof -
  have f: "focus_expression ''0x5aF'' =
      Inr (''hl.dsp.focus({ window = '' @ [CHR 0x22] @ ''address:0x5aF'' @ [CHR 0x22] @ '' })'')"
    by code_simp
  show ?thesis using f focus_expression_safe [OF f] by blast
qed

text \<open>C31 When the clock advances by at least the poll interval between two polls, focusing or
  launching an application returns within 121 polls (the fuel), with at most one launch of
  the application's own desktop entry, none when its window could be focused or another launch is
  in flight; and when it returns from waiting, no launch is in flight any more.\<close>

theorem focus_or_launch_returns:
  assumes "clock_advances env"
  shows "\<exists>r st'. focus_or_launch 121 env app st = Some (r, st') \<and>
    (case he_clients env 0 of
       Inl _ \<Rightarrow> st' = st \<and> isl r
     | Inr clients \<Rightarrow>
         (case select_desktop_candidate clients (desktop_app_spec app) of
            Inl _ \<Rightarrow> st' = st \<and> isl r
          | Inr (Some c) \<Rightarrow> ds_launched st' = ds_launched st \<and> hget (ds_launching st') app = None
          | Inr None \<Rightarrow> hget (ds_launching st') app = None \<and>
              ds_launched st' = ds_launched st @
                (case hget (ds_launching st) app of
                   Some started \<Rightarrow> if he_now env 0 - started < launch_coalesce_for then [] else
                     [[''app'', ''-t'', ''service'', ''--'', spec_desktop_id (desktop_app_spec app)]]
                 | None \<Rightarrow>
                     [[''app'', ''-t'', ''service'', ''--'', spec_desktop_id (desktop_app_spec app)]])))"
proof -
  have wait: "\<exists>r st'. wait_for_launched_client 121 env app s = Some (r, st') \<and>
      hget (ds_launching st') app = None \<and> ds_launched st' = ds_launched s" for s
    using wait_for_launched_client_total [OF assms, of app s] wait_loop_done
    unfolding wait_for_launched_client_def by fastforce
  have d: "dispatch_focus env a (forget_launch app st) = (x, s) \<Longrightarrow>
      hget (ds_launching s) app = None \<and> ds_launched s = ds_launched st" for a x s
    using dispatch_focus_fields [of env a "forget_launch app st"] by simp
  show ?thesis
  proof (cases "\<exists>clients. he_clients env 0 = Inr clients \<and>
      select_desktop_candidate clients (desktop_app_spec app) = Inr None")
    case True
    then obtain clients where c: "he_clients env 0 = Inr clients"
      "select_desktop_candidate clients (desktop_app_spec app) = Inr None" by blast
    have launch: "launch_desktop env spec s = (x, s') \<Longrightarrow> ds_launched s' = ds_launched s @
        [[''app'', ''-t'', ''service'', ''--'', spec_desktop_id spec]]" for spec s x s'
      by (auto simp: launch_desktop_def Let_def split: launch_observation.splits if_splits)
    show ?thesis
      unfolding focus_or_launch_def Let_def
      using wait by (fastforce simp: c dest: launch split: option.splits prod.splits sum.splits)
  next
    case False
    then show ?thesis
      unfolding focus_or_launch_def Let_def
      by (auto dest: d split: option.splits prod.splits sum.splits)
  qed
qed

definition example_env :: hypr_env where
  "example_env =
     \<lparr>he_clients = (\<lambda>n. Inr (if n < 5 then [] else [example_client ''0xa'' False 0])),
      he_monitors = Inr [], he_active = Inl ''none'', he_dispatch = (\<lambda>_. Inr ()),
      he_launch = (\<lambda>_. StillRunning), he_now = (\<lambda>n. n * 100)\<rparr>"

lemma focus_or_launch_returns_witness:
  "\<exists>r st'. focus_or_launch 121 example_env T3codeApp new_desktop_state = Some (r, st') \<and>
     ds_launched st' = [[''app'', ''-t'', ''service'', ''--'', ''t3code.desktop'']]"
proof -
  have clock: "clock_advances example_env"
    by (simp add: clock_advances_def example_env_def launch_poll_interval_def)
  have c: "he_clients example_env 0 = Inr []" by (simp add: example_env_def)
  have "select_desktop_candidate [] (desktop_app_spec T3codeApp) = Inr None" by code_simp
  with c focus_or_launch_returns [OF clock, of T3codeApp new_desktop_state]
  have "\<exists>r st'. focus_or_launch 121 example_env T3codeApp new_desktop_state = Some (r, st') \<and>
      hget (ds_launching st') T3codeApp = None \<and>
      ds_launched st' = [[''app'', ''-t'', ''service'', ''--'', ''t3code.desktop'']]"
    by (simp add: new_desktop_state_def)
  then show ?thesis by blast
qed

end
