(* ===== verification/Observations.thy ===== *)
theory Observations
  imports Model
begin

text \<open>
  The private action targets of the cards and the review latch of \<open>runtime.rs\<close>:
  \<open>apply_agent_observations\<close> decides, from the previous and the current observation of each card,
  whether it is review-ready and for how long it has been in its state. An \<open>Instant\<close> is a number
  of nanoseconds, and \<open>duration_since\<close> saturates at zero, as truncated subtraction does. A
  \<open>HashMap\<close> is walked in the order of its association list, whatever that order is.
\<close>

section \<open>Targets\<close>

record herdr_target =
  ht_session :: string
  ht_socket_path :: string
  ht_pane_id :: string
  ht_terminal_id :: string
  ht_state_change_seq :: u64
  ht_revision :: u64

record t3code_target =
  tt_thread_id :: string
  tt_state_change_seq :: u64
  tt_acknowledged :: bool

text \<open>Session name reported for the single local T3 Code server.\<close>

definition SESSION_NAME :: string where
  "SESSION_NAME = ''t3code''"

datatype agent_target = HerdrTarget herdr_target | T3codeTarget t3code_target

fun target_session :: "agent_target \<Rightarrow> string" where
  "target_session (HerdrTarget t) = ht_session t"
| "target_session (T3codeTarget _) = SESSION_NAME"

fun target_state_change_seq :: "agent_target \<Rightarrow> u64" where
  "target_state_change_seq (HerdrTarget t) = ht_state_change_seq t"
| "target_state_change_seq (T3codeTarget t) = tt_state_change_seq t"

fun target_acknowledged :: "agent_target \<Rightarrow> bool" where
  "target_acknowledged (HerdrTarget _) = False"
| "target_acknowledged (T3codeTarget t) = tt_acknowledged t"

section \<open>The review latch\<close>

record observed_agent =
  ob_status :: agent_status
  ob_state_change_seq :: u64
  ob_since :: nat
  ob_review_ready :: bool

type_synonym targets = "(string, agent_target) hmap"
type_synonym observed = "(string, observed_agent) hmap"
type_synonym focused = "(string, string option) hmap"

fun next_review_ready :: "agent_status option \<Rightarrow> bool \<Rightarrow> agent_status \<Rightarrow> bool" where
  "next_review_ready _ _ Done = True"
| "next_review_ready previous_status previous_review_ready Idle =
     (previous_review_ready \<or> previous_status = Some Working)"
| "next_review_ready _ _ _ = False"

definition duration_secs :: "nat \<Rightarrow> nat \<Rightarrow> nat" where
  "duration_secs now since = (now - since) div 1000000000"

definition connected_sessions :: "targets \<Rightarrow> string list" where
  "connected_sessions targets = remdups (map (target_session \<circ> snd) targets)"

definition current_focus :: "agent_view list \<Rightarrow> targets \<Rightarrow> focused" where
  "current_focus agents targets =
     fold (\<lambda>agent m. case hget targets (av_id agent) of
           None \<Rightarrow> m
         | Some target \<Rightarrow>
             if av_focused agent then hinsert (target_session target) (Some (av_id agent)) m else m)
       agents (map (\<lambda>session. (session, None)) (connected_sessions targets))"

definition focus_step ::
  "string \<times> string option \<Rightarrow> string list \<times> focused \<Rightarrow> string list \<times> focused" where
  "focus_step = (\<lambda>(session, current) (acks, focused_agents).
     ((case (hget focused_agents session, current) of
         (Some previous, Some agent_id) \<Rightarrow> if previous \<noteq> current then agent_id # acks else acks
       | _ \<Rightarrow> acks),
      hinsert session current focused_agents))"

definition observe_agent ::
  "targets \<Rightarrow> string list \<Rightarrow> nat \<Rightarrow> observed \<Rightarrow> agent_view \<Rightarrow> agent_view \<times> observed" where
  "observe_agent targets acks now observed agent =
     (case hget targets (av_id agent) of
        None \<Rightarrow>
          ((case hget observed (av_id agent) of
              Some previous \<Rightarrow>
                agent\<lparr>av_review_ready := ob_review_ready previous,
                      av_observed_for_seconds := duration_secs now (ob_since previous)\<rparr>
            | None \<Rightarrow> agent), observed)
      | Some target \<Rightarrow>
          let previous = hget observed (av_id agent);
              seq = target_state_change_seq target;
              unchanged = (case previous of
                  Some v \<Rightarrow> ob_status v = av_status agent \<and> ob_state_change_seq v = seq
                | None \<Rightarrow> False);
              was_ready = (case previous of Some v \<Rightarrow> ob_review_ready v | None \<Rightarrow> False);
              ready = (if unchanged then was_ready
                       else next_review_ready (map_option ob_status previous) was_ready
                              (av_status agent));
              ready = (if av_id agent \<in> set acks \<or> target_acknowledged target then False else ready);
              since = (case previous of Some v \<Rightarrow> if unchanged then ob_since v else now | None \<Rightarrow> now)
          in (agent\<lparr>av_review_ready := ready, av_observed_for_seconds := duration_secs now since\<rparr>,
              hinsert (av_id agent)
                \<lparr>ob_status = av_status agent, ob_state_change_seq = seq, ob_since = since,
                 ob_review_ready = ready\<rparr> observed))"

primrec observe_agents ::
  "targets \<Rightarrow> string list \<Rightarrow> nat \<Rightarrow> observed \<Rightarrow> agent_view list \<Rightarrow> agent_view list \<times> observed" where
  "observe_agents targets acks now observed [] = ([], observed)"
| "observe_agents targets acks now observed (agent # agents) =
     (let (agent', observed1) = observe_agent targets acks now observed agent;
          (agents', observed2) = observe_agents targets acks now observed1 agents
      in (agent' # agents', observed2))"

definition apply_agent_observations ::
  "agent_view list \<Rightarrow> targets \<Rightarrow> observed \<Rightarrow> focused \<Rightarrow> nat \<Rightarrow> agent_view list \<times> observed \<times> focused"
where
  "apply_agent_observations agents targets observed focused_agents now =
     (let sessions = connected_sessions targets;
          (acks, focused1) = fold focus_step (current_focus agents targets) ([], focused_agents);
          focused2 = hretain (\<lambda>session _. session \<in> set sessions) focused1;
          (agents', observed1) = observe_agents targets acks now observed agents
      in (agents', hretain (\<lambda>id _. id \<in> set (map av_id agents')) observed1, focused2))"

section \<open>Focus transitions\<close>

text \<open>The id a session's focus is on, by the last focused card of the session.\<close>

definition focus_of :: "agent_view list \<Rightarrow> targets \<Rightarrow> string \<Rightarrow> string option" where
  "focus_of agents targets session =
     (case rev (filter (\<lambda>a. av_focused a \<and>
          (case hget targets (av_id a) of Some t \<Rightarrow> target_session t = session | None \<Rightarrow> False)) agents)
      of [] \<Rightarrow> None | a # _ \<Rightarrow> Some (av_id a))"

lemma set_connected_sessions:
  "set (connected_sessions targets) = target_session ` snd ` set targets"
  by (auto simp: connected_sessions_def image_comp comp_def)

lemma target_session_connected:
  "hget targets k = Some t \<Longrightarrow> target_session t \<in> set (connected_sessions targets)"
  unfolding set_connected_sessions by (drule map_of_SomeD) force

lemma hmap_ok_initial_focus:
  "hmap_ok (map (\<lambda>session. (session, None)) (connected_sessions targets))"
  by (simp add: hmap_ok_def connected_sessions_def comp_def)

lemma hmap_ok_current_focus [simp]: "hmap_ok (current_focus agents targets)"
proof -
  have gen: "hmap_ok m \<Longrightarrow> hmap_ok (fold (\<lambda>agent m. case hget targets (av_id agent) of None \<Rightarrow> m
         | Some target \<Rightarrow> if av_focused agent
             then hinsert (target_session target) (Some (av_id agent)) m else m) agents m)" for m
    by (induction agents arbitrary: m) (simp_all split: option.splits)
  show ?thesis
    unfolding current_focus_def by (rule gen [OF hmap_ok_initial_focus])
qed

lemma map_of_map_const: "map_of (map (\<lambda>k. (k, v)) ks) x = (if x \<in> set ks then Some v else None)"
  by (induction ks) auto

lemma hget_current_focus:
  "hget (current_focus agents targets) s =
     (if s \<in> set (connected_sessions targets) then Some (focus_of agents targets s) else None)"
proof (induction agents rule: rev_induct)
  case Nil
  then show ?case by (simp add: current_focus_def focus_of_def map_of_map_const)
next
  case (snoc a as)
  show ?case
  proof (cases "hget targets (av_id a)")
    case None
    then have "current_focus (as @ [a]) targets = current_focus as targets"
      by (simp add: current_focus_def)
    moreover have "focus_of (as @ [a]) targets s = focus_of as targets s"
      using None by (simp add: focus_of_def)
    ultimately show ?thesis by (simp add: snoc)
  next
    case (Some t)
    then have "current_focus (as @ [a]) targets =
       (if av_focused a then hinsert (target_session t) (Some (av_id a)) (current_focus as targets)
        else current_focus as targets)"
      by (simp add: current_focus_def)
    moreover have "focus_of (as @ [a]) targets s =
       (if av_focused a \<and> target_session t = s then Some (av_id a) else focus_of as targets s)"
      using Some by (simp add: focus_of_def)
    ultimately show ?thesis
      using snoc target_session_connected [OF Some] by (auto simp: hmap_simps)
  qed
qed

lemma focus_transitions_step:
  assumes "G s0 = None"
  shows "(\<exists>s p. (if s = s0 then Some c else G s) = Some (Some i) \<and> F s = Some p \<and> p \<noteq> Some i) \<longleftrightarrow>
    (\<exists>p. c = Some i \<and> F s0 = Some p \<and> p \<noteq> Some i) \<or>
    (\<exists>s p. G s = Some (Some i) \<and> (if s = s0 then Some c else F s) = Some p \<and> p \<noteq> Some i)"
  (is "?L \<longleftrightarrow> ?A \<or> ?B")
proof
  assume ?L
  then obtain s p where H: "(if s = s0 then Some c else G s) = Some (Some i)" "F s = Some p"
    "p \<noteq> Some i" by blast
  show "?A \<or> ?B"
  proof (cases "s = s0")
    case True with H show ?thesis by simp
  next
    case False with H have ?B by (intro exI [of _ s] exI [of _ p]) simp
    then show ?thesis ..
  qed
next
  assume "?A \<or> ?B"
  then show ?L
  proof
    assume ?A then show ?L by (intro exI [of _ s0]) simp
  next
    assume ?B
    then obtain s p where H: "G s = Some (Some i)" "(if s = s0 then Some c else F s) = Some p"
      "p \<noteq> Some i" by blast
    with assms have "s \<noteq> s0" by auto
    with H show ?L by (intro exI [of _ s] exI [of _ p]) simp
  qed
qed

lemma focus_step_parts:
  "set (fst (focus_step (s0, c) (acks, foc))) =
     set acks \<union> {i. \<exists>p. c = Some i \<and> hget foc s0 = Some p \<and> p \<noteq> Some i}"
  "snd (focus_step (s0, c) (acks, foc)) = hinsert s0 c foc"
  by (auto simp: focus_step_def split: option.splits if_splits)

lemma fold_focus_step_acks:
  "distinct (map fst cur) \<Longrightarrow> set (fst (fold focus_step cur (acks, foc))) =
     set acks \<union> {i. \<exists>s p. hget cur s = Some (Some i) \<and> hget foc s = Some p \<and> p \<noteq> Some i}"
proof (induction cur arbitrary: acks foc)
  case Nil
  show ?case by simp
next
  case (Cons e cur)
  obtain s0 c where e: "e = (s0, c)" by (cases e)
  obtain acks1 foc1 where st: "focus_step (s0, c) (acks, foc) = (acks1, foc1)"
    by (cases "focus_step (s0, c) (acks, foc)")
  have step: "fold focus_step (e # cur) (acks, foc) = fold focus_step cur (acks1, foc1)"
    by (simp add: e st)
  have foc1: "foc1 = hinsert s0 c foc"
    and acks1: "set acks1 = set acks \<union> {i. \<exists>p. c = Some i \<and> hget foc s0 = Some p \<and> p \<noteq> Some i}"
    using focus_step_parts [of s0 c acks foc] by (simp_all add: st)
  have notin: "hget cur s0 = None" and dist: "distinct (map fst cur)"
    using Cons.prems by (simp_all add: e map_of_eq_None_iff)
  have get: "hget (e # cur) s = (if s = s0 then Some c else hget cur s)" for s by (simp add: e)
  show ?case
    unfolding step Cons.IH [OF dist] acks1 foc1 get hget_hinsert fun_upd_apply
      focus_transitions_step [where G = "hget cur" and F = "hget foc", OF notin]
    by blast
qed

lemma fold_focus_step_focus:
  "distinct (map fst cur) \<Longrightarrow> hget (snd (fold focus_step cur (acks, foc))) s =
     (case hget cur s of Some c \<Rightarrow> Some c | None \<Rightarrow> hget foc s)"
proof (induction cur arbitrary: acks foc)
  case (Cons e cur)
  obtain s0 c where e: "e = (s0, c)" by (cases e)
  obtain acks1 where st: "focus_step (s0, c) (acks, foc) = (acks1, hinsert s0 c foc)"
    using focus_step_parts(2) [of s0 c acks foc] by (metis prod.collapse)
  have "hget cur s0 = None" and dist: "distinct (map fst cur)"
    using Cons.prems by (simp_all add: e map_of_eq_None_iff)
  then show ?case
    using Cons.IH [OF dist, of acks1 "hinsert s0 c foc"]
    by (auto simp: e st hmap_simps split: option.splits)
qed simp

lemma fold_focus_step_ok:
  "hmap_ok foc \<Longrightarrow> hmap_ok (snd (fold focus_step cur (acks, foc)))"
proof (induction cur arbitrary: acks foc)
  case (Cons e cur)
  obtain s0 c where e: "e = (s0, c)" by (cases e)
  obtain acks1 where st: "focus_step (s0, c) (acks, foc) = (acks1, hinsert s0 c foc)"
    using focus_step_parts(2) [of s0 c acks foc] by (metis prod.collapse)
  show ?case
    using Cons.IH [of "hinsert s0 c foc" acks1] Cons.prems by (simp add: e st)
qed simp

text \<open>The cards a new focus transition acknowledges.\<close>

definition focus_acknowledged :: "agent_view list \<Rightarrow> targets \<Rightarrow> focused \<Rightarrow> string \<Rightarrow> bool" where
  "focus_acknowledged agents targets foc i \<longleftrightarrow>
     (\<exists>s \<in> set (connected_sessions targets). focus_of agents targets s = Some i \<and>
        (case hget foc s of Some p \<Rightarrow> p \<noteq> Some i | None \<Rightarrow> False))"

section \<open>What the pass computes\<close>

text \<open>The latch of one card with a target, given the entry observed before.\<close>

definition latch :: "observed_agent option \<Rightarrow> agent_status \<Rightarrow> u64 \<Rightarrow> bool" where
  "latch previous status seq =
     (case previous of
        Some v \<Rightarrow>
          if ob_status v = status \<and> ob_state_change_seq v = seq then ob_review_ready v
          else next_review_ready (Some (ob_status v)) (ob_review_ready v) status
      | None \<Rightarrow> next_review_ready None False status)"

definition latch_since :: "observed_agent option \<Rightarrow> agent_status \<Rightarrow> u64 \<Rightarrow> nat \<Rightarrow> nat" where
  "latch_since previous status seq now =
     (case previous of
        Some v \<Rightarrow> if ob_status v = status \<and> ob_state_change_seq v = seq then ob_since v else now
      | None \<Rightarrow> now)"

definition latch_entry ::
  "(string \<Rightarrow> bool) \<Rightarrow> nat \<Rightarrow> observed \<Rightarrow> agent_view \<Rightarrow> agent_target \<Rightarrow> observed_agent" where
  "latch_entry acked now observed a t =
     (let previous = hget observed (av_id a); seq = target_state_change_seq t in
      \<lparr>ob_status = av_status a, ob_state_change_seq = seq,
       ob_since = latch_since previous (av_status a) seq now,
       ob_review_ready = (\<not> acked (av_id a) \<and> \<not> target_acknowledged t \<and>
                           latch previous (av_status a) seq)\<rparr>)"

definition observed_view ::
  "targets \<Rightarrow> (string \<Rightarrow> bool) \<Rightarrow> nat \<Rightarrow> observed \<Rightarrow> agent_view \<Rightarrow> agent_view" where
  "observed_view targets acked now observed a =
     (case hget targets (av_id a) of
        Some t \<Rightarrow> let e = latch_entry acked now observed a t in
          a\<lparr>av_review_ready := ob_review_ready e,
            av_observed_for_seconds := duration_secs now (ob_since e)\<rparr>
      | None \<Rightarrow>
          (case hget observed (av_id a) of
             Some v \<Rightarrow> a\<lparr>av_review_ready := ob_review_ready v,
                         av_observed_for_seconds := duration_secs now (ob_since v)\<rparr>
           | None \<Rightarrow> a))"

lemma observe_agent_view:
  "fst (observe_agent targets acks now observed a) =
     observed_view targets (\<lambda>i. i \<in> set acks) now observed a"
  by (auto simp: observe_agent_def observed_view_def latch_entry_def latch_def latch_since_def Let_def
      split: option.splits)

lemma observe_agent_observed:
  "snd (observe_agent targets acks now observed a) =
     (case hget targets (av_id a) of
        Some t \<Rightarrow> hinsert (av_id a) (latch_entry (\<lambda>i. i \<in> set acks) now observed a t) observed
      | None \<Rightarrow> observed)"
  by (auto simp: observe_agent_def latch_entry_def latch_def latch_since_def Let_def
      split: option.splits)

lemma observed_view_id [simp]: "av_id (observed_view ts ak now ob a) = av_id a"
  by (auto simp: observed_view_def Let_def split: option.splits)

lemma latch_entry_cong:
  "hget ob (av_id a) = hget ob' (av_id a) \<Longrightarrow> latch_entry ak now ob a t = latch_entry ak now ob' a t"
  by (simp add: latch_entry_def)

lemma observed_view_cong:
  assumes "hget ob (av_id a) = hget ob' (av_id a)"
  shows "observed_view ts ak now ob a = observed_view ts ak now ob' a"
  unfolding observed_view_def latch_entry_cong [OF assms] assms ..

lemma observe_agents_Cons:
  "observe_agents targets acks now ob (b # bs) =
     (observed_view targets (\<lambda>i. i \<in> set acks) now ob b #
        fst (observe_agents targets acks now (snd (observe_agent targets acks now ob b)) bs),
      snd (observe_agents targets acks now (snd (observe_agent targets acks now ob b)) bs))"
  by (simp add: case_prod_beta observe_agent_view)

lemma observe_agent_other:
  "i \<noteq> av_id b \<Longrightarrow> hget (snd (observe_agent targets acks now ob b)) i = hget ob i"
  by (simp add: observe_agent_observed hmap_simps split: option.splits)

lemma observe_agents_views:
  "distinct (map av_id agents) \<Longrightarrow> fst (observe_agents targets acks now ob agents) =
     map (observed_view targets (\<lambda>i. i \<in> set acks) now ob) agents"
proof (induction agents arbitrary: ob)
  case (Cons b bs)
  have "av_id x \<noteq> av_id b" if "x \<in> set bs" for x 
    using that Cons.prems by (simp only: distinct_map_Cons_neq not_False_eq_True)
  then have "observed_view targets (\<lambda>i. i \<in> set acks) now (snd (observe_agent targets acks now ob b)) x =
      observed_view targets (\<lambda>i. i \<in> set acks) now ob x" if "x \<in> set bs" for x
    using that by (intro observed_view_cong observe_agent_other)
  with Cons show ?case by (simp add: observe_agents_Cons del: observe_agents.simps)
qed simp

lemma observe_agents_other:
  "i \<notin> av_id ` set agents \<Longrightarrow>
     hget (snd (observe_agents targets acks now ob agents)) i = hget ob i"
  by (induction agents arbitrary: ob)
    (simp_all add: observe_agents_Cons observe_agent_other del: observe_agents.simps(2))

lemma observe_agents_observed:
  "distinct (map av_id agents) \<Longrightarrow> a \<in> set agents \<Longrightarrow>
     hget (snd (observe_agents targets acks now ob agents)) (av_id a) =
      (case hget targets (av_id a) of
         Some t \<Rightarrow> Some (latch_entry (\<lambda>i. i \<in> set acks) now ob a t) | None \<Rightarrow> hget ob (av_id a))"
proof (induction agents arbitrary: ob)
  case (Cons b bs)
  show ?case
  proof (cases "a = b")
    case True
    then show ?thesis
      using Cons.prems
      by (simp add: observe_agents_Cons observe_agents_other observe_agent_observed hmap_simps
          del: observe_agents.simps split: option.splits)
  next
    case False
    with Cons.prems have a: "a \<in> set bs" "distinct (map av_id bs)" by simp_all
    have same: "hget (snd (observe_agent targets acks now ob b)) (av_id a) = hget ob (av_id a)"
      using Cons.prems(1) a(1) by (intro observe_agent_other) (rule distinct_map_Cons_neq)
    show ?thesis
      unfolding observe_agents_Cons snd_conv Cons.IH [OF a(2,1)] latch_entry_cong [OF same] same ..
  qed
qed simp

lemma observe_agents_ok:
  "hmap_ok ob \<Longrightarrow> hmap_ok (snd (observe_agents targets acks now ob agents))"
proof (induction agents arbitrary: ob)
  case (Cons b bs)
  then have "hmap_ok (snd (observe_agent targets acks now ob b))"
    by (simp add: observe_agent_observed split: option.splits)
  then show ?case by (simp add: observe_agents_Cons Cons.IH del: observe_agents.simps)
qed simp

section \<open>The whole pass\<close>

lemma set_focus_acks:
  "set (fst (fold focus_step (current_focus agents targets) ([], foc))) =
     {i. focus_acknowledged agents targets foc i}"
proof -
  have "distinct (map fst (current_focus agents targets))"
    using hmap_ok_current_focus by (simp only: hmap_ok_def)
  from fold_focus_step_acks [OF this] show ?thesis
    by (auto simp: focus_acknowledged_def hget_current_focus simp del: map_of_eq_Some_iff
        split: if_splits option.splits)
qed

text \<open>What the pass computes, as a map over the cards.\<close>

lemma apply_observations_views:
  assumes "distinct (map av_id agents)"
  shows "fst (apply_agent_observations agents targets ob foc now) =
    map (observed_view targets (focus_acknowledged agents targets foc) now ob) agents"
  using observe_agents_views [OF assms]
  by (simp add: apply_agent_observations_def case_prod_beta set_focus_acks)

lemma apply_observations_ids:
  "distinct (map av_id agents) \<Longrightarrow>
     map av_id (fst (apply_agent_observations agents targets ob foc now)) = map av_id agents"
  by (simp add: apply_observations_views)

lemma apply_observations_observed:
  assumes "distinct (map av_id agents)" and "hmap_ok ob"
  shows "hget (fst (snd (apply_agent_observations agents targets ob foc now))) i =
    (case find (\<lambda>a. av_id a = i) agents of
       Some a \<Rightarrow> (case hget targets i of
           Some t \<Rightarrow> Some (latch_entry (focus_acknowledged agents targets foc) now ob a t)
         | None \<Rightarrow> hget ob i)
     | None \<Rightarrow> None)"
proof -
  let ?acks = "fst (fold focus_step (current_focus agents targets) ([], foc))"
  let ?ob = "snd (observe_agents targets ?acks now ob agents)"
  have ok: "hmap_ok ?ob" by (rule observe_agents_ok [OF assms(2)])
  have eq: "fst (snd (apply_agent_observations agents targets ob foc now)) =
      hretain (\<lambda>id _. id \<in> av_id ` set agents) ?ob"
    using observe_agents_views [OF assms(1), of targets ?acks now ob]
    by (simp add: apply_agent_observations_def case_prod_beta image_image)
  show ?thesis
  proof (cases "find (\<lambda>a. av_id a = i) agents")
    case None
    then have "i \<notin> av_id ` set agents" by (auto simp: find_None_iff)
    then show ?thesis by (simp add: eq hget_hretain ok None split: option.splits)
  next
    case (Some a)
    then have a: "a \<in> set agents" "av_id a = i"
      using find_SomeD [OF Some] by simp_all
    have "hget ?ob i = (case hget targets i of
        Some t \<Rightarrow> Some (latch_entry (focus_acknowledged agents targets foc) now ob a t)
      | None \<Rightarrow> hget ob i)"
      using observe_agents_observed [OF assms(1) a(1), of targets ?acks now ob]
      unfolding a(2) set_focus_acks mem_Collect_eq by (rule HOL.trans) (rule refl)
    moreover have "i \<in> av_id ` set agents" using a by blast
    ultimately show ?thesis by (simp add: eq hget_hretain ok Some split: option.splits)
  qed
qed

lemma apply_observations_observed_ok:
  "hmap_ok ob \<Longrightarrow> hmap_ok (fst (snd (apply_agent_observations agents targets ob foc now)))"
  by (simp add: apply_agent_observations_def case_prod_beta observe_agents_ok)

lemma apply_observations_focused:
  assumes "hmap_ok foc"
  shows "hget (snd (snd (apply_agent_observations agents targets ob foc now))) s =
    (if s \<in> set (connected_sessions targets) then Some (focus_of agents targets s) else None)"
proof -
  have "distinct (map fst (current_focus agents targets))"
    using hmap_ok_current_focus by (simp only: hmap_ok_def)
  from fold_focus_step_focus [OF this] show ?thesis
    by (simp add: apply_agent_observations_def case_prod_beta hget_hretain fold_focus_step_ok assms
        hget_current_focus split: option.splits)
qed

lemma apply_observations_focused_ok:
  "hmap_ok foc \<Longrightarrow> hmap_ok (snd (snd (apply_agent_observations agents targets ob foc now)))"
  by (simp add: apply_agent_observations_def case_prod_beta fold_focus_step_ok)

lemma focus_of_card:
  assumes "focus_of agents targets s = Some i"
  shows "\<exists>a \<in> set agents. av_id a = i \<and> av_focused a \<and>
    (\<exists>t. hget targets i = Some t \<and> target_session t = s)"
proof -
  from assms obtain a as where r: "rev (filter (\<lambda>a. av_focused a \<and>
      (case hget targets (av_id a) of Some t \<Rightarrow> target_session t = s | None \<Rightarrow> False)) agents) = a # as"
    and i: "i = av_id a"
    unfolding focus_of_def
    by (cases "rev (filter (\<lambda>a. av_focused a \<and>
      (case hget targets (av_id a) of Some t \<Rightarrow> target_session t = s | None \<Rightarrow> False)) agents)") auto
  from rev_filter_Cons [OF r] show ?thesis
    unfolding i by (auto split: option.splits intro!: bexI [of _ a])
qed

lemma focus_of_Some:
  "focus_of agents targets s = Some i \<Longrightarrow> \<exists>t. hget targets i = Some t \<and> target_session t = s"
  using focus_of_card by blast

section \<open>The contract of an adapter\<close>

text \<open>What an agent adapter (Herdr, T3 Code) gives this pass: cards, and a target for each card and for
  no other id, of the card's own session; a fresh card is not review-ready.\<close>

locale agent_adapter =
  fixes cards :: "'o \<Rightarrow> agent_view list" and routes :: "'o \<Rightarrow> targets"
  assumes routes_ok: "hmap_ok (routes x)"
    and routes_keys: "dom (hget (routes x)) = set (map av_id (cards x))"
    and cards_fresh: "a \<in> set (cards x) \<Longrightarrow> \<not> av_review_ready a"
    and routes_session:
      "a \<in> set (cards x) \<Longrightarrow> hget (routes x) (av_id a) = Some t \<Longrightarrow> target_session t = av_session a"
begin

lemma card_routed: "a \<in> set (cards x) \<Longrightarrow> \<exists>t. hget (routes x) (av_id a) = Some t"
  using routes_keys [of x] by (metis domD image_eqI set_map)

text \<open>A published card shows what the latch stored for it.\<close>

lemma published:
  assumes "distinct (map av_id (cards x))" "hmap_ok ob"
  shows "fst (apply_agent_observations (cards x) (routes x) ob foc now) =
    map (\<lambda>a. let e = the (hget (fst (snd (apply_agent_observations (cards x) (routes x) ob foc now)))
              (av_id a))
         in a\<lparr>av_review_ready := ob_review_ready e,
              av_observed_for_seconds := duration_secs now (ob_since e)\<rparr>) (cards x)"
  unfolding apply_observations_views [OF assms(1)]
proof (rule map_cong [OF refl])
  fix a assume a: "a \<in> set (cards x)"
  then obtain t where t: "hget (routes x) (av_id a) = Some t" using card_routed by blast
  have "find (\<lambda>b. av_id b = av_id a) (cards x) = Some a"
    using find_distinct_key [OF assms(1) a] .
  then show "observed_view (routes x) (focus_acknowledged (cards x) (routes x) foc) now ob a =
      (let e = the (hget (fst (snd (apply_agent_observations (cards x) (routes x) ob foc now)))
              (av_id a))
         in a\<lparr>av_review_ready := ob_review_ready e,
              av_observed_for_seconds := duration_secs now (ob_since e)\<rparr>)"
    by (simp add: observed_view_def t apply_observations_observed [OF assms] Let_def)
qed

lemma focus_in_session:
  "focus_of (cards x) (routes x) s = Some i \<Longrightarrow>
     \<exists>a \<in> set (cards x). av_id a = i \<and> av_focused a \<and> av_session a = s"
  using focus_of_card [of "cards x" "routes x" s i] by (metis routes_session)

end

section \<open>Facts about acknowledgements\<close>

text \<open>A card is acknowledged when its session's focus has just moved to it.\<close>

lemma focus_acknowledged_target:
  assumes "hget targets i = Some t"
  shows "focus_acknowledged agents targets foc i \<longleftrightarrow>
    focus_of agents targets (target_session t) = Some i \<and>
    (\<exists>p. hget foc (target_session t) = Some p \<and> p \<noteq> Some i)"
proof
  assume "focus_acknowledged agents targets foc i"
  then obtain s p where s: "focus_of agents targets s = Some i" "hget foc s = Some p" "p \<noteq> Some i"
    by (auto simp: focus_acknowledged_def split: option.splits)
  then have "target_session t = s" using focus_of_Some [OF s(1)] assms by auto
  with s show "focus_of agents targets (target_session t) = Some i \<and>
      (\<exists>p. hget foc (target_session t) = Some p \<and> p \<noteq> Some i)" by blast
next
  assume "focus_of agents targets (target_session t) = Some i \<and>
      (\<exists>p. hget foc (target_session t) = Some p \<and> p \<noteq> Some i)"
  then show "focus_acknowledged agents targets foc i"
    unfolding focus_acknowledged_def
    by (intro bexI [OF _ target_session_connected [OF assms]]) auto
qed

section \<open>Properties\<close>

text \<open>C8 One pass of the review latch: each card with a target is published with the readiness and
  the age its new entry holds; the entry records the card's status and its target's sequence,
  keeps its starting time exactly when neither changed, and is ready exactly when the latch says so
  and neither a focus transition nor the human's settling acknowledges the card. Entries of cards
  that are gone are dropped, and the identity and order of the cards are kept.\<close>

theorem review_latch_pass:
  assumes "distinct (map av_id agents)" and "hmap_ok observed"
    and "apply_agent_observations agents targets observed focused_agents now = (agents', observed', focused')"
  shows "map av_id agents' = map av_id agents \<and>
    dom (hget observed') \<subseteq> set (map av_id agents) \<and>
    (\<forall>a \<in> set agents. \<forall>t. hget targets (av_id a) = Some t \<longrightarrow>
       (\<exists>e. hget observed' (av_id a) = Some e \<and>
          a\<lparr>av_review_ready := ob_review_ready e,
            av_observed_for_seconds := duration_secs now (ob_since e)\<rparr> \<in> set agents' \<and>
          ob_status e = av_status a \<and> ob_state_change_seq e = target_state_change_seq t \<and>
          ob_since e = latch_since (hget observed (av_id a)) (av_status a) (target_state_change_seq t) now \<and>
          ob_review_ready e =
            (\<not> focus_acknowledged agents targets focused_agents (av_id a) \<and>
             \<not> target_acknowledged t \<and>
             latch (hget observed (av_id a)) (av_status a) (target_state_change_seq t))))"
proof -
  have ag: "agents' = map (observed_view targets (focus_acknowledged agents targets focused_agents) now
      observed) agents"
    using apply_observations_views [OF assms(1), of targets observed focused_agents now] assms(3) by simp
  have ob: "hget observed' i = (case find (\<lambda>a. av_id a = i) agents of
       Some a \<Rightarrow> (case hget targets i of
           Some t \<Rightarrow> Some (latch_entry (focus_acknowledged agents targets focused_agents) now observed a t)
         | None \<Rightarrow> hget observed i)
     | None \<Rightarrow> None)" for i
    using apply_observations_observed [OF assms(1,2), of targets focused_agents now i] assms(3) by simp
  have dom: "dom (hget observed') \<subseteq> set (map av_id agents)"
    by (auto simp: ob dest!: find_SomeD split: option.splits)
  have entry: "\<exists>e. hget observed' (av_id a) = Some e \<and>
          a\<lparr>av_review_ready := ob_review_ready e,
            av_observed_for_seconds := duration_secs now (ob_since e)\<rparr> \<in> set agents' \<and>
          ob_status e = av_status a \<and> ob_state_change_seq e = target_state_change_seq t \<and>
          ob_since e = latch_since (hget observed (av_id a)) (av_status a) (target_state_change_seq t) now \<and>
          ob_review_ready e =
            (\<not> focus_acknowledged agents targets focused_agents (av_id a) \<and>
             \<not> target_acknowledged t \<and>
             latch (hget observed (av_id a)) (av_status a) (target_state_change_seq t))"
    if a: "a \<in> set agents" and t: "hget targets (av_id a) = Some t" for a t
  proof (intro exI conjI)
    let ?e = "latch_entry (focus_acknowledged agents targets focused_agents) now observed a t"
    show "hget observed' (av_id a) = Some ?e"
      by (simp add: ob find_distinct_key [OF assms(1) a] t)
    show "a\<lparr>av_review_ready := ob_review_ready ?e,
            av_observed_for_seconds := duration_secs now (ob_since ?e)\<rparr> \<in> set agents'"
      using a by (auto simp: ag observed_view_def t Let_def intro!: rev_image_eqI)
  qed (simp_all add: latch_entry_def Let_def)
  show ?thesis using dom entry by (auto simp: ag)
qed

definition example_card :: "string \<Rightarrow> agent_status \<Rightarrow> bool \<Rightarrow> agent_view" where
  "example_card i status focused =
     \<lparr>av_id = i, av_display_name = i, av_agent = ''claude'', av_status = status, av_review_ready = False,
      av_launch_pending = False, av_workspace = ''w'', av_repository = None, av_worktree = None,
      av_session = ''t3code'', av_focused = focused, av_observed_for_seconds = 0,
      av_state_change_seq = 2, av_source_order = 0, av_actions = default_actions\<rparr>"

definition example_targets :: targets where
  "example_targets = [(''a'', T3codeTarget \<lparr>tt_thread_id = ''a'', tt_state_change_seq = 2, tt_acknowledged = False\<rparr>)]"

lemma review_latch_pass_witness:
  "\<exists>a \<in> set (fst (apply_agent_observations [example_card ''a'' Done False] example_targets [] [] 7)).
     av_review_ready a \<and> av_id a = ''a''"
proof -
  let ?as = "[example_card ''a'' Done False]"
  let ?t = "T3codeTarget \<lparr>tt_thread_id = ''a'', tt_state_change_seq = 2, tt_acknowledged = False\<rparr>"
  obtain as' ob' foc' where r: "apply_agent_observations ?as example_targets [] [] 7 = (as', ob', foc')"
    by (cases "apply_agent_observations ?as example_targets [] [] 7")
  have t: "hget example_targets (av_id (example_card ''a'' Done False)) = Some ?t" by code_simp
  have ready: "\<not> focus_acknowledged ?as example_targets [] (av_id (example_card ''a'' Done False)) \<and>
      \<not> target_acknowledged ?t \<and> latch (hget [] (av_id (example_card ''a'' Done False)))
        (av_status (example_card ''a'' Done False)) (target_state_change_seq ?t)"
    by code_simp
  have "\<exists>e::observed_agent. (example_card ''a'' Done False)\<lparr>av_review_ready := ob_review_ready e,
            av_observed_for_seconds := duration_secs 7 (ob_since e)\<rparr> \<in> set as' \<and> ob_review_ready e"
    using review_latch_pass [OF _ hmap_ok_Nil r] t ready by simp blast
  then obtain e :: observed_agent where "(example_card ''a'' Done False)\<lparr>av_review_ready := ob_review_ready e,
      av_observed_for_seconds := duration_secs 7 (ob_since e)\<rparr> \<in> set as'" "ob_review_ready e"
    by blast
  then show ?thesis
    unfolding r fst_conv by (auto simp: example_card_def intro!: bexI)
qed

text \<open>Moving the focus acknowledges: when a session's focus was known to be elsewhere and is now on
  a card, that card is not review-ready. A focus that stays, or is first seen, acknowledges nothing:
  the card then shows what the latch and the human's settling say.\<close>

lemma focus_transition_acknowledges:
  assumes "distinct (map av_id agents)" and "hmap_ok observed"
    and "a \<in> set agents" and "hget targets (av_id a) = Some t"
    and "focus_of agents targets (target_session t) = Some (av_id a)"
    and "apply_agent_observations agents targets observed focused_agents now = (agents', observed', focused')"
    and "a' \<in> set agents'" and "av_id a' = av_id a"
  shows "av_review_ready a' \<longleftrightarrow>
    (case hget focused_agents (target_session t) of None \<Rightarrow> True | Some p \<Rightarrow> p = Some (av_id a)) \<and>
    \<not> target_acknowledged t \<and>
    latch (hget observed (av_id a)) (av_status a) (target_state_change_seq t)"
proof -
  let ?ack = "focus_acknowledged agents targets focused_agents"
  have "agents' = map (observed_view targets ?ack now observed) agents"
    using apply_observations_views [OF assms(1), of targets observed focused_agents now] assms(6) by simp
  with assms(7) obtain b where b: "b \<in> set agents" "a' = observed_view targets ?ack now observed b"
    by auto
  then have "b = a" using assms(1,3,8) by (intro distinct_ids_eq) simp_all
  then show ?thesis
    using b(2) assms(4,5) focus_acknowledged_target [OF assms(4), of agents focused_agents]
    by (auto simp: observed_view_def latch_entry_def Let_def split: option.splits)
qed

lemma focus_transition_acknowledges_witness:
  "let agents = [example_card ''a'' Done True];
       r = apply_agent_observations agents example_targets [] [(''t3code'', None)] 7
   in \<not> av_review_ready (hd (fst r))"
proof -
  let ?as = "[example_card ''a'' Done True]"
  let ?r = "apply_agent_observations ?as example_targets [] [(''t3code'', None)] 7"
  obtain as' ob' foc' where r: "?r = (as', ob', foc')" by (cases ?r)
  have "as' = [observed_view example_targets
      (focus_acknowledged ?as example_targets [(''t3code'', None)]) 7 [] (example_card ''a'' Done True)]"
    using apply_observations_views [of ?as example_targets "[]" "[(''t3code'', None)]" 7] r by simp
  then have hd: "hd as' \<in> set as'" "av_id (hd as') = av_id (example_card ''a'' Done True)" by simp_all
  have t: "hget example_targets (av_id (example_card ''a'' Done True)) = Some (T3codeTarget
      \<lparr>tt_thread_id = ''a'', tt_state_change_seq = 2, tt_acknowledged = False\<rparr>)"
    by code_simp
  have f: "focus_of ?as example_targets (target_session (T3codeTarget
      \<lparr>tt_thread_id = ''a'', tt_state_change_seq = 2, tt_acknowledged = False\<rparr>)) =
      Some (av_id (example_card ''a'' Done True))"
    by code_simp
  have "\<not> av_review_ready (hd as')"
    using focus_transition_acknowledges [OF _ _ _ t f r hd] by (simp add: SESSION_NAME_def)
  then show ?thesis by (simp add: r Let_def)
qed

text \<open>The invariant of the latch: only a finished card is remembered as ready for review.\<close>

definition latch_ok :: "observed \<Rightarrow> bool" where
  "latch_ok observed \<longleftrightarrow> hmap_ok observed \<and>
     (\<forall>(i, e) \<in> set observed. ob_review_ready e \<longrightarrow> ob_status e = Done \<or> ob_status e = Idle)"

lemma latch_ok_hget:
  "latch_ok observed \<longleftrightarrow> hmap_ok observed \<and>
     (\<forall>i e. hget observed i = Some e \<longrightarrow> ob_review_ready e \<longrightarrow> ob_status e = Done \<or> ob_status e = Idle)"
  by (auto simp: latch_ok_def hmap_ok_def) blast

lemma next_review_ready_finished: "next_review_ready p r s \<Longrightarrow> s = Done \<or> s = Idle"
  by (cases s) simp_all

lemma latch_finished:
  "latch_ok observed \<Longrightarrow> latch (hget observed i) s q \<Longrightarrow> s = Done \<or> s = Idle"
  by (auto simp: latch_def latch_ok_hget dest: next_review_ready_finished
      split: option.splits if_splits)

lemma observe_agent_entry:
  assumes "latch_ok observed"
  shows "latch_ok (snd (observe_agent targets acks now observed a))"
    and "hget targets (av_id a) \<noteq> None \<Longrightarrow>
      av_review_ready (fst (observe_agent targets acks now observed a)) \<Longrightarrow> av_status a = Done \<or> av_status a = Idle"
proof -
  have fin: "ob_review_ready (latch_entry (\<lambda>i. i \<in> set acks) now observed a t) \<Longrightarrow>
      av_status a = Done \<or> av_status a = Idle" for t
    using latch_finished [OF assms] by (simp add: latch_entry_def Let_def) blast
  moreover have "ob_status (latch_entry (\<lambda>i. i \<in> set acks) now observed a t) = av_status a" for t
    by (simp add: latch_entry_def Let_def)
  ultimately show "latch_ok (snd (observe_agent targets acks now observed a))"
    using assms by (auto simp: observe_agent_observed latch_ok_hget hmap_simps split: option.splits)
  show "av_status a = Done \<or> av_status a = Idle" if "hget targets (av_id a) \<noteq> None"
    "av_review_ready (fst (observe_agent targets acks now observed a))"
    using that fin by (auto simp: observe_agent_view observed_view_def Let_def)
qed

lemma observe_agent_static [simp]:
  "av_id (fst (observe_agent targets acks now observed a)) = av_id a"
  "av_status (fst (observe_agent targets acks now observed a)) = av_status a"
  by (simp_all add: observe_agent_view observed_view_def Let_def split: option.splits)

lemma observe_agents_latch:
  "latch_ok observed \<Longrightarrow> latch_ok (snd (observe_agents targets acks now observed agents)) \<and>
     (\<forall>a \<in> set (fst (observe_agents targets acks now observed agents)).
        hget targets (av_id a) \<noteq> None \<longrightarrow> av_review_ready a \<longrightarrow> av_status a = Done \<or> av_status a = Idle)"
proof (induction agents arbitrary: observed)
  case (Cons b bs)
  note step = observe_agent_entry [OF Cons.prems, where targets = targets and acks = acks and now = now and a = b]
  show ?case
    using Cons.IH [OF step(1)] step(2) by (auto simp: split_beta)
qed simp

lemma observe_agents_ids [simp]:
  "map av_id (fst (observe_agents targets acks now observed agents)) = map av_id agents"
  by (induction agents arbitrary: observed) (simp_all add: split_beta)

lemma apply_observations_all_ids [simp]:
  "map av_id (fst (apply_agent_observations agents targets observed focused_agents now)) = map av_id agents"
  by (simp add: apply_agent_observations_def split_beta)

lemma latch_ok_hretain: "latch_ok ob \<Longrightarrow> latch_ok (hretain p ob)"
  by (auto simp: latch_ok_def hretain_def hmap_ok_def distinct_map_filter)

lemma latch_ok_step:
  "latch_ok observed \<Longrightarrow>
     latch_ok (fst (snd (apply_agent_observations agents targets observed focused_agents now)))"
  using observe_agents_latch [of observed] by (simp add: apply_agent_observations_def split_beta latch_ok_hretain)

text \<open>Only a finished agent asks for review: from entries that satisfy the invariant, a pass leaves
  entries that satisfy it, and publishes a card that has a target as review-ready only when its
  status is done or idle; so after any number of passes from no entries no working, blocked or
  unknown card is announced.\<close>

lemma review_ready_only_finished:
  assumes "latch_ok observed"
  shows "latch_ok (fst (snd (apply_agent_observations agents targets observed focused_agents now))) \<and>
    (\<forall>a \<in> set (fst (apply_agent_observations agents targets observed focused_agents now)).
       hget targets (av_id a) \<noteq> None \<longrightarrow> av_review_ready a \<longrightarrow> av_status a = Done \<or> av_status a = Idle)"
  using latch_ok_step [OF assms] observe_agents_latch [OF assms]
  by (simp add: apply_agent_observations_def split_beta)

lemma review_ready_only_finished_witness:
  "latch_ok (fst (snd (apply_agent_observations [example_card ''a'' Working True] example_targets [] [] 7)))"
  using review_ready_only_finished [of "[]" "[example_card ''a'' Working True]" example_targets "[]" 7]
  by (simp add: latch_ok_def)

end
