(* ===== verification/T3code.thy ===== *)
theory T3code
  imports Observations Json
begin

text \<open>
  \<open>t3code.rs\<close>: the read-only adapter of T3 Code. Its rows come from a projection database or from
  a metadata feed; \<open>classify\<close> maps each onto the attention vocabulary, and
  \<open>observation_from_rows\<close> builds the cards and their private targets. Reading a file, parsing JSON
  text or an RFC 3339 time, answering an SQL query and hashing a version 5 UUID are work of the
  system and of libraries: they are the fields of \<open>t3_env\<close>. A column read from a row is a result,
  because the conversion may fail; the reason of a failure is a string.
\<close>

section \<open>Data\<close>

definition SUPPORTED_RUNTIME_VERSION :: nat where
  "SUPPORTED_RUNTIME_VERSION = 1"

definition MAX_CANDIDATES :: nat where
  "MAX_CANDIDATES = 512"

definition MAX_ROSTER :: nat where
  "MAX_ROSTER = 64"

definition MAX_TITLE_CHARS :: nat where
  "MAX_TITLE_CHARS = 120"

definition MAX_LABEL_CHARS :: nat where
  "MAX_LABEL_CHARS = 96"

record t3code_client =
  tk_userdata :: string
  tk_expected_comm :: "string option"
  tk_status_file :: "string option"

record t3code_observation =
  to_session :: session_view
  to_agents :: "agent_view list"
  to_targets :: "(string, t3code_target) hmap"
  to_projection_sequence :: "u64 option"

datatype liveness = Missing | Unsupported u32 | Stopped | Running u32

record turn_row =
  tn_state :: string
  tn_requested_at :: string
  tn_started_at :: "string option"
  tn_completed_at :: "string option"

record thread_row =
  tr_thread_id :: string
  tr_title :: string
  tr_branch :: "string option"
  tr_worktree_path :: "string option"
  tr_pending_approval_count :: int
  tr_pending_user_input_count :: int
  tr_has_actionable_proposed_plan :: bool
  tr_settled_at :: "string option"
  tr_snoozed_until :: "string option"
  tr_created_at :: string
  tr_session_status :: "string option"
  tr_provider_name :: "string option"
  tr_project_title :: "string option"
  tr_workspace_root :: "string option"
  tr_last_turn :: "turn_row option"
  tr_active_work :: bool
  tr_visited_at :: "string option"

definition default_thread_row :: thread_row where
  "default_thread_row = \<lparr>tr_thread_id = [], tr_title = [], tr_branch = None,
     tr_worktree_path = None, tr_pending_approval_count = 0, tr_pending_user_input_count = 0,
     tr_has_actionable_proposed_plan = False, tr_settled_at = None, tr_snoozed_until = None,
     tr_created_at = [], tr_session_status = None, tr_provider_name = None,
     tr_project_title = None, tr_workspace_root = None, tr_last_turn = None,
     tr_active_work = False, tr_visited_at = None\<rparr>"

record classification =
  cl_status :: agent_status
  cl_launch_pending :: bool
  cl_state_change_seq :: u64
  cl_acknowledged :: bool

record status_thread =
  st_thread_id :: string
  st_title :: string
  st_project_title :: string
  st_workspace_root :: string
  st_branch :: "string option"
  st_worktree_path :: "string option"
  st_provider :: string
  st_status :: string
  st_settled :: bool
  st_snoozed :: bool
  st_pending_input :: bool
  st_background_work :: bool
  st_updated_at :: string
  st_latest_run_completed_at :: "string option"
  st_last_visited_at :: "string option"

record status_snapshot =
  ss_schema_version :: u32
  ss_environment_id :: string
  ss_generated_at_ms :: u64
  ss_threads :: "status_thread list"

section \<open>The metadata feed\<close>

definition feed_turn_state :: "string \<Rightarrow> string" where
  "feed_turn_state status =
     (if status \<in> {''failed'', ''error''} then ''error''
      else if status = ''blocked'' then ''error''
      else if status \<in> {''working'', ''running'', ''preparing'', ''starting'', ''waiting''} then ''running''
      else if status \<in> {''completed'', ''idle'', ''done''} then ''completed''
      else if status \<in> {''interrupted'', ''cancelled''} then ''interrupted''
      else if status = ''queued'' then ''pending''
      else ''unknown'')"

definition feed_row :: "status_thread \<Rightarrow> thread_row" where
  "feed_row thread =
     (let active = st_background_work thread \<or>
        st_status thread \<in> {''working'', ''running'', ''preparing'', ''starting'', ''waiting'', ''queued''}
      in default_thread_row\<lparr>
        tr_thread_id := st_thread_id thread,
        tr_title := st_title thread,
        tr_project_title := Some (st_project_title thread),
        tr_workspace_root := Some (st_workspace_root thread),
        tr_branch := st_branch thread,
        tr_worktree_path := st_worktree_path thread,
        tr_provider_name := Some (st_provider thread),
        tr_pending_user_input_count := (if st_pending_input thread then 1 else 0),
        tr_active_work := active,
        tr_created_at := st_updated_at thread,
        tr_visited_at := st_last_visited_at thread,
        tr_settled_at := (if st_settled thread then Some (st_updated_at thread) else None),
        tr_snoozed_until := (if st_snoozed thread then Some ''2999-01-01T00:00:00Z'' else None),
        tr_session_status := Some ''ready'',
        tr_last_turn :=
          (if st_status thread = ''idle'' \<and> st_latest_run_completed_at thread = None then None
           else Some \<lparr>tn_state = feed_turn_state (st_status thread),
                      tn_requested_at = st_updated_at thread,
                      tn_started_at = None,
                      tn_completed_at = st_latest_run_completed_at thread\<rparr>)\<rparr>)"

definition feed_rows :: "status_snapshot \<Rightarrow> thread_row list" where
  "feed_rows feed = map feed_row (ss_threads feed)"

section \<open>Text\<close>

definition sanitize :: "string \<Rightarrow> nat \<Rightarrow> string" where
  "sanitize value limit =
     trim_end (concat (take limit (filter (\<lambda>c. \<not> is_control c) (chars (trim value)))))"

definition path_leaf :: "string \<Rightarrow> string option" where
  "path_leaf value =
     (case file_name (trim value) of None \<Rightarrow> None | Some name \<Rightarrow> if name = [] then None else Some name)"

definition display_name :: "thread_row \<Rightarrow> string" where
  "display_name row =
     (let title = sanitize (tr_title row) MAX_TITLE_CHARS in
      if title = [] then ''T3 Code thread'' else title)"

definition agent_kind :: "string option \<Rightarrow> string" where
  "agent_kind provider =
     (case map_option trim provider of
        None \<Rightarrow> ''agent''
      | Some value \<Rightarrow>
          if value = ''claudeAgent'' then ''claude''
          else if value = [] then ''agent''
          else let kind = to_ascii_lowercase (concat (take 24 (filter
                 (\<lambda>c. case c of [b] \<Rightarrow> is_ascii_alphanumeric b \<or> b = CHR ''-'' | _ \<Rightarrow> False) (chars value))))
               in if kind = [] then ''agent'' else kind)"

definition some_nonempty :: "string \<Rightarrow> string option" where
  "some_nonempty s = (if s = [] then None else Some s)"

definition workspace_label :: "thread_row \<Rightarrow> string" where
  "workspace_label row =
     (let project =
        (case Option.bind (map_option (\<lambda>t. sanitize t MAX_LABEL_CHARS) (tr_project_title row))
                some_nonempty of
           Some title \<Rightarrow> title
         | None \<Rightarrow>
             (case Option.bind (tr_workspace_root row) path_leaf of
                Some leaf \<Rightarrow> sanitize leaf MAX_LABEL_CHARS
              | None \<Rightarrow> ''T3 Code''))
      in (case Option.bind (map_option (\<lambda>b. sanitize b 64) (tr_branch row)) some_nonempty of
            Some branch \<Rightarrow> project @ '' '' @ [CHR 0xC2, CHR 0xB7] @ '' '' @ branch
          | None \<Rightarrow> project))"

section \<open>Times and classification\<close>

text \<open>The parameter parses RFC 3339 into nanoseconds since the epoch; dividing by a million
  truncates towards zero.\<close>

definition timestamp_ms :: "(string \<Rightarrow> int option) \<Rightarrow> string \<Rightarrow> u64 option" where
  "timestamp_ms rfc3339 value =
     (case rfc3339 (trim value) of
        None \<Rightarrow> None
      | Some nanos \<Rightarrow>
          u64_try_from (if 0 \<le> nanos then nanos div 1000000 else - ((- nanos) div 1000000)))"

definition turn_times :: "(string \<Rightarrow> int option) \<Rightarrow> thread_row \<Rightarrow> u64 \<times> u64 \<times> u64 \<times> u64" where
  "turn_times rfc3339 row =
     (let ts = timestamp_ms rfc3339;
          created_ms = (case ts (tr_created_at row) of Some t \<Rightarrow> t | None \<Rightarrow> 0);
          turn_started =
            (case Option.bind (tr_last_turn row) (\<lambda>turn.
                case Option.bind (tn_started_at turn) ts of
                  Some t \<Rightarrow> Some t | None \<Rightarrow> ts (tn_requested_at turn)) of
               Some t \<Rightarrow> t | None \<Rightarrow> created_ms);
          turn_finished =
            (case Option.bind (tr_last_turn row) (\<lambda>turn. Option.bind (tn_completed_at turn) ts) of
               Some t \<Rightarrow> t | None \<Rightarrow> turn_started);
          settled_ms =
            (case Option.bind (tr_settled_at row) ts of Some t \<Rightarrow> t | None \<Rightarrow> turn_finished)
      in (created_ms, turn_started, turn_finished, settled_ms))"

definition snoozed :: "(string \<Rightarrow> int option) \<Rightarrow> thread_row \<Rightarrow> u64 \<Rightarrow> bool" where
  "snoozed rfc3339 row now_ms \<longleftrightarrow>
     \<not> tr_active_work row \<and> tr_pending_approval_count row = 0 \<and>
     tr_pending_user_input_count row = 0 \<and>
     (case Option.bind (tr_snoozed_until row) (timestamp_ms rfc3339) of
        Some until \<Rightarrow> now_ms < until | None \<Rightarrow> False)"

definition needs_human :: "thread_row \<Rightarrow> bool" where
  "needs_human row \<longleftrightarrow> 0 < tr_pending_approval_count row \<or> 0 < tr_pending_user_input_count row \<or>
     tr_has_actionable_proposed_plan row"

definition row_session_status :: "thread_row \<Rightarrow> string" where
  "row_session_status row =
     (case tr_session_status row of Some s \<Rightarrow> s | None \<Rightarrow> ''stopped'')"

definition classify :: "(string \<Rightarrow> int option) \<Rightarrow> thread_row \<Rightarrow> u64 \<Rightarrow> classification option" where
  "classify rfc3339 row now_ms =
     (if snoozed rfc3339 row now_ms then None else
      let session_status = row_session_status row;
          live_session = session_status \<in> {''running'', ''ready''};
          settled = (tr_settled_at row \<noteq> None);
          last_turn = tr_last_turn row
      in if \<not> live_session \<and> (settled \<or> last_turn = None) then None else
      let (created_ms, turn_started, turn_finished, settled_ms) = turn_times rfc3339 row;
          class_of = (\<lambda>status pending seq acked.
            \<lparr>cl_status = status, cl_launch_pending = pending, cl_state_change_seq = seq,
             cl_acknowledged = acked\<rparr>)
      in if needs_human row then Some (class_of Blocked False turn_started False)
      else if tr_active_work row then Some (class_of Working False turn_started False)
      else
      let visited = (case Option.bind (tr_visited_at row) (timestamp_ms rfc3339) of
            Some visited \<Rightarrow> turn_finished \<le> visited | None \<Rightarrow> False);
          turn_state = map_option tn_state last_turn;
          running = (session_status = ''running'');
          over = (turn_state \<in> {Some ''completed'', Some ''interrupted''})
      in Some
       (if running \<and> turn_state = None then class_of Working True created_ms False
        else if running \<and> turn_state \<in> {Some ''running'', Some ''pending''} \<or>
                turn_state = Some ''running'' then class_of Working False turn_started False
        else if session_status = ''error'' \<or> turn_state = Some ''error''
             then class_of Blocked False turn_finished False
        else if over \<and> (settled \<or> visited) then class_of Idle False settled_ms True
        else if over then class_of Done False turn_finished False
        else if running then class_of Working False turn_started False
        else if turn_state = None then class_of Idle False created_ms settled
        else class_of Unknown False turn_started False))"

section \<open>Cards from rows\<close>

definition opaque_agent_id :: "(string \<Rightarrow> string) \<Rightarrow> string \<Rightarrow> string \<Rightarrow> string" where
  "opaque_agent_id uuid5 epoch thread_id =
     uuid5 (epoch @ [CHR 0x00] @ SESSION_NAME @ [CHR 0x00] @ thread_id)"

definition label_leaf :: "string option \<Rightarrow> string option" where
  "label_leaf path =
     map_option (\<lambda>leaf. sanitize leaf MAX_LABEL_CHARS) (Option.bind path path_leaf)"

definition thread_card :: "string \<Rightarrow> thread_row \<Rightarrow> classification \<Rightarrow> nat \<Rightarrow> agent_view" where
  "thread_card agent_id row classification source_order =
     \<lparr>av_id = agent_id,
      av_display_name = display_name row,
      av_agent = agent_kind (tr_provider_name row),
      av_status = cl_status classification,
      av_review_ready = False,
      av_launch_pending = cl_launch_pending classification,
      av_workspace = workspace_label row,
      av_repository = label_leaf (tr_workspace_root row),
      av_worktree = label_leaf (tr_worktree_path row),
      av_session = SESSION_NAME,
      av_focused = False,
      av_observed_for_seconds = 0,
      av_state_change_seq = cl_state_change_seq classification,
      av_source_order = source_order,
      av_actions = \<lparr>aa_open = True, aa_zoom = False, aa_approve = None, aa_interrupt = None\<rparr>\<rparr>"

definition thread_target :: "thread_row \<Rightarrow> classification \<Rightarrow> t3code_target" where
  "thread_target row classification =
     \<lparr>tt_thread_id = tr_thread_id row,
      tt_state_change_seq = cl_state_change_seq classification,
      tt_acknowledged = cl_acknowledged classification\<rparr>"

text \<open>The loop over the rows, with the cards and the targets built so far.\<close>

fun roster ::
  "(string \<Rightarrow> int option) \<Rightarrow> (string \<Rightarrow> string) \<Rightarrow> string \<Rightarrow> u64 \<Rightarrow> thread_row list \<Rightarrow>
     agent_view list \<Rightarrow> (string, t3code_target) hmap \<Rightarrow>
     agent_view list \<times> (string, t3code_target) hmap" where
  "roster rfc3339 uuid5 epoch now_ms [] agents targets = (agents, targets)"
| "roster rfc3339 uuid5 epoch now_ms (row # rows) agents targets =
     (if MAX_ROSTER \<le> length agents then (agents, targets)
      else (case classify rfc3339 row now_ms of
          None \<Rightarrow> roster rfc3339 uuid5 epoch now_ms rows agents targets
        | Some classification \<Rightarrow>
            let agent_id = opaque_agent_id uuid5 epoch (tr_thread_id row)
            in roster rfc3339 uuid5 epoch now_ms rows
                 (agents @ [thread_card agent_id row classification (length agents)])
                 (hinsert agent_id (thread_target row classification) targets)))"

definition t3_session :: "session_state \<Rightarrow> u32 option \<Rightarrow> u64 \<Rightarrow> string option \<Rightarrow> session_view" where
  "t3_session state protocol now_ms message =
     \<lparr>sv_name = SESSION_NAME, sv_state = state, sv_version = None, sv_protocol = protocol,
      sv_last_sync_ms = Some now_ms, sv_message = message\<rparr>"

definition observation_from_rows ::
  "(string \<Rightarrow> int option) \<Rightarrow> (string \<Rightarrow> string) \<Rightarrow> thread_row list \<Rightarrow> string \<Rightarrow> u64 \<Rightarrow> u32 option \<Rightarrow>
     u64 option \<Rightarrow> t3code_observation" where
  "observation_from_rows rfc3339 uuid5 rows daemon_epoch now_ms protocol projection_sequence =
     (let (agents, targets) = roster rfc3339 uuid5 daemon_epoch now_ms rows [] []
      in \<lparr>to_session = t3_session SessConnected protocol now_ms None, to_agents = agents,
          to_targets = targets, to_projection_sequence = projection_sequence\<rparr>)"

section \<open>Thread addresses\<close>

definition hex_digit :: "nat \<Rightarrow> char" where
  "hex_digit n = (if n < 10 then char_of (48 + n) else char_of (55 + n))"

definition url_plain :: "char \<Rightarrow> bool" where
  "url_plain b \<longleftrightarrow> is_ascii_alphanumeric b \<or> b \<in> {CHR ''-'', CHR ''_'', CHR ''.'', CHR ''~''}"

definition url_byte :: "char \<Rightarrow> string" where
  "url_byte b =
     (if url_plain b then [b]
      else [CHR ''%'', hex_digit (byte b div 16), hex_digit (byte b mod 16)])"

definition url_component :: "string \<Rightarrow> string" where
  "url_component value = concat (map url_byte value)"

definition thread_url :: "string \<Rightarrow> string \<Rightarrow> string \<Rightarrow> string result" where
  "thread_url origin environment thread_id =
     (case strip_prefix ''http://'' origin of
        None \<Rightarrow> Inl ''T3 local origin must use HTTP''
      | Some address \<Rightarrow>
          (case rsplit_once (CHR '':'') address of
             None \<Rightarrow> Inl ''T3 local origin has no port''
           | Some (host, port) \<Rightarrow>
               if \<not> (host \<in> {''127.0.0.1'', ''localhost'', ''[::1]''} \<and>
                     (case parse_u16 port of Some p \<Rightarrow> p \<noteq> 0 | None \<Rightarrow> False))
               then Inl ''T3 local origin is not loopback''
               else if \<not> (environment \<noteq> [] \<and> thread_id \<noteq> [] \<and> length environment \<le> 256 \<and>
                          length thread_id \<le> 256)
               then Inl ''invalid thread target''
               else Inr (origin @ ''/'' @ url_component environment @ ''/'' @
                         url_component thread_id)))"

section \<open>The projection database\<close>

text \<open>The columns of a row, each the result of reading it at the type the code asks for.\<close>

record v2_row =
  v2_thread_id :: "string result"
  v2_title :: "string result"
  v2_branch :: "string option result"
  v2_worktree_path :: "string option result"
  v2_pending :: "int result"
  v2_settled_at :: "string option result"
  v2_snoozed_until :: "string option result"
  v2_created_at :: "string result"
  v2_provider :: "string option result"
  v2_project_title :: "string option result"
  v2_workspace_root :: "string option result"
  v2_run_state :: "string option result"
  v2_requested_at :: "string option result"
  v2_completed_at :: "string option result"
  v2_active_work :: "bool result"
  v2_visited_at :: "string option result"
  v2_settled_override :: "string option result"

record v1_row =
  v1_thread_id :: "string result"
  v1_title :: "string option result"
  v1_branch :: "string option result"
  v1_worktree_path :: "string option result"
  v1_pending_approval_count :: "int option result"
  v1_pending_user_input_count :: "int option result"
  v1_has_actionable_proposed_plan :: "int option result"
  v1_settled_at :: "string option result"
  v1_snoozed_until :: "string option result"
  v1_created_at :: "string option result"
  v1_session_status :: "string option result"
  v1_provider_name :: "string option result"
  v1_project_title :: "string option result"
  v1_workspace_root :: "string option result"

record v1_turn =
  v1t_state :: "string option result"
  v1t_requested_at :: "string option result"
  v1t_started_at :: "string option result"
  v1t_completed_at :: "string option result"

text \<open>A connection: the answers to the statements the code prepares. \<open>Queries\<close> computes them from tables.\<close>

record t3_db =
  db_is_v2 :: "bool result"
  db_v2_sequence :: "int option result"
  db_v1_sequence :: "int option result"
  db_v2_rows :: "nat \<Rightarrow> (v2_row result) list result"
  db_v1_rows :: "nat \<Rightarrow> (v1_row result) list result"
  db_v1_turn :: "(string \<Rightarrow> v1_turn option result) result"

definition or_empty :: "string option \<Rightarrow> string" where
  "or_empty s = (case s of Some s \<Rightarrow> s | None \<Rightarrow> [])"

definition or_zero :: "int option \<Rightarrow> int" where
  "or_zero i = (case i of Some i \<Rightarrow> i | None \<Rightarrow> 0)"

definition v2_turn_state :: "string \<Rightarrow> string" where
  "v2_turn_state state =
     (if state = ''queued'' then ''pending''
      else if state \<in> {''preparing'', ''starting'', ''waiting''} then ''running''
      else if state = ''failed'' then ''error''
      else if state = ''cancelled'' then ''interrupted''
      else state)"

definition v2_thread_row :: "v2_row \<Rightarrow> thread_row result" where
  "v2_thread_row row =
     and_then (v2_run_state row) (\<lambda>state.
     and_then (v2_requested_at row) (\<lambda>requested_at.
     and_then (v2_completed_at row) (\<lambda>completed_at.
     and_then (v2_active_work row) (\<lambda>active_work.
     and_then (v2_settled_override row) (\<lambda>settled_override.
     and_then (if settled_override = Some ''active'' then Inr None else v2_settled_at row) (\<lambda>settled_at.
     and_then (v2_thread_id row) (\<lambda>thread_id.
     and_then (v2_title row) (\<lambda>title.
     and_then (v2_branch row) (\<lambda>branch.
     and_then (v2_worktree_path row) (\<lambda>worktree_path.
     and_then (v2_pending row) (\<lambda>pending.
     and_then (v2_snoozed_until row) (\<lambda>snoozed_until.
     and_then (v2_created_at row) (\<lambda>created_at.
     and_then (v2_provider row) (\<lambda>provider.
     and_then (v2_project_title row) (\<lambda>project_title.
     and_then (v2_workspace_root row) (\<lambda>workspace_root.
     and_then (v2_visited_at row) (\<lambda>visited_at.
       Inr (default_thread_row\<lparr>
         tr_thread_id := thread_id, tr_title := title, tr_branch := branch,
         tr_worktree_path := worktree_path, tr_pending_approval_count := pending,
         tr_settled_at := settled_at, tr_snoozed_until := snoozed_until,
         tr_created_at := created_at, tr_provider_name := provider,
         tr_project_title := project_title, tr_workspace_root := workspace_root,
         tr_session_status := Some (if active_work then ''running'' else ''ready''),
         tr_last_turn := map_option (\<lambda>state.
           \<lparr>tn_state = v2_turn_state state, tn_requested_at = or_empty requested_at,
            tn_started_at = None, tn_completed_at = completed_at\<rparr>) state,
         tr_active_work := active_work, tr_visited_at := visited_at\<rparr>))))))))))))))))))"

definition v1_thread_row :: "v1_row \<Rightarrow> thread_row result" where
  "v1_thread_row row =
     and_then (v1_thread_id row) (\<lambda>thread_id.
     and_then (v1_title row) (\<lambda>title.
     and_then (v1_branch row) (\<lambda>branch.
     and_then (v1_worktree_path row) (\<lambda>worktree_path.
     and_then (v1_pending_approval_count row) (\<lambda>approvals.
     and_then (v1_pending_user_input_count row) (\<lambda>inputs.
     and_then (v1_has_actionable_proposed_plan row) (\<lambda>plan.
     and_then (v1_settled_at row) (\<lambda>settled_at.
     and_then (v1_snoozed_until row) (\<lambda>snoozed_until.
     and_then (v1_created_at row) (\<lambda>created_at.
     and_then (v1_session_status row) (\<lambda>session_status.
     and_then (v1_provider_name row) (\<lambda>provider_name.
     and_then (v1_project_title row) (\<lambda>project_title.
     and_then (v1_workspace_root row) (\<lambda>workspace_root.
       Inr \<lparr>tr_thread_id = thread_id, tr_title = or_empty title, tr_branch = branch,
         tr_worktree_path = worktree_path, tr_pending_approval_count = or_zero approvals,
         tr_pending_user_input_count = or_zero inputs,
         tr_has_actionable_proposed_plan = (or_zero plan \<noteq> 0), tr_settled_at = settled_at,
         tr_snoozed_until = snoozed_until, tr_created_at = or_empty created_at,
         tr_session_status = session_status, tr_provider_name = provider_name,
         tr_project_title = project_title, tr_workspace_root = workspace_root,
         tr_last_turn = None, tr_active_work = False, tr_visited_at = None\<rparr>))))))))))))))"

definition v1_turn_row :: "v1_turn \<Rightarrow> turn_row result" where
  "v1_turn_row row =
     and_then (v1t_state row) (\<lambda>state.
     and_then (v1t_requested_at row) (\<lambda>requested_at.
     and_then (v1t_started_at row) (\<lambda>started_at.
     and_then (v1t_completed_at row) (\<lambda>completed_at.
       Inr \<lparr>tn_state = or_empty state, tn_requested_at = or_empty requested_at,
            tn_started_at = started_at, tn_completed_at = completed_at\<rparr>))))"

text \<open>The turn of each thread, by the statement that was prepared once.\<close>

definition v1_last_turn ::
  "(string \<Rightarrow> v1_turn option result) \<Rightarrow> thread_row \<Rightarrow> thread_row result" where
  "v1_last_turn turn_statement thread =
     and_then (turn_statement (tr_thread_id thread)) (\<lambda>turn.
       (case turn of
          None \<Rightarrow> Inr (thread\<lparr>tr_last_turn := None\<rparr>)
        | Some row \<Rightarrow> and_then (v1_turn_row row) (\<lambda>t. Inr (thread\<lparr>tr_last_turn := Some t\<rparr>))))"

definition read_projection_sequence :: "t3_db \<Rightarrow> u64 option result" where
  "read_projection_sequence db =
     and_then (db_is_v2 db) (\<lambda>v2.
       if v2 then
         and_then (db_v2_sequence db) (\<lambda>sequence.
           (case sequence of
              None \<Rightarrow> Inr None
            | Some value \<Rightarrow>
                (case u64_try_from value of
                   None \<Rightarrow> Inl ''invalid projection sequence'' | Some n \<Rightarrow> Inr (Some n))))
       else
         and_then (db_v1_sequence db) (\<lambda>sequence. Inr (Option.bind sequence u64_try_from)))"

definition read_v2_threads :: "t3_db \<Rightarrow> thread_row list result" where
  "read_v2_threads db =
     and_then (read_projection_sequence db) (\<lambda>sequence.
       if sequence = None then Inl ''unsupported T3 projection schema''
       else and_then (db_v2_rows db MAX_CANDIDATES)
              (collect_results (\<lambda>row. and_then row v2_thread_row)))"

definition read_threads :: "t3_db \<Rightarrow> thread_row list result" where
  "read_threads db =
     and_then (db_is_v2 db) (\<lambda>v2.
       if v2 then read_v2_threads db
       else and_then (db_v1_rows db MAX_CANDIDATES) (\<lambda>rows.
              and_then (collect_results (\<lambda>row. and_then row v1_thread_row) rows) (\<lambda>threads.
              and_then (db_v1_turn db) (\<lambda>turn_statement.
                collect_results (v1_last_turn turn_statement) threads))))"

section \<open>The client\<close>

record t3_env =
  te_rfc3339 :: "string \<Rightarrow> int option"
  te_uuid5 :: "string \<Rightarrow> string"
  te_read_to_string :: "string \<Rightarrow> string result"
  te_file_len :: "string \<Rightarrow> u64 result"
  te_read_feed :: "string \<Rightarrow> u64 \<Rightarrow> status_snapshot result"
  te_exists :: "string \<Rightarrow> bool"
  te_is_dir :: "string \<Rightarrow> bool"
  te_parse_json :: "string \<Rightarrow> json result"
  te_parse_runtime :: "string \<Rightarrow> (u32 \<times> int) result"
  te_open_db :: "string \<Rightarrow> t3_db result"
  te_env_var :: "string \<Rightarrow> string option"

definition t3_client_new :: "string \<Rightarrow> t3code_client" where
  "t3_client_new home =
     \<lparr>tk_userdata = path_join home ''userdata'', tk_expected_comm = Some ''t3code'',
      tk_status_file = None\<rparr>"

definition default_home :: "t3_env \<Rightarrow> string result" where
  "default_home env =
     (case Option.bind (te_env_var env ''T3CODE_HOME'') some_nonempty of
        Some home \<Rightarrow> Inr home
      | None \<Rightarrow>
          (case te_env_var env ''HOME'' of
             Some home \<Rightarrow> Inr (path_join home ''.t3'')
           | None \<Rightarrow> Inl ''T3CODE_HOME and HOME are not set''))"

definition t3_client_from_config ::
  "t3_env \<Rightarrow> string option \<Rightarrow> string option \<Rightarrow> t3code_client result" where
  "t3_client_from_config env configured_home status_file =
     and_then (case configured_home of Some home \<Rightarrow> Inr home | None \<Rightarrow> default_home env) (\<lambda>home.
       Inr ((t3_client_new home)\<lparr>tk_status_file := status_file\<rparr>))"

definition database_path :: "t3_env \<Rightarrow> t3code_client \<Rightarrow> string" where
  "database_path env client =
     (let current = path_join (tk_userdata client) ''statev2.sqlite''
      in if te_exists env current then current else path_join (tk_userdata client) ''state.sqlite'')"

definition runtime_path :: "t3code_client \<Rightarrow> string" where
  "runtime_path client = path_join (tk_userdata client) ''server-runtime.json''"

definition environment_path :: "t3code_client \<Rightarrow> string" where
  "environment_path client = path_join (tk_userdata client) ''environment-id''"

definition read_status_feed :: "t3_env \<Rightarrow> t3code_client \<Rightarrow> u64 \<Rightarrow> status_snapshot result" where
  "read_status_feed env client now_ms =
     (case tk_status_file client of
        None \<Rightarrow> Inl ''T3 feed is not configured''
      | Some path \<Rightarrow>
          and_then (te_file_len env path) (\<lambda>len.
          if \<not> len \<le> 4194304 then Inl ''T3 metadata frame is too large'' else
          and_then (te_read_feed env path 4194305) (\<lambda>feed.
          and_then (te_read_to_string env (environment_path client)) (\<lambda>environment.
            if ss_schema_version feed = 1 \<and> length (ss_threads feed) \<le> MAX_ROSTER \<and>
               ss_environment_id feed = trim environment \<and>
               abs_diff now_ms (ss_generated_at_ms feed) < 10000
            then Inr feed else Inl ''invalid or stale T3 feed''))))"

definition client_thread_url :: "t3_env \<Rightarrow> t3code_client \<Rightarrow> string \<Rightarrow> string result" where
  "client_thread_url env client thread_id =
     and_then (te_read_to_string env (runtime_path client)) (\<lambda>contents.
     and_then (te_parse_json env contents) (\<lambda>runtime.
       (case get_str ''origin'' runtime of
          None \<Rightarrow> Inl ''T3 runtime has no origin''
        | Some origin \<Rightarrow>
            and_then (te_read_to_string env (environment_path client)) (\<lambda>environment.
              thread_url origin (trim environment) thread_id))))"

definition process_alive :: "t3_env \<Rightarrow> int \<Rightarrow> string option \<Rightarrow> bool" where
  "process_alive env pid expected_comm =
     (if pid \<le> 0 then False
      else let process = path_join ''/proc'' (nat_to_string (nat pid))
           in (case expected_comm of
                 Some expected \<Rightarrow>
                   (case te_read_to_string env (path_join process ''comm'') of
                      Inl _ \<Rightarrow> False | Inr comm \<Rightarrow> trim comm = expected)
               | None \<Rightarrow> te_is_dir env process))"

definition client_liveness :: "t3_env \<Rightarrow> t3code_client \<Rightarrow> liveness" where
  "client_liveness env client =
     (case te_read_to_string env (runtime_path client) of
        Inl _ \<Rightarrow> Missing
      | Inr contents \<Rightarrow>
          (case te_parse_runtime env contents of
             Inl _ \<Rightarrow> Missing
           | Inr (version, pid) \<Rightarrow>
               if version \<noteq> of_nat SUPPORTED_RUNTIME_VERSION then Unsupported version
               else if process_alive env pid (tk_expected_comm client) then Running version
               else Stopped))"

definition client_projection_sequence :: "t3_env \<Rightarrow> t3code_client \<Rightarrow> u64 \<Rightarrow> u64 option result" where
  "client_projection_sequence env client now_ms =
     (if tk_status_file client \<noteq> None
      then Inr (case read_status_feed env client now_ms of
                  Inl _ \<Rightarrow> None | Inr feed \<Rightarrow> Some (ss_generated_at_ms feed))
      else and_then (te_open_db env (database_path env client)) read_projection_sequence)"

definition t3_empty_observation ::
  "session_state \<Rightarrow> u32 option \<Rightarrow> u64 \<Rightarrow> string \<Rightarrow> u64 option \<Rightarrow> t3code_observation" where
  "t3_empty_observation state protocol now_ms message sequence =
     \<lparr>to_session = t3_session state protocol now_ms (Some message), to_agents = [],
      to_targets = [], to_projection_sequence = sequence\<rparr>"

definition observe_database ::
  "t3_env \<Rightarrow> t3code_client \<Rightarrow> string \<Rightarrow> u64 \<Rightarrow> u32 option \<Rightarrow> t3code_observation" where
  "observe_database env client daemon_epoch now_ms protocol =
     (case te_open_db env (database_path env client) of
        Inl _ \<Rightarrow> t3_empty_observation SessStale protocol now_ms ''T3 Code state is unavailable'' None
      | Inr db \<Rightarrow>
          let projection_sequence =
            (case read_projection_sequence db of Inl _ \<Rightarrow> None | Inr s \<Rightarrow> s)
          in (case read_threads db of
                Inl _ \<Rightarrow> t3_empty_observation SessIncompatible protocol now_ms
                  ''T3 Code state schema is unsupported'' projection_sequence
              | Inr rows \<Rightarrow> observation_from_rows (te_rfc3339 env) (te_uuid5 env) rows daemon_epoch
                  now_ms protocol projection_sequence))"

definition t3_observe :: "t3_env \<Rightarrow> t3code_client \<Rightarrow> string \<Rightarrow> u64 \<Rightarrow> t3code_observation" where
  "t3_observe env client daemon_epoch now_ms =
     (if tk_status_file client \<noteq> None then
        (case read_status_feed env client now_ms of
           Inr feed \<Rightarrow> observation_from_rows (te_rfc3339 env) (te_uuid5 env) (feed_rows feed)
             daemon_epoch now_ms (Some 1) (Some (ss_generated_at_ms feed))
         | Inl _ \<Rightarrow> t3_empty_observation SessStale (Some 1) now_ms
             ''T3 metadata feed is unavailable'' None)
      else
        (case client_liveness env client of
           Running version \<Rightarrow> observe_database env client daemon_epoch now_ms (Some version)
         | Missing \<Rightarrow> t3_empty_observation SessOffline None now_ms
             ''T3 Code server is not running'' None
         | Stopped \<Rightarrow> t3_empty_observation SessOffline
             (Some (of_nat SUPPORTED_RUNTIME_VERSION)) now_ms
             ''T3 Code server process has exited'' None
         | Unsupported version \<Rightarrow> t3_empty_observation SessIncompatible (Some version) now_ms
             (''T3 Code runtime descriptor '' @ nat_to_string (unat version) @
              '' is unsupported; expected '' @ nat_to_string SUPPORTED_RUNTIME_VERSION) None))"

text \<open>The arguments with which the native application opens a thread.\<close>

definition open_native_args ::
  "t3_env \<Rightarrow> t3code_client \<Rightarrow> string option \<Rightarrow> string \<Rightarrow> string list result" where
  "open_native_args env client userdata_parent thread_id =
     and_then (te_read_to_string env (environment_path client)) (\<lambda>environment.
       (case userdata_parent of
          None \<Rightarrow> Inl ''T3 home is missing''
        | Some home \<Rightarrow> Inr [''app'', ''--thread'', thread_id, ''--environment'', trim environment,
            ''--base-dir'', home]))"

section \<open>Facts about the roster\<close>

definition shown_rows ::
  "(string \<Rightarrow> int option) \<Rightarrow> u64 \<Rightarrow> thread_row list \<Rightarrow> (thread_row \<times> classification) list" where
  "shown_rows rfc3339 now_ms rows =
     List.map_filter (\<lambda>row. map_option (Pair row) (classify rfc3339 row now_ms)) rows"

lemma shown_rows_simps [simp]:
  "shown_rows rfc now [] = []"
  "shown_rows rfc now (row # rows) =
     (case classify rfc row now of
        None \<Rightarrow> shown_rows rfc now rows | Some c \<Rightarrow> (row, c) # shown_rows rfc now rows)"
  by (auto simp: shown_rows_def map_filter_def split: option.splits)

lemma shown_rows_classify: "(row, c) \<in> set (shown_rows rfc now rows) \<Longrightarrow> classify rfc row now = Some c"
  by (induction rows) (auto split: option.splits)

lemma hextend_simps [simp]:
  "hextend [] m = m" "hextend ((k, v) # kvs) m = hextend kvs (hinsert k v m)"
  by (simp_all add: hextend_def)

lemma roster_eq:
  "roster rfc uuid epoch now rows agents targets =
     (agents @ map (\<lambda>(i, row, c). thread_card (opaque_agent_id uuid epoch (tr_thread_id row)) row c i)
        (enumerate (length agents) (take (MAX_ROSTER - length agents) (shown_rows rfc now rows))),
      hextend (map (\<lambda>(row, c). (opaque_agent_id uuid epoch (tr_thread_id row), thread_target row c))
        (take (MAX_ROSTER - length agents) (shown_rows rfc now rows))) targets)"
proof (induction rows arbitrary: agents targets)
  case (Cons row rows)
  show ?case
  proof (cases "MAX_ROSTER \<le> length agents")
    case False
    then have "MAX_ROSTER - length agents = Suc (MAX_ROSTER - Suc (length agents))" by simp
    with False show ?thesis
      by (simp add: Cons.IH Let_def split: option.split)
  qed simp
qed simp

text \<open>The card and the target of the n-th row that is shown.\<close>

lemma observation_agents:
  "to_agents (observation_from_rows rfc uuid rows epoch now p s) =
     map (\<lambda>(i, row, c). thread_card (opaque_agent_id uuid epoch (tr_thread_id row)) row c i)
       (enumerate 0 (take MAX_ROSTER (shown_rows rfc now rows)))"
  by (simp add: observation_from_rows_def roster_eq)

lemma observation_targets:
  "to_targets (observation_from_rows rfc uuid rows epoch now p s) =
     hextend (map (\<lambda>(row, c). (opaque_agent_id uuid epoch (tr_thread_id row), thread_target row c))
       (take MAX_ROSTER (shown_rows rfc now rows))) []"
  by (simp add: observation_from_rows_def roster_eq)

lemma observation_targets_ok:
  "hmap_ok (to_targets (observation_from_rows rfc uuid rows epoch now p s))"
  by (simp add: observation_targets)

lemma observation_target_keys:
  "dom (hget (to_targets (observation_from_rows rfc uuid rows epoch now p s))) =
     set (map av_id (to_agents (observation_from_rows rfc uuid rows epoch now p s)))"
proof -
  have "map av_id (to_agents (observation_from_rows rfc uuid rows epoch now p s)) =
      map (\<lambda>(row, c). opaque_agent_id uuid epoch (tr_thread_id row))
        (take MAX_ROSTER (shown_rows rfc now rows))"
    unfolding observation_agents
    by (rule nth_equalityI) (simp_all add: nth_enumerate_eq thread_card_def split: prod.split)
  then show ?thesis
    by (simp only: observation_targets dom_hextend) (simp add: image_image split_beta)
qed

lemma observation_card:
  assumes "a \<in> set (to_agents (observation_from_rows rfc uuid rows epoch now p s))"
  obtains i row c where "classify rfc row now = Some c" "i < MAX_ROSTER"
    "a = thread_card (opaque_agent_id uuid epoch (tr_thread_id row)) row c i"
proof -
  from assms obtain i row c where i: "(i, row, c) \<in> set (enumerate 0 (take MAX_ROSTER (shown_rows rfc now rows)))"
    and a: "a = thread_card (opaque_agent_id uuid epoch (tr_thread_id row)) row c i"
    by (auto simp: observation_agents)
  then have i': "i < MAX_ROSTER" "i < length (shown_rows rfc now rows)"
    "shown_rows rfc now rows ! i = (row, c)"
    by (auto simp: in_set_enumerate_eq)
  then have "i < MAX_ROSTER" "(row, c) \<in> set (shown_rows rfc now rows)"
    by (metis nth_mem)+
  with a that show ?thesis using shown_rows_classify by blast
qed

section \<open>Facts about texts\<close>

lemma concat_take_wf [simp]: "wf_chunks cs \<Longrightarrow> chars (concat (take n cs)) = take n cs"
  by (simp add: chars_concat)

lemma chars_sanitize:
  "chars (sanitize value limit) =
     rev (dropWhile is_whitespace (rev (take limit (filter (\<lambda>c. \<not> is_control c) (chars (trim value))))))"
  by (simp add: sanitize_def trim_end_def chars_concat)

lemma length_chars_sanitize: "length (chars (sanitize value limit)) \<le> limit"
  unfolding chars_sanitize length_rev
  by (rule le_trans [OF length_dropWhile_le]) simp

lemma set_chars_sanitize:
  "c \<in> set (chars (sanitize value limit)) \<Longrightarrow> \<not> is_control c \<and> c \<in> set (chars value)"
proof -
  assume "c \<in> set (chars (sanitize value limit))"
  then have "c \<in> set (filter (\<lambda>c. \<not> is_control c) (chars (trim value)))"
    unfolding chars_sanitize by (auto dest!: set_dropWhileD in_set_takeD)
  moreover have "set (chars (trim value)) \<subseteq> set (chars value)"
    by (auto simp: chars_trim trim_chunks_def dest!: set_dropWhileD)
  ultimately show ?thesis by auto
qed

lemma sanitize_no_trailing_whitespace:
  "chars (sanitize value limit) \<noteq> [] \<Longrightarrow> \<not> is_whitespace (last (chars (sanitize value limit)))"
  unfolding chars_sanitize last_rev
  by (simp add: last_rev hd_dropWhile)

section \<open>Facts about thread addresses\<close>

definition hex_value :: "char \<Rightarrow> nat" where
  "hex_value b = (if byte b < 58 then byte b - 48 else byte b - 55)"

fun url_decode :: "string \<Rightarrow> string" where
  "url_decode (p # h # l # bs) =
     (if p = CHR ''%'' then char_of (16 * hex_value h + hex_value l) # url_decode bs
      else p # url_decode (h # l # bs))"
| "url_decode bs = bs"

lemma hex_value_digit: "n < 16 \<Longrightarrow> hex_value (hex_digit n) = n"
  by (auto simp: hex_value_def hex_digit_def)

lemma url_decode_plain: "b \<noteq> CHR ''%'' \<Longrightarrow> url_decode (b # bs) = b # url_decode bs"
  by (cases bs rule: url_decode.cases) auto

lemma url_decode_component: "url_decode (url_component s) = s"
proof (induction s)
  case (Cons b bs)
  have "byte b < 256" by simp
  then have "byte b div 16 < 16" by linarith
  moreover have "\<not> url_plain (CHR ''%'')"
    by (simp add: url_plain_def is_ascii_alphanumeric_def is_ascii_digit_def)
  then have "b \<noteq> CHR ''%''" if "url_plain b" using that by blast
  ultimately show ?case
    using Cons by (auto simp: url_component_def url_byte_def url_decode_plain hex_value_digit)
qed (simp add: url_component_def)

lemma url_component_inj: "url_component s = url_component t \<Longrightarrow> s = t"
  by (metis url_decode_component)

lemma hex_digit_plain: "n < 16 \<Longrightarrow> is_ascii_alphanumeric (hex_digit n)"
  by (auto simp: hex_digit_def is_ascii_alphanumeric_def is_ascii_digit_def)

lemma url_component_chars: "b \<in> set (url_component s) \<Longrightarrow> url_plain b \<or> b = CHR ''%''"
proof -
  assume "b \<in> set (url_component s)"
  then obtain a where a: "a \<in> set s" "b \<in> set (url_byte a)" by (auto simp: url_component_def)
  have "byte a < 256" by simp
  then have "byte a div 16 < 16" by linarith
  with a(2) show ?thesis
    by (auto simp: url_byte_def url_plain_def hex_digit_plain split: if_splits)
qed

lemma url_component_no_slash: "CHR ''/'' \<notin> set (url_component s)"
  using url_component_chars [of "CHR ''/''" s]
  by (auto simp: url_plain_def is_ascii_alphanumeric_def is_ascii_digit_def)

lemma slash_split:
  assumes "a @ CHR ''/'' # b = c @ CHR ''/'' # d" "CHR ''/'' \<notin> set a" "CHR ''/'' \<notin> set c"
  shows "a = c" "b = d"
  using assms by (metis split_once_Some option.inject prod.inject)+

lemma thread_url_Inr:
  "thread_url origin environment thread_id = Inr u \<Longrightarrow>
     u = origin @ ''/'' @ url_component environment @ ''/'' @ url_component thread_id \<and>
     (\<exists>host port p. origin = ''http://'' @ host @ '':'' @ port \<and>
        host \<in> {''127.0.0.1'', ''localhost'', ''[::1]''} \<and> parse_u16 port = Some p \<and> 0 < p)"
proof -
  assume u: "thread_url origin environment thread_id = Inr u"
  then obtain address where a: "strip_prefix ''http://'' origin = Some address"
    by (cases "strip_prefix ''http://'' origin") (auto simp: thread_url_def)
  with u obtain host port where hp: "rsplit_once (CHR '':'') address = Some (host, port)"
    by (cases "rsplit_once (CHR '':'') address") (auto simp: thread_url_def)
  from u a hp have "host \<in> {''127.0.0.1'', ''localhost'', ''[::1]''}"
    and "\<exists>p. parse_u16 port = Some p \<and> p \<noteq> 0"
    and "u = origin @ ''/'' @ url_component environment @ ''/'' @ url_component thread_id"
    by (simp_all add: thread_url_def split: if_splits option.splits del: append.simps)
  moreover have "origin = ''http://'' @ host @ '':'' @ port"
    using a hp unfolding strip_prefix_Some rsplit_once_Some by simp
  ultimately show ?thesis by blast
qed

section \<open>Facts about classification\<close>

lemma classify_None:
  "classify rfc row now = None \<longleftrightarrow> snoozed rfc row now \<or>
     row_session_status row \<notin> {''running'', ''ready''} \<and>
       (tr_settled_at row \<noteq> None \<or> tr_last_turn row = None)"
  by (simp add: classify_def Let_def split_beta)

lemma classify_needs_human:
  "classify rfc row now = Some c \<Longrightarrow> needs_human row \<Longrightarrow> cl_status c = Blocked \<and> \<not> cl_acknowledged c"
  by (auto simp: classify_def Let_def split_beta split: if_splits)

text \<open>The first of the given times that is there and can be read, else 0; the times to look at for the
  turn's start and for its end, in order of preference.\<close>

definition first_time :: "(string \<Rightarrow> int option) \<Rightarrow> string option list \<Rightarrow> u64" where
  "first_time rfc chain = hd (List.map_filter (\<lambda>t. Option.bind t (timestamp_ms rfc)) chain @ [0])"

lemma first_time_simps [simp]:
  "first_time rfc [] = 0"
  "first_time rfc (t # ts) =
     (case Option.bind t (timestamp_ms rfc) of Some n \<Rightarrow> n | None \<Rightarrow> first_time rfc ts)"
  by (simp_all add: first_time_def List.map_filter_simps split: option.split)

definition turn_chain :: "thread_row \<Rightarrow> string option list" where
  "turn_chain row =
     (case tr_last_turn row of None \<Rightarrow> [] | Some turn \<Rightarrow> [tn_started_at turn, Some (tn_requested_at turn)]) @
     [Some (tr_created_at row)]"

definition end_chain :: "thread_row \<Rightarrow> string option list" where
  "end_chain row = Option.bind (tr_last_turn row) tn_completed_at # turn_chain row"

lemma turn_times_first:
  "turn_times rfc row = (first_time rfc [Some (tr_created_at row)], first_time rfc (turn_chain row),
     first_time rfc (end_chain row), first_time rfc (tr_settled_at row # end_chain row))"
  by (cases "tr_last_turn row")
    (simp_all add: turn_times_def turn_chain_def end_chain_def Let_def split: option.split)

text \<open>The class of a shown thread, over what its turn, session and times come to.\<close>

definition class_table ::
  "bool \<Rightarrow> bool \<Rightarrow> string \<Rightarrow> string option \<Rightarrow> bool \<Rightarrow> bool \<Rightarrow>
     string option list \<times> string option list \<times> string option list \<times> string option list \<Rightarrow>
     agent_status \<times> bool \<times> string option list \<times> bool" where
  "class_table waits active session turn settled visited = (\<lambda>(created, start, end, settling).
     if waits then (Blocked, False, start, False)
     else if active then (Working, False, start, False)
     else if session = ''running'' \<and> turn = None then (Working, True, created, False)
     else if session = ''running'' \<and> turn \<in> {Some ''running'', Some ''pending''} \<or> turn = Some ''running''
       then (Working, False, start, False)
     else if session = ''error'' \<or> turn = Some ''error'' then (Blocked, False, end, False)
     else if turn \<in> {Some ''completed'', Some ''interrupted''} \<and> (settled \<or> visited)
       then (Idle, False, settling, True)
     else if turn \<in> {Some ''completed'', Some ''interrupted''} then (Done, False, end, False)
     else if session = ''running'' then (Working, False, start, False)
     else if turn = None then (Idle, False, created, settled)
     else (Unknown, False, start, False))"

lemma class_table_case:
  "(case class_table waits active session turn settled visited (created, start, end, settling) of
      (status, pending, chain, acked) \<Rightarrow> g status pending chain acked) =
    (if waits then g Blocked False start False
     else if active then g Working False start False
     else if session = ''running'' \<and> turn = None then g Working True created False
     else if session = ''running'' \<and> turn \<in> {Some ''running'', Some ''pending''} \<or> turn = Some ''running''
       then g Working False start False
     else if session = ''error'' \<or> turn = Some ''error'' then g Blocked False end False
     else if turn \<in> {Some ''completed'', Some ''interrupted''} \<and> (settled \<or> visited)
       then g Idle False settling True
     else if turn \<in> {Some ''completed'', Some ''interrupted''} then g Done False end False
     else if session = ''running'' then g Working False start False
     else if turn = None then g Idle False created settled
     else g Unknown False start False)"
  by (simp add: class_table_def)

lemma class_table_status:
  assumes "class_table waits active session turn settled visited (created, start, end, settling) =
    (status, pending, chain, acked)"
  defines "over \<equiv> turn = Some ''completed'' \<or> turn = Some ''interrupted''"
    and "failed \<equiv> turn \<noteq> Some ''running'' \<and> (session = ''error'' \<or> turn = Some ''error'')"
    and "free \<equiv> \<not> waits \<and> \<not> active"
  shows "status = Blocked \<longleftrightarrow> waits \<or> free \<and> failed"
    and "status = Working \<longleftrightarrow> \<not> waits \<and> (active \<or>
      turn = Some ''running'' \<or> session = ''running'' \<and> \<not> over \<and> turn \<noteq> Some ''error'')"
    and "status = Done \<longleftrightarrow> free \<and> \<not> failed \<and> over \<and> \<not> settled \<and> \<not> visited"
    and "status = Idle \<longleftrightarrow> free \<and> \<not> failed \<and>
      (over \<and> (settled \<or> visited) \<or> turn = None \<and> session \<noteq> ''running'')"
    and "acked \<longleftrightarrow> status = Idle \<and> (over \<or> settled)"
    and "pending \<longleftrightarrow> free \<and> session = ''running'' \<and> turn = None"
    and "chain = (if pending \<or> status = Idle \<and> turn = None then created
      else if status = Idle then settling
      else if status = Done \<or> status = Blocked \<and> \<not> waits then end
      else start)"
  using assms(1) unfolding class_table_def prod.case over_def failed_def free_def
  by (simp_all split: if_split_asm) (elim conjE disjE; simp; fail)+

lemma classify_table:
  "classify rfc row now =
    (if snoozed rfc row now then None
     else if row_session_status row \<notin> {''running'', ''ready''} \<and>
       (tr_settled_at row \<noteq> None \<or> tr_last_turn row = None) then None
     else Some (case class_table (needs_human row) (tr_active_work row) (row_session_status row)
        (map_option tn_state (tr_last_turn row)) (tr_settled_at row \<noteq> None)
        (case Option.bind (tr_visited_at row) (timestamp_ms rfc) of
           Some t \<Rightarrow> first_time rfc (end_chain row) \<le> t | None \<Rightarrow> False)
        ([Some (tr_created_at row)], turn_chain row, end_chain row, tr_settled_at row # end_chain row) of
      (status, pending, chain, acked) \<Rightarrow>
        \<lparr>cl_status = status, cl_launch_pending = pending, cl_state_change_seq = first_time rfc chain,
         cl_acknowledged = acked\<rparr>))"
  unfolding classify_def class_table_case turn_times_first Let_def prod.case
  by (simp only: if_distrib [of Some])

section \<open>Properties\<close>

lemma observation_ids:
  "map av_id (to_agents (observation_from_rows rfc uuid rows epoch now p s)) =
     map (\<lambda>(row, c). opaque_agent_id uuid epoch (tr_thread_id row))
       (take MAX_ROSTER (shown_rows rfc now rows))"
  unfolding observation_agents
  by (rule nth_equalityI) (simp_all add: nth_enumerate_eq thread_card_def split: prod.split)

lemma shown_rows_thread_ids:
  "distinct (map tr_thread_id rows) \<Longrightarrow>
     distinct (map (tr_thread_id \<circ> fst) (take n (shown_rows rfc now rows))) \<and>
     fst ` set (shown_rows rfc now rows) \<subseteq> set rows"
proof -
  assume d: "distinct (map tr_thread_id rows)"
  have sub: "fst ` set (shown_rows rfc now rows) \<subseteq> set rows" for rows
    by (induction rows) (auto split: option.splits)
  have "distinct (map (tr_thread_id \<circ> fst) (shown_rows rfc now rows))"
    using d
  proof (induction rows)
    case (Cons row rows)
    then show ?case using sub [of rows] by (auto split: option.splits)
  qed simp
  then show ?thesis using sub by (simp add: take_map [symmetric] distinct_take)
qed

lemma observation_ids_distinct:
  assumes "distinct (map tr_thread_id rows)"
    and "inj_on (opaque_agent_id uuid epoch) (tr_thread_id ` set rows)"
  shows "distinct (map av_id (to_agents (observation_from_rows rfc uuid rows epoch now p s)))"
proof -
  define shown where "shown = take MAX_ROSTER (shown_rows rfc now rows)"
  have th: "distinct (map (tr_thread_id \<circ> fst) shown)" and sub: "fst ` set shown \<subseteq> set rows"
    using shown_rows_thread_ids [OF assms(1), of MAX_ROSTER rfc now]
    by (auto simp: shown_def dest: in_set_takeD)
  have "inj_on (opaque_agent_id uuid epoch) (set (map (tr_thread_id \<circ> fst) shown))"
    by (rule inj_on_subset [OF assms(2)]) (use sub in auto)
  with th show ?thesis
    unfolding observation_ids shown_def [symmetric]
    by (simp add: distinct_map comp_inj_on_iff [symmetric] split_beta' comp_def inj_on_def)
qed

text \<open>The row a card comes from, and the target it has when the ids are distinct.\<close>

lemma observation_card_target:
  assumes dist: "distinct (map av_id (to_agents (observation_from_rows rfc uuid rows epoch now p s)))"
    and a: "a \<in> set (to_agents (observation_from_rows rfc uuid rows epoch now p s))"
  obtains row c i where "row \<in> set rows" "classify rfc row now = Some c"
    "a = thread_card (opaque_agent_id uuid epoch (tr_thread_id row)) row c i"
    "hget (to_targets (observation_from_rows rfc uuid rows epoch now p s)) (av_id a) =
       Some (thread_target row c)"
proof -
  define shown where "shown = take MAX_ROSTER (shown_rows rfc now rows)"
  from a obtain i row c where "i < length shown" "shown ! i = (row, c)"
    "a = thread_card (opaque_agent_id uuid epoch (tr_thread_id row)) row c i"
    by (auto simp: observation_agents shown_def [symmetric] in_set_enumerate_eq)
  then have i: "(row, c) \<in> set shown"
    "a = thread_card (opaque_agent_id uuid epoch (tr_thread_id row)) row c i"
    by (metis nth_mem)+
  then have shown: "(row, c) \<in> set (shown_rows rfc now rows)" by (auto simp: shown_def dest: in_set_takeD)
  have "fst ` set (shown_rows rfc now rows) \<subseteq> set rows"
    by (induction rows) (auto split: option.splits)
  with shown have "row \<in> set rows" by force
  moreover have "classify rfc row now = Some c" using shown by (rule shown_rows_classify)
  moreover have d: "distinct (map (\<lambda>(row, c). opaque_agent_id uuid epoch (tr_thread_id row)) shown)"
    using dist by (simp only: observation_ids shown_def)
  then have "hget (to_targets (observation_from_rows rfc uuid rows epoch now p s)) =
      map_of (map (\<lambda>(row, c). (opaque_agent_id uuid epoch (tr_thread_id row), thread_target row c)) shown)"
    unfolding observation_targets shown_def [symmetric]
    by (intro hget_hextend_distinct) (simp add: comp_def split_beta')
  then have "hget (to_targets (observation_from_rows rfc uuid rows epoch now p s)) (av_id a) =
      Some (thread_target row c)"
    using d i by (auto simp: comp_def split_beta' thread_card_def intro!: map_of_is_SomeI rev_image_eqI)
  ultimately show ?thesis using i(2) that by blast
qed

text \<open>C25 The cards of T3 Code are at most 64, have distinct ids (when no two of the threads hash to
  one UUID) and are numbered in the order of the rows; a card has a private target exactly when it
  is a card of the observation, and that target routes to the card's own thread with the card's
  own state sequence; no card is review-ready or focused before the latch has seen it.\<close>

theorem t3_cards_and_targets:
  assumes "distinct (map tr_thread_id rows)"
    and "inj_on (opaque_agent_id uuid epoch) (tr_thread_id ` set rows)"
    and "ob = observation_from_rows rfc uuid rows epoch now p s"
  shows "length (to_agents ob) \<le> 64 \<and> distinct (map av_id (to_agents ob)) \<and>
    map av_source_order (to_agents ob) = [0..<length (to_agents ob)] \<and>
    dom (hget (to_targets ob)) = set (map av_id (to_agents ob)) \<and>
    (\<forall>a \<in> set (to_agents ob). av_session a = SESSION_NAME \<and> \<not> av_review_ready a \<and>
       \<not> av_focused a \<and>
       (\<exists>row c t. row \<in> set rows \<and> classify rfc row now = Some c \<and>
          hget (to_targets ob) (av_id a) = Some t \<and> tt_thread_id t = tr_thread_id row \<and>
          av_id a = opaque_agent_id uuid epoch (tr_thread_id row) \<and>
          tt_state_change_seq t = av_state_change_seq a \<and> av_status a = cl_status c))"
    (is "_ \<and> ?dist \<and> _ \<and> _ \<and> (\<forall>a \<in> _. ?card a)")
proof -
  have dist: ?dist unfolding assms(3) by (rule observation_ids_distinct [OF assms(1,2)])
  moreover have "length (to_agents ob) \<le> 64" by (simp add: assms(3) observation_agents MAX_ROSTER_def)
  moreover have "map av_source_order (to_agents ob) = [0..<length (to_agents ob)]"
    by (rule nth_equalityI)
      (simp_all add: assms(3) observation_agents nth_enumerate_eq thread_card_def split: prod.split)
  moreover have "dom (hget (to_targets ob)) = set (map av_id (to_agents ob))"
    by (simp only: assms(3) observation_target_keys)
  moreover have "?card a" if "a \<in> set (to_agents ob)" for a
  proof -
    from dist that obtain row c i where "row \<in> set rows" "classify rfc row now = Some c"
      "a = thread_card (opaque_agent_id uuid epoch (tr_thread_id row)) row c i"
      "hget (to_targets ob) (av_id a) = Some (thread_target row c)"
      unfolding assms(3) by (rule observation_card_target)
    then show ?thesis by (auto simp: thread_card_def thread_target_def)
  qed
  ultimately show ?thesis by blast
qed

definition example_thread :: "string \<Rightarrow> thread_row" where
  "example_thread i = default_thread_row\<lparr>tr_thread_id := i, tr_title := ''Fix it'',
     tr_session_status := Some ''ready'', tr_last_turn := Some \<lparr>tn_state = ''completed'',
     tn_requested_at = ''2026'', tn_started_at = None, tn_completed_at = None\<rparr>\<rparr>"

lemma t3_cards_and_targets_witness:
  "let ob = observation_from_rows (\<lambda>_. None) (\<lambda>s. s) [example_thread ''a'', example_thread ''b''] ''e''
     0 None None
   in map av_status (to_agents ob) = [Done, Done] \<and> distinct (map av_id (to_agents ob))"
proof -
  let ?ob = "observation_from_rows (\<lambda>_. None) (\<lambda>s. s) [example_thread ''a'', example_thread ''b''] ''e''
     0 None None"
  have "distinct (map av_id (to_agents ?ob))"
    using t3_cards_and_targets [OF _ _ refl, of "[example_thread ''a'', example_thread ''b'']"
        "\<lambda>s. s" "''e''" "\<lambda>_. None" 0 None None]
    by (simp add: example_thread_def default_thread_row_def opaque_agent_id_def)
  moreover have "map av_status (to_agents ?ob) = [Done, Done]" by code_simp
  ultimately show ?thesis by (simp add: Let_def)
qed

text \<open>C26 A thread is left off the roster exactly when it is snoozed and nothing of it is open, or its
  session is not live and it is settled or has no turn. A thread that is shown is blocked exactly when
  it waits for a human, or it has no active work, its last turn is not running, and its session or its
  turn has failed. Otherwise it is working exactly when it has active work, its last turn is running,
  or its session is running and that turn is not over; done exactly when the turn is over (completed or
  interrupted) and the thread was neither settled nor visited since; idle when it was, or when there is no
  turn and no running session; and unknown in the other cases. Only such an idle thread counts as
  acknowledged (one without a turn when it is settled), only a running session without a turn is pending,
  and the sequence of the card is the time of what it shows.\<close>

theorem classify_decides:
  "let session = (case tr_session_status row of Some s \<Rightarrow> s | None \<Rightarrow> ''stopped'');
       turn = map_option tn_state (tr_last_turn row);
       active = tr_active_work row;
       settled = (tr_settled_at row \<noteq> None);
       visited = (case Option.bind (tr_visited_at row) (timestamp_ms rfc) of
         Some t \<Rightarrow> first_time rfc (end_chain row) \<le> t | None \<Rightarrow> False);
       open_request = (0 < tr_pending_approval_count row \<or> 0 < tr_pending_user_input_count row);
       waits = (open_request \<or> tr_has_actionable_proposed_plan row);
       asleep = (\<not> active \<and> tr_pending_approval_count row = 0 \<and> tr_pending_user_input_count row = 0 \<and>
         (case Option.bind (tr_snoozed_until row) (timestamp_ms rfc) of
            Some until \<Rightarrow> now < until | None \<Rightarrow> False));
       free = (\<not> waits \<and> \<not> active);
       over = (turn = Some ''completed'' \<or> turn = Some ''interrupted'');
       failed = (turn \<noteq> Some ''running'' \<and> (session = ''error'' \<or> turn = Some ''error''))
   in (classify rfc row now = None \<longleftrightarrow>
         asleep \<or> session \<notin> {''running'', ''ready''} \<and> (settled \<or> turn = None)) \<and>
      (\<forall>c. classify rfc row now = Some c \<longrightarrow>
         (cl_status c = Blocked \<longleftrightarrow> waits \<or> free \<and> failed) \<and>
         (cl_status c = Working \<longleftrightarrow> \<not> waits \<and> (active \<or>
            turn = Some ''running'' \<or> session = ''running'' \<and> \<not> over \<and> turn \<noteq> Some ''error'')) \<and>
         (cl_status c = Done \<longleftrightarrow> free \<and> \<not> failed \<and> over \<and> \<not> settled \<and> \<not> visited) \<and>
         (cl_status c = Idle \<longleftrightarrow> free \<and> \<not> failed \<and>
            (over \<and> (settled \<or> visited) \<or> turn = None \<and> session \<noteq> ''running'')) \<and>
         (cl_acknowledged c \<longleftrightarrow> cl_status c = Idle \<and> (over \<or> settled)) \<and>
         (cl_launch_pending c \<longleftrightarrow> free \<and> session = ''running'' \<and> turn = None) \<and>
         cl_state_change_seq c = first_time rfc
           (if cl_launch_pending c \<or> cl_status c = Idle \<and> turn = None then [Some (tr_created_at row)]
            else if cl_status c = Idle then tr_settled_at row # end_chain row
            else if cl_status c = Done \<or> cl_status c = Blocked \<and> \<not> waits then end_chain row
            else turn_chain row))"
proof -
  define table where "table = class_table (needs_human row) (tr_active_work row) (row_session_status row)
    (map_option tn_state (tr_last_turn row)) (tr_settled_at row \<noteq> None)
    (case Option.bind (tr_visited_at row) (timestamp_ms rfc) of
       Some t \<Rightarrow> first_time rfc (end_chain row) \<le> t | None \<Rightarrow> False)
    ([Some (tr_created_at row)], turn_chain row, end_chain row, tr_settled_at row # end_chain row)"
  obtain status pending chain acked where t: "table = (status, pending, chain, acked)" by (cases table)
  note pinned = class_table_status [OF t [unfolded table_def]]
  have c: "cl_status c = status \<and> cl_launch_pending c = pending \<and>
      cl_state_change_seq c = first_time rfc chain \<and> cl_acknowledged c = acked"
    if "classify rfc row now = Some c" for c
    using that unfolding classify_table table_def [symmetric] t by (auto split: if_splits)
  have waits: "(0 < tr_pending_approval_count row \<or> 0 < tr_pending_user_input_count row) \<or>
      tr_has_actionable_proposed_plan row \<longleftrightarrow> needs_human row"
    by (simp add: needs_human_def)
  show ?thesis
    unfolding Let_def row_session_status_def [symmetric] waits snoozed_def [symmetric]
    by (intro conjI allI impI; (drule c)?; (elim conjE)?)
      (simp add: classify_None, (simp only:, (rule pinned | rule arg_cong [OF pinned(7)]))+)
qed

lemma classify_decides_witness:
  "classify (\<lambda>_. None) (example_thread ''a'') 0 = Some \<lparr>cl_status = Done, cl_launch_pending = False,
     cl_state_change_seq = 0, cl_acknowledged = False\<rparr> \<and> tr_settled_at (example_thread ''a'') = None"
proof -
  have c: "classify (\<lambda>_. None) (example_thread ''a'') 0 = Some \<lparr>cl_status = Done,
      cl_launch_pending = False, cl_state_change_seq = 0, cl_acknowledged = False\<rparr>"
    by code_simp
  show ?thesis
    using c classify_decides [of "example_thread ''a''" "\<lambda>_. None" 0]
    by (simp add: Let_def)
qed

text \<open>C27 An address for a thread starts at a loopback origin over HTTP with a non-zero port, continues
  with exactly two percent-encoded components that hold no separator or control byte, and
  determines the environment and the thread: two threads never share one.\<close>

theorem thread_url_determines_thread:
  assumes "thread_url origin environment thread_id = Inr url"
    and "thread_url origin environment' thread_id' = Inr url"
  shows "environment' = environment \<and> thread_id' = thread_id \<and>
    url = origin @ ''/'' @ url_component environment @ ''/'' @ url_component thread_id \<and>
    list_all (\<lambda>b. url_plain b \<or> b = CHR ''%'') (url_component environment @ url_component thread_id) \<and>
    (\<exists>host port p. origin = ''http://'' @ host @ '':'' @ port \<and>
       host \<in> {''127.0.0.1'', ''localhost'', ''[::1]''} \<and> parse_u16 port = Some p \<and> 0 < p)"
proof -
  note u = thread_url_Inr [OF assms(1)] and u' = thread_url_Inr [OF assms(2)]
  have "url_component environment' @ CHR ''/'' # url_component thread_id' =
      url_component environment @ CHR ''/'' # url_component thread_id"
    using u u' by simp
  from slash_split [OF this url_component_no_slash url_component_no_slash]
  have "environment' = environment" "thread_id' = thread_id" by (simp_all add: url_component_inj)
  with u show ?thesis by (auto simp: list_all_iff dest: url_component_chars)
qed

lemma thread_url_determines_thread_witness:
  "thread_url ''http://localhost:80'' ''e/1'' ''t 2'' = Inr ''http://localhost:80/e%2F1/t%202'' \<and>
   list_all (\<lambda>b. url_plain b \<or> b = CHR ''%'') (url_component ''e/1'' @ url_component ''t 2'')"
proof -
  have "parse_u16 ''80'' = Some 80"
    by (simp add: parse_u16_def parse_unsigned_def starts_with_def is_ascii_digit_def)
  moreover have "strip_prefix ''http://'' ''http://localhost:80'' = Some ''localhost:80''"
    "rsplit_once (CHR '':'') ''localhost:80'' = Some (''localhost'', ''80'')"
    "url_component ''e/1'' = ''e%2F1''" "url_component ''t 2'' = ''t%202''"
    by code_simp+
  ultimately have u:
    "thread_url ''http://localhost:80'' ''e/1'' ''t 2'' = Inr ''http://localhost:80/e%2F1/t%202''"
    by (simp add: thread_url_def)
  show ?thesis using u thread_url_determines_thread [OF u u] by blast
qed

lemma read_status_feed_Inr:
  assumes "read_status_feed env client now = Inr feed" "tk_status_file client = Some path"
  shows "\<exists>environment len. te_file_len env path = Inr len \<and> len \<le> 4194304 \<and>
    te_read_feed env path 4194305 = Inr feed \<and> ss_schema_version feed = 1 \<and>
    te_read_to_string env (environment_path client) = Inr environment \<and>
    ss_environment_id feed = trim environment \<and> length (ss_threads feed) \<le> 64 \<and>
    abs_diff now (ss_generated_at_ms feed) < 10000"
  using assms
  by (cases "te_file_len env path"; cases "te_read_feed env path 4194305";
      cases "te_read_to_string env (environment_path client)")
    (simp_all add: read_status_feed_def and_then_def MAX_ROSTER_def split: if_splits)

lemma client_liveness_Running:
  assumes "client_liveness env client = Running v"
  shows "\<exists>contents pid. te_read_to_string env (runtime_path client) = Inr contents \<and>
    te_parse_runtime env contents = Inr (1, pid) \<and> v = 1 \<and>
    process_alive env pid (tk_expected_comm client)"
  using assms
  by (auto simp: client_liveness_def SUPPORTED_RUNTIME_VERSION_def
      split: sum.splits prod.splits if_splits)

lemma process_alive_iff:
  "process_alive env pid expected_comm \<longleftrightarrow> 0 < pid \<and>
     (let process = path_join ''/proc'' (nat_to_string (nat pid)) in
      case expected_comm of
        Some expected \<Rightarrow> \<exists>comm. te_read_to_string env (path_join process ''comm'') = Inr comm \<and>
          trim comm = expected
      | None \<Rightarrow> te_is_dir env process)"
  by (auto simp: process_alive_def Let_def split: option.splits sum.splits)

text \<open>C28 The adapter fails closed: cards and targets appear only with a connected session, and that only
  from a feed that is fresh (within ten seconds), of the known schema and this environment and at most
  64 threads and four megabytes long; or, without a feed, from a readable database while the runtime
  descriptor of version 1 names a process that is alive: one whose /proc entry has the expected command
  name, or is a directory where no name is expected. What is shown is then computed from that feed or
  from the rows of that database.\<close>

theorem t3_observe_fails_closed:
  assumes "sv_state (to_session (t3_observe env client epoch now)) = SessConnected \<or>
    to_agents (t3_observe env client epoch now) \<noteq> [] \<or>
    to_targets (t3_observe env client epoch now) \<noteq> []"
  shows "sv_state (to_session (t3_observe env client epoch now)) = SessConnected \<and>
    (case tk_status_file client of
       Some path \<Rightarrow> \<exists>feed environment len. te_file_len env path = Inr len \<and> len \<le> 4194304 \<and>
         te_read_feed env path 4194305 = Inr feed \<and> ss_schema_version feed = 1 \<and>
         te_read_to_string env (path_join (tk_userdata client) ''environment-id'') = Inr environment \<and>
         ss_environment_id feed = trim environment \<and> length (ss_threads feed) \<le> 64 \<and>
         abs_diff now (ss_generated_at_ms feed) < 10000 \<and>
         t3_observe env client epoch now = observation_from_rows (te_rfc3339 env) (te_uuid5 env)
           (feed_rows feed) epoch now (Some 1) (Some (ss_generated_at_ms feed))
     | None \<Rightarrow>
         (\<exists>contents pid. te_read_to_string env (path_join (tk_userdata client) ''server-runtime.json'') =
             Inr contents \<and> te_parse_runtime env contents = Inr (1, pid) \<and> 0 < pid \<and>
             (let process = path_join ''/proc'' (nat_to_string (nat pid)) in
              case tk_expected_comm client of
                Some expected \<Rightarrow> \<exists>comm. te_read_to_string env (path_join process ''comm'') = Inr comm \<and>
                  trim comm = expected
              | None \<Rightarrow> te_is_dir env process)) \<and>
         (\<exists>db rows sequence. te_open_db env (database_path env client) = Inr db \<and>
            read_threads db = Inr rows \<and> t3_observe env client epoch now = observation_from_rows
              (te_rfc3339 env) (te_uuid5 env) rows epoch now (Some 1) sequence))"
proof (cases "tk_status_file client")
  case (Some path)
  with assms obtain feed where feed: "read_status_feed env client now = Inr feed"
    by (cases "read_status_feed env client now")
      (auto simp: t3_observe_def t3_empty_observation_def t3_session_def)
  then have "sv_state (to_session (t3_observe env client epoch now)) = SessConnected"
    using Some by (simp add: t3_observe_def t3_session_def observation_from_rows_def split_beta)
  moreover have "t3_observe env client epoch now = observation_from_rows (te_rfc3339 env) (te_uuid5 env)
      (feed_rows feed) epoch now (Some 1) (Some (ss_generated_at_ms feed))"
    using Some feed by (simp add: t3_observe_def)
  ultimately show ?thesis
    using Some read_status_feed_Inr [OF feed Some] by (simp add: environment_path_def) blast
next
  case None
  show ?thesis
  proof (cases "client_liveness env client")
    case (Running v)
    have "sv_state (to_session (t3_observe env client epoch now)) = SessConnected \<and>
        (\<exists>db rows sequence. te_open_db env (database_path env client) = Inr db \<and>
           read_threads db = Inr rows \<and> t3_observe env client epoch now = observation_from_rows
             (te_rfc3339 env) (te_uuid5 env) rows epoch now (Some v) sequence)"
      using assms None Running
      by (auto simp: t3_observe_def observe_database_def t3_empty_observation_def t3_session_def
          observation_from_rows_def split_beta Let_def split: sum.splits)
    with None show ?thesis
      using client_liveness_Running [OF Running] unfolding process_alive_iff runtime_path_def by auto
  qed (use assms None in \<open>auto simp: t3_observe_def t3_empty_observation_def t3_session_def\<close>)
qed

definition example_t3_env :: t3_env where
  "example_t3_env = \<lparr>te_rfc3339 = (\<lambda>_. None), te_uuid5 = (\<lambda>s. s),
     te_read_to_string = (\<lambda>_. Inr ''env-1''), te_file_len = (\<lambda>_. Inr 100),
     te_read_feed = (\<lambda>_ _. Inr \<lparr>ss_schema_version = 1, ss_environment_id = ''env-1'',
       ss_generated_at_ms = 5000, ss_threads = []\<rparr>),
     te_exists = (\<lambda>_. True), te_is_dir = (\<lambda>_. True), te_parse_json = (\<lambda>_. Inl ''''), te_parse_runtime = (\<lambda>_. Inl ''''),
     te_open_db = (\<lambda>_. Inl ''''), te_env_var = (\<lambda>_. None)\<rparr>"

lemma t3_observe_fails_closed_witness:
  "let client = (t3_client_new ''/h'')\<lparr>tk_status_file := Some ''/h/feed''\<rparr>
   in sv_state (to_session (t3_observe example_t3_env client ''e'' 6000)) = SessConnected \<and>
      (\<exists>feed. te_read_feed example_t3_env ''/h/feed'' 4194305 = Inr feed \<and>
         abs_diff 6000 (ss_generated_at_ms feed) < 10000)"
proof -
  define client where "client = (t3_client_new ''/h'')\<lparr>tk_status_file := Some ''/h/feed''\<rparr>"
  have s: "sv_state (to_session (t3_observe example_t3_env client ''e'' 6000)) = SessConnected"
    unfolding client_def by code_simp
  have c: "tk_status_file client = Some ''/h/feed''" by (simp add: client_def)
  show ?thesis
    unfolding Let_def client_def [symmetric]
    using t3_observe_fails_closed [OF disjI1 [OF s]] s c by auto
qed

text \<open>The texts of a card come out clean and bounded: sanitizing leaves at most the given number of
  characters of the value, none of them a control character, with no whitespace at the end; so a
  thread's name has at most 120 characters and is never empty.\<close>

lemma sanitize_bounded:
  "length (chars (sanitize value limit)) \<le> limit \<and>
   (\<forall>c \<in> set (chars (sanitize value limit)). \<not> is_control c \<and> c \<in> set (chars value)) \<and>
   (sanitize value limit = [] \<or> \<not> is_whitespace (last (chars (sanitize value limit)))) \<and>
   length (chars (display_name row)) \<le> 120 \<and> display_name row \<noteq> []"
proof -
  have "chars (sanitize value limit) \<noteq> []" if "sanitize value limit \<noteq> []"
    using that by (metis concat.simps(1) concat_chars)
  moreover have "length (chars (display_name row)) \<le> 120"
  proof (cases "sanitize (tr_title row) MAX_TITLE_CHARS = []")
    case True
    moreover have "chars ''T3 Code thread'' = map (\<lambda>b. [b]) ''T3 Code thread''"
      by (rule chars_ascii) simp
    ultimately show ?thesis by (simp add: display_name_def Let_def)
  next
    case False
    then show ?thesis
      using length_chars_sanitize [of "tr_title row" MAX_TITLE_CHARS]
      by (simp add: display_name_def Let_def MAX_TITLE_CHARS_def)
  qed
  ultimately show ?thesis
    using length_chars_sanitize set_chars_sanitize sanitize_no_trailing_whitespace
    by (auto simp: display_name_def Let_def)
qed

lemma sanitize_bounded_witness:
  "sanitize ''ab c '' 3 = ''ab'' \<and> length (chars (sanitize ''ab c '' 3)) \<le> 3 \<and>
   display_name (example_thread ''a'') \<noteq> []"
proof -
  have "sanitize ''ab c '' 3 = ''ab''" by code_simp
  then show ?thesis using sanitize_bounded [of "''ab c ''" 3 "example_thread ''a''"] by blast
qed

text \<open>A T3 Code observation meets the contract of an adapter.\<close>

interpretation t3code_adapter: agent_adapter
  "\<lambda>(rfc, uuid, rows, epoch, now, p, s). to_agents (observation_from_rows rfc uuid rows epoch now p s)"
  "\<lambda>(rfc, uuid, rows, epoch, now, p, s).
     map (apsnd T3codeTarget) (to_targets (observation_from_rows rfc uuid rows epoch now p s))"
proof
  fix x :: "(char list \<Rightarrow> int option) \<times> (char list \<Rightarrow> char list) \<times> thread_row list \<times> char list \<times>
      64 word \<times> 32 word option \<times> 64 word option"
  obtain rfc uuid rows epoch now p s where x: "x = (rfc, uuid, rows, epoch, now, p, s)"
    by (metis surj_pair)
  let ?ob = "observation_from_rows rfc uuid rows epoch now p s"
  let ?routes = "(\<lambda>(rfc, uuid, rows, epoch, now, p, s).
     map (apsnd T3codeTarget) (to_targets (observation_from_rows rfc uuid rows epoch now p s))) x"
  let ?cards = "(\<lambda>(rfc, uuid, rows, epoch, now, p, s).
     to_agents (observation_from_rows rfc uuid rows epoch now p s)) x"
  show "hmap_ok ?routes"
    using observation_targets_ok [of rfc uuid rows epoch now p s] by (simp add: x hmap_ok_def comp_def)
  have get: "hget ?routes k = map_option T3codeTarget (hget (to_targets ?ob) k)" for k
    by (simp add: x hget_map_apsnd)
  have "dom (hget ?routes) = dom (hget (to_targets ?ob))" by (auto simp: get)
  then show "dom (hget ?routes) = set (map av_id ?cards)"
    by (simp only: x prod.case observation_target_keys)
  fix a assume "a \<in> set ?cards"
  then obtain i row c where a: "a = thread_card (opaque_agent_id uuid epoch (tr_thread_id row)) row c i"
    unfolding x prod.case by (rule observation_card)
  then show "\<not> av_review_ready a" by (simp add: thread_card_def)
  fix t assume "hget ?routes (av_id a) = Some t"
  then show "target_session t = av_session a" unfolding get by (auto simp: a thread_card_def)
qed

end
