(* ===== verification/Herdr.thy ===== *)
theory Herdr
  imports Observations
begin

text \<open>
  \<open>herdr.rs\<close>: the client of the Herdr sessions. A Herdr server is an unknown program behind a
  socket: \<open>hv_exchange\<close> is what one request and its reply come to, and it may change the state \<open>'s\<close>
  of the servers. What the client sends, how it reads the replies, the cards and targets it builds
  from a snapshot, the capabilities it accepts, and its subscription are the program's own code.
  Decoding a reply into the structs is generated code of the JSON library, a field of
  \<open>herdr_env\<close>; UUIDs and request ids are too.
\<close>

section \<open>Data\<close>

definition SUPPORTED_HERDR_PROTOCOL :: u32 where
  "SUPPORTED_HERDR_PROTOCOL = 20"

record session_descriptor =
  sd_name :: string
  sd_running :: bool
  sd_socket_path :: string

record session_observation =
  so_session :: session_view
  so_agents :: "agent_view list"
  so_targets :: "(string, herdr_target) hmap"
  so_pane_ids :: "string list"
  so_agent_order :: "agent_order_mode option"

record pong =
  pg_version :: string
  pg_protocol :: u32

record herdr_worktree =
  hw_repo_name :: string
  hw_checkout_path :: string
  hw_is_linked_worktree :: bool

record herdr_workspace =
  ws_workspace_id :: string
  ws_number :: u32
  ws_label :: string
  ws_worktree :: "herdr_worktree option"

record herdr_tab =
  tab_id :: string
  tab_label :: string

record herdr_agent =
  ha_terminal_id :: string
  ha_agent :: "string option"
  ha_display_agent :: "string option"
  ha_name :: "string option"
  ha_agent_status :: agent_status
  ha_workspace_id :: string
  ha_tab_id :: string
  ha_pane_id :: string
  ha_focused :: bool
  ha_launch_pending :: bool
  ha_state_change_seq :: u64
  ha_cwd :: "string option"
  ha_foreground_cwd :: "string option"
  ha_revision :: u64
  ha_extra :: "(string, json) hmap"

record herdr_snapshot =
  hs_workspaces :: "herdr_workspace list"
  hs_tabs :: "herdr_tab list"
  hs_agents :: "herdr_agent list"

text \<open>What connecting, writing and reading one line come to.\<close>

datatype exchange =
    ConnectTimeout | ConnectFailed string | WriteFailed string | ReplyTimeout
  | ReadFailed string | ReplyClosed | Reply string

text \<open>The output of \<open>herdr session list --json\<close>.\<close>

datatype session_list_output =
  SessionListFailed string | SessionListOutput bool string "session_descriptor list result"

record 's herdr_env =
  hv_binary :: string
  hv_session_list :: "'s \<Rightarrow> session_list_output \<times> 's"
  hv_exchange :: "string \<Rightarrow> json \<Rightarrow> 's \<Rightarrow> exchange \<times> 's"
  hv_request_id :: "'s \<Rightarrow> string"
  hv_parse_ping :: "string \<Rightarrow> pong result"
  hv_parse_snapshot :: "string \<Rightarrow> herdr_snapshot result"
  hv_parse_value :: "string \<Rightarrow> json result"
  hv_show_value :: "json \<Rightarrow> string"
  hv_uuid5 :: "string \<Rightarrow> string"

type_synonym ('s, 'a) io = "'s \<Rightarrow> 'a result \<times> 's"

definition return_io :: "'a \<Rightarrow> ('s, 'a) io" where
  "return_io x s = (Inr x, s)"

definition fail_io :: "string \<Rightarrow> ('s, 'a) io" where
  "fail_io e s = (Inl e, s)"

definition bind_io :: "('s, 'a) io \<Rightarrow> ('a \<Rightarrow> ('s, 'b) io) \<Rightarrow> ('s, 'b) io" where
  "bind_io m f s = (case m s of (Inl e, s1) \<Rightarrow> (Inl e, s1) | (Inr x, s1) \<Rightarrow> f x s1)"

section \<open>Requests\<close>

definition request ::
  "'s herdr_env \<Rightarrow> (string \<Rightarrow> 'a result) \<Rightarrow> string \<Rightarrow> json \<Rightarrow> ('s, 'a) io" where
  "request env parse socket payload s =
     (case hv_exchange env socket payload s of
        (ConnectTimeout, s) \<Rightarrow> (Inl ''timed out connecting to Herdr'', s)
      | (ConnectFailed _, s) \<Rightarrow> (Inl (''connecting to Herdr socket '' @ socket), s)
      | (WriteFailed e, s) \<Rightarrow> (Inl e, s)
      | (ReplyTimeout, s) \<Rightarrow> (Inl ''timed out waiting for Herdr response'', s)
      | (ReadFailed e, s) \<Rightarrow> (Inl e, s)
      | (ReplyClosed, s) \<Rightarrow> (Inl ''Herdr closed without a response'', s)
      | (Reply response, s) \<Rightarrow>
          (case parse response of
             Inl _ \<Rightarrow> (Inl (''parsing Herdr response: '' @ response), s)
           | Inr value \<Rightarrow> (Inr value, s)))"

definition payload :: "'s herdr_env \<Rightarrow> 's \<Rightarrow> string \<Rightarrow> (string \<times> json) list \<Rightarrow> json" where
  "payload env s method params =
     JObj [(''id'', JStr (hv_request_id env s)), (''method'', JStr method), (''params'', JObj params)]"

definition call ::
  "'s herdr_env \<Rightarrow> (string \<Rightarrow> 'a result) \<Rightarrow> string \<Rightarrow> string \<Rightarrow> (string \<times> json) list \<Rightarrow> ('s, 'a) io"
where
  "call env parse socket method params s = request env parse socket (payload env s method params) s"

definition discover :: "'s herdr_env \<Rightarrow> ('s, session_descriptor list) io" where
  "discover env s =
     (case hv_session_list env s of
        (SessionListFailed _, s) \<Rightarrow> (Inl (''running '' @ hv_binary env @ '' session list''), s)
      | (SessionListOutput success stderr sessions, s) \<Rightarrow>
          if \<not> success
          then (Inl (''herdr session list failed: '' @ trim (from_utf8_lossy stderr)), s)
          else (case sessions of
              Inl _ \<Rightarrow> (Inl ''parsing Herdr session list'', s)
            | Inr sessions \<Rightarrow> (Inr (filter sd_running sessions), s)))"

fun order_name :: "agent_order_mode \<Rightarrow> string" where
  "order_name Grouped = ''grouped''"
| "order_name Priority = ''priority''"

definition result_field :: "json \<Rightarrow> string \<Rightarrow> json" where
  "result_field response k = jindex (jindex response ''result'') k"

definition set_agent_order ::
  "'s herdr_env \<Rightarrow> session_descriptor \<Rightarrow> agent_order_mode \<Rightarrow> ('s, unit) io" where
  "set_agent_order env descriptor mode =
     bind_io (call env (hv_parse_value env) (sd_socket_path descriptor) ''agent.order.set''
                [(''order'', JStr (order_name mode))]) (\<lambda>response.
       (case jget ''error'' response of
          Some error \<Rightarrow> fail_io (''Herdr agent ordering failed: '' @ hv_show_value env error)
        | None \<Rightarrow>
            if result_field response ''type'' \<noteq> JStr ''agent_order'' \<or>
               result_field response ''order'' \<noteq> JStr (order_name mode)
            then fail_io ''unexpected Herdr agent ordering response''
            else return_io ()))"

definition get_agent_order ::
  "'s herdr_env \<Rightarrow> session_descriptor \<Rightarrow> ('s, agent_order_mode) io" where
  "get_agent_order env descriptor =
     bind_io (call env (hv_parse_value env) (sd_socket_path descriptor) ''agent.order.get'' [])
       (\<lambda>response.
       (case jget ''error'' response of
          Some error \<Rightarrow> fail_io (''Herdr agent ordering failed: '' @ hv_show_value env error)
        | None \<Rightarrow>
            if result_field response ''type'' \<noteq> JStr ''agent_order''
            then fail_io ''unexpected Herdr agent ordering response''
            else (case as_str (result_field response ''order'') of
                Some order \<Rightarrow>
                  if order = ''grouped'' then return_io Grouped
                  else if order = ''priority'' then return_io Priority
                  else fail_io ''unexpected Herdr agent ordering response''
              | None \<Rightarrow> fail_io ''unexpected Herdr agent ordering response'')))"

definition action_payload ::
  "herdr_target \<Rightarrow> action_kind \<Rightarrow> string option \<Rightarrow> (string \<times> (string \<times> json) list) result" where
  "action_payload target action capability_id =
     (case action of
        Open \<Rightarrow> Inr (''agent.focus'', [(''target'', JStr (ht_pane_id target))])
      | Zoom \<Rightarrow> Inr (''pane.zoom'', [(''pane_id'', JStr (ht_pane_id target)), (''mode'', JStr ''toggle'')])
      | Approve \<Rightarrow> (case capability_id of None \<Rightarrow> Inl ''missing capability''
          | Some c \<Rightarrow> Inr (''agent.perform_action'', [(''capability_id'', JStr c)]))
      | Interrupt \<Rightarrow> (case capability_id of None \<Rightarrow> Inl ''missing capability''
          | Some c \<Rightarrow> Inr (''agent.perform_action'', [(''capability_id'', JStr c)]))
      | RestoreFocus \<Rightarrow> Inl ''action is owned by the desktop adapter''
      | ChatgptDesktop \<Rightarrow> Inl ''action is owned by the desktop adapter''
      | ClaudeDesktop \<Rightarrow> Inl ''action is owned by the desktop adapter''
      | VoiceStart \<Rightarrow> Inl ''voice action is not a Herdr action''
      | VoiceStop \<Rightarrow> Inl ''voice action is not a Herdr action''
      | VoiceCancel \<Rightarrow> Inl ''voice action is not a Herdr action''
      | OrderGrouped \<Rightarrow> Inl ''agent ordering is not an agent-target action''
      | OrderPriority \<Rightarrow> Inl ''agent ordering is not an agent-target action''
      | BackendHerdr \<Rightarrow> Inl ''agent manager selection is not an agent-target action''
      | BackendT3code \<Rightarrow> Inl ''agent manager selection is not an agent-target action'')"

definition herdr_perform ::
  "'s herdr_env \<Rightarrow> herdr_target \<Rightarrow> action_kind \<Rightarrow> string option \<Rightarrow> ('s, unit) io" where
  "herdr_perform env target action capability_id =
     (case action_payload target action capability_id of
        Inl e \<Rightarrow> fail_io e
      | Inr (method, params) \<Rightarrow>
          bind_io (call env (hv_parse_value env) (ht_socket_path target) method params) (\<lambda>response.
            (case jget ''error'' response of
               Some error \<Rightarrow> fail_io (''Herdr action failed: '' @ hv_show_value env error)
             | None \<Rightarrow> return_io ())))"

section \<open>Cards\<close>

definition herdr_agent_id :: "(string \<Rightarrow> string) \<Rightarrow> string \<Rightarrow> string \<Rightarrow> string \<Rightarrow> string" where
  "herdr_agent_id uuid5 epoch session terminal_id =
     uuid5 (epoch @ [CHR 0x00] @ session @ [CHR 0x00] @ terminal_id)"

definition nonblank :: "string option \<Rightarrow> string option" where
  "nonblank value =
     (case map_option trim value of None \<Rightarrow> None | Some v \<Rightarrow> if v = [] then None else Some v)"

definition first_some :: "'a option \<Rightarrow> 'a option \<Rightarrow> 'a option" where
  "first_some a b = (case a of Some x \<Rightarrow> Some x | None \<Rightarrow> b)"

definition herdr_display_name :: "herdr_agent \<Rightarrow> (string, string) hmap \<Rightarrow> string \<Rightarrow> string" where
  "herdr_display_name raw tabs agent_name =
     (case first_some (nonblank (hget tabs (ha_tab_id raw)))
             (first_some (nonblank (ha_display_agent raw)) (nonblank (ha_name raw))) of
        Some name \<Rightarrow> name | None \<Rightarrow> agent_name)"

definition action_entry :: "u64 \<Rightarrow> json \<Rightarrow> agent_actions \<Rightarrow> agent_actions" where
  "action_entry revision value actions =
     (case get_str ''action'' value of
        None \<Rightarrow> actions
      | Some kind \<Rightarrow>
          (case get_str ''capability_id'' value of
             None \<Rightarrow> actions
           | Some capability_id \<Rightarrow>
               let capability = (\<lambda>action_kind.
                 \<lparr>cap_id = capability_id, cap_kind = action_kind,
                  cap_expires_at_ms =
                    (case get_u64 ''expires_at_unix_ms'' value of Some n \<Rightarrow> n | None \<Rightarrow> 0),
                  cap_expected_revision =
                    (case get_u64 ''revision'' value of Some n \<Rightarrow> n | None \<Rightarrow> revision)\<rparr>)
               in if kind = ''approve'' then actions\<lparr>aa_approve := Some (capability Approve)\<rparr>
                  else if kind = ''interrupt'' then actions\<lparr>aa_interrupt := Some (capability Interrupt)\<rparr>
                  else actions))"

definition actions_from_extra :: "(string, json) hmap \<Rightarrow> u64 \<Rightarrow> agent_actions" where
  "actions_from_extra extra revision =
     (case Option.bind (hget extra ''actions'') as_array of
        None \<Rightarrow> default_actions
      | Some values \<Rightarrow> fold (action_entry revision) values default_actions)"

definition herdr_card ::
  "(string \<Rightarrow> string) \<Rightarrow> string \<Rightarrow> session_descriptor \<Rightarrow> nat \<Rightarrow> (string, herdr_workspace) hmap \<Rightarrow>
     (string, string) hmap \<Rightarrow> nat \<Rightarrow> herdr_agent \<Rightarrow> agent_view" where
  "herdr_card uuid5 epoch descriptor source_offset workspaces tabs index raw =
     (let workspace = hget workspaces (ha_workspace_id raw);
          workspace_label = (case workspace of
              None \<Rightarrow> ha_workspace_id raw
            | Some w \<Rightarrow> nat_to_string (unat (ws_number w)) @ '' '' @ [CHR 0xC2, CHR 0xB7] @ '' '' @ ws_label w);
          agent_name = (case nonblank (ha_agent raw) of Some n \<Rightarrow> n | None \<Rightarrow> ''agent'');
          cwd = first_some (ha_foreground_cwd raw) (ha_cwd raw);
          linked = Option.bind workspace ws_worktree;
          actions = actions_from_extra (ha_extra raw) (ha_revision raw)
      in \<lparr>av_id = herdr_agent_id uuid5 epoch (sd_name descriptor) (ha_terminal_id raw),
          av_display_name = herdr_display_name raw tabs agent_name,
          av_agent = agent_name,
          av_status = ha_agent_status raw,
          av_review_ready = False,
          av_launch_pending = ha_launch_pending raw,
          av_workspace = workspace_label,
          av_repository = first_some (map_option hw_repo_name linked) (Option.bind cwd file_name),
          av_worktree = Option.bind linked (\<lambda>w.
            if hw_is_linked_worktree w then file_name (hw_checkout_path w) else None),
          av_session = sd_name descriptor,
          av_focused = ha_focused raw,
          av_observed_for_seconds = 0,
          av_state_change_seq = ha_state_change_seq raw,
          av_source_order = source_offset + index,
          av_actions = actions\<lparr>aa_open := True, aa_zoom := True\<rparr>\<rparr>)"

definition herdr_card_target :: "session_descriptor \<Rightarrow> herdr_agent \<Rightarrow> herdr_target" where
  "herdr_card_target descriptor raw =
     \<lparr>ht_session = sd_name descriptor, ht_socket_path = sd_socket_path descriptor,
      ht_pane_id = ha_pane_id raw, ht_terminal_id = ha_terminal_id raw,
      ht_state_change_seq = ha_state_change_seq raw, ht_revision = ha_revision raw\<rparr>"

definition herdr_observation ::
  "(string \<Rightarrow> string) \<Rightarrow> session_descriptor \<Rightarrow> string \<Rightarrow> nat \<Rightarrow> u64 \<Rightarrow> pong \<Rightarrow> herdr_snapshot \<Rightarrow>
     agent_order_mode option \<Rightarrow> session_observation" where
  "herdr_observation uuid5 descriptor epoch source_offset now_ms ping snapshot agent_order =
     (let workspaces = hextend (map (\<lambda>w. (ws_workspace_id w, w)) (hs_workspaces snapshot)) [];
          tabs = hextend (map (\<lambda>t. (tab_id t, tab_label t)) (hs_tabs snapshot)) []
      in \<lparr>so_session = \<lparr>sv_name = sd_name descriptor, sv_state = SessConnected,
            sv_version = Some (pg_version ping), sv_protocol = Some (pg_protocol ping),
            sv_last_sync_ms = Some now_ms, sv_message = None\<rparr>,
          so_agents = map (\<lambda>(index, raw). herdr_card uuid5 epoch descriptor source_offset workspaces
            tabs index raw) (enumerate 0 (hs_agents snapshot)),
          so_targets = hextend (map (\<lambda>raw.
            (herdr_agent_id uuid5 epoch (sd_name descriptor) (ha_terminal_id raw),
             herdr_card_target descriptor raw)) (hs_agents snapshot)) [],
          so_pane_ids = map ha_pane_id (hs_agents snapshot),
          so_agent_order = agent_order\<rparr>)"

definition observe_session ::
  "'s herdr_env \<Rightarrow> session_descriptor \<Rightarrow> string \<Rightarrow> nat \<Rightarrow> u64 \<Rightarrow> ('s, session_observation) io" where
  "observe_session env descriptor daemon_epoch source_offset now_ms =
     bind_io (call env (hv_parse_ping env) (sd_socket_path descriptor) ''ping'' []) (\<lambda>ping.
     if pg_protocol ping \<noteq> SUPPORTED_HERDR_PROTOCOL then
       return_io \<lparr>so_session = \<lparr>sv_name = sd_name descriptor, sv_state = SessIncompatible,
            sv_version = Some (pg_version ping), sv_protocol = Some (pg_protocol ping),
            sv_last_sync_ms = Some now_ms,
            sv_message = Some (''Herdr protocol '' @ nat_to_string (unat (pg_protocol ping)) @
              '' is unsupported; expected '' @ nat_to_string (unat SUPPORTED_HERDR_PROTOCOL))\<rparr>,
          so_agents = [], so_targets = [], so_pane_ids = [], so_agent_order = None\<rparr>
     else
       bind_io (call env (hv_parse_snapshot env) (sd_socket_path descriptor) ''session.snapshot'' [])
         (\<lambda>snapshot s.
         (case get_agent_order env descriptor s of
            (r, s) \<Rightarrow>
              (Inr (herdr_observation (hv_uuid5 env) descriptor daemon_epoch source_offset now_ms ping
                 snapshot (case r of Inr mode \<Rightarrow> Some mode | Inl _ \<Rightarrow> None)), s))))"

section \<open>The subscription\<close>

definition event_types :: "string list" where
  "event_types = [''workspace.created'', ''workspace.updated'', ''workspace.renamed'',
     ''workspace.moved'', ''workspace.closed'', ''workspace.focused'', ''tab.created'', ''tab.closed'',
     ''tab.focused'', ''tab.renamed'', ''tab.moved'', ''pane.created'', ''pane.closed'',
     ''pane.focused'', ''pane.moved'', ''pane.exited'', ''pane.agent_detected'']"

definition subscriptions :: "string list \<Rightarrow> json list" where
  "subscriptions pane_ids =
     map (\<lambda>t. JObj [(''type'', JStr t)]) event_types @
     map (\<lambda>pane_id. JObj [(''type'', JStr ''pane.agent_status_changed''), (''pane_id'', JStr pane_id)])
       pane_ids"

datatype 'a timed = TimedOut | Failed string | Completed 'a

text \<open>What happens on the socket of a subscription: connecting, writing, the line that acknowledges
  the request (\<open>None\<close> at the end of the stream), and the events after it.\<close>

record subscription_io =
  si_connect :: "unit timed"
  si_write :: "unit result"
  si_acknowledgement :: "string option timed"
  si_events :: "string list"
  si_read_error :: "string option"

text \<open>The answer on the ready channel (\<open>None\<close> when it is dropped), the number of invalidations
  sent, and the error the task ends with.\<close>

definition watch_events ::
  "(string \<Rightarrow> json result) \<Rightarrow> (json \<Rightarrow> string) \<Rightarrow> session_descriptor \<Rightarrow> subscription_io \<Rightarrow>
     unit result option \<times> nat \<times> string" where
  "watch_events parse show_value descriptor io =
     (let refuse = (\<lambda>message. (Some (Inl message), 0, message)) in
      case si_connect io of
        Failed error \<Rightarrow>
          refuse (''connecting subscription '' @ sd_socket_path descriptor @ '': '' @ error)
      | TimedOut \<Rightarrow> refuse ''timed out connecting subscription''
      | Completed _ \<Rightarrow>
          (case si_write io of
             Inl error \<Rightarrow> (None, 0, error)
           | Inr _ \<Rightarrow>
               (case si_acknowledgement io of
                  Completed None \<Rightarrow> refuse ''subscription closed before acknowledgement''
                | Failed error \<Rightarrow> refuse (''reading subscription acknowledgement: '' @ error)
                | TimedOut \<Rightarrow> refuse ''timed out waiting for subscription acknowledgement''
                | Completed (Some line) \<Rightarrow>
                    (case parse line of
                       Inl error \<Rightarrow> refuse (''parsing subscription acknowledgement: '' @ error)
                     | Inr acknowledgement \<Rightarrow>
                         if result_field acknowledgement ''type'' \<noteq> JStr ''subscription_started''
                         then refuse (''unexpected subscription acknowledgement: '' @
                                show_value acknowledgement)
                         else (Some (Inr ()),
                               length (filter (\<lambda>line. isl (parse line) = False) (si_events io)),
                               (case si_read_error io of
                                  Some error \<Rightarrow> error
                                | None \<Rightarrow> ''Herdr subscription reached EOF''))))))"

text \<open>The spawned task: whatever ends it, one more invalidation is sent for its session.\<close>

definition subscription_task ::
  "(string \<Rightarrow> json result) \<Rightarrow> (json \<Rightarrow> string) \<Rightarrow> session_descriptor \<Rightarrow> subscription_io \<Rightarrow>
     unit result option \<times> string list" where
  "subscription_task parse show_value descriptor io =
     (case watch_events parse show_value descriptor io of
        (ready, n, _) \<Rightarrow> (ready, replicate n (sd_name descriptor) @ [sd_name descriptor]))"

section \<open>Facts about observations\<close>

lemma herdr_card_fields [simp]:
  "av_id (herdr_card uuid epoch d off ws tabs i raw) =
     herdr_agent_id uuid epoch (sd_name d) (ha_terminal_id raw)"
  "av_session (herdr_card uuid epoch d off ws tabs i raw) = sd_name d"
  "av_review_ready (herdr_card uuid epoch d off ws tabs i raw) = False"
  "av_status (herdr_card uuid epoch d off ws tabs i raw) = ha_agent_status raw"
  "av_focused (herdr_card uuid epoch d off ws tabs i raw) = ha_focused raw"
  "av_source_order (herdr_card uuid epoch d off ws tabs i raw) = off + i"
  "av_state_change_seq (herdr_card uuid epoch d off ws tabs i raw) = ha_state_change_seq raw"
  "av_actions (herdr_card uuid epoch d off ws tabs i raw) =
     (actions_from_extra (ha_extra raw) (ha_revision raw))\<lparr>aa_open := True, aa_zoom := True\<rparr>"
  by (simp_all add: herdr_card_def Let_def)

lemma herdr_observation_ids:
  "map av_id (so_agents (herdr_observation uuid d epoch off now ping snap ord)) =
     map (\<lambda>raw. herdr_agent_id uuid epoch (sd_name d) (ha_terminal_id raw)) (hs_agents snap)"
  by (rule nth_equalityI) (simp_all add: herdr_observation_def Let_def nth_enumerate_eq)

lemma herdr_observation_keys:
  "dom (hget (so_targets (herdr_observation uuid d epoch off now ping snap ord))) =
     set (map av_id (so_agents (herdr_observation uuid d epoch off now ping snap ord)))"
  unfolding herdr_observation_ids
  by (simp add: herdr_observation_def Let_def dom_hextend image_image)

lemma herdr_observation_card:
  assumes "a \<in> set (so_agents (herdr_observation uuid d epoch off now ping snap ord))"
  obtains i raw where "i < length (hs_agents snap)" "raw = hs_agents snap ! i" "av_source_order a = off + i"
    "av_id a = herdr_agent_id uuid epoch (sd_name d) (ha_terminal_id raw)"
    "av_session a = sd_name d" "\<not> av_review_ready a" "av_status a = ha_agent_status raw"
    "av_state_change_seq a = ha_state_change_seq raw"
    "av_actions a = (actions_from_extra (ha_extra raw) (ha_revision raw))\<lparr>aa_open := True, aa_zoom := True\<rparr>"
  using assms by (auto simp: herdr_observation_def Let_def in_set_enumerate_eq)

lemma herdr_observation_target:
  assumes "hget (so_targets (herdr_observation uuid d epoch off now ping snap ord)) k = Some t"
  obtains raw where "raw \<in> set (hs_agents snap)" "t = herdr_card_target d raw"
    "k = herdr_agent_id uuid epoch (sd_name d) (ha_terminal_id raw)"
  using hget_hextend_in [OF assms [unfolded herdr_observation_def Let_def, simplified]] by auto

text \<open>A capability a card holds was offered by Herdr for that agent, under the action it is for.\<close>

lemma action_entry_caps:
  assumes "P (aa_approve acts) Approve ''approve''" "P (aa_interrupt acts) Interrupt ''interrupt''"
    and "\<And>c kind name. get_str ''action'' v = Some name \<Longrightarrow> get_str ''capability_id'' v = Some (cap_id c) \<Longrightarrow>
      cap_kind c = kind \<Longrightarrow> P (Some c) kind name"
  shows "P (aa_approve (action_entry revn v acts)) Approve ''approve'' \<and>
    P (aa_interrupt (action_entry revn v acts)) Interrupt ''interrupt''"
  using assms by (auto simp: action_entry_def Let_def split: option.splits)

definition offered :: "json list \<Rightarrow> action_capability option \<Rightarrow> action_kind \<Rightarrow> string \<Rightarrow> bool" where
  "offered values cap kind name \<longleftrightarrow>
     (case cap of None \<Rightarrow> True
      | Some c \<Rightarrow> cap_kind c = kind \<and>
          (\<exists>v \<in> set values. get_str ''action'' v = Some name \<and> get_str ''capability_id'' v = Some (cap_id c)))"

lemma fold_action_entry_offered:
  "set vs \<subseteq> set all \<Longrightarrow> offered all (aa_approve acts) Approve ''approve'' \<Longrightarrow>
     offered all (aa_interrupt acts) Interrupt ''interrupt'' \<Longrightarrow>
     offered all (aa_approve (fold (action_entry revn) vs acts)) Approve ''approve'' \<and>
     offered all (aa_interrupt (fold (action_entry revn) vs acts)) Interrupt ''interrupt''"
proof (induction vs arbitrary: acts)
  case (Cons v vs)
  have "offered all (aa_approve (action_entry revn v acts)) Approve ''approve'' \<and>
      offered all (aa_interrupt (action_entry revn v acts)) Interrupt ''interrupt''"
    by (rule action_entry_caps) (use Cons.prems in \<open>auto simp: offered_def\<close>)
  with Cons show ?case by simp
qed simp

lemma actions_from_extra_offered:
  "(case Option.bind (hget extra ''actions'') as_array of
      None \<Rightarrow> aa_approve (actions_from_extra extra revn) = None \<and> aa_interrupt (actions_from_extra extra revn) = None
    | Some values \<Rightarrow>
        offered values (aa_approve (actions_from_extra extra revn)) Approve ''approve'' \<and>
        offered values (aa_interrupt (actions_from_extra extra revn)) Interrupt ''interrupt'')"
  using fold_action_entry_offered [OF subset_refl, of _ default_actions]
  by (simp add: actions_from_extra_def default_actions_def offered_def split: option.split)

section \<open>Properties\<close>

text \<open>An observation of a Herdr session has one card per agent Herdr reported, in its order, and
  a private target exactly for the cards; a target belongs to this session's socket and to the pane
  of an agent with the card's id. A card's approve and interrupt capabilities were offered by Herdr
  for that agent under that very action; a card never starts review-ready.\<close>

lemma herdr_cards_and_targets:
  assumes "ob = herdr_observation uuid d epoch off now ping snap ord"
  shows "length (so_agents ob) = length (hs_agents snap) \<and>
    dom (hget (so_targets ob)) = set (map av_id (so_agents ob)) \<and>
    (\<forall>k t. hget (so_targets ob) k = Some t \<longrightarrow>
       ht_session t = sd_name d \<and> ht_socket_path t = sd_socket_path d \<and>
       (\<exists>raw \<in> set (hs_agents snap). ht_pane_id t = ha_pane_id raw \<and>
          k = herdr_agent_id uuid epoch (sd_name d) (ha_terminal_id raw))) \<and>
    (\<forall>a \<in> set (so_agents ob). \<not> av_review_ready a \<and> av_session a = sd_name d \<and>
       (\<exists>raw \<in> set (hs_agents snap). av_status a = ha_agent_status raw \<and>
          (case Option.bind (hget (ha_extra raw) ''actions'') as_array of
             None \<Rightarrow> aa_approve (av_actions a) = None \<and> aa_interrupt (av_actions a) = None
           | Some values \<Rightarrow> offered values (aa_approve (av_actions a)) Approve ''approve'' \<and>
               offered values (aa_interrupt (av_actions a)) Interrupt ''interrupt'')))"
proof -
  have "length (so_agents ob) = length (hs_agents snap)"
    by (simp add: assms herdr_observation_def Let_def)
  moreover have "dom (hget (so_targets ob)) = set (map av_id (so_agents ob))"
    by (simp only: assms herdr_observation_keys)
  moreover have "ht_session t = sd_name d \<and> ht_socket_path t = sd_socket_path d \<and>
      (\<exists>raw \<in> set (hs_agents snap). ht_pane_id t = ha_pane_id raw \<and>
         k = herdr_agent_id uuid epoch (sd_name d) (ha_terminal_id raw))"
    if "hget (so_targets ob) k = Some t" for k t
    using herdr_observation_target [OF that [unfolded assms]]
    by (metis herdr_card_target_def herdr_target.select_convs(1-3))
  moreover have "\<not> av_review_ready a \<and> av_session a = sd_name d \<and>
      (\<exists>raw \<in> set (hs_agents snap). av_status a = ha_agent_status raw \<and>
          (case Option.bind (hget (ha_extra raw) ''actions'') as_array of
             None \<Rightarrow> aa_approve (av_actions a) = None \<and> aa_interrupt (av_actions a) = None
           | Some values \<Rightarrow> offered values (aa_approve (av_actions a)) Approve ''approve'' \<and>
               offered values (aa_interrupt (av_actions a)) Interrupt ''interrupt''))"
    if "a \<in> set (so_agents ob)" for a
  proof -
    from that obtain i raw where raw: "i < length (hs_agents snap)" "raw = hs_agents snap ! i"
      and a: "av_session a = sd_name d" "\<not> av_review_ready a" "av_status a = ha_agent_status raw"
        "av_actions a = (actions_from_extra (ha_extra raw) (ha_revision raw))\<lparr>aa_open := True, aa_zoom := True\<rparr>"
      unfolding assms by (rule herdr_observation_card)
    have "raw \<in> set (hs_agents snap)" using raw by simp
    then show ?thesis
      using a actions_from_extra_offered [of "ha_extra raw" "ha_revision raw"]
      by (intro conjI bexI [of _ raw]) (simp_all split: option.splits)
  qed
  ultimately show ?thesis by blast
qed

definition example_agent :: "string \<Rightarrow> herdr_agent" where
  "example_agent terminal =
     \<lparr>ha_terminal_id = terminal, ha_agent = Some ''claude'', ha_display_agent = None, ha_name = None,
      ha_agent_status = Blocked, ha_workspace_id = ''w1'', ha_tab_id = ''t1'', ha_pane_id = ''p1'',
      ha_focused = True, ha_launch_pending = False, ha_state_change_seq = 3, ha_cwd = Some ''/src/repo'',
      ha_foreground_cwd = None, ha_revision = 9,
      ha_extra = [(''actions'', JArr [JObj [(''action'', JStr ''approve''), (''capability_id'', JStr ''c1'')]])]\<rparr>"

definition example_descriptor :: session_descriptor where
  "example_descriptor = \<lparr>sd_name = ''default'', sd_running = True, sd_socket_path = ''/run/h''\<rparr>"

lemma herdr_cards_and_targets_witness:
  "let ob = herdr_observation (\<lambda>s. s) example_descriptor ''e'' 0 5 \<lparr>pg_version = ''1'', pg_protocol = 20\<rparr>
     \<lparr>hs_workspaces = [], hs_tabs = [], hs_agents = [example_agent ''x'']\<rparr> None
   in length (so_agents ob) = 1 \<and> dom (hget (so_targets ob)) = set (map av_id (so_agents ob)) \<and>
      map (map_option cap_id \<circ> aa_approve \<circ> av_actions) (so_agents ob) = [Some ''c1'']"
proof -
  let ?ob = "herdr_observation (\<lambda>s. s) example_descriptor ''e'' 0 5 \<lparr>pg_version = ''1'', pg_protocol = 20\<rparr>
     \<lparr>hs_workspaces = [], hs_tabs = [], hs_agents = [example_agent ''x'']\<rparr> None"
  have "map (map_option cap_id \<circ> aa_approve \<circ> av_actions) (so_agents ?ob) = [Some ''c1'']" by code_simp
  then show ?thesis using herdr_cards_and_targets [OF refl, of "\<lambda>s. s" example_descriptor "''e''"] by simp
qed

text \<open>Of the portal's actions only open, zoom, approve and interrupt reach a Herdr server, an
  approve or interrupt only with a capability, and then as exactly one request on the target's own
  socket whose parameters are the target's pane or that capability; every other action is refused
  without touching a server.\<close>

lemma herdr_perform_routes:
  "(action \<notin> {Open, Zoom, Approve, Interrupt} \<or> action \<in> {Approve, Interrupt} \<and> cap = None \<longrightarrow>
      (\<exists>e. herdr_perform env target action cap s = (Inl e, s))) \<and>
   (action \<in> {Open, Zoom} \<or> action \<in> {Approve, Interrupt} \<and> cap \<noteq> None \<longrightarrow>
      (\<exists>method params.
         snd (herdr_perform env target action cap s) =
           snd (hv_exchange env (ht_socket_path target) (payload env s method params) s) \<and>
         (action = Open \<longrightarrow> method = ''agent.focus'' \<and> params = [(''target'', JStr (ht_pane_id target))]) \<and>
         (action = Zoom \<longrightarrow> method = ''pane.zoom'' \<and> (''pane_id'', JStr (ht_pane_id target)) \<in> set params) \<and>
         (action \<in> {Approve, Interrupt} \<longrightarrow> method = ''agent.perform_action'' \<and>
            params = [(''capability_id'', JStr (the cap))])))"
proof -
  have snd_call: "snd (bind_io (call env parse socket mth params) (\<lambda>response.
      (case jget ''error'' response of Some error \<Rightarrow> fail_io (f error) | None \<Rightarrow> return_io ())) s) =
      snd (hv_exchange env socket (payload env s mth params) s)"
    for parse socket mth params f
    by (auto simp: bind_io_def call_def request_def fail_io_def return_io_def
        split: prod.splits exchange.splits sum.splits option.splits)
  show ?thesis
    by (cases action; cases cap)
      (auto simp: herdr_perform_def action_payload_def fail_io_def snd_call)
qed

definition example_herdr :: "nat herdr_env" where
  "example_herdr =
     \<lparr>hv_binary = ''herdr'', hv_session_list = (\<lambda>s. (SessionListFailed '''', s)),
      hv_exchange = (\<lambda>_ _ s. (Reply ''{}'', Suc s)), hv_request_id = (\<lambda>_. ''xeneon-1''),
      hv_parse_ping = (\<lambda>_. Inl ''''), hv_parse_snapshot = (\<lambda>_. Inl ''''),
      hv_parse_value = (\<lambda>_. Inr (JObj [])), hv_show_value = (\<lambda>_. ''''), hv_uuid5 = (\<lambda>s. s)\<rparr>"

lemma herdr_perform_routes_witness:
  "let t = herdr_card_target example_descriptor (example_agent ''x'')
   in snd (herdr_perform example_herdr t Approve (Some ''c1'') 0) = 1 \<and>
      (\<exists>e. herdr_perform example_herdr t Approve None 0 = (Inl e, 0)) \<and>
      (\<exists>method. snd (herdr_perform example_herdr t Open None 0) =
         snd (hv_exchange example_herdr ''/run/h'' (payload example_herdr 0 method
           [(''target'', JStr ''p1'')]) 0))"
proof -
  define t where "t = herdr_card_target example_descriptor (example_agent ''x'')"
  have t: "ht_socket_path t = ''/run/h''" "ht_pane_id t = ''p1''"
    by (simp_all add: t_def herdr_card_target_def example_descriptor_def example_agent_def)
  have "snd (herdr_perform example_herdr t Approve (Some ''c1'') 0) = 1"
    unfolding t_def by code_simp
  moreover have "\<exists>e. herdr_perform example_herdr t Approve None 0 = (Inl e, 0)"
    using herdr_perform_routes [of Approve None example_herdr t 0] by blast
  moreover have "\<exists>method. snd (herdr_perform example_herdr t Open None 0) =
         snd (hv_exchange example_herdr ''/run/h'' (payload example_herdr 0 method
           [(''target'', JStr ''p1'')]) 0)"
    using herdr_perform_routes [of Open None example_herdr t 0] unfolding t by auto
  ultimately show ?thesis by (simp add: t_def [symmetric])
qed

text \<open>A Herdr observation meets the contract of an adapter.\<close>

interpretation herdr_adapter: agent_adapter
  "\<lambda>(uuid, d, epoch, off, now, ping, snap, ord).
     so_agents (herdr_observation uuid d epoch off now ping snap ord)"
  "\<lambda>(uuid, d, epoch, off, now, ping, snap, ord).
     map (apsnd HerdrTarget) (so_targets (herdr_observation uuid d epoch off now ping snap ord))"
proof
  fix x :: "(char list \<Rightarrow> char list) \<times> session_descriptor \<times> char list \<times> nat \<times> 64 word \<times> pong \<times>
      herdr_snapshot \<times> agent_order_mode option"
  obtain uuid d epoch off now ping snap ord where x: "x = (uuid, d, epoch, off, now, ping, snap, ord)"
    by (metis surj_pair)
  let ?ob = "herdr_observation uuid d epoch off now ping snap ord"
  let ?routes = "(\<lambda>(uuid, d, epoch, off, now, ping, snap, ord).
     map (apsnd HerdrTarget) (so_targets (herdr_observation uuid d epoch off now ping snap ord))) x"
  let ?cards = "(\<lambda>(uuid, d, epoch, off, now, ping, snap, ord).
     so_agents (herdr_observation uuid d epoch off now ping snap ord)) x"
  have "hmap_ok (so_targets ?ob)" by (simp add: herdr_observation_def Let_def)
  then show "hmap_ok ?routes" by (simp add: x hmap_ok_def comp_def)
  have get: "hget ?routes k = map_option HerdrTarget (hget (so_targets ?ob) k)" for k
    by (simp add: x hget_map_apsnd)
  have "dom (hget ?routes) = dom (hget (so_targets ?ob))" by (auto simp: get)
  then show "dom (hget ?routes) = set (map av_id ?cards)"
    by (simp only: x prod.case herdr_observation_keys)
  fix a assume a: "a \<in> set ?cards"
  then show "\<not> av_review_ready a" unfolding x prod.case by (rule herdr_observation_card)
  fix t assume "hget ?routes (av_id a) = Some t"
  then obtain h where "t = HerdrTarget h" "hget (so_targets ?ob) (av_id a) = Some h"
    unfolding get by auto
  moreover have "av_session a = sd_name d"
    using a unfolding x prod.case by (rule herdr_observation_card)
  ultimately show "target_session t = av_session a"
    using herdr_observation_target by (metis herdr_card_target_def herdr_target.select_convs(1) target_session.simps(1))
qed

end
