(* ===== verification/Runtime.thy ===== *)
theory Runtime
  imports Protocol Voice Desktop T3code Herdr
begin

text \<open>
  The daemon's state and the passes that refresh it (\<open>runtime.rs\<close>). \<open>runtime_state\<close> is the struct
  behind the state lock; \<open>daemon\<close> adds what the other locks guard and what the daemon writes: the
  desktop controller, the voice world, the Herdr servers, the persisted selection, the subscriptions,
  the invalidation channel and the snapshot last published. \<open>daemon_env\<close> holds what is outside the
  program for one handler: configuration, clocks, and the answers of the system. A handler is a
  function on \<open>daemon\<close>: the order of its critical sections is the order of the code.
\<close>

section \<open>State\<close>

record runtime_state =
  rt_snapshot :: portal_snapshot
  rt_backend :: agent_backend
  rt_t3code_order :: agent_order_mode
  rt_t3code_sequence :: "u64 option"
  rt_targets :: targets
  rt_observed :: observed
  rt_focused_agents :: focused
  rt_voice_error_latched :: bool
  rt_voice_client_owner :: "string option"

record persisted_backend =
  pb_backend :: agent_backend
  pb_t3code_order :: agent_order_mode

record 's daemon =
  dm_state :: runtime_state
  dm_desktop :: desktop_state
  dm_voice :: voice_world
  dm_servers :: 's
  dm_persisted :: "persisted_backend option"
  dm_subscriptions :: "(string, string list) hmap"
  dm_invalidations :: "string list"
  dm_published :: portal_snapshot

record 's daemon_env =
  de_config :: config
  de_herdr :: "'s herdr_env"
  de_subscribe :: "session_descriptor \<Rightarrow> string list \<Rightarrow> 's \<Rightarrow> unit result \<times> 's"
  de_subscription_finished :: "string \<Rightarrow> bool"
  de_t3 :: t3_env
  de_t3_client :: t3code_client
  de_hypr :: hypr_env
  de_proc :: "proc_entry list option"
  de_poll_fuel :: nat
  de_open_url :: "string \<Rightarrow> unit result"
  de_run_native :: "string \<Rightarrow> string list \<Rightarrow> unit result"
  de_userdata_parent :: "string option"
  de_voxtype :: voxtype
  de_marker_fs :: marker_fs
  de_persist_ok :: bool
  de_persists :: bool
  de_parse_command :: "string \<Rightarrow> portal_command result"
  de_encode_ok :: "portal_snapshot \<Rightarrow> bool"
  de_observed_ms :: u64
  de_now_ms :: u64
  de_instant :: nat

definition BACKEND_SWITCH_INVALIDATION :: string where
  "BACKEND_SWITCH_INVALIDATION = CHR 0x00 # ''backend''"

definition on_state :: "(runtime_state \<Rightarrow> runtime_state) \<Rightarrow> 's daemon \<Rightarrow> 's daemon" where
  "on_state f d = d\<lparr>dm_state := f (dm_state d)\<rparr>"

definition on_snapshot :: "(portal_snapshot \<Rightarrow> portal_snapshot) \<Rightarrow> runtime_state \<Rightarrow> runtime_state" where
  "on_snapshot f s = s\<lparr>rt_snapshot := f (rt_snapshot s)\<rparr>"

definition publish :: "'s daemon_env \<Rightarrow> 's daemon \<Rightarrow> 's daemon" where
  "publish env d =
     (let snapshot = rt_snapshot (dm_state d)
      in if de_encode_ok env snapshot then d\<lparr>dm_published := snapshot\<rparr> else d)"

text \<open>\<open>try_send\<close> on the channel of 64 invalidations: a full channel drops the message.\<close>

definition try_invalidate :: "string \<Rightarrow> 's daemon \<Rightarrow> 's daemon" where
  "try_invalidate name d =
     (if length (dm_invalidations d) < 64
      then d\<lparr>dm_invalidations := dm_invalidations d @ [name]\<rparr> else d)"

text \<open>The new sequence and time that end a critical section.\<close>

definition bump :: "u64 \<Rightarrow> runtime_state \<Rightarrow> runtime_state" where
  "bump now_ms = on_snapshot (\<lambda>p. p\<lparr>ps_sequence := saturating_add (ps_sequence p) 1,
     ps_generated_at_ms := now_ms\<rparr>)"

definition action_ok :: "string \<Rightarrow> string \<Rightarrow> action_result" where
  "action_ok request_id message = \<lparr>ar_schema_version = SCHEMA_VERSION, ar_request_id = request_id,
     ar_ok = True, ar_code = ''ok'', ar_message = message\<rparr>"

definition action_error :: "string \<Rightarrow> string \<Rightarrow> string \<Rightarrow> action_result" where
  "action_error request_id code message = \<lparr>ar_schema_version = SCHEMA_VERSION,
     ar_request_id = request_id, ar_ok = False, ar_code = code, ar_message = message\<rparr>"

text \<open>A refresh commits only while its agent manager is still the selected one.\<close>

definition commit_if ::
  "agent_backend \<Rightarrow> 's daemon_env \<Rightarrow> (runtime_state \<Rightarrow> runtime_state) \<Rightarrow> 's daemon \<Rightarrow> 's daemon" where
  "commit_if backend env f d =
     (if rt_backend (dm_state d) \<noteq> backend then d else publish env (on_state f d))"

section \<open>Ordering the cards\<close>

definition grouped_cmp :: "agent_view \<Rightarrow> agent_view \<Rightarrow> ordering" where
  "grouped_cmp l r =
     then_with (cmp (av_source_order l) (av_source_order r)) (cmp (av_id l) (av_id r))"

definition apply_agent_order :: "agent_view list \<Rightarrow> agent_order_snapshot \<Rightarrow> agent_view list" where
  "apply_agent_order agents order =
     (if os_available order \<and> os_mode order = Grouped then sort_by grouped_cmp agents
      else sort_agents agents)"

section \<open>Refreshing T3 Code\<close>

definition clear_actions :: "agent_view \<Rightarrow> agent_view" where
  "clear_actions a = a\<lparr>av_actions := default_actions\<rparr>"

text \<open>The critical section of \<open>refresh_t3code\<close>, from an observation.\<close>

definition commit_t3code :: "t3code_observation \<Rightarrow> nat \<Rightarrow> u64 \<Rightarrow> runtime_state \<Rightarrow> runtime_state" where
  "commit_t3code observation now now_ms state =
     (let session_state = sv_state (to_session observation);
          stale = (session_state = SessStale);
          agents = (if stale then map clear_actions (ps_agents (rt_snapshot state))
                    else to_agents observation);
          targets = (if stale then [] else map (apsnd T3codeTarget) (to_targets observation));
          (agents, observed, focused) =
            apply_agent_observations agents targets (rt_observed state) (rt_focused_agents state) now;
          agent_order = \<lparr>os_available = (session_state = SessConnected), os_mode = rt_t3code_order state\<rparr>;
          agents = apply_agent_order agents agent_order;
          connection = (case session_state of
              SessConnected \<Rightarrow> ConnConnected
            | SessOffline \<Rightarrow> ConnOffline
            | _ \<Rightarrow> ConnReconnecting)
      in bump now_ms (on_snapshot (\<lambda>p. p\<lparr>ps_connection := connection,
             ps_sessions := [to_session observation], ps_agents := agents,
             ps_agent_order := agent_order\<rparr>)
           (state\<lparr>rt_observed := observed, rt_focused_agents := focused, rt_targets := targets,
                  rt_t3code_sequence := to_projection_sequence observation\<rparr>)))"

text \<open>\<open>refresh_t3code\<close>; an observation task that panics leaves everything as it was.\<close>

definition refresh_t3code :: "'s daemon_env \<Rightarrow> bool \<Rightarrow> 's daemon \<Rightarrow> 's daemon" where
  "refresh_t3code env joined d =
     (if \<not> joined then d else
      let epoch = ps_daemon_epoch (rt_snapshot (dm_state d));
          observation = t3_observe (de_t3 env) (de_t3_client env) epoch (de_observed_ms env)
      in commit_if T3code env (commit_t3code observation (de_instant env) (de_now_ms env)) d)"

definition t3code_sequence_changed :: "'s daemon_env \<Rightarrow> bool \<Rightarrow> 's daemon \<Rightarrow> bool" where
  "t3code_sequence_changed env joined d =
     (if \<not> joined then False
      else let current = (case client_projection_sequence (de_t3 env) (de_t3_client env) (de_now_ms env) of
               Inl _ \<Rightarrow> None | Inr sequence \<Rightarrow> sequence)
           in rt_t3code_sequence (dm_state d) \<noteq> current)"

section \<open>Refreshing Herdr\<close>

text \<open>What the sweep over the sessions has collected.\<close>

record sweep =
  sw_sessions :: "session_view list"
  sw_agents :: "agent_view list"
  sw_targets :: targets
  sw_connected :: nat
  sw_order_modes :: "agent_order_mode list"
  sw_source_offset :: nat

definition empty_sweep :: sweep where
  "empty_sweep = \<lparr>sw_sessions = [], sw_agents = [], sw_targets = [], sw_connected = 0,
     sw_order_modes = [], sw_source_offset = 0\<rparr>"

definition stale_session ::
  "session_descriptor \<Rightarrow> session_view option \<Rightarrow> string \<Rightarrow> session_view" where
  "stale_session descriptor seen message =
     \<lparr>sv_name = sd_name descriptor, sv_state = SessStale,
      sv_version = Option.bind seen sv_version, sv_protocol = Option.bind seen sv_protocol,
      sv_last_sync_ms = Option.bind seen sv_last_sync_ms, sv_message = Some message\<rparr>"

text \<open>A session whose events cannot be followed: its cards are shown without actions or targets.\<close>

definition add_stale ::
  "session_descriptor \<Rightarrow> session_observation \<Rightarrow> string \<Rightarrow> sweep \<Rightarrow> sweep" where
  "add_stale descriptor observation message w =
     w\<lparr>sw_sessions := sw_sessions w @ [stale_session descriptor (Some (so_session observation)) message],
       sw_source_offset := sw_source_offset w + length (so_agents observation),
       sw_agents := sw_agents w @ map clear_actions (so_agents observation)\<rparr>"

definition add_connected :: "session_observation \<Rightarrow> sweep \<Rightarrow> sweep" where
  "add_connected observation w =
     w\<lparr>sw_connected := sw_connected w + 1,
       sw_order_modes := sw_order_modes w @
         (case so_agent_order observation of Some mode \<Rightarrow> [mode] | None \<Rightarrow> []),
       sw_source_offset := sw_source_offset w + length (so_agents observation),
       sw_sessions := sw_sessions w @ [so_session observation],
       sw_targets := hextend (map (apsnd HerdrTarget) (so_targets observation)) (sw_targets w),
       sw_agents := sw_agents w @ so_agents observation\<rparr>"

definition add_session :: "session_view \<Rightarrow> sweep \<Rightarrow> sweep" where
  "add_session session w = w\<lparr>sw_sessions := sw_sessions w @ [session]\<rparr>"

text \<open>A session whose snapshot failed keeps its previous cards, renumbered, without actions.\<close>

definition renumber :: "nat \<Rightarrow> agent_view list \<Rightarrow> agent_view list" where
  "renumber offset agents =
     map (\<lambda>(i, a). (clear_actions a)\<lparr>av_source_order := i\<rparr>) (enumerate offset agents)"

definition add_previous ::
  "session_descriptor \<Rightarrow> agent_view list \<Rightarrow> sweep \<Rightarrow> sweep" where
  "add_previous descriptor previous_agents w =
     (let stale = filter (\<lambda>a. av_session a = sd_name descriptor) previous_agents
      in w\<lparr>sw_sessions := sw_sessions w @
             [stale_session descriptor None ''Herdr session snapshot is unavailable''],
           sw_source_offset := sw_source_offset w + length stale,
           sw_agents := sw_agents w @ renumber (sw_source_offset w) stale\<rparr>)"

definition update_subscription ::
  "'s daemon_env \<Rightarrow> session_descriptor \<Rightarrow> string list \<Rightarrow> (string, string list) hmap \<times> 's \<Rightarrow>
     bool result \<times> (string, string list) hmap \<times> 's" where
  "update_subscription env descriptor pane_ids = (\<lambda>(subs, servers).
     (let pane_ids = remdups_adj (sort pane_ids); name = sd_name descriptor in
      if (case hget subs name of
            Some panes \<Rightarrow> panes = pane_ids \<and> \<not> de_subscription_finished env name | None \<Rightarrow> False)
      then (Inr False, subs, servers)
      else let subs = hremove name subs in
        (case de_subscribe env descriptor pane_ids servers of
           (Inl e, servers) \<Rightarrow> (Inl e, subs, servers)
         | (Inr _, servers) \<Rightarrow> (Inr True, hinsert name pane_ids subs, servers))))"

definition incompatible :: "session_observation \<Rightarrow> bool" where
  "incompatible observation \<longleftrightarrow> sv_state (so_session observation) = SessIncompatible"

definition sweep_session ::
  "'s daemon_env \<Rightarrow> string \<Rightarrow> agent_view list \<Rightarrow> session_descriptor \<Rightarrow>
     sweep \<times> (string, string list) hmap \<times> 's \<Rightarrow> sweep \<times> (string, string list) hmap \<times> 's" where
  "sweep_session env epoch previous_agents descriptor = (\<lambda>(w, subs, servers).
     (let name = sd_name descriptor;
          observe = observe_session (de_herdr env) descriptor epoch (sw_source_offset w) (de_observed_ms env)
      in case observe servers of
           (Inl _, servers) \<Rightarrow> (add_previous descriptor previous_agents w, hremove name subs, servers)
         | (Inr observation, servers) \<Rightarrow>
             if incompatible observation
             then (add_session (so_session observation) w, hremove name subs, servers)
             else (case update_subscription env descriptor (so_pane_ids observation) (subs, servers) of
                 (Inr True, subs, servers) \<Rightarrow>
                   (case observe servers of
                      (Inr reconciled, servers) \<Rightarrow>
                        if incompatible reconciled
                        then (add_session (so_session reconciled) w, hremove name subs, servers)
                        else (add_connected reconciled w, subs, servers)
                    | (Inl _, servers) \<Rightarrow>
                        (add_stale descriptor observation
                           ''Herdr post-subscription reconciliation failed'' w,
                         hremove name subs, servers))
               | (Inr False, subs, servers) \<Rightarrow> (add_connected observation w, subs, servers)
               | (Inl _, subs, servers) \<Rightarrow>
                   (add_stale descriptor observation ''Herdr event subscription is unavailable'' w,
                    subs, servers))))"

definition sweep_sessions ::
  "'s daemon_env \<Rightarrow> string \<Rightarrow> agent_view list \<Rightarrow> session_descriptor list \<Rightarrow>
     (string, string list) hmap \<times> 's \<Rightarrow> sweep \<times> (string, string list) hmap \<times> 's" where
  "sweep_sessions env epoch previous_agents descriptors = (\<lambda>(subs, servers).
     (case fold (sweep_session env epoch previous_agents) descriptors (empty_sweep, subs, servers) of
        (w, subs, servers) \<Rightarrow>
          (w, hretain (\<lambda>name _. name \<in> sd_name ` set descriptors) subs, servers)))"

text \<open>The order of the roster, when every session is connected and all agree.\<close>

definition agreed_order :: "session_descriptor list \<Rightarrow> sweep \<Rightarrow> agent_order_snapshot" where
  "agreed_order descriptors w =
     (if descriptors \<noteq> [] \<and> sw_connected w = length descriptors \<and>
         length (sw_order_modes w) = sw_connected w \<and>
         list_all (\<lambda>mode. mode = sw_order_modes w ! 0) (sw_order_modes w)
      then \<lparr>os_available = True, os_mode = sw_order_modes w ! 0\<rparr>
      else default_order)"

definition commit_herdr ::
  "session_descriptor list \<Rightarrow> sweep \<Rightarrow> nat \<Rightarrow> u64 \<Rightarrow> runtime_state \<Rightarrow> runtime_state" where
  "commit_herdr descriptors w now now_ms state =
     (let (agents, observed, focused) =
            apply_agent_observations (sw_agents w) (sw_targets w) (rt_observed state)
              (rt_focused_agents state) now;
          agent_order = agreed_order descriptors w;
          agents = apply_agent_order agents agent_order;
          connection =
            (if descriptors = [] then ConnOffline
             else if sw_connected w = length descriptors then ConnConnected
             else if 0 < sw_connected w then ConnDegraded
             else ConnReconnecting)
      in bump now_ms (on_snapshot (\<lambda>p. p\<lparr>ps_sessions := sw_sessions w, ps_agents := agents,
             ps_agent_order := agent_order, ps_connection := connection\<rparr>)
           (state\<lparr>rt_observed := observed, rt_focused_agents := focused,
                  rt_targets := sw_targets w\<rparr>)))"

definition commit_discovery_failed :: "u64 \<Rightarrow> runtime_state \<Rightarrow> runtime_state" where
  "commit_discovery_failed now_ms state =
     bump now_ms (on_snapshot (\<lambda>p. p\<lparr>ps_connection := ConnOffline,
         ps_sessions := map (\<lambda>s. s\<lparr>sv_state := SessStale,
           sv_message := Some ''Herdr discovery is unavailable''\<rparr>) (ps_sessions p),
         ps_agents := sort_agents (map clear_actions (ps_agents p)),
         ps_agent_order := default_order\<rparr>)
       (state\<lparr>rt_targets := []\<rparr>))"

definition refresh_herdr :: "'s daemon_env \<Rightarrow> 's daemon \<Rightarrow> 's daemon" where
  "refresh_herdr env d =
     (if rt_backend (dm_state d) \<noteq> Herdr then d else
      case discover (de_herdr env) (dm_servers d) of
        (Inl _, servers) \<Rightarrow>
          commit_if Herdr env (commit_discovery_failed (de_now_ms env)) (d\<lparr>dm_servers := servers\<rparr>)
      | (Inr descriptors, servers) \<Rightarrow>
          (case sweep_sessions env (ps_daemon_epoch (rt_snapshot (dm_state d)))
                  (ps_agents (rt_snapshot (dm_state d))) descriptors (dm_subscriptions d, servers) of
             (w, subs, servers) \<Rightarrow>
               commit_if Herdr env (commit_herdr descriptors w (de_instant env) (de_now_ms env))
                 (d\<lparr>dm_subscriptions := subs, dm_servers := servers\<rparr>)))"

definition refresh_agents :: "'s daemon_env \<Rightarrow> bool \<Rightarrow> 's daemon \<Rightarrow> 's daemon" where
  "refresh_agents env joined d =
     (case rt_backend (dm_state d) of
        Herdr \<Rightarrow> refresh_herdr env d
      | T3code \<Rightarrow> refresh_t3code env joined (d\<lparr>dm_subscriptions := []\<rparr>))"

end
