(* ===== verification/Commands.thy ===== *)
theory Commands
  imports Runtime
begin

text \<open>
  The commands of the portal (\<open>process_command\<close> of \<open>runtime.rs\<close> and the handlers it dispatches to),
  the voice passes, and the small collector passes. Every guard, error code and message is the
  code's; what a handler does to the servers, the desktop or the dictation world goes through the
  models of those components.
\<close>

section \<open>Acknowledging a review\<close>

text \<open>\<open>iter_mut().find\<close>: the first card with the id is changed.\<close>

fun update_first :: "('a \<Rightarrow> bool) \<Rightarrow> ('a \<Rightarrow> 'a) \<Rightarrow> 'a list \<Rightarrow> 'a list" where
  "update_first p f [] = []"
| "update_first p f (x # xs) = (if p x then f x # xs else x # update_first p f xs)"

definition commit_acknowledge :: "string \<Rightarrow> u64 \<Rightarrow> runtime_state \<Rightarrow> runtime_state option" where
  "commit_acknowledge agent_id now_ms state =
     (case find (\<lambda>a. av_id a = agent_id) (ps_agents (rt_snapshot state)) of
        None \<Rightarrow> None
      | Some agent \<Rightarrow>
          if \<not> av_review_ready agent then None
          else Some (bump now_ms (on_snapshot (\<lambda>p. p\<lparr>ps_agents :=
                 update_first (\<lambda>a. av_id a = agent_id) (\<lambda>a. a\<lparr>av_review_ready := False\<rparr>) (ps_agents p)\<rparr>)
               (state\<lparr>rt_observed := (case hget (rt_observed state) agent_id of
                  Some e \<Rightarrow> hinsert agent_id (e\<lparr>ob_review_ready := False\<rparr>) (rt_observed state)
                | None \<Rightarrow> rt_observed state)\<rparr>))))"

definition acknowledge_review_ready :: "'s daemon_env \<Rightarrow> string \<Rightarrow> 's daemon \<Rightarrow> 's daemon" where
  "acknowledge_review_ready env agent_id d =
     (case commit_acknowledge agent_id (de_now_ms env) (dm_state d) of
        None \<Rightarrow> d | Some state \<Rightarrow> publish env (d\<lparr>dm_state := state\<rparr>))"

section \<open>Voice\<close>

definition voice_error_result :: "string \<Rightarrow> voice_action_error \<Rightarrow> action_result" where
  "voice_error_result request_id error =
     (case error of
        VoiceUnavailable \<Rightarrow> action_error request_id ''voice_unavailable'' ''voice input is unavailable''
      | NotIdle \<Rightarrow> action_error request_id ''voice_busy'' ''voice input is not idle''
      | NotOwned \<Rightarrow> action_error request_id ''voice_not_owned''
          ''voice recording is not owned by the portal''
      | CommandFailed \<Rightarrow> action_error request_id ''command_error'' ''voice action failed''
      | Ownership \<Rightarrow> action_error request_id ''command_error'' ''voice ownership could not be updated'')"

definition commit_voice ::
  "voice_snapshot \<Rightarrow> bool \<Rightarrow> string option \<Rightarrow> u64 \<Rightarrow> runtime_state \<Rightarrow> runtime_state" where
  "commit_voice voice latched owner now_ms state =
     bump now_ms (on_snapshot (\<lambda>p. p\<lparr>ps_voice := voice\<rparr>)
       (state\<lparr>rt_voice_error_latched := latched, rt_voice_client_owner := owner\<rparr>))"

text \<open>The token of the controller is the daemon's epoch.\<close>

definition voice_token :: "'s daemon \<Rightarrow> string" where
  "voice_token d = ps_daemon_epoch (rt_snapshot (dm_state d))"

definition process_voice_command ::
  "'s daemon_env \<Rightarrow> portal_command \<Rightarrow> string \<Rightarrow> 's daemon \<Rightarrow> action_result \<times> 's daemon" where
  "process_voice_command env command client_id d =
     (case perform_voice (de_voxtype env) (de_marker_fs env) (voice_token d) (pc_action command) (dm_voice d) of
        (Inr voice, w) \<Rightarrow>
          (action_ok (pc_request_id command)
             (if pc_action command = VoiceStart then ''voice_recording_started''
              else if pc_action command = VoiceStop then ''voice_recording_stopped''
              else ''voice_recording_cancelled''),
           publish env (on_state (commit_voice voice False
             (if pc_action command = VoiceStart then Some client_id else None) (de_now_ms env))
             (d\<lparr>dm_voice := w\<rparr>)))
      | (Inl error, w) \<Rightarrow>
          (voice_error_result (pc_request_id command) error,
           publish env (on_state (\<lambda>s. commit_voice ((snapshot (voice_token d) w)\<lparr>vs_state := VError\<rparr>) True
             (rt_voice_client_owner s) (de_now_ms env) s) (d\<lparr>dm_voice := w\<rparr>))))"

definition cancel_voice_for_disconnected_client ::
  "'s daemon_env \<Rightarrow> string \<Rightarrow> 's daemon \<Rightarrow> 's daemon" where
  "cancel_voice_for_disconnected_client env client_id d =
     (if rt_voice_client_owner (dm_state d) \<noteq> Some client_id then d
      else case perform_voice (de_voxtype env) (de_marker_fs env) (voice_token d) VoiceCancel (dm_voice d) of
          (Inr voice, w) \<Rightarrow>
            publish env (on_state (commit_voice voice False None (de_now_ms env)) (d\<lparr>dm_voice := w\<rparr>))
        | (Inl _, w) \<Rightarrow>
            publish env (on_state (commit_voice ((snapshot (voice_token d) w)\<lparr>vs_state := VError\<rparr>) True None
              (de_now_ms env)) (d\<lparr>dm_voice := w\<rparr>)))"

definition refresh_voice :: "'s daemon_env \<Rightarrow> 's daemon \<Rightarrow> 's daemon" where
  "refresh_voice env d =
     (let voice = snapshot (voice_token d) (dm_voice d);
          voice = (if rt_voice_error_latched (dm_state d) then voice\<lparr>vs_state := VError\<rparr> else voice)
      in if ps_voice (rt_snapshot (dm_state d)) = voice then d
         else publish env (on_state (on_snapshot (\<lambda>p. p\<lparr>ps_voice := voice,
                ps_generated_at_ms := de_now_ms env\<rparr>)) d))"

section \<open>The other collectors\<close>

definition refresh_health :: "'s daemon_env \<Rightarrow> health_snapshot \<Rightarrow> 's daemon \<Rightarrow> 's daemon" where
  "refresh_health env sample d =
     (let d = publish env (on_state (on_snapshot (\<lambda>p. p\<lparr>ps_health := sample,
            ps_generated_at_ms := de_now_ms env\<rparr>)) d)
      in d\<lparr>dm_desktop := remember_non_edge_focus (de_config env) (de_hypr env) (dm_desktop d)\<rparr>)"

definition refresh_micro :: "'s daemon_env \<Rightarrow> micro_snapshot \<Rightarrow> 's daemon \<Rightarrow> 's daemon" where
  "refresh_micro env sample d =
     (if ps_micro (rt_snapshot (dm_state d)) = sample then d
      else publish env (on_state (on_snapshot (\<lambda>p. p\<lparr>ps_micro := sample,
             ps_generated_at_ms := de_now_ms env\<rparr>)) d))"

definition refresh_usage :: "'s daemon_env \<Rightarrow> ai_usage_snapshot option \<Rightarrow> 's daemon \<Rightarrow> 's daemon" where
  "refresh_usage env sample d =
     (case sample of
        None \<Rightarrow> d
      | Some sample \<Rightarrow>
          if ps_usage (rt_snapshot (dm_state d)) = sample then d
          else publish env (on_state (on_snapshot (\<lambda>p. p\<lparr>ps_usage := sample,
                 ps_generated_at_ms := de_now_ms env\<rparr>)) d))"

section \<open>Selecting the agent manager\<close>

definition persist_backend :: "'s daemon_env \<Rightarrow> 's daemon \<Rightarrow> 's daemon" where
  "persist_backend env d =
     (if de_persists env \<and> de_persist_ok env
      then d\<lparr>dm_persisted := Some \<lparr>pb_backend = rt_backend (dm_state d),
                                  pb_t3code_order = rt_t3code_order (dm_state d)\<rparr>\<rparr>
      else d)"

definition commit_backend :: "agent_backend \<Rightarrow> u64 \<Rightarrow> runtime_state \<Rightarrow> runtime_state" where
  "commit_backend mode now_ms state =
     bump now_ms (on_snapshot (\<lambda>p. p\<lparr>ps_sessions := [], ps_agents := [],
         ps_agent_order := default_order, ps_connection := ConnReconnecting,
         ps_backend := \<lparr>bs_mode = mode, bs_switchable = True\<rparr>\<rparr>)
       (state\<lparr>rt_backend := mode, rt_targets := [], rt_observed := [], rt_focused_agents := [],
              rt_t3code_sequence := None\<rparr>))"

definition process_backend_command ::
  "'s daemon_env \<Rightarrow> portal_command \<Rightarrow> 's daemon \<Rightarrow> action_result \<times> 's daemon" where
  "process_backend_command env command d =
     (let mode = (if pc_action command = BackendHerdr then Herdr else T3code) in
      if pc_sequence command \<noteq> ps_sequence (rt_snapshot (dm_state d))
      then (action_error (pc_request_id command) ''stale_snapshot''
              ''the portal snapshot changed before the action'', d)
      else if rt_backend (dm_state d) = mode
      then (action_ok (pc_request_id command) ''agent_backend_unchanged'', d)
      else (action_ok (pc_request_id command) ''agent_backend_updated'',
            try_invalidate BACKEND_SWITCH_INVALIDATION
              (publish env (persist_backend env
                (on_state (commit_backend mode (de_now_ms env)) d)))))"

section \<open>Changing the order\<close>

text \<open>The first loop reads every session's order; the first failure ends it.\<close>

fun read_priors ::
  "'s herdr_env \<Rightarrow> session_descriptor list \<Rightarrow> 's \<Rightarrow>
     (session_descriptor + (session_descriptor \<times> agent_order_mode) list) \<times> 's" where
  "read_priors env [] s = (Inr [], s)"
| "read_priors env (descriptor # descriptors) s =
     (case get_agent_order env descriptor s of
        (Inl _, s) \<Rightarrow> (Inl descriptor, s)
      | (Inr prior, s) \<Rightarrow>
          (case read_priors env descriptors s of
             (Inl failed, s) \<Rightarrow> (Inl failed, s)
           | (Inr priors, s) \<Rightarrow> (Inr ((descriptor, prior) # priors), s)))"

text \<open>The second loop sets the new order where it differs; on a failure it returns the sessions
  attempted, the failing one included, whose reply may have been lost after the change.\<close>

fun set_orders ::
  "'s herdr_env \<Rightarrow> agent_order_mode \<Rightarrow> (session_descriptor \<times> agent_order_mode) list \<Rightarrow>
     (session_descriptor \<times> agent_order_mode) list \<Rightarrow> 's \<Rightarrow>
     (session_descriptor \<times> agent_order_mode) list option \<times> 's" where
  "set_orders env mode attempted [] s = (None, s)"
| "set_orders env mode attempted ((descriptor, prior) # rest) s =
     (if prior = mode then set_orders env mode attempted rest s
      else (case set_agent_order env descriptor mode s of
          (Inl _, s) \<Rightarrow> (Some (attempted @ [(descriptor, prior)]), s)
        | (Inr _, s) \<Rightarrow> set_orders env mode (attempted @ [(descriptor, prior)]) rest s))"

fun restore_orders ::
  "'s herdr_env \<Rightarrow> (session_descriptor \<times> agent_order_mode) list \<Rightarrow> 's \<Rightarrow> bool \<times> 's" where
  "restore_orders env [] s = (True, s)"
| "restore_orders env ((descriptor, prior) # rest) s =
     (case set_agent_order env descriptor prior s of
        (r, s) \<Rightarrow>
          (case restore_orders env rest s of (ok, s) \<Rightarrow> (\<not> isl r \<and> ok, s)))"

fun verify_orders ::
  "'s herdr_env \<Rightarrow> (session_descriptor \<times> agent_order_mode) list \<Rightarrow> 's \<Rightarrow> bool \<times> 's" where
  "verify_orders env [] s = (True, s)"
| "verify_orders env ((descriptor, prior) # rest) s =
     (case get_agent_order env descriptor s of
        (r, s) \<Rightarrow> (case verify_orders env rest s of (ok, s) \<Rightarrow> (r = Inr prior \<and> ok, s)))"

definition invalidate_all :: "session_descriptor list \<Rightarrow> 's daemon \<Rightarrow> 's daemon" where
  "invalidate_all descriptors d = fold (\<lambda>x. try_invalidate (sd_name x)) descriptors d"

definition commit_order :: "agent_order_mode \<Rightarrow> u64 \<Rightarrow> runtime_state \<Rightarrow> runtime_state" where
  "commit_order mode now_ms state =
     (let ordering = \<lparr>os_available = True, os_mode = mode\<rparr>
      in bump now_ms (on_snapshot (\<lambda>p. p\<lparr>ps_agent_order := ordering,
           ps_agents := apply_agent_order (ps_agents p) ordering\<rparr>) state))"

definition commit_order_unknown :: "u64 \<Rightarrow> runtime_state \<Rightarrow> runtime_state" where
  "commit_order_unknown now_ms state =
     bump now_ms (on_snapshot (\<lambda>p. p\<lparr>ps_agent_order := default_order\<rparr>) state)"

text \<open>What the sessions' part of the command comes to.\<close>

datatype order_outcome =
    NoSessions | DiscoveryFailed | PreflightFailed session_descriptor
  | OrderChanged "session_descriptor list" | OrderSet "session_descriptor list"
  | OrderFailed bool "session_descriptor list"

definition synchronize_order ::
  "'s herdr_env \<Rightarrow> agent_order_mode \<Rightarrow> agent_order_mode \<Rightarrow> 's \<Rightarrow> order_outcome \<times> 's" where
  "synchronize_order env authoritative mode s =
     (case discover env s of
        (Inl _, s) \<Rightarrow> (DiscoveryFailed, s)
      | (Inr descriptors, s) \<Rightarrow>
          if descriptors = [] then (NoSessions, s) else
          (case read_priors env descriptors s of
             (Inl failed, s) \<Rightarrow> (PreflightFailed failed, s)
           | (Inr priors, s) \<Rightarrow>
               if list_ex (\<lambda>(_, prior). prior \<noteq> authoritative) priors
               then (OrderChanged (map fst priors), s)
               else (case set_orders env mode [] priors s of
                   (None, s) \<Rightarrow> (OrderSet descriptors, s)
                 | (Some attempted, s) \<Rightarrow>
                     (case restore_orders env (rev attempted) s of
                        (restored, s) \<Rightarrow>
                          (case verify_orders env priors s of
                             (verified, s) \<Rightarrow>
                               (OrderFailed (restored \<and> verified) (map fst priors), s))))))"

definition process_agent_order_command ::
  "'s daemon_env \<Rightarrow> portal_command \<Rightarrow> 's daemon \<Rightarrow> action_result \<times> 's daemon" where
  "process_agent_order_command env command d =
     (let request_id = pc_request_id command;
          snapshot = rt_snapshot (dm_state d);
          authoritative = ps_agent_order snapshot;
          mode = (if pc_action command = OrderGrouped then Grouped else Priority)
      in if pc_sequence command \<noteq> ps_sequence snapshot \<or> \<not> os_available authoritative
         then (action_error request_id ''stale_snapshot''
                 ''the authoritative agent ordering changed before the action'', d)
         else if rt_backend (dm_state d) = T3code
         then (action_ok request_id ''agent_order_updated'',
               publish env (persist_backend env (on_state (\<lambda>s.
                 commit_order mode (de_now_ms env) (s\<lparr>rt_t3code_order := mode\<rparr>)) d)))
         else (case synchronize_order (de_herdr env) (os_mode authoritative) mode (dm_servers d) of
             (outcome, servers) \<Rightarrow>
               let d = d\<lparr>dm_servers := servers\<rparr> in
               (case outcome of
                  NoSessions \<Rightarrow> (action_error request_id ''session_disconnected''
                    ''no running Herdr session can change agent ordering'', d)
                | DiscoveryFailed \<Rightarrow> (action_error request_id ''session_disconnected''
                    ''Herdr agent ordering is unavailable'', d)
                | PreflightFailed failed \<Rightarrow> (action_error request_id ''target_unavailable''
                    ''Herdr could not verify agent ordering'', try_invalidate (sd_name failed) d)
                | OrderChanged descriptors \<Rightarrow> (action_error request_id ''stale_snapshot''
                    ''Herdr ordering changed before the action'', invalidate_all descriptors d)
                | OrderFailed compensated descriptors \<Rightarrow>
                    (action_error request_id ''target_unavailable''
                       ''Herdr could not synchronize agent ordering'',
                     (if compensated then invalidate_all descriptors d
                      else publish env (on_state (commit_order_unknown (de_now_ms env))
                             (invalidate_all descriptors d))))
                | OrderSet descriptors \<Rightarrow>
                    (action_ok request_id ''agent_order_updated'',
                     invalidate_all descriptors
                       (publish env (on_state (commit_order mode (de_now_ms env)) d))))))"

section \<open>Dispatching a command\<close>

definition process_restore_focus ::
  "'s daemon_env \<Rightarrow> portal_command \<Rightarrow> 's daemon \<Rightarrow> action_result \<times> 's daemon" where
  "process_restore_focus env command d =
     (case restore_focus (de_hypr env) (dm_desktop d) of
        (Inr _, w) \<Rightarrow> (action_ok (pc_request_id command) ''focus_restored'', d\<lparr>dm_desktop := w\<rparr>)
      | (Inl _, w) \<Rightarrow> (action_error (pc_request_id command) ''target_unavailable''
          ''focus restoration failed'', d\<lparr>dm_desktop := w\<rparr>))"

text \<open>\<open>None\<close>: the wait for the window takes more polls than the fuel.\<close>

definition process_desktop_command ::
  "'s daemon_env \<Rightarrow> portal_command \<Rightarrow> 's daemon \<Rightarrow> (action_result \<times> 's daemon) option" where
  "process_desktop_command env command d =
     (let app = (if pc_action command = ChatgptDesktop then ChatGpt else Claude) in
      case focus_or_launch (de_poll_fuel env) (de_hypr env) app (dm_desktop d) of
        None \<Rightarrow> None
      | Some (r, w) \<Rightarrow>
          Some ((case r of
              Inr Focused \<Rightarrow> action_ok (pc_request_id command) ''desktop_app_focused''
            | Inr LaunchedAndFocused \<Rightarrow> action_ok (pc_request_id command) ''desktop_app_launched''
            | Inl _ \<Rightarrow> action_error (pc_request_id command) ''target_unavailable''
                ''desktop app could not be focused or launched''), d\<lparr>dm_desktop := w\<rparr>))"

definition process_t3_open ::
  "'s daemon_env \<Rightarrow> portal_command \<Rightarrow> t3code_target \<Rightarrow> action_result" where
  "process_t3_open env command target =
     (if pc_action command \<noteq> Open
      then action_error (pc_request_id command) ''target_unavailable''
             ''action is not available for T3 Code threads''
      else let thread_id = tt_thread_id target;
               r = (case tc_app_bin (cfg_t3code (de_config env)) of
                   Some bin \<Rightarrow>
                     and_then (open_native_args (de_t3 env) (de_t3_client env) (de_userdata_parent env) thread_id)
                       (de_run_native env bin)
                 | None \<Rightarrow> and_then (client_thread_url (de_t3 env) (de_t3_client env) thread_id) (de_open_url env))
           in (case r of
                 Inr _ \<Rightarrow> action_ok (pc_request_id command) ''thread_open_requested''
               | Inl _ \<Rightarrow> action_error (pc_request_id command) ''target_unavailable''
                   ''T3 Code window is not available''))"

definition herdr_error :: "string \<Rightarrow> string \<Rightarrow> action_result" where
  "herdr_error request_id message =
     (let code = (if contains ''protocol'' message then ''unsupported_protocol''
            else if contains ''state'' message \<or> contains ''capability'' message
            then ''agent_state_changed'' else ''command_error'')
      in action_error request_id code
           (if code = ''unsupported_protocol'' then ''Herdr protocol is unsupported''
            else if code = ''agent_state_changed'' then ''agent state changed before the action''
            else ''agent action failed''))"

definition process_herdr_action ::
  "'s daemon_env \<Rightarrow> portal_command \<Rightarrow> string \<Rightarrow> herdr_target \<Rightarrow> 's daemon \<Rightarrow> action_result \<times> 's daemon" where
  "process_herdr_action env command agent_id target d =
     (case herdr_perform (de_herdr env) target (pc_action command) (pc_capability_id command) (dm_servers d) of
        (Inl message, servers) \<Rightarrow> (herdr_error (pc_request_id command) message, d\<lparr>dm_servers := servers\<rparr>)
      | (Inr _, servers) \<Rightarrow>
          let d = d\<lparr>dm_servers := servers\<rparr>;
              d = (if pc_action command = Open then acknowledge_review_ready env agent_id d else d);
              d = try_invalidate (ht_session target) d
          in if pc_action command = Open \<or> pc_action command = Zoom
             then (case activate_herdr (de_config env) (de_hypr env) (de_proc env) (ht_session target)
                          (ht_socket_path target) (dm_desktop d) of
                 (Inl _, w) \<Rightarrow> (action_error (pc_request_id command) ''target_unavailable''
                   ''agent focused, but its Herdr window was not activated'', d\<lparr>dm_desktop := w\<rparr>)
               | (Inr _, w) \<Rightarrow> (action_ok (pc_request_id command) ''action_completed'', d\<lparr>dm_desktop := w\<rparr>))
             else (action_ok (pc_request_id command) ''action_completed'', d))"

definition action_enabled :: "action_kind \<Rightarrow> agent_view \<Rightarrow> bool" where
  "action_enabled action agent =
     (case action of
        Open \<Rightarrow> aa_open (av_actions agent) | Zoom \<Rightarrow> aa_zoom (av_actions agent) | _ \<Rightarrow> True)"

text \<open>The guards of an action on a card, and the card and target it is then for.\<close>

definition resolve_agent_action ::
  "portal_command \<Rightarrow> runtime_state \<Rightarrow> action_result + agent_view \<times> agent_target" where
  "resolve_agent_action command state =
     (let request_id = pc_request_id command;
          agent = Option.bind (pc_agent_id command)
            (\<lambda>i. find (\<lambda>a. av_id a = i) (ps_agents (rt_snapshot state)));
          target = Option.bind (pc_agent_id command) (hget (rt_targets state))
      in if pc_sequence command \<noteq> ps_sequence (rt_snapshot state)
         then Inl (action_error request_id ''stale_snapshot''
                ''the portal snapshot changed before the action'')
         else (case agent of
             None \<Rightarrow> Inl (action_error request_id ''target_unavailable'' ''agent is no longer available'')
           | Some agent \<Rightarrow>
               (case target of
                  None \<Rightarrow> Inl (action_error request_id ''session_disconnected''
                    ''agent session is disconnected'')
                | Some target \<Rightarrow>
                    if \<not> action_enabled (pc_action command) agent
                    then Inl (action_error request_id ''target_unavailable''
                           ''action is not available for the current agent'')
                    else if \<not> command_capability_matches command agent
                    then Inl (action_error request_id ''capability_expired''
                           ''guarded action does not match the current agent capability'')
                    else Inr (agent, target))))"

definition process_agent_action ::
  "'s daemon_env \<Rightarrow> portal_command \<Rightarrow> 's daemon \<Rightarrow> action_result \<times> 's daemon" where
  "process_agent_action env command d =
     (case resolve_agent_action command (dm_state d) of
        Inl r \<Rightarrow> (r, d)
      | Inr (agent, T3codeTarget target) \<Rightarrow> (process_t3_open env command target, d)
      | Inr (agent, HerdrTarget target) \<Rightarrow> process_herdr_action env command (av_id agent) target d)"

definition process_command ::
  "'s daemon_env \<Rightarrow> string \<Rightarrow> string \<Rightarrow> 's daemon \<Rightarrow> (action_result \<times> 's daemon) option" where
  "process_command env line client_id d =
     (case de_parse_command env line of
        Inl _ \<Rightarrow> Some (action_error [] ''invalid_command'' ''command is not valid JSON'', d)
      | Inr command \<Rightarrow>
          (case validate_command command of
             Inl e \<Rightarrow> Some (action_error (pc_request_id command) ''invalid_command''
               (command_error_to_string e), d)
           | Inr _ \<Rightarrow>
               let action = pc_action command in
               if action = RestoreFocus then Some (process_restore_focus env command d)
               else if action \<in> {ChatgptDesktop, ClaudeDesktop} then process_desktop_command env command d
               else if action \<in> {VoiceStart, VoiceStop, VoiceCancel}
               then Some (process_voice_command env command client_id d)
               else if action \<in> {OrderGrouped, OrderPriority}
               then Some (process_agent_order_command env command d)
               else if action \<in> {BackendHerdr, BackendT3code}
               then Some (process_backend_command env command d)
               else Some (process_agent_action env command d)))"

section \<open>Facts about changing the order\<close>








section \<open>Properties\<close>






end
