(* ===== verification/Daemon.thy ===== *)
theory Daemon
  imports Commands
begin

text \<open>
  The daemon as a transition system. A step is one critical section of the program: a pass of a
  collector, a command, a client's disconnect, or the commit of a refresh whose data was collected
  while other steps went on. The environment of a step is arbitrary. \<open>daemon_ok\<close> is the invariant of
  the reachable states; the gate relates the sequence number to what a command acts on.
\<close>

section \<open>The start\<close>

definition initial_state :: "string \<Rightarrow> persisted_backend \<Rightarrow> runtime_state" where
  "initial_state epoch persisted =
     \<lparr>rt_snapshot = (empty_snapshot epoch)\<lparr>ps_backend :=
        \<lparr>bs_mode = pb_backend persisted, bs_switchable = True\<rparr>\<rparr>,
      rt_backend = pb_backend persisted, rt_t3code_order = pb_t3code_order persisted,
      rt_t3code_sequence = None, rt_targets = [], rt_observed = [], rt_focused_agents = [],
      rt_voice_error_latched = False, rt_voice_client_owner = None\<rparr>"

text \<open>\<open>new_with_state_path\<close>: a persisted selection that can be read replaces the configured one.\<close>

definition new_daemon ::
  "config \<Rightarrow> string \<Rightarrow> persisted_backend option \<Rightarrow> voice_world \<Rightarrow> 's \<Rightarrow> 's daemon result" where
  "new_daemon cfg epoch persisted voice servers =
     (case validate cfg of
        Inl e \<Rightarrow> Inl e
      | Inr _ \<Rightarrow>
          let selected = (case persisted of
                Some p \<Rightarrow> p
              | None \<Rightarrow> \<lparr>pb_backend = cfg_agent_backend cfg, pb_t3code_order = Grouped\<rparr>);
              state = initial_state epoch selected
          in Inr \<lparr>dm_state = state, dm_desktop = new_desktop_state, dm_voice = voice,
               dm_servers = servers, dm_persisted = persisted, dm_subscriptions = [],
               dm_invalidations = [], dm_published = rt_snapshot state\<rparr>)"

section \<open>Steps\<close>

text \<open>What wakes \<open>collect_agent_loop\<close>. A burst of invalidations is drained and answered by one refresh; a
  switch of the manager wakes it the same way.\<close>

datatype agent_event = RepairTick | T3codeTick | Invalidated

definition agent_loop_event ::
  "'s daemon_env \<Rightarrow> bool \<Rightarrow> bool \<Rightarrow> agent_event \<Rightarrow> 's daemon \<Rightarrow> 's daemon" where
  "agent_loop_event env sequence_joined joined event d =
     (case event of
        RepairTick \<Rightarrow> refresh_agents env joined d
      | T3codeTick \<Rightarrow>
          if rt_backend (dm_state d) = T3code \<and> t3code_sequence_changed env sequence_joined d
          then refresh_agents env joined d else d
      | Invalidated \<Rightarrow> refresh_agents env joined (d\<lparr>dm_invalidations := []\<rparr>))"

text \<open>The passes of the daemon's own tasks, and the steps, which add what clients cause.\<close>

inductive pass :: "'s daemon \<Rightarrow> 's daemon \<Rightarrow> bool" where
  agents: "pass d (agent_loop_event env sequence_joined joined event d)"
| commit_t3: "pass d (commit_if T3code env (commit_t3code (t3_observe t3 client epoch ms) now now_ms) d)"
| commit_herdr_sweep:
    "sweep_sessions (env' :: 's daemon_env) epoch previous descriptors x = (w, y) \<Longrightarrow>
     pass d (commit_if Herdr env (commit_herdr descriptors w now now_ms) d)"
| commit_no_discovery: "pass d (commit_if Herdr env (commit_discovery_failed now_ms) d)"
| acknowledge: "pass d (acknowledge_review_ready env agent_id d)"
| voice_tick: "pass d (refresh_voice env d)"
| health_tick: "pass d (refresh_health env health d)"
| micro_tick: "pass d (refresh_micro env micro d)"
| usage_tick: "pass d (refresh_usage env usage d)"

inductive step :: "'s daemon \<Rightarrow> 's daemon \<Rightarrow> bool" where
  pass: "pass d d' \<Longrightarrow> step d d'"
| command: "process_command env line client_id d = Some (r, d') \<Longrightarrow> step d d'"
| disconnect: "step d (cancel_voice_for_disconnected_client env client_id d)"

text \<open>What a command on a card or on the roster acts on.\<close>

definition gate :: "runtime_state \<Rightarrow>
    session_view list \<times> agent_view list \<times> targets \<times> agent_order_snapshot \<times> agent_backend" where
  "gate s = (ps_sessions (rt_snapshot s), ps_agents (rt_snapshot s), rt_targets s,
     ps_agent_order (rt_snapshot s), rt_backend s)"

text \<open>The sequence never falls, and while it stands still (short of its maximum) the gate does too.\<close>

definition sequenced :: "runtime_state \<Rightarrow> runtime_state \<Rightarrow> bool" where
  "sequenced s s' \<longleftrightarrow> ps_sequence (rt_snapshot s) \<le> ps_sequence (rt_snapshot s') \<and>
     (ps_sequence (rt_snapshot s') = ps_sequence (rt_snapshot s) \<longrightarrow>
        ps_sequence (rt_snapshot s) = - 1 \<or> gate s' = gate s)"

lemma sequenced_refl [simp]: "sequenced s s"
  by (simp add: sequenced_def)

lemma sequenced_trans: "sequenced s t \<Longrightarrow> sequenced t u \<Longrightarrow> sequenced s u"
  unfolding sequenced_def by (metis order_antisym order_trans)

lemma sequenced_bump:
  "ps_sequence (rt_snapshot s') = ps_sequence (rt_snapshot s) \<Longrightarrow> sequenced s (bump ms s')"
proof -
  assume "ps_sequence (rt_snapshot s') = ps_sequence (rt_snapshot s)"
  then have "ps_sequence (rt_snapshot (bump ms s')) = saturating_add (ps_sequence (rt_snapshot s)) 1"
    by (simp add: bump_def on_snapshot_def)
  then show ?thesis
    using saturating_add_ge [of "ps_sequence (rt_snapshot s)" 1]
      saturating_add_one_neq [of "ps_sequence (rt_snapshot s)"]
    unfolding sequenced_def by auto
qed

section \<open>The invariant\<close>

fun routed_by :: "agent_backend \<Rightarrow> agent_target \<Rightarrow> bool" where
  "routed_by Herdr (HerdrTarget _) = True"
| "routed_by T3code (T3codeTarget _) = True"
| "routed_by _ _ = False"

definition state_ok :: "runtime_state \<Rightarrow> bool" where
  "state_ok s \<longleftrightarrow>
     ps_backend (rt_snapshot s) = \<lparr>bs_mode = rt_backend s, bs_switchable = True\<rparr> \<and>
     hmap_ok (rt_targets s) \<and>
     (\<forall>(i, t) \<in> set (rt_targets s). routed_by (rt_backend s) t) \<and>
     fst ` set (rt_targets s) \<subseteq> av_id ` set (ps_agents (rt_snapshot s)) \<and>
     latch_ok (rt_observed s) \<and> hmap_ok (rt_focused_agents s) \<and>
     (rt_backend s = T3code \<and> os_available (ps_agent_order (rt_snapshot s)) \<longrightarrow>
        os_mode (ps_agent_order (rt_snapshot s)) = rt_t3code_order s)"

definition daemon_ok :: "'s daemon \<Rightarrow> bool" where
  "daemon_ok d \<longleftrightarrow> state_ok (dm_state d) \<and>
     (rt_voice_client_owner (dm_state d) \<noteq> None \<longrightarrow> owns_marker (voice_token d) (dm_voice d))"

section \<open>Sound changes\<close>

definition sound_state :: "runtime_state \<Rightarrow> runtime_state \<Rightarrow> bool" where
  "sound_state s s' \<longleftrightarrow> sequenced s s' \<and>
     ps_daemon_epoch (rt_snapshot s') = ps_daemon_epoch (rt_snapshot s) \<and>
     rt_voice_client_owner s' = rt_voice_client_owner s \<and> (state_ok s \<longrightarrow> state_ok s')"

definition sound :: "'s daemon \<Rightarrow> 's daemon \<Rightarrow> bool" where
  "sound d d' \<longleftrightarrow> sequenced (dm_state d) (dm_state d') \<and>
     ps_daemon_epoch (rt_snapshot (dm_state d')) = ps_daemon_epoch (rt_snapshot (dm_state d)) \<and>
     (daemon_ok d \<longrightarrow> daemon_ok d')"

lemma sound_trans: "sound d e \<Longrightarrow> sound e f \<Longrightarrow> sound d f"
  unfolding sound_def using sequenced_trans by metis

lemma sound_frame: "dm_state d' = dm_state d \<Longrightarrow> dm_voice d' = dm_voice d \<Longrightarrow> sound d d'"
  by (simp add: sound_def daemon_ok_def voice_token_def)

lemma sound_refl [simp]: "sound d d"
  by (rule sound_frame) simp_all

lemma publish_frame [simp]:
  "dm_state (publish env d) = dm_state d" "dm_voice (publish env d) = dm_voice d"
  by (simp_all add: publish_def Let_def)

lemma try_invalidate_frame [simp]:
  "dm_state (try_invalidate n d) = dm_state d" "dm_voice (try_invalidate n d) = dm_voice d"
  by (simp_all add: try_invalidate_def)

lemma invalidate_all_frame [simp]:
  "dm_state (invalidate_all xs d) = dm_state d" "dm_voice (invalidate_all xs d) = dm_voice d"
  unfolding invalidate_all_def by (induction xs arbitrary: d) simp_all

lemma persist_backend_frame [simp]:
  "dm_state (persist_backend env d) = dm_state d" "dm_voice (persist_backend env d) = dm_voice d"
  by (simp_all add: persist_backend_def)

lemma on_state_frame [simp]:
  "dm_state (on_state f d) = f (dm_state d)" "dm_voice (on_state f d) = dm_voice d"
  by (simp_all add: on_state_def)

lemma sound_state_change:
  assumes "sound_state (dm_state d) (dm_state d')" "dm_voice d' = dm_voice d"
  shows "sound d d'"
  using assms by (auto simp: sound_def sound_state_def daemon_ok_def voice_token_def)

lemma sound_commit_if:
  assumes "\<And>s. rt_backend s = b \<Longrightarrow> sound_state s (f s)"
  shows "sound d (commit_if b env f d)"
  by (rule sound_state_change [OF _]) (auto simp: commit_if_def sound_state_def intro!: assms
      [unfolded sound_state_def])

section \<open>Commits of a refresh\<close>

lemma ids_apply_agent_order [simp]: "av_id ` set (apply_agent_order as order) = av_id ` set as"
  by (simp add: apply_agent_order_def)

lemma ids_apply_observations [simp]:
  "av_id ` set (fst (apply_agent_observations agents targets ob foc now)) = av_id ` set agents"
  by (metis apply_observations_all_ids set_map)

lemma sound_bump:
  assumes "ps_sequence (rt_snapshot s') = ps_sequence (rt_snapshot s)"
    and "ps_daemon_epoch (rt_snapshot s') = ps_daemon_epoch (rt_snapshot s)"
    and "rt_voice_client_owner s' = rt_voice_client_owner s"
    and "state_ok s \<Longrightarrow> state_ok s'"
  shows "sound_state s (bump ms s')"
  unfolding sound_state_def
proof (intro conjI impI)
  show "sequenced s (bump ms s')" by (rule sequenced_bump [OF assms(1)])
  show "state_ok (bump ms s')" if "state_ok s"
    using assms(4) [OF that] by (simp add: state_ok_def bump_def on_snapshot_def)
qed (simp_all add: assms bump_def on_snapshot_def)

lemma sound_roster:
  assumes "hmap_ok targets" "\<forall>(i, t) \<in> set targets. routed_by (rt_backend s) t"
    and "fst ` set targets \<subseteq> av_id ` set agents"
    and "rt_backend s = T3code \<Longrightarrow> os_available order \<Longrightarrow> os_mode order = rt_t3code_order s"
  shows "sound_state s (bump ms (on_snapshot (\<lambda>p. p\<lparr>ps_connection := c, ps_sessions := ss,
      ps_agents := apply_agent_order (fst (apply_agent_observations agents targets (rt_observed s)
        (rt_focused_agents s) now)) order, ps_agent_order := order\<rparr>)
    (s\<lparr>rt_observed := fst (snd (apply_agent_observations agents targets (rt_observed s) (rt_focused_agents s) now)),
       rt_focused_agents := snd (snd (apply_agent_observations agents targets (rt_observed s) (rt_focused_agents s) now)),
       rt_targets := targets, rt_t3code_sequence := q\<rparr>)))"
  by (rule sound_bump)
    (use assms latch_ok_step apply_observations_focused_ok in
      \<open>auto simp: state_ok_def on_snapshot_def\<close>)

lemma t3_targets_keys:
  "fst ` set (to_targets (t3_observe env client epoch now)) \<subseteq>
     av_id ` set (to_agents (t3_observe env client epoch now)) \<and>
   hmap_ok (to_targets (t3_observe env client epoch now))"
proof -
  have "fst ` set (to_targets (observation_from_rows rfc uuid rows e n p s)) =
      av_id ` set (to_agents (observation_from_rows rfc uuid rows e n p s))" for rfc uuid rows e n p s
    using observation_target_keys [of rfc uuid rows e n p s] by (simp add: dom_map_of_conv_image_fst)
  then show ?thesis
    by (auto simp: t3_observe_def observe_database_def t3_empty_observation_def observation_targets_ok Let_def
        split: sum.split liveness.split)
qed

lemma sound_commit_t3code:
  assumes "rt_backend s = T3code"
  shows "sound_state s (commit_t3code (t3_observe env client epoch ms) now now_ms s)"
proof -
  let ?o = "t3_observe env client epoch ms"
  have r: "\<forall>(i, t) \<in> set (map (apsnd T3codeTarget) (to_targets ?o)). routed_by (rt_backend s) t"
    by (auto simp: assms)
  have k: "fst ` set (map (apsnd T3codeTarget) (to_targets ?o)) \<subseteq> av_id ` set (to_agents ?o)"
    using t3_targets_keys [of env client epoch ms] by (auto simp: image_image)
  have h: "hmap_ok (map (apsnd T3codeTarget) (to_targets ?o))"
    using t3_targets_keys [of env client epoch ms] by (simp add: hmap_ok_def comp_def)
  show ?thesis
    unfolding commit_t3code_def Let_def split_beta
    by (rule sound_roster) (use r k h in auto)
qed

definition sweep_ok :: "sweep \<Rightarrow> bool" where
  "sweep_ok w \<longleftrightarrow> hmap_ok (sw_targets w) \<and>
     (\<forall>(i, t) \<in> set (sw_targets w). routed_by Herdr t) \<and>
     fst ` set (sw_targets w) \<subseteq> av_id ` set (sw_agents w)"

lemma observe_session_Inr:
  assumes "observe_session env descriptor epoch off now s = (Inr ob, s')"
  shows "so_targets ob = [] \<or>
    (\<exists>ping snap order. ob = herdr_observation (hv_uuid5 env) descriptor epoch off now ping snap order)"
  using assms
  by (auto simp: observe_session_def bind_io_def return_io_def split: prod.splits sum.splits if_splits)

lemma observe_session_targets:
  assumes "observe_session env descriptor epoch off now s = (Inr ob, s')"
  shows "fst ` set (so_targets ob) \<subseteq> av_id ` set (so_agents ob)"
proof -
  have "fst ` set (so_targets (herdr_observation u d e o' n p sn ord)) =
      av_id ` set (so_agents (herdr_observation u d e o' n p sn ord))" for u d e o' n p sn ord
    using herdr_observation_keys [of u d e o' n p sn ord] by (simp add: dom_map_of_conv_image_fst)
  with observe_session_Inr [OF assms] show ?thesis by (elim disjE exE) simp_all
qed

lemma sweep_ok_stale:
  assumes "sweep_ok w"
  shows "sweep_ok (add_previous descriptor previous w)"
    and "sweep_ok (add_session session w)"
    and "sweep_ok (add_stale descriptor ob message w)"
  using assms
  by (auto simp: sweep_ok_def add_previous_def add_session_def add_stale_def Let_def)

lemma sweep_ok_connected:
  assumes "sweep_ok w" "fst ` set (so_targets ob) \<subseteq> av_id ` set (so_agents ob)"
  shows "sweep_ok (add_connected ob w)"
proof -
  let ?new = "map (apsnd HerdrTarget) (so_targets ob)"
  have sub: "set (hextend ?new (sw_targets w)) \<subseteq> set ?new \<union> set (sw_targets w)" by (rule set_hextend)
  have "\<forall>(i, t) \<in> set ?new \<union> set (sw_targets w). routed_by Herdr t"
    using assms(1) by (auto simp: sweep_ok_def)
  then have "\<forall>(i, t) \<in> set (hextend ?new (sw_targets w)). routed_by Herdr t" using sub by blast
  moreover have "fst ` set (hextend ?new (sw_targets w)) \<subseteq> av_id ` set (sw_agents w @ so_agents ob)"
  proof -
    have new: "fst ` set ?new \<subseteq> av_id ` set (so_agents ob)" using assms(2) by (simp add: image_image)
    have old: "fst ` set (sw_targets w) \<subseteq> av_id ` set (sw_agents w)"
      using assms(1) by (simp add: sweep_ok_def)
    have "fst ` set (hextend ?new (sw_targets w)) \<subseteq> fst ` set ?new \<union> fst ` set (sw_targets w)"
      using image_mono [OF sub, of fst] by (simp only: image_Un)
    also have "\<dots> \<subseteq> av_id ` set (so_agents ob) \<union> av_id ` set (sw_agents w)"
      by (rule Un_mono [OF new old])
    finally show ?thesis by (simp only: set_append image_Un Un_commute)
  qed
  moreover have "hmap_ok (hextend ?new (sw_targets w))" using assms(1) by (simp add: sweep_ok_def)
  ultimately show ?thesis by (simp add: sweep_ok_def add_connected_def)
qed

lemmas sweep_ok_add = sweep_ok_stale sweep_ok_connected

lemma sweep_ok_session:
  "sweep_ok (fst x) \<Longrightarrow> sweep_ok (fst (sweep_session env epoch previous descriptor x))"
proof -
  assume w: "sweep_ok (fst x)"
  obtain w0 subs servers where x: "x = (w0, subs, servers)" by (cases x)
  from w show ?thesis
    by (auto simp: x sweep_session_def Let_def split: prod.splits sum.splits bool.splits
        intro: sweep_ok_add dest: observe_session_targets)
qed

lemma sweep_ok_sessions:
  assumes "sweep_sessions env epoch previous descriptors x = (w, y)"
  shows "sweep_ok w"
proof -
  have "sweep_ok (fst z) \<Longrightarrow> sweep_ok (fst (fold (sweep_session env epoch previous) ds z))" for ds z
    by (induction ds arbitrary: z) (simp_all add: sweep_ok_session)
  moreover have "sweep_ok empty_sweep" by (simp add: sweep_ok_def empty_sweep_def)
  ultimately have "sweep_ok (fst (fold (sweep_session env epoch previous) descriptors
      (empty_sweep, fst x, snd x)))" by simp
  with assms show ?thesis
    by (cases x) (auto simp: sweep_sessions_def split: prod.splits)
qed

lemma runtime_state_keep_sequence: "s\<lparr>rt_observed := a, rt_focused_agents := b, rt_targets := c\<rparr> =
    s\<lparr>rt_observed := a, rt_focused_agents := b, rt_targets := c, rt_t3code_sequence := rt_t3code_sequence s\<rparr>"
  by simp

lemma sound_commit_herdr:
  assumes "rt_backend s = Herdr" "sweep_ok w"
  shows "sound_state s (commit_herdr descriptors w now now_ms s)"
proof -
  have r: "\<forall>(i, t) \<in> set (sw_targets w). routed_by (rt_backend s) t"
    and k: "fst ` set (sw_targets w) \<subseteq> av_id ` set (sw_agents w)" and h: "hmap_ok (sw_targets w)"
    using assms by (auto simp: sweep_ok_def)
  have swap: "commit_herdr descriptors w now now_ms s =
    bump now_ms (on_snapshot (\<lambda>p. p\<lparr>ps_connection := (if descriptors = [] then ConnOffline
             else if sw_connected w = length descriptors then ConnConnected
             else if 0 < sw_connected w then ConnDegraded else ConnReconnecting),
        ps_sessions := sw_sessions w,
        ps_agents := apply_agent_order (fst (apply_agent_observations (sw_agents w) (sw_targets w)
          (rt_observed s) (rt_focused_agents s) now)) (agreed_order descriptors w),
        ps_agent_order := agreed_order descriptors w\<rparr>)
      (s\<lparr>rt_observed := fst (snd (apply_agent_observations (sw_agents w) (sw_targets w) (rt_observed s) (rt_focused_agents s) now)),
       rt_focused_agents := snd (snd (apply_agent_observations (sw_agents w) (sw_targets w) (rt_observed s) (rt_focused_agents s) now)),
       rt_targets := sw_targets w, rt_t3code_sequence := rt_t3code_sequence s\<rparr>))"
    by (simp add: commit_herdr_def split_beta Let_def on_snapshot_def bump_def)
  show ?thesis unfolding swap by (rule sound_roster) (use r k h assms(1) in simp_all)
qed

lemma sound_commit_discovery_failed:
  "rt_backend s = Herdr \<Longrightarrow> sound_state s (commit_discovery_failed now_ms s)"
  unfolding commit_discovery_failed_def
  by (rule sound_bump) (auto simp: on_snapshot_def state_ok_def)

lemma sound_refresh_herdr: "sound d (refresh_herdr env d)"
proof (cases "rt_backend (dm_state d) = Herdr")
  case True
  have frame: "sound d (commit_if Herdr env f d')"
    if "dm_state d' = dm_state d" "dm_voice d' = dm_voice d" "\<And>s. rt_backend s = Herdr \<Longrightarrow> sound_state s (f s)"
    for f d'
    by (rule sound_trans [OF sound_frame sound_commit_if]) (use that in simp_all)
  show ?thesis
    using True
    by (auto simp: refresh_herdr_def split: prod.splits sum.splits intro!: frame
        sound_commit_discovery_failed sound_commit_herdr dest: sweep_ok_sessions)
qed (simp add: refresh_herdr_def)

lemma sound_refresh_agents: "sound d (refresh_agents env joined d)"
proof (cases "rt_backend (dm_state d)")
  case T3code
  have "sound d (d\<lparr>dm_subscriptions := []\<rparr>)" by (rule sound_frame) simp_all
  moreover have "sound e (refresh_t3code env joined e)" for e
    by (auto simp: refresh_t3code_def Let_def intro!: sound_commit_if sound_commit_t3code)
  ultimately show ?thesis using T3code by (simp add: refresh_agents_def sound_trans)
qed (simp add: refresh_agents_def sound_refresh_herdr)

lemma sound_agent_loop: "sound d (agent_loop_event env sequence_joined joined event d)"
proof -
  have "sound d (d\<lparr>dm_invalidations := []\<rparr>)" by (rule sound_frame) simp_all
  from sound_trans [OF this sound_refresh_agents] show ?thesis
    by (simp add: agent_loop_event_def sound_refresh_agents split: agent_event.split)
qed

section \<open>Small passes\<close>

lemma sound_snapshot:
  assumes "\<And>p. ps_sequence (f p) = ps_sequence p" "\<And>p. ps_daemon_epoch (f p) = ps_daemon_epoch p"
    and "\<And>p. ps_sessions (f p) = ps_sessions p" "\<And>p. ps_agents (f p) = ps_agents p"
    and "\<And>p. ps_agent_order (f p) = ps_agent_order p" "\<And>p. ps_backend (f p) = ps_backend p"
  shows "sound_state s (on_snapshot f s)"
  using assms by (simp add: sound_state_def sequenced_def gate_def state_ok_def on_snapshot_def)

lemma sound_publish_state: "sound_state (dm_state d) (f (dm_state d)) \<Longrightarrow> sound d (publish env (on_state f d))"
  by (rule sound_state_change) simp_all

lemma sound_refresh_voice: "sound d (refresh_voice env d)"
  unfolding refresh_voice_def Let_def by (auto intro!: sound_publish_state sound_snapshot)

lemma sound_refresh_micro: "sound d (refresh_micro env m d)"
  unfolding refresh_micro_def by (auto intro!: sound_publish_state sound_snapshot)

lemma sound_refresh_usage: "sound d (refresh_usage env u d)"
  unfolding refresh_usage_def by (auto intro!: sound_publish_state sound_snapshot split: option.splits)

lemma sound_refresh_health: "sound d (refresh_health env h d)"
  unfolding refresh_health_def Let_def
  by (rule sound_trans [OF sound_publish_state sound_frame]) (auto intro!: sound_snapshot)

lemma update_first_ids [simp]: "(\<And>a. av_id (f a) = av_id a) \<Longrightarrow> av_id ` set (update_first p f as) = av_id ` set as"
  by (induction as) auto

definition unready :: "string \<Rightarrow> observed \<Rightarrow> observed" where
  "unready i ob = (case hget ob i of Some e \<Rightarrow> hinsert i (e\<lparr>ob_review_ready := False\<rparr>) ob | None \<Rightarrow> ob)"

lemma latch_ok_unready: "latch_ok ob \<Longrightarrow> latch_ok (unready i ob)"
  by (cases "hget ob i") (simp_all add: unready_def latch_ok_hget hmap_simps)

lemma sound_acknowledge: "sound d (acknowledge_review_ready env agent_id d)"
proof (cases "commit_acknowledge agent_id (de_now_ms env) (dm_state d)")
  case (Some s)
  then obtain agent where s: "s = bump (de_now_ms env) (on_snapshot (\<lambda>p. p\<lparr>ps_agents :=
       update_first (\<lambda>a. av_id a = agent_id) (\<lambda>a. a\<lparr>av_review_ready := False\<rparr>) (ps_agents p)\<rparr>)
     ((dm_state d)\<lparr>rt_observed := unready agent_id (rt_observed (dm_state d))\<rparr>))"
    by (auto simp: commit_acknowledge_def unready_def split: option.splits if_splits)
  have "sound_state (dm_state d) s"
    unfolding s by (rule sound_bump) (auto simp: on_snapshot_def state_ok_def latch_ok_unready)
  with Some show ?thesis
    unfolding acknowledge_review_ready_def by (auto intro!: sound_state_change)
qed (simp add: acknowledge_review_ready_def)

section \<open>Commands\<close>

lemma sound_voice:
  assumes "dm_state d' = commit_voice voice latched owner ms (dm_state d)"
    and "owner \<noteq> None \<Longrightarrow> daemon_ok d \<Longrightarrow> owns_marker (voice_token d) (dm_voice d')"
  shows "sound d d'"
proof -
  have "sound_state (dm_state d) (bump ms (on_snapshot (\<lambda>p. p\<lparr>ps_voice := voice\<rparr>)
      ((dm_state d)\<lparr>rt_voice_error_latched := latched\<rparr>)))"
    by (rule sound_bump) (auto simp: on_snapshot_def state_ok_def)
  then show ?thesis
    using assms
    by (auto simp: sound_def sound_state_def daemon_ok_def commit_voice_def bump_def on_snapshot_def
        sequenced_def gate_def state_ok_def voice_token_def)
qed

lemma sound_process_voice: "sound d (snd (process_voice_command env command client_id d))"
proof -
  obtain r w where p: "perform_voice (de_voxtype env) (de_marker_fs env) (voice_token d)
      (pc_action command) (dm_voice d) = (r, w)" by (cases "perform_voice (de_voxtype env)
      (de_marker_fs env) (voice_token d) (pc_action command) (dm_voice d)")
  show ?thesis
  proof (cases r)
    case (Inl e)
    then have kept: "owns_marker (voice_token d) (dm_voice d) \<Longrightarrow> owns_marker (voice_token d) w"
      using perform_voice_error_keeps_marker p by blast
    show ?thesis
      by (rule sound_voice) (use kept in \<open>auto simp: process_voice_command_def p Inl daemon_ok_def\<close>)
  next
    case (Inr v)
    then have "owns_marker (voice_token d) w \<longleftrightarrow> pc_action command = VoiceStart"
      using perform_voice_ok_marker p by blast
    then show ?thesis
      by (intro sound_voice) (auto simp: process_voice_command_def p Inr)
  qed
qed

lemma sound_disconnect: "sound d (cancel_voice_for_disconnected_client env client_id d)"
proof (cases "rt_voice_client_owner (dm_state d) = Some client_id")
  case True
  then show ?thesis
    by (cases "fst (perform_voice (de_voxtype env) (de_marker_fs env) (voice_token d) VoiceCancel (dm_voice d))")
      (auto simp: cancel_voice_for_disconnected_client_def split: prod.splits intro!: sound_voice)
qed (simp add: cancel_voice_for_disconnected_client_def)

lemma sound_backend: "sound d (snd (process_backend_command env command d))"
proof -
  have "sound_state s (commit_backend mode ms s)" for s mode ms
    unfolding commit_backend_def
    by (rule sound_bump) (auto simp: on_snapshot_def state_ok_def latch_ok_def default_order_def)
  then show ?thesis
    by (auto simp: process_backend_command_def Let_def intro!: sound_state_change)
qed

lemma sound_commit_order:
  "rt_backend s = Herdr \<or> mode = rt_t3code_order s \<Longrightarrow> sound_state s (commit_order mode ms s)"
  unfolding commit_order_def Let_def
  by (rule sound_bump) (auto simp: on_snapshot_def state_ok_def)

lemma sound_commit_t3_order: "sound_state s (commit_order mode ms (s\<lparr>rt_t3code_order := mode\<rparr>))"
  unfolding commit_order_def Let_def
  by (rule sound_bump) (auto simp: on_snapshot_def state_ok_def)

lemma sound_order: "sound d (snd (process_agent_order_command env command d))"
proof (cases "rt_backend (dm_state d)")
  case T3code
  then show ?thesis
    by (auto simp: process_agent_order_command_def Let_def
        intro!: sound_state_change sound_commit_t3_order)
next
  case Herdr
  have unknown: "sound_state s (commit_order_unknown ms s)" for s ms
    unfolding commit_order_unknown_def
    by (rule sound_bump) (auto simp: on_snapshot_def state_ok_def default_order_def)
  have same: "sound d d'" if "dm_state d' = dm_state d" "dm_voice d' = dm_voice d" for d'
    using that by (rule sound_frame)
  have gone: "sound d d'"
    if "dm_state d' = commit_order_unknown ms (dm_state d)" "dm_voice d' = dm_voice d" for d' ms
    by (rule sound_state_change) (use that unknown in simp_all)
  have set_to: "sound d d'"
    if "dm_state d' = commit_order mode ms (dm_state d)" "dm_voice d' = dm_voice d" for d' ms mode
    by (rule sound_state_change) (use that sound_commit_order Herdr in simp_all)
  obtain outcome servers where o: "synchronize_order (de_herdr env)
      (os_mode (ps_agent_order (rt_snapshot (dm_state d))))
      (if pc_action command = OrderGrouped then Grouped else Priority) (dm_servers d) = (outcome, servers)"
    by (cases "synchronize_order (de_herdr env) (os_mode (ps_agent_order (rt_snapshot (dm_state d))))
      (if pc_action command = OrderGrouped then Grouped else Priority) (dm_servers d)")
  show ?thesis
    using Herdr o
    by (cases outcome)
      (auto simp: process_agent_order_command_def Let_def intro: same gone set_to)
qed

lemma sound_herdr_action: "sound d (snd (process_herdr_action env command agent_id target d))"
proof -
  have ack: "sound d (acknowledge_review_ready env agent_id (d\<lparr>dm_servers := x\<rparr>))" for x
    by (rule sound_trans [OF sound_frame sound_acknowledge]) simp_all
  have "sound d e \<Longrightarrow> sound d (try_invalidate n e)" for e n
    by (erule sound_trans) (rule sound_frame, simp_all)
  moreover have "sound d e \<Longrightarrow> sound d (e\<lparr>dm_desktop := w\<rparr>)" for e w
    by (erule sound_trans) (rule sound_frame, simp_all)
  moreover have "sound d (d\<lparr>dm_servers := x\<rparr>)" for x by (rule sound_frame) simp_all
  ultimately show ?thesis
    using ack
    by (auto simp: process_herdr_action_def Let_def split: prod.splits sum.splits)
qed

lemma sound_agent_action: "sound d (snd (process_agent_action env command d))"
  by (auto simp: process_agent_action_def sound_herdr_action split: sum.splits agent_target.splits)

lemma sound_command:
  assumes "process_command env line client_id d = Some (r, d')"
  shows "sound d d'"
proof (cases "\<exists>command. de_parse_command env line = Inr command \<and> validate_command command = Inr ()")
  case False
  with assms show ?thesis by (auto simp: process_command_def split: sum.splits)
next
  case True
  then obtain command where c: "de_parse_command env line = Inr command" "validate_command command = Inr ()"
    by blast
  have "sound d (snd (process_restore_focus env command d))"
    by (rule sound_frame) (simp_all add: process_restore_focus_def split: prod.split sum.split)
  moreover have "process_desktop_command env command d = Some (r, d') \<Longrightarrow> sound d d'"
    by (rule sound_frame) (auto simp: process_desktop_command_def Let_def split: option.splits)
  ultimately show ?thesis
    using assms c sound_process_voice [of d env command client_id] sound_order [of d env command]
      sound_backend [of d env command] sound_agent_action [of d env command]
    by (auto simp: process_command_def Let_def split: if_splits)
qed

lemma sound_pass: "pass d d' \<Longrightarrow> sound d d'"
proof (induction rule: pass.induct)
  case (commit_t3 d env t3 client epoch ms now now_ms)
  show ?case by (rule sound_commit_if) (rule sound_commit_t3code)
next
  case (commit_herdr_sweep env' epoch previous descriptors x w y d env now now_ms)
  show ?case
    by (rule sound_commit_if) (rule sound_commit_herdr [OF _ sweep_ok_sessions [OF commit_herdr_sweep]])
next
  case (commit_no_discovery d env now_ms)
  show ?case by (rule sound_commit_if) (rule sound_commit_discovery_failed)
qed (rule sound_agent_loop sound_acknowledge sound_refresh_voice sound_refresh_health sound_refresh_micro
    sound_refresh_usage)+

lemma sound_step: "step d d' \<Longrightarrow> sound d d'"
  by (induction rule: step.induct) (auto intro: sound_pass sound_disconnect elim: sound_command)

lemma sound_steps: "step\<^sup>*\<^sup>* d d' \<Longrightarrow> sound d d'"
  by (induction rule: rtranclp_induct) (auto intro: sound_trans sound_step)

section \<open>Facts for the properties\<close>

lemma new_daemon_ok: "new_daemon cfg epoch persisted voice servers = Inr d0 \<Longrightarrow> daemon_ok d0"
  by (auto simp: new_daemon_def Let_def initial_state_def daemon_ok_def state_ok_def latch_ok_def
      empty_snapshot_def default_order_def split: sum.splits)

lemma state_ok_target:
  assumes "state_ok s" "hget (rt_targets s) i = Some t"
  shows "routed_by (rt_backend s) t \<and> (\<exists>a \<in> set (ps_agents (rt_snapshot s)). av_id a = i)"
proof -
  have m: "(i, t) \<in> set (rt_targets s)" using assms(2) by (rule map_of_SomeD)
  then have "i \<in> fst ` set (rt_targets s)" by (rule rev_image_eqI) simp
  then have "i \<in> av_id ` set (ps_agents (rt_snapshot s))" using assms(1) by (auto simp: state_ok_def)
  with m assms(1) show ?thesis by (auto simp: state_ok_def)
qed

lemma state_ok_facts:
  assumes "state_ok s"
  shows "bs_mode (ps_backend (rt_snapshot s)) = rt_backend s"
    and "latch_ok (rt_observed s)"
    and "rt_backend s = T3code \<and> os_available (ps_agent_order (rt_snapshot s)) \<longrightarrow>
       os_mode (ps_agent_order (rt_snapshot s)) = rt_t3code_order s"
  using assms by (simp_all add: state_ok_def)

lemma resolve_agent_action_Inr:
  "resolve_agent_action command s = Inr (agent, target) \<Longrightarrow>
     pc_sequence command = ps_sequence (rt_snapshot s) \<and> agent \<in> set (ps_agents (rt_snapshot s)) \<and>
     pc_agent_id command = Some (av_id agent) \<and> hget (rt_targets s) (av_id agent) = Some target \<and>
     action_enabled (pc_action command) agent \<and> command_capability_matches command agent"
  by (auto simp: resolve_agent_action_def Let_def bind_eq_Some_conv dest: find_SomeD
      split: if_splits option.splits)

lemma acknowledge_servers [simp]:
  "dm_servers (acknowledge_review_ready env i d) = dm_servers d"
  by (simp add: acknowledge_review_ready_def publish_def Let_def split: option.splits)

lemma process_herdr_action_servers:
  "dm_servers (snd (process_herdr_action env command i t d)) =
     snd (herdr_perform (de_herdr env) t (pc_action command) (pc_capability_id command) (dm_servers d))"
  by (auto simp: process_herdr_action_def Let_def try_invalidate_def split: prod.splits sum.splits)

lemma herdr_perform_guarded:
  "k = Approve \<or> k = Interrupt \<Longrightarrow> snd (herdr_perform env t k (Some c) s) =
     snd (hv_exchange env (ht_socket_path t)
       (payload env s ''agent.perform_action'' [(''capability_id'', JStr c)]) s)"
  by (auto simp: herdr_perform_def action_payload_def bind_io_def call_def request_def fail_io_def return_io_def
      split: prod.splits exchange.splits sum.splits option.splits)

lemma acknowledge_desktop_voice [simp]:
  "dm_desktop (acknowledge_review_ready env i d) = dm_desktop d"
  "dm_voice (acknowledge_review_ready env i d) = dm_voice d"
  by (simp_all add: acknowledge_review_ready_def publish_def Let_def split: option.splits)

section \<open>A small daemon\<close>

definition example_voice :: voice_world where
  "example_voice = \<lparr>vw_state_file = Some ''idle'', vw_marker = NoMarker, vw_commands = []\<rparr>"

definition example_command :: "action_kind \<Rightarrow> string option \<Rightarrow> string option \<Rightarrow> u64 \<Rightarrow> portal_command" where
  "example_command action agent_id capability_id sequence =
     \<lparr>pc_schema_version = 1, pc_request_id = ''r'', pc_sequence = sequence, pc_agent_id = agent_id,
      pc_action = action, pc_capability_id = capability_id\<rparr>"

definition example_daemon_env :: "portal_command \<Rightarrow> nat daemon_env" where
  "example_daemon_env command =
     \<lparr>de_config = default_config, de_herdr = example_herdr, de_subscribe = (\<lambda>_ _ s. (Inr (), s)),
      de_subscription_finished = (\<lambda>_. False), de_t3 = example_t3_env,
      de_t3_client = t3_client_new ''/h'', de_hypr = example_env, de_proc = None, de_poll_fuel = 121,
      de_open_url = (\<lambda>_. Inr ()), de_run_native = (\<lambda>_ _. Inr ()), de_userdata_parent = Some ''/h'',
      de_voxtype = (\<lambda>_ st. (st, True)),
      de_marker_fs = \<lparr>fs_has_parent = True, fs_create_dir = True, fs_chmod = True, fs_open = True,
        fs_write = True, fs_partial = [], fs_remove = True\<rparr>,
      de_persist_ok = True, de_persists = True, de_parse_command = (\<lambda>_. Inr command),
      de_encode_ok = (\<lambda>_. True), de_observed_ms = 0, de_now_ms = 0, de_instant = 0\<rparr>"

definition example_daemon :: "nat daemon" where
  "example_daemon =
     \<lparr>dm_state = initial_state ''e'' \<lparr>pb_backend = Herdr, pb_t3code_order = Grouped\<rparr>,
      dm_desktop = new_desktop_state, dm_voice = example_voice, dm_servers = 0, dm_persisted = None,
      dm_subscriptions = [], dm_invalidations = [],
      dm_published = rt_snapshot (initial_state ''e'' \<lparr>pb_backend = Herdr, pb_t3code_order = Grouped\<rparr>)\<rparr>"

lemma example_daemon_new: "new_daemon default_config ''e'' None example_voice (0::nat) = Inr example_daemon"
proof -
  have "validate default_config = Inr ()"
    unfolding validate_iff
    by (simp add: uncommissioned_def safe_settings_def default_config_def default_desktop_config_def
        default_t3code_config_def trim_eq_Nil_iff is_whitespace_def)
  then show ?thesis
    by (simp add: new_daemon_def example_daemon_def Let_def) (simp add: default_config_def)
qed

lemma example_command_valid:
  "validate_command (example_command action agent_id capability_id n) = Inr () \<longleftrightarrow>
     (agent_id \<noteq> None \<longleftrightarrow> agent_action action) \<and> (capability_id \<noteq> None \<longleftrightarrow> guarded_action action)"
proof -
  have "trim ''r'' \<noteq> []" by (simp add: trim_eq_Nil_iff is_whitespace_def)
  then show ?thesis by (simp add: validate_command_iff example_command_def SCHEMA_VERSION_def)
qed

definition switched_daemon :: "nat daemon" where
  "switched_daemon = snd (process_backend_command
     (example_daemon_env (example_command BackendT3code None None 0))
     (example_command BackendT3code None None 0) example_daemon)"

lemma switched_daemon_step': "step example_daemon switched_daemon"
proof -
  let ?c = "example_command BackendT3code None None 0"
  have "validate_command ?c = Inr ()"
    unfolding example_command_valid by (simp add: agent_action_def guarded_action_def)
  moreover have "pc_action ?c = BackendT3code" by (simp add: example_command_def)
  ultimately have "process_command (example_daemon_env ?c) [] ''c'' example_daemon =
      Some (process_backend_command (example_daemon_env ?c) ?c example_daemon)"
    by (simp add: process_command_def example_daemon_env_def)
  then show ?thesis
    unfolding switched_daemon_def by (metis prod.collapse step.command)
qed

lemma switched_daemon_step: "step\<^sup>*\<^sup>* example_daemon switched_daemon"
  using switched_daemon_step' by blast

lemma switched_daemon_backend: "rt_backend (dm_state switched_daemon) = T3code"
  by (simp add: switched_daemon_def process_backend_command_def example_command_def example_daemon_def
      initial_state_def empty_snapshot_def commit_backend_def bump_def on_snapshot_def Let_def)

text \<open>The same daemon with one card, the target of a Herdr session, and a capability.\<close>

definition card :: agent_view where
  "card = (example_card ''a'' Done False)\<lparr>av_actions := \<lparr>aa_open = True, aa_zoom = True,
     aa_approve = Some \<lparr>cap_id = ''c1'', cap_kind = Approve, cap_expires_at_ms = 0, cap_expected_revision = 0\<rparr>,
     aa_interrupt = None\<rparr>\<rparr>"

definition card_target :: agent_target where
  "card_target = HerdrTarget (herdr_card_target example_descriptor (example_agent ''x''))"

definition t3_card_target :: agent_target where
  "t3_card_target = T3codeTarget \<lparr>tt_thread_id = ''t'', tt_state_change_seq = 2, tt_acknowledged = False\<rparr>"

definition card_daemon :: "nat daemon" where
  "card_daemon = on_state (\<lambda>s. (on_snapshot (\<lambda>p. p\<lparr>ps_agents := [card]\<rparr>) s)\<lparr>rt_targets := [(''a'', card_target)]\<rparr>)
     example_daemon"

lemma card_id: "av_id card = ''a''"
  by (simp add: card_def example_card_def)

lemma card_actions: "av_actions card = \<lparr>aa_open = True, aa_zoom = True,
     aa_approve = Some \<lparr>cap_id = ''c1'', cap_kind = Approve, cap_expires_at_ms = 0, cap_expected_revision = 0\<rparr>,
     aa_interrupt = None\<rparr>"
  by (simp add: card_def)

lemma card_daemon_agents: "ps_agents (rt_snapshot (dm_state card_daemon)) = [card]"
  by (simp add: card_daemon_def on_snapshot_def)

lemma card_daemon_sequence: "ps_sequence (rt_snapshot (dm_state card_daemon)) = 0"
  by (simp add: card_daemon_def on_snapshot_def example_daemon_def initial_state_def empty_snapshot_def)

lemma card_daemon_servers: "dm_servers card_daemon = 0"
  by (simp add: card_daemon_def on_state_def example_daemon_def)

lemma card_resolves:
  assumes "ps_agents (rt_snapshot s) = [card]" "rt_targets s = [(''a'', t)]"
    and "pc_agent_id command = Some ''a''" "pc_sequence command = ps_sequence (rt_snapshot s)"
    and "action_enabled (pc_action command) card" "command_capability_matches command card"
  shows "resolve_agent_action command s = Inr (card, t)"
  using assms by (simp add: resolve_agent_action_def card_id Let_def)

lemma card_daemon_resolves:
  assumes "pc_agent_id command = Some ''a''" "pc_sequence command = 0"
    and "action_enabled (pc_action command) card" "command_capability_matches command card"
  shows "resolve_agent_action command (dm_state card_daemon) = Inr (card, card_target)"
  by (rule card_resolves) (use assms card_daemon_agents card_daemon_sequence in
    \<open>simp_all add: card_daemon_def on_snapshot_def\<close>)

end
