(* ===== verification/Invariants.thy ===== *)
theory Invariants
  imports Daemon
begin

text \<open>
  The steps of the daemon, seen from a predicate on what they can change together: the sessions, the
  cards, the private targets, the order and the manager (\<open>gate\<close>). A predicate that each critical section
  keeps is kept by every step: the locale states the sections once, and an invariant of the daemon
  is an interpretation of it.
\<close>

section \<open>What the passes keep of a card\<close>

text \<open>Ordering and observing a list of cards change neither its ids, nor the actions, the focus or the
  session of a card.\<close>

definition shape :: "agent_view \<Rightarrow> string \<times> agent_actions \<times> bool \<times> string" where
  "shape a = (av_id a, av_actions a, av_focused a, av_session a)"

definition shapes :: "agent_view list \<Rightarrow> (string \<times> agent_actions \<times> bool \<times> string) set" where
  "shapes agents = shape ` set agents"

lemma shapes_apply_agent_order [simp]: "shapes (apply_agent_order as order) = shapes as"
  by (simp add: shapes_def apply_agent_order_def)

lemma observe_agents_shape:
  "map shape (fst (observe_agents targets acks now observed as)) = map shape as"
proof (induction as arbitrary: observed)
  case (Cons a as)
  have "shape x = shape a" if "x = fst (observe_agent targets acks now observed a)" for x
    using that by (simp add: observe_agent_view observed_view_def shape_def Let_def split: option.splits)
  with Cons.IH show ?case by (simp add: split_beta)
qed simp

lemma shapes_apply_observations [simp]:
  "shapes (fst (apply_agent_observations as targets observed focused_agents now)) = shapes as"
proof -
  have "map shape (fst (apply_agent_observations as targets observed focused_agents now)) = map shape as"
    by (simp add: apply_agent_observations_def split_beta observe_agents_shape)
  then show ?thesis unfolding shapes_def by (metis set_map)
qed

lemma shapes_update_first:
  "(\<And>a. shape (f a) = shape a) \<Longrightarrow> shapes (update_first p f as) = shapes as"
  by (induction as) (auto simp: shapes_def)

section \<open>What one sweep keeps\<close>

text \<open>A predicate on the sweep under way that holds at its start and that each of its four additions
  keeps holds of the whole sweep.\<close>

lemma sweep_invariant:
  assumes "sweep_sessions env epoch previous descriptors x = (w, y)" and "P empty_sweep"
    and previous: "\<And>d v. P v \<Longrightarrow> P (add_previous d previous v)"
    and session: "\<And>session v. P v \<Longrightarrow> P (add_session session v)"
    and stale: "\<And>d ob message off s s' v.
      observe_session (de_herdr env) d epoch off (de_observed_ms env) s = (Inr ob, s') \<Longrightarrow>
      P v \<Longrightarrow> P (add_stale d ob message v)"
    and connected: "\<And>d ob off s s' v.
      observe_session (de_herdr env) d epoch off (de_observed_ms env) s = (Inr ob, s') \<Longrightarrow>
      P v \<Longrightarrow> P (add_connected ob v)"
  shows "P w"
proof -
  have one: "P (fst z) \<Longrightarrow> P (fst (sweep_session env epoch previous d z))" for d z
    by (cases z) (auto simp: sweep_session_def Let_def split: prod.splits sum.splits bool.splits
        intro: previous session stale connected)
  have "P (fst z) \<Longrightarrow> P (fst (fold (sweep_session env epoch previous) ds z))" for ds z
    by (induction ds arbitrary: z) (simp_all add: one)
  then have "P (fst (fold (sweep_session env epoch previous) descriptors (empty_sweep, fst x, snd x)))"
    using assms(2) by simp
  with assms(1) show ?thesis by (cases x) (auto simp: sweep_sessions_def split: prod.splits)
qed

section \<open>The invariants of the daemon's steps\<close>

locale gate_invariant =
  fixes inv :: "runtime_state \<Rightarrow> bool"
  assumes gate_only: "gate s' = gate s \<Longrightarrow> inv s \<Longrightarrow> inv s'"
    and keeps_t3code: "rt_backend s = T3code \<Longrightarrow> inv s \<Longrightarrow>
      inv (commit_t3code (t3_observe t3 client epoch observed_ms) now ms s)"
    and keeps_herdr: "rt_backend s = Herdr \<Longrightarrow> inv s \<Longrightarrow>
      sweep_sessions (env :: 's daemon_env) epoch previous descriptors x = (w, y) \<Longrightarrow>
      inv (commit_herdr descriptors w now ms s)"
    and keeps_discovery_failed: "rt_backend s = Herdr \<Longrightarrow> inv s \<Longrightarrow> inv (commit_discovery_failed ms s)"
    and keeps_backend: "inv s \<Longrightarrow> inv (commit_backend mode ms s)"
    and keeps_order: "inv s \<Longrightarrow> inv (commit_order om ms s)"
    and keeps_order_unknown: "inv s \<Longrightarrow> inv (commit_order_unknown ms s)"
    and keeps_acknowledged: "inv s \<Longrightarrow> commit_acknowledge agent_id ms s = Some s' \<Longrightarrow> inv s'"
begin

definition holds :: "'s daemon \<Rightarrow> bool" where
  "holds d \<longleftrightarrow> inv (dm_state d)"

lemma holds_state: "inv (dm_state d) \<Longrightarrow> holds d"
  by (simp add: holds_def)

lemma holds_gate: "gate (dm_state d') = gate (dm_state d) \<Longrightarrow> holds d \<Longrightarrow> holds d'"
  unfolding holds_def by (rule gate_only)

lemma holds_frame [simp]:
  "holds (publish env d) = holds d" "holds (try_invalidate n d) = holds d"
  "holds (invalidate_all xs d) = holds d" "holds (persist_backend env d) = holds d"
  "holds (d\<lparr>dm_servers := x\<rparr>) = holds d" "holds (d\<lparr>dm_subscriptions := y\<rparr>) = holds d"
  "holds (d\<lparr>dm_desktop := w\<rparr>) = holds d" "holds (d\<lparr>dm_voice := v\<rparr>) = holds d"
  "holds (d\<lparr>dm_invalidations := z\<rparr>) = holds d"
  by (simp_all add: holds_def)

lemma holds_on_state: "(inv (dm_state d) \<Longrightarrow> inv (f (dm_state d))) \<Longrightarrow> holds d \<Longrightarrow> holds (on_state f d)"
  by (simp add: holds_def)

lemma holds_same_gate [simp]: "gate (f (dm_state d)) = gate (dm_state d) \<Longrightarrow> holds (on_state f d) = holds d"
  unfolding holds_def on_state_frame by (metis gate_only)

lemma holds_commit_if:
  "(rt_backend (dm_state d) = b \<Longrightarrow> inv (dm_state d) \<Longrightarrow> inv (f (dm_state d))) \<Longrightarrow> holds d \<Longrightarrow>
     holds (commit_if b env f d)"
  by (auto simp: commit_if_def intro: holds_on_state)

lemma holds_acknowledge: "holds d \<Longrightarrow> holds (acknowledge_review_ready env agent_id d)"
  by (auto simp: acknowledge_review_ready_def holds_def intro: keeps_acknowledged split: option.split)

lemma holds_refresh_agents: "holds d \<Longrightarrow> holds (refresh_agents env joined d)"
  by (auto simp: refresh_agents_def refresh_herdr_def refresh_t3code_def Let_def
      intro!: holds_commit_if intro: keeps_t3code keeps_herdr keeps_discovery_failed
      split: agent_backend.split prod.split sum.split)

lemma gate_snapshot [simp]:
  "(\<And>p. ps_sessions (f p) = ps_sessions p) \<Longrightarrow> (\<And>p. ps_agents (f p) = ps_agents p) \<Longrightarrow>
     (\<And>p. ps_agent_order (f p) = ps_agent_order p) \<Longrightarrow> gate (on_snapshot f s) = gate s"
  by (simp add: gate_def on_snapshot_def)

lemma gate_commit_voice [simp]: "gate (commit_voice v latched ow ms s) = gate s"
  by (simp add: gate_def commit_voice_def bump_def on_snapshot_def)

lemma holds_pass: "pass d d' \<Longrightarrow> holds d \<Longrightarrow> holds d'"
proof (induction rule: pass.induct)
  case (agents d env sequence_joined joined event)
  then show ?case by (simp add: agent_loop_event_def holds_refresh_agents split: agent_event.split)
next
  case (commit_herdr_sweep env' epoch previous descriptors x w y d env now now_ms)
  then show ?case by (blast intro: holds_commit_if keeps_herdr)
qed (auto simp: refresh_voice_def refresh_health_def refresh_micro_def refresh_usage_def Let_def
    intro!: holds_commit_if holds_acknowledge intro: keeps_t3code keeps_discovery_failed split: option.split)

lemma holds_herdr_action: "holds d \<Longrightarrow> holds (snd (process_herdr_action env command i t d))"
  by (auto simp: process_herdr_action_def Let_def holds_acknowledge split: prod.splits sum.splits)

lemma holds_order: "holds d \<Longrightarrow> holds (snd (process_agent_order_command env command d))"
proof -
  have t3: "inv s \<Longrightarrow> inv (commit_order mode ms (s\<lparr>rt_t3code_order := mode\<rparr>))" for s mode ms
    by (rule keeps_order) (rule gate_only [of _ s], simp_all add: gate_def)
  then show "holds d \<Longrightarrow> ?thesis"
    by (auto simp: process_agent_order_command_def Let_def intro: holds_on_state t3 keeps_order keeps_order_unknown
        split: prod.splits order_outcome.splits)
qed

lemma holds_command:
  assumes "process_command env line client_id d = Some (r, d')" "holds d"
  shows "holds d'"
proof (cases "\<exists>command. de_parse_command env line = Inr command \<and> validate_command command = Inr ()")
  case False
  with assms show ?thesis by (auto simp: process_command_def split: sum.splits)
next
  case True
  then obtain command where c: "de_parse_command env line = Inr command" "validate_command command = Inr ()"
    by blast
  have "holds (snd (process_restore_focus env command d))"
    using assms(2) by (simp add: process_restore_focus_def split: prod.split sum.split)
  moreover have "process_desktop_command env command d = Some (r, d') \<Longrightarrow> holds d'"
    using assms(2) by (auto simp: process_desktop_command_def Let_def split: option.splits)
  moreover have "holds (snd (process_backend_command env command d))"
    using assms(2) by (simp add: process_backend_command_def Let_def holds_on_state keeps_backend)
  moreover have "holds (snd (process_voice_command env command client_id d))"
    using assms(2) by (simp add: process_voice_command_def split: prod.split sum.split)
  moreover have "holds (snd (process_agent_action env command d))"
    using assms(2) holds_herdr_action [of d env command]
    by (auto simp: process_agent_action_def split: sum.splits agent_target.splits)
  ultimately show ?thesis
    using assms c holds_order [of d env command] by (auto simp: process_command_def Let_def split: if_splits)
qed

lemma holds_step: "step d d' \<Longrightarrow> holds d \<Longrightarrow> holds d'"
proof (induction rule: step.induct)
  case (disconnect d env client_id)
  then show ?case
    by (simp add: cancel_voice_for_disconnected_client_def split: prod.split sum.split)
qed (auto intro: holds_pass elim: holds_command)

lemma holds_steps: "step\<^sup>*\<^sup>* d d' \<Longrightarrow> holds d \<Longrightarrow> holds d'"
  by (induction rule: rtranclp_induct) (auto dest: holds_step)

lemma invariant: "step\<^sup>*\<^sup>* (d :: 's daemon) d' \<Longrightarrow> inv (dm_state d) \<Longrightarrow> inv (dm_state d')"
  using holds_steps by (simp add: holds_def)

end

end
