(* ===== verification/Routing.thy ===== *)
theory Routing
  imports Invariants
begin

text \<open>
  What the display offers can be done: in every reachable state a card that shows any action has a
  private target (\<open>routable\<close>), so a command for a shown action, sent with the current sequence, gets
  past every guard of \<open>process_agent_action\<close>. The invariant is kept apart from \<open>daemon_ok\<close>; both are
  invariants of \<open>step\<close>.
\<close>

section \<open>The invariant\<close>

definition offers :: "agent_view list \<Rightarrow> (string \<times> agent_actions) set" where
  "offers agents = (\<lambda>a. (av_id a, av_actions a)) ` set agents"

definition routed :: "agent_view list \<Rightarrow> targets \<Rightarrow> bool" where
  "routed agents targets \<longleftrightarrow>
     (\<forall>(i, actions) \<in> offers agents. actions = default_actions \<or> i \<in> dom (hget targets))"

definition routable :: "runtime_state \<Rightarrow> bool" where
  "routable s \<longleftrightarrow> routed (ps_agents (rt_snapshot s)) (rt_targets s)"

lemma routed_offers: "offers agents' = offers agents \<Longrightarrow> routed agents' targets = routed agents targets"
  by (simp add: routed_def)

lemma routed_cards:
  "routed agents targets \<longleftrightarrow>
     (\<forall>a \<in> set agents. av_actions a = default_actions \<or> av_id a \<in> dom (hget targets))"
  by (auto simp: routed_def offers_def)

lemma routed_append:
  "routed (as @ bs) targets \<longleftrightarrow> routed as targets \<and> routed bs targets"
  by (auto simp: routed_cards)

lemma routed_mono: "routed as t \<Longrightarrow> dom (hget t) \<subseteq> dom (hget u) \<Longrightarrow> routed as u"
  by (auto simp: routed_cards)

lemma routed_cleared: "(\<And>a. a \<in> set as \<Longrightarrow> av_actions a = default_actions) \<Longrightarrow> routed as t"
  by (simp add: routed_cards)

lemma offers_shapes: "offers as = (\<lambda>(i, actions, _). (i, actions)) ` shapes as"
  by (auto simp: offers_def shapes_def shape_def image_image)

lemma routed_shapes: "shapes agents' = shapes agents \<Longrightarrow> routed agents' targets = routed agents targets"
  by (rule routed_offers) (simp add: offers_shapes)

section \<open>The refresh passes\<close>

lemma routable_bump [simp]: "routable (bump ms s) = routable s"
  by (simp add: routable_def bump_def on_snapshot_def)

lemma t3_targets_dom:
  "av_id ` set (to_agents (t3_observe env client epoch ms)) \<subseteq>
     dom (hget (to_targets (t3_observe env client epoch ms)))"
proof -
  have "av_id ` set (to_agents (observation_from_rows rfc uuid rows e n p s)) =
      dom (hget (to_targets (observation_from_rows rfc uuid rows e n p s)))" for rfc uuid rows e n p s
    using observation_target_keys [of rfc uuid rows e n p s] by simp
  then show ?thesis
    by (auto simp: t3_observe_def observe_database_def t3_empty_observation_def Let_def
        split: sum.split liveness.split)
qed

lemma dom_apsnd [simp]: "dom (hget (map (apsnd f) m)) = dom (hget m)"
  by (simp add: dom_map_of_conv_image_fst image_image)

lemma routable_commit_t3code: "routable (commit_t3code (t3_observe env client epoch ms) now now_ms s)"
proof -
  let ?o = "t3_observe env client epoch ms"
  have "routed (to_agents ?o) (map (apsnd T3codeTarget) (to_targets ?o))"
    using t3_targets_dom [of env client epoch ms] by (auto simp: routed_cards)
  moreover have "routed (map clear_actions as) targets" for as targets
    by (rule routed_cleared) (auto simp: clear_actions_def)
  ultimately show ?thesis
    unfolding commit_t3code_def Let_def split_beta routable_bump
    by (simp add: routable_def on_snapshot_def routed_shapes [OF shapes_apply_agent_order]
        routed_shapes [OF shapes_apply_observations])
qed

lemma routed_connected:
  assumes "observe_session env descriptor epoch off now s = (Inr ob, s')"
  shows "routed (so_agents ob) (hextend (map (apsnd HerdrTarget) (so_targets ob)) m)"
proof -
  have "av_id ` set (so_agents ob) \<subseteq> dom (hget (so_targets ob))"
    using assms herdr_observation_keys
    by (fastforce simp: observe_session_def bind_io_def return_io_def split: prod.splits sum.splits if_splits)
  moreover have "dom (hget (so_targets ob)) \<subseteq> dom (hget (hextend (map (apsnd HerdrTarget) (so_targets ob)) m))"
    unfolding dom_hextend by (simp add: dom_map_of_conv_image_fst image_image)
  ultimately show ?thesis unfolding routed_cards by blast
qed

definition sweep_routed :: "sweep \<Rightarrow> bool" where
  "sweep_routed w \<longleftrightarrow> routed (sw_agents w) (sw_targets w)"

lemma sweep_routed_add:
  assumes "sweep_routed w"
  shows "sweep_routed (add_previous descriptor previous w)"
    and "sweep_routed (add_session session w)"
    and "sweep_routed (add_stale descriptor ob message w)"
    and "observe_session env descriptor epoch off now s = (Inr ob, s') \<Longrightarrow> sweep_routed (add_connected ob w)"
proof -
  have "routed (renumber off as) t" for off as t
    by (rule routed_cleared) (auto simp: renumber_def clear_actions_def)
  then show "sweep_routed (add_previous descriptor previous w)"
    using assms by (simp add: sweep_routed_def add_previous_def Let_def routed_append)
  show "sweep_routed (add_session session w)"
    using assms by (simp add: sweep_routed_def add_session_def)
  have "routed (map clear_actions as) t" for as t
    by (rule routed_cleared) (auto simp: clear_actions_def)
  then show "sweep_routed (add_stale descriptor ob message w)"
    using assms by (simp add: sweep_routed_def add_stale_def routed_append)
  show "sweep_routed (add_connected ob w)"
    if "observe_session env descriptor epoch off now s = (Inr ob, s')"
  proof -
    have "dom (hget (sw_targets w)) \<subseteq> dom (hget (hextend (map (apsnd HerdrTarget) (so_targets ob)) (sw_targets w)))"
      unfolding dom_hextend by simp
    then show ?thesis
      using assms routed_connected [OF that, of "sw_targets w"] routed_mono
      by (simp add: sweep_routed_def add_connected_def routed_append)
  qed
qed

lemma sweep_routed_sessions:
  assumes "sweep_sessions env epoch previous descriptors x = (w, y)"
  shows "sweep_routed w"
  by (rule sweep_invariant [OF assms])
    (auto simp: sweep_routed_def empty_sweep_def routed_cards [of "[]"] intro: sweep_routed_add [unfolded sweep_routed_def])

lemma routable_commit_herdr: "sweep_routed w \<Longrightarrow> routable (commit_herdr descriptors w now now_ms s)"
  unfolding commit_herdr_def Let_def split_beta routable_bump
  by (simp add: routable_def sweep_routed_def on_snapshot_def routed_shapes [OF shapes_apply_agent_order]
      routed_shapes [OF shapes_apply_observations])

lemma routable_discovery_failed: "routable (commit_discovery_failed now_ms s)"
  unfolding commit_discovery_failed_def routable_bump
  unfolding routable_def
  by (rule routed_cleared) (auto simp: on_snapshot_def clear_actions_def)

section \<open>The daemon's steps\<close>

lemma routable_gate: "gate s' = gate s \<Longrightarrow> routable s \<Longrightarrow> routable s'"
  by (simp add: gate_def routable_def)

lemma routable_commit_order:
  "routable (commit_order mode ms s) = routable s"
  "routable (commit_order_unknown ms s) = routable s"
  by (simp_all add: commit_order_def commit_order_unknown_def Let_def routable_def on_snapshot_def bump_def
      routed_shapes [OF shapes_apply_agent_order])

lemma routable_commit_backend: "routable s \<Longrightarrow> routable (commit_backend mode ms s)"
  by (auto simp: routable_def commit_backend_def bump_def on_snapshot_def Let_def routed_cards)

lemma routable_commit_acknowledge:
  "routable s \<Longrightarrow> commit_acknowledge agent_id ms s = Some s' \<Longrightarrow> routable s'"
  by (auto simp: commit_acknowledge_def routable_def on_snapshot_def bump_def shape_def
      routed_shapes [OF shapes_update_first] split: option.splits if_splits)

interpretation routes: gate_invariant routable
proof unfold_locales
  show "gate s' = gate s \<Longrightarrow> routable s \<Longrightarrow> routable s'" for s s' by (rule routable_gate)
  show "commit_acknowledge agent_id ms s = Some s' \<Longrightarrow> routable s \<Longrightarrow> routable s'" for agent_id ms s s'
    by (rule routable_commit_acknowledge)
  show "routable (commit_herdr descriptors w now ms s)"
    if "sweep_sessions env epoch previous descriptors x = (w, y)" for env :: "'s daemon_env"
      and epoch previous descriptors x w y now ms s
    by (rule routable_commit_herdr [OF sweep_routed_sessions [OF that]])
qed (simp_all add: routable_commit_t3code routable_discovery_failed routable_commit_order routable_commit_backend)

lemma new_daemon_routable: "new_daemon cfg epoch persisted voice servers = Inr d0 \<Longrightarrow> routable (dm_state d0)"
  by (auto simp: new_daemon_def Let_def initial_state_def routable_def routed_cards empty_snapshot_def
      split: sum.splits)

lemma reachable_routable:
  "new_daemon cfg epoch persisted voice servers = Inr d0 \<Longrightarrow> step\<^sup>*\<^sup>* d0 d \<Longrightarrow> routable (dm_state d)"
  by (rule routes.invariant [OF _ new_daemon_routable])

section \<open>Properties\<close>

text \<open>What a card shows of an action: the flag of open and zoom, the capability of a guarded one.\<close>

definition shows_action :: "action_kind \<Rightarrow> string option \<Rightarrow> agent_view \<Rightarrow> bool" where
  "shows_action action capability_id agent =
     (case action of
        Open \<Rightarrow> aa_open (av_actions agent)
      | Zoom \<Rightarrow> aa_zoom (av_actions agent)
      | Approve \<Rightarrow> capability_id \<noteq> None \<and> map_option cap_id (aa_approve (av_actions agent)) = capability_id
      | Interrupt \<Rightarrow> capability_id \<noteq> None \<and> map_option cap_id (aa_interrupt (av_actions agent)) = capability_id
      | _ \<Rightarrow> False)"

text \<open>C9 What the display offers, the daemon accepts: in every reachable state, a command for an action
  that the first card with its id shows, with the current sequence and the capability shown,
  passes every guard and is routed to a target of the selected manager. No card that shows an
  action is ever without a target.\<close>

theorem offered_action_accepted:
  assumes "new_daemon cfg epoch persisted voice servers = Inr d0" and "step\<^sup>*\<^sup>* d0 d"
    and "pc_sequence command = ps_sequence (rt_snapshot (dm_state d))"
    and "pc_agent_id command = Some i"
    and "find (\<lambda>a. av_id a = i) (ps_agents (rt_snapshot (dm_state d))) = Some agent"
    and "shows_action (pc_action command) (pc_capability_id command) agent"
  shows "\<exists>target. resolve_agent_action command (dm_state d) = Inr (agent, target) \<and>
    routed_by (rt_backend (dm_state d)) target"
proof -
  have "routable (dm_state d)"
    using assms(1,2) by (rule reachable_routable)
  moreover have "av_actions agent \<noteq> default_actions"
    using assms(6) by (auto simp: shows_action_def default_actions_def split: action_kind.splits)
  moreover have "agent \<in> set (ps_agents (rt_snapshot (dm_state d)))" "av_id agent = i"
    using assms(5) by (auto dest: find_SomeD)
  ultimately obtain target where t: "hget (rt_targets (dm_state d)) i = Some target"
    unfolding routable_def routed_cards by blast
  have "state_ok (dm_state d)"
    using new_daemon_ok [OF assms(1)] sound_steps [OF assms(2)] by (simp add: sound_def daemon_ok_def)
  then have "routed_by (rt_backend (dm_state d)) target" using state_ok_target [OF _ t] by blast
  moreover have "action_enabled (pc_action command) agent \<and> command_capability_matches command agent"
    using assms(6)
    by (auto simp: shows_action_def action_enabled_def command_capability_matches_def Let_def
        split: action_kind.splits option.splits)
  ultimately show ?thesis
    using assms(3-5) t by (simp add: resolve_agent_action_def)
qed


text \<open>A daemon whose sweep has found one Herdr session with one agent.\<close>

definition roster_herdr :: "nat herdr_env" where
  "roster_herdr = example_herdr\<lparr>
     hv_parse_ping := (\<lambda>_. Inr \<lparr>pg_version = ''1'', pg_protocol = 20\<rparr>),
     hv_parse_snapshot := (\<lambda>_. Inr \<lparr>hs_workspaces = [], hs_tabs = [], hs_agents = [example_agent ''x'']\<rparr>)\<rparr>"

definition roster_env :: "nat daemon_env" where
  "roster_env = (example_daemon_env (example_command Open None None 0))\<lparr>de_herdr := roster_herdr\<rparr>"

definition roster_sweep :: sweep where
  "roster_sweep = fst (sweep_sessions roster_env ''e'' [] [example_descriptor] ([], 0))"

definition roster_daemon :: "nat daemon" where
  "roster_daemon = commit_if Herdr roster_env (commit_herdr [example_descriptor] roster_sweep 0 0) example_daemon"

lemma roster_daemon_pass: "pass example_daemon roster_daemon"
proof -
  have "sweep_sessions roster_env ''e'' [] [example_descriptor] ([], 0) =
      (roster_sweep, snd (sweep_sessions roster_env ''e'' [] [example_descriptor] ([], 0)))"
    by (simp add: roster_sweep_def)
  then show ?thesis
    unfolding roster_daemon_def by (rule pass.commit_herdr_sweep)
qed

lemma roster_daemon_step': "step example_daemon roster_daemon"
  by (rule step.pass) (rule roster_daemon_pass)

lemma roster_daemon_step: "step\<^sup>*\<^sup>* example_daemon roster_daemon"
  using roster_daemon_step' by blast

lemma commit_if_state: "rt_backend (dm_state d) = b \<Longrightarrow> dm_state (commit_if b env f d) = f (dm_state d)"
  by (simp add: commit_if_def)

lemma offers_commit_herdr:
  "offers (ps_agents (rt_snapshot (commit_herdr ds w now ms s))) = offers (sw_agents w)"
  by (simp add: commit_herdr_def Let_def split_beta bump_def on_snapshot_def offers_shapes)

lemma roster_daemon_card:
  "\<exists>i agent. find (\<lambda>a. av_id a = i) (ps_agents (rt_snapshot (dm_state roster_daemon))) = Some agent \<and>
     av_id agent = i \<and> aa_open (av_actions agent)"
proof -
  have sw: "map (aa_open \<circ> av_actions) (sw_agents roster_sweep) = [True]" by code_simp
  have "rt_backend (dm_state example_daemon) = Herdr" by (simp add: example_daemon_def initial_state_def)
  then have off: "offers (ps_agents (rt_snapshot (dm_state roster_daemon))) = offers (sw_agents roster_sweep)"
    unfolding roster_daemon_def by (simp only: commit_if_state offers_commit_herdr)
  obtain b where b: "sw_agents roster_sweep = [b]" "aa_open (av_actions b)" using sw by auto
  then have o: "offers (ps_agents (rt_snapshot (dm_state roster_daemon))) = {(av_id b, av_actions b)}"
    unfolding off by (simp add: offers_def)
  then have "(av_id b, av_actions b) \<in> offers (ps_agents (rt_snapshot (dm_state roster_daemon)))" by simp
  then obtain a where "a \<in> set (ps_agents (rt_snapshot (dm_state roster_daemon)))" "av_id a = av_id b"
    unfolding offers_def by auto
  then obtain agent where f: "find (\<lambda>a. av_id a = av_id b) (ps_agents (rt_snapshot (dm_state roster_daemon))) = Some agent"
    by (cases "find (\<lambda>a. av_id a = av_id b) (ps_agents (rt_snapshot (dm_state roster_daemon)))")
      (auto simp: find_None_iff)
  then have "agent \<in> set (ps_agents (rt_snapshot (dm_state roster_daemon)))" "av_id agent = av_id b"
    by (auto dest: find_SomeD)
  with o have "av_actions agent = av_actions b" unfolding offers_def by blast
  with f b(2) \<open>av_id agent = av_id b\<close> show ?thesis by metis
qed

lemma offered_action_accepted_witness:
  "\<exists>command agent target. resolve_agent_action command (dm_state roster_daemon) = Inr (agent, target) \<and>
     aa_open (av_actions agent)"
proof -
  obtain i agent where f: "find (\<lambda>a. av_id a = i) (ps_agents (rt_snapshot (dm_state roster_daemon))) = Some agent"
    "av_id agent = i" "aa_open (av_actions agent)" using roster_daemon_card by blast
  define c where "c = example_command Open (Some i) None (ps_sequence (rt_snapshot (dm_state roster_daemon)))"
  have "\<exists>target. resolve_agent_action c (dm_state roster_daemon) = Inr (agent, target) \<and>
      routed_by (rt_backend (dm_state roster_daemon)) target"
    by (rule offered_action_accepted [OF example_daemon_new roster_daemon_step _ _ f(1)])
      (simp_all add: c_def example_command_def shows_action_def f(3))
  with f(3) show ?thesis by blast
qed

end
