(* ===== verification/Cards.thy ===== *)
theory Cards
  imports Routing
begin

text \<open>
  The type of the cards and sessions the daemon shows: which capability a slot may hold, and what the
  cards of T3 Code promise (\<open>docs/protocol.md\<close>: no zoom, no capability, never focused, one session).
\<close>

section \<open>Well-typed cards\<close>

definition slots_typed :: "agent_actions \<Rightarrow> bool" where
  "slots_typed actions \<longleftrightarrow>
     (case aa_approve actions of None \<Rightarrow> True | Some c \<Rightarrow> cap_kind c = Approve) \<and>
     (case aa_interrupt actions of None \<Rightarrow> True | Some c \<Rightarrow> cap_kind c = Interrupt)"

definition t3_typed :: "agent_actions \<Rightarrow> bool \<Rightarrow> string \<Rightarrow> bool" where
  "t3_typed actions focused session \<longleftrightarrow> \<not> aa_zoom actions \<and> aa_approve actions = None \<and>
     aa_interrupt actions = None \<and> \<not> focused \<and> session = SESSION_NAME"

definition cards_typed :: "agent_backend \<Rightarrow> agent_view list \<Rightarrow> bool" where
  "cards_typed b agents \<longleftrightarrow> (\<forall>(i, actions, focused, session) \<in> shapes agents.
     slots_typed actions \<and> (b = T3code \<longrightarrow> t3_typed actions focused session))"

definition well_typed :: "runtime_state \<Rightarrow> bool" where
  "well_typed s \<longleftrightarrow> cards_typed (rt_backend s) (ps_agents (rt_snapshot s)) \<and>
     (rt_backend s = T3code \<longrightarrow> map sv_name (ps_sessions (rt_snapshot s)) \<in> {[], [SESSION_NAME]})"

lemma cards_typed_shapes: "shapes agents' = shapes agents \<Longrightarrow> cards_typed b agents' = cards_typed b agents"
  by (simp add: cards_typed_def)

lemma cards_typed_all: "cards_typed b agents \<longleftrightarrow> (\<forall>a \<in> set agents. slots_typed (av_actions a) \<and>
     (b = T3code \<longrightarrow> t3_typed (av_actions a) (av_focused a) (av_session a)))"
  by (auto simp: cards_typed_def shapes_def shape_def)

lemma cards_typed_append [simp]: "cards_typed b (as @ bs) \<longleftrightarrow> cards_typed b as \<and> cards_typed b bs"
  by (auto simp: cards_typed_all)

lemma slots_typed_default [simp]: "slots_typed default_actions"
  by (simp add: slots_typed_def default_actions_def)

lemma cards_typed_clear: "cards_typed b as \<Longrightarrow> cards_typed b (map clear_actions as)"
  by (auto simp: cards_typed_all clear_actions_def t3_typed_def default_actions_def slots_typed_def)

lemma cards_typed_renumber: "cards_typed Herdr (renumber off as)"
  by (auto simp: cards_typed_all renumber_def clear_actions_def)

lemma well_typed_bump [simp]: "well_typed (bump ms s) = well_typed s"
  by (simp add: well_typed_def bump_def on_snapshot_def)

section \<open>The commits\<close>

lemma t3_observe_cases:
  obtains rows e n p s rfc uuid where "t3_observe env client epoch ms = observation_from_rows rfc uuid rows e n p s"
  | "to_agents (t3_observe env client epoch ms) = []" "sv_name (to_session (t3_observe env client epoch ms)) = SESSION_NAME"
proof -
  let ?o = "t3_observe env client epoch ms"
  have "(\<exists>rfc uuid rows e n p s. ?o = observation_from_rows rfc uuid rows e n p s) \<or>
      to_agents ?o = [] \<and> sv_name (to_session ?o) = SESSION_NAME"
    unfolding t3_observe_def observe_database_def t3_empty_observation_def t3_session_def Let_def
    by (simp split: sum.split liveness.split) blast
  then show ?thesis using that by blast
qed

lemma t3_observe_typed: "cards_typed T3code (to_agents (t3_observe env client epoch ms))"
proof (cases rule: t3_observe_cases [of env client epoch ms])
  case (1 rows e n p s rfc uuid)
  have "\<forall>a \<in> set (to_agents (observation_from_rows rfc uuid rows e n p s)).
      t3_typed (av_actions a) (av_focused a) (av_session a)"
    by (auto simp: observation_agents thread_card_def t3_typed_def)
  then show ?thesis unfolding 1 by (auto simp: cards_typed_all t3_typed_def slots_typed_def)
qed (simp add: cards_typed_all)

lemma t3_observe_session [simp]: "sv_name (to_session (t3_observe env client epoch ms)) = SESSION_NAME"
  by (cases rule: t3_observe_cases [of env client epoch ms])
    (simp_all add: observation_from_rows_def t3_session_def split_beta)

lemma well_typed_commit_t3code:
  assumes "rt_backend s = T3code" "well_typed s"
  shows "well_typed (commit_t3code (t3_observe env client epoch ms) now now_ms s)"
proof -
  have "cards_typed T3code (map clear_actions (ps_agents (rt_snapshot s)))"
    using assms by (intro cards_typed_clear) (simp add: well_typed_def)
  then show ?thesis
    unfolding commit_t3code_def Let_def split_beta well_typed_bump
    by (simp add: well_typed_def on_snapshot_def assms(1) t3_observe_typed
        cards_typed_shapes [OF shapes_apply_agent_order] cards_typed_shapes [OF shapes_apply_observations])
qed

lemma actions_from_extra_typed:
  "slots_typed ((actions_from_extra extra revision)\<lparr>aa_open := True, aa_zoom := True\<rparr>)"
  using actions_from_extra_offered [of extra revision]
  by (auto simp: slots_typed_def offered_def split: option.splits)

lemma observe_session_typed:
  assumes "observe_session env d epoch off now s = (Inr ob, s')"
  shows "cards_typed Herdr (so_agents ob)"
proof -
  have "cards_typed Herdr (so_agents (herdr_observation u d e off n p sn ord))" for u e n p sn ord
    by (auto simp: cards_typed_all herdr_observation_def Let_def herdr_card_def actions_from_extra_typed)
  moreover have "cards_typed Herdr []" by (simp add: cards_typed_all)
  ultimately show ?thesis
    using assms by (auto simp: observe_session_def bind_io_def return_io_def split: prod.splits sum.splits if_splits)
qed

lemma sweep_typed:
  assumes "sweep_sessions env epoch previous descriptors x = (w, y)"
  shows "cards_typed Herdr (sw_agents w)"
  by (rule sweep_invariant [OF assms])
    (auto simp: empty_sweep_def cards_typed_all [of _ "[]"] add_previous_def add_session_def add_stale_def
      add_connected_def Let_def cards_typed_renumber cards_typed_clear dest: observe_session_typed)

lemma well_typed_commit_herdr:
  assumes "cards_typed Herdr (sw_agents w)" "rt_backend s = Herdr"
  shows "well_typed (commit_herdr descriptors w now now_ms s)"
  using assms unfolding commit_herdr_def Let_def split_beta well_typed_bump
  by (simp add: well_typed_def on_snapshot_def cards_typed_shapes [OF shapes_apply_agent_order]
      cards_typed_shapes [OF shapes_apply_observations])

lemma well_typed_discovery_failed:
  "rt_backend s = Herdr \<Longrightarrow> well_typed s \<Longrightarrow> well_typed (commit_discovery_failed now_ms s)"
  unfolding commit_discovery_failed_def well_typed_bump
  by (simp add: well_typed_def on_snapshot_def cards_typed_all [of _ "sort_agents _"] clear_actions_def)

lemma well_typed_commit_backend: "well_typed (commit_backend mode ms s)"
  by (simp add: well_typed_def commit_backend_def bump_def on_snapshot_def cards_typed_all)

lemma well_typed_commit_order:
  "well_typed (commit_order mode ms s) = well_typed s"
  "well_typed (commit_order_unknown ms s) = well_typed s"
  by (simp_all add: commit_order_def commit_order_unknown_def Let_def well_typed_def on_snapshot_def bump_def
      cards_typed_shapes [OF shapes_apply_agent_order])

lemma well_typed_commit_acknowledge:
  "well_typed s \<Longrightarrow> commit_acknowledge agent_id ms s = Some s' \<Longrightarrow> well_typed s'"
  by (auto simp: commit_acknowledge_def well_typed_def on_snapshot_def bump_def shape_def
      cards_typed_shapes [OF shapes_update_first] split: option.splits if_splits)

interpretation types: gate_invariant well_typed
proof unfold_locales
  show "gate s' = gate s \<Longrightarrow> well_typed s \<Longrightarrow> well_typed s'" for s s'
    by (simp add: gate_def well_typed_def)
  show "commit_acknowledge agent_id ms s = Some s' \<Longrightarrow> well_typed s \<Longrightarrow> well_typed s'" for agent_id ms s s'
    by (rule well_typed_commit_acknowledge)
  show "well_typed (commit_herdr descriptors w now ms s)"
    if "sweep_sessions env epoch previous descriptors x = (w, y)" "rt_backend s = Herdr"
    for env :: "'s daemon_env" and epoch previous descriptors x w y now ms s
    by (rule well_typed_commit_herdr [OF sweep_typed [OF that(1)] that(2)])
qed (simp_all add: well_typed_commit_t3code well_typed_discovery_failed well_typed_commit_order
    well_typed_commit_backend)

lemma new_daemon_well_typed: "new_daemon cfg epoch persisted voice servers = Inr d0 \<Longrightarrow> well_typed (dm_state d0)"
  by (auto simp: new_daemon_def Let_def initial_state_def well_typed_def cards_typed_all empty_snapshot_def
      split: sum.splits)

text \<open>A daemon that was switched to T3 Code and has observed a feed with one thread.\<close>

definition thread_env :: t3_env where
  "thread_env = example_t3_env\<lparr>te_read_feed := (\<lambda>_ _. Inr \<lparr>ss_schema_version = 1, ss_environment_id = ''env-1'',
     ss_generated_at_ms = 5000, ss_threads = [\<lparr>st_thread_id = ''t'', st_title = ''Fix it'',
       st_project_title = ''p'', st_workspace_root = ''/p'', st_branch = None, st_worktree_path = None,
       st_provider = ''codex'', st_status = ''running'', st_settled = False, st_snoozed = False,
       st_pending_input = False, st_background_work = False, st_updated_at = ''2026'',
       st_latest_run_completed_at = None, st_last_visited_at = None\<rparr>]\<rparr>)\<rparr>"

definition thread_observation :: t3code_observation where
  "thread_observation =
     t3_observe thread_env ((t3_client_new ''/h'')\<lparr>tk_status_file := Some ''/h/feed''\<rparr>) ''e'' 6000"

definition thread_daemon :: "nat daemon" where
  "thread_daemon = commit_if T3code roster_env (commit_t3code thread_observation 0 0) switched_daemon"

lemma thread_daemon_step: "step\<^sup>*\<^sup>* example_daemon thread_daemon"
proof -
  have "step switched_daemon thread_daemon"
    unfolding thread_daemon_def thread_observation_def by (rule step.pass) (rule pass.commit_t3)
  with switched_daemon_step show ?thesis by (rule rtranclp.rtrancl_into_rtrancl)
qed

lemma thread_daemon_cards:
  "shapes (ps_agents (rt_snapshot (dm_state thread_daemon))) = shapes (to_agents thread_observation)"
  "rt_backend (dm_state thread_daemon) = T3code"
proof -
  have "sv_state (to_session thread_observation) = SessConnected" by code_simp
  then show "shapes (ps_agents (rt_snapshot (dm_state thread_daemon))) = shapes (to_agents thread_observation)"
    by (simp add: thread_daemon_def commit_if_state switched_daemon_backend commit_t3code_def Let_def split_beta
        bump_def on_snapshot_def)
  show "rt_backend (dm_state thread_daemon) = T3code"
    by (simp add: thread_daemon_def commit_if_state switched_daemon_backend commit_t3code_def Let_def split_beta
        bump_def on_snapshot_def)
qed

section \<open>Property\<close>

text \<open>C10 The cards are well typed in every state the daemon reaches: the approve slot of a card holds
  only a capability to approve and the interrupt slot only one to interrupt; and while T3 Code is the
  manager, no card can zoom, holds a capability or is focused, every card is of the session t3code,
  and that session is the only one shown. Switching managers never leaves a card of the other.\<close>

theorem cards_well_typed:
  assumes "new_daemon cfg epoch persisted voice servers = Inr d0" and "step\<^sup>*\<^sup>* d0 d"
    and "a \<in> set (ps_agents (rt_snapshot (dm_state d)))"
  shows "(\<forall>c. aa_approve (av_actions a) = Some c \<longrightarrow> cap_kind c = Approve) \<and>
    (\<forall>c. aa_interrupt (av_actions a) = Some c \<longrightarrow> cap_kind c = Interrupt) \<and>
    (rt_backend (dm_state d) = T3code \<longrightarrow>
       \<not> aa_zoom (av_actions a) \<and> aa_approve (av_actions a) = None \<and> aa_interrupt (av_actions a) = None \<and>
       \<not> av_focused a \<and> av_session a = SESSION_NAME \<and>
       (\<forall>s \<in> set (ps_sessions (rt_snapshot (dm_state d))). sv_name s = SESSION_NAME))"
proof -
  have "well_typed (dm_state d)" by (rule types.invariant [OF assms(2) new_daemon_well_typed [OF assms(1)]])
  then have t: "slots_typed (av_actions a)"
    "rt_backend (dm_state d) = T3code \<Longrightarrow> t3_typed (av_actions a) (av_focused a) (av_session a)"
    "rt_backend (dm_state d) = T3code \<Longrightarrow> set (map sv_name (ps_sessions (rt_snapshot (dm_state d)))) \<subseteq> {SESSION_NAME}"
    using assms(3) by (auto simp: well_typed_def cards_typed_all)
  show ?thesis
    using t by (auto simp: slots_typed_def t3_typed_def)
qed

lemma cards_well_typed_witness:
  "\<exists>a \<in> set (ps_agents (rt_snapshot (dm_state thread_daemon))).
     aa_open (av_actions a) \<and> \<not> aa_zoom (av_actions a) \<and> aa_approve (av_actions a) = None \<and>
     av_session a = SESSION_NAME"
proof -
  have "map (aa_open \<circ> av_actions) (to_agents thread_observation) = [True]" by code_simp
  then obtain b where b: "to_agents thread_observation = [b]" "aa_open (av_actions b)" by auto
  then have "shape b \<in> shapes (ps_agents (rt_snapshot (dm_state thread_daemon)))"
    by (simp add: thread_daemon_cards(1)) (simp add: shapes_def)
  then obtain a where a: "a \<in> set (ps_agents (rt_snapshot (dm_state thread_daemon)))" "shape a = shape b"
    by (metis imageE shapes_def)
  then have "aa_open (av_actions a)" using b(2) by (simp add: shape_def)
  with a(1) show ?thesis
    using cards_well_typed [OF example_daemon_new thread_daemon_step a(1)] thread_daemon_cards(2) by blast
qed

end
