(* ===== verification/Concurrent.thy ===== *)
theory Concurrent
  imports Cards
begin

text \<open>
  Commands that wait (\<open>process_command\<close> of \<open>runtime.rs\<close>). An action on a Herdr card reads the state, releases
  the lock, asks the server, and acknowledges later; a change of the order holds only the order lock
  while the servers answer. In between every other task may run. Here a command under way is a
  \<open>flight\<close>, and each stretch without an await is a step; the exchanges of one order synchronisation are
  one stretch. Dictation holds its own lock throughout and stays whole.
\<close>

section \<open>Flights\<close>

datatype flight =
    Acting portal_command agent_view herdr_target
  | Acted portal_command agent_view herdr_target
  | Activating portal_command herdr_target
  | OrderRead portal_command agent_order_snapshot
  | OrderChecked portal_command agent_order_snapshot
  | OrderT3 portal_command
  | OrderHerdr portal_command agent_order_snapshot
  | OrderDone portal_command order_outcome

text \<open>The flights that hold the order lock, which a switch of the manager takes too.\<close>

fun order_flight :: "flight \<Rightarrow> bool" where
  "order_flight (OrderRead _ _) = True"
| "order_flight (OrderChecked _ _) = True"
| "order_flight (OrderT3 _) = True"
| "order_flight (OrderHerdr _ _) = True"
| "order_flight (OrderDone _ _) = True"
| "order_flight _ = False"

record 's tasks =
  cc_daemon :: "'s daemon"
  cc_flights :: "flight list"
  cc_answers :: "action_result list"

definition start_tasks :: "'s daemon \<Rightarrow> 's tasks" where
  "start_tasks d = \<lparr>cc_daemon = d, cc_flights = [], cc_answers = []\<rparr>"

text \<open>A flight goes on as \<open>fs\<close>, or ends with the answers \<open>rs\<close>.\<close>

definition advance ::
  "'s tasks \<Rightarrow> flight \<Rightarrow> 's daemon \<Rightarrow> flight list \<Rightarrow> action_result list \<Rightarrow> 's tasks" where
  "advance x f d fs rs = x\<lparr>cc_daemon := d, cc_flights := fs @ remove1 f (cc_flights x),
     cc_answers := rs @ cc_answers x\<rparr>"

definition wanted_order :: "portal_command \<Rightarrow> agent_order_mode" where
  "wanted_order command = (if pc_action command = OrderGrouped then Grouped else Priority)"

section \<open>The stretches of the handlers\<close>

definition acknowledge_action ::
  "'s daemon_env \<Rightarrow> portal_command \<Rightarrow> string \<Rightarrow> herdr_target \<Rightarrow> 's daemon \<Rightarrow> 's daemon" where
  "acknowledge_action env command agent_id target d =
     try_invalidate (ht_session target)
       (if pc_action command = Open then acknowledge_review_ready env agent_id d else d)"

definition activate_answer :: "portal_command \<Rightarrow> 'a result \<Rightarrow> action_result" where
  "activate_answer command r =
     (case r of
        Inl _ \<Rightarrow> action_error (pc_request_id command) ''target_unavailable''
          ''agent focused, but its Herdr window was not activated''
      | Inr _ \<Rightarrow> action_ok (pc_request_id command) ''action_completed'')"

definition commit_t3_order :: "'s daemon_env \<Rightarrow> portal_command \<Rightarrow> 's daemon \<Rightarrow> 's daemon" where
  "commit_t3_order env command d =
     publish env (persist_backend env (on_state (\<lambda>s.
       commit_order (wanted_order command) (de_now_ms env) (s\<lparr>rt_t3code_order := wanted_order command\<rparr>)) d))"

definition finish_order ::
  "'s daemon_env \<Rightarrow> portal_command \<Rightarrow> order_outcome \<Rightarrow> 's daemon \<Rightarrow> action_result \<times> 's daemon" where
  "finish_order env command outcome d =
     (let request_id = pc_request_id command in
      case outcome of
        NoSessions \<Rightarrow> (action_error request_id ''session_disconnected''
          ''no running Herdr session can change agent ordering'', d)
      | DiscoveryFailed \<Rightarrow> (action_error request_id ''session_disconnected''
          ''Herdr agent ordering is unavailable'', d)
      | PreflightFailed failed \<Rightarrow> (action_error request_id ''target_unavailable''
          ''Herdr could not verify agent ordering'', try_invalidate (sd_name failed) d)
      | OrderChanged descriptors \<Rightarrow> (action_error request_id ''stale_snapshot''
          ''Herdr ordering changed before the action'', invalidate_all descriptors d)
      | OrderFailed compensated descriptors \<Rightarrow>
          (action_error request_id ''target_unavailable'' ''Herdr could not synchronize agent ordering'',
           (if compensated then invalidate_all descriptors d
            else publish env (on_state (commit_order_unknown (de_now_ms env)) (invalidate_all descriptors d))))
      | OrderSet descriptors \<Rightarrow>
          (action_ok request_id ''agent_order_updated'',
           invalidate_all descriptors
             (publish env (on_state (commit_order (wanted_order command) (de_now_ms env)) d))))"

definition order_stale :: "portal_command \<Rightarrow> action_result" where
  "order_stale command = action_error (pc_request_id command) ''stale_snapshot''
     ''the authoritative agent ordering changed before the action''"

section \<open>Steps\<close>

definition order_locked :: "'s tasks \<Rightarrow> bool" where
  "order_locked x \<longleftrightarrow> (\<exists>f \<in> set (cc_flights x). order_flight f)"

definition locking_command :: "'s daemon_env \<Rightarrow> string \<Rightarrow> bool" where
  "locking_command env line \<longleftrightarrow> (case de_parse_command env line of Inl _ \<Rightarrow> False
     | Inr command \<Rightarrow> validate_command command = Inr () \<and> pc_action command \<in> {OrderGrouped, OrderPriority, BackendHerdr, BackendT3code})"

inductive concurrent :: "'s tasks \<Rightarrow> 's tasks \<Rightarrow> bool" where
  pass: "pass (cc_daemon x) d \<Longrightarrow> concurrent x (x\<lparr>cc_daemon := d\<rparr>)"
| disconnect: "concurrent x (x\<lparr>cc_daemon := cancel_voice_for_disconnected_client env i (cc_daemon x)\<rparr>)"
| whole: "\<not> locking_command env line \<Longrightarrow> process_command env line i (cc_daemon x) = Some (r, d) \<Longrightarrow>
    concurrent x (x\<lparr>cc_daemon := d, cc_answers := r # cc_answers x\<rparr>)"
| backend: "\<not> order_locked x \<Longrightarrow> process_backend_command env command (cc_daemon x) = (r, d) \<Longrightarrow>
    concurrent x (x\<lparr>cc_daemon := d, cc_answers := r # cc_answers x\<rparr>)"
| resolve: "resolve_agent_action command (dm_state (cc_daemon x)) = Inr (agent, HerdrTarget target) \<Longrightarrow>
    concurrent x (x\<lparr>cc_flights := Acting command agent target # cc_flights x\<rparr>)"
| performed: "Acting command agent target \<in> set (cc_flights x) \<Longrightarrow>
    herdr_perform (de_herdr (env :: 's daemon_env)) target (pc_action command) (pc_capability_id command)
      (dm_servers (cc_daemon x)) = (Inr u, servers) \<Longrightarrow>
    concurrent x (advance x (Acting command agent target) ((cc_daemon x)\<lparr>dm_servers := servers\<rparr>)
      [Acted command agent target] [])"
| failed: "Acting command agent target \<in> set (cc_flights x) \<Longrightarrow>
    herdr_perform (de_herdr (env :: 's daemon_env)) target (pc_action command) (pc_capability_id command)
      (dm_servers (cc_daemon x)) = (Inl message, servers) \<Longrightarrow>
    concurrent x (advance x (Acting command agent target) ((cc_daemon x)\<lparr>dm_servers := servers\<rparr>)
      [] [herdr_error (pc_request_id command) message])"
| acknowledged: "Acted command agent target \<in> set (cc_flights x) \<Longrightarrow>
    concurrent x (advance x (Acted command agent target)
      (acknowledge_action env command (av_id agent) target (cc_daemon x))
      (if pc_action command \<in> {Open, Zoom} then [Activating command target] else [])
      (if pc_action command \<in> {Open, Zoom} then []
       else [action_ok (pc_request_id command) ''action_completed'']))"
| activated: "Activating command target \<in> set (cc_flights x) \<Longrightarrow>
    activate_herdr (de_config (env :: 's daemon_env)) (de_hypr env) (de_proc env) (ht_session target) (ht_socket_path target)
      (dm_desktop (cc_daemon x)) = (r, w) \<Longrightarrow>
    concurrent x (advance x (Activating command target) ((cc_daemon x)\<lparr>dm_desktop := w\<rparr>) []
      [activate_answer command r])"
| order_begins: "\<not> order_locked x \<Longrightarrow>
    concurrent x (x\<lparr>cc_flights :=
      OrderRead command (ps_agent_order (rt_snapshot (dm_state (cc_daemon x)))) # cc_flights x\<rparr>)"
| order_stale: "OrderRead command order \<in> set (cc_flights x) \<Longrightarrow>
    pc_sequence command \<noteq> ps_sequence (rt_snapshot (dm_state (cc_daemon x))) \<or> \<not> os_available order \<Longrightarrow>
    concurrent x (advance x (OrderRead command order) (cc_daemon x) [] [order_stale command])"
| order_checked: "OrderRead command order \<in> set (cc_flights x) \<Longrightarrow>
    pc_sequence command = ps_sequence (rt_snapshot (dm_state (cc_daemon x))) \<Longrightarrow> os_available order \<Longrightarrow>
    concurrent x (advance x (OrderRead command order) (cc_daemon x) [OrderChecked command order] [])"
| order_for_t3: "OrderChecked command order \<in> set (cc_flights x) \<Longrightarrow>
    rt_backend (dm_state (cc_daemon x)) = T3code \<Longrightarrow>
    concurrent x (advance x (OrderChecked command order) (cc_daemon x) [OrderT3 command] [])"
| order_for_herdr: "OrderChecked command order \<in> set (cc_flights x) \<Longrightarrow>
    rt_backend (dm_state (cc_daemon x)) \<noteq> T3code \<Longrightarrow>
    concurrent x (advance x (OrderChecked command order) (cc_daemon x) [OrderHerdr command order] [])"
| order_t3: "OrderT3 command \<in> set (cc_flights x) \<Longrightarrow>
    concurrent x (advance x (OrderT3 command) (commit_t3_order env command (cc_daemon x)) []
      [action_ok (pc_request_id command) ''agent_order_updated''])"
| order_servers: "OrderHerdr command order \<in> set (cc_flights x) \<Longrightarrow>
    synchronize_order (de_herdr (env :: 's daemon_env)) (os_mode order) (wanted_order command) (dm_servers (cc_daemon x)) =
      (outcome, servers) \<Longrightarrow>
    concurrent x (advance x (OrderHerdr command order) ((cc_daemon x)\<lparr>dm_servers := servers\<rparr>)
      [OrderDone command outcome] [])"
| order_done: "OrderDone command outcome \<in> set (cc_flights x) \<Longrightarrow>
    finish_order env command outcome (cc_daemon x) = (r, d) \<Longrightarrow>
    concurrent x (advance x (OrderDone command outcome) d [] [r])"

section \<open>The manager changes only under the lock\<close>

abbreviation backend_of :: "'s daemon \<Rightarrow> agent_backend" where
  "backend_of d \<equiv> rt_backend (dm_state d)"

lemma backend_commit [simp]:
  "rt_backend (commit_t3code o1 now ms s) = rt_backend s"
  "rt_backend (commit_herdr ds w now ms s) = rt_backend s"
  "rt_backend (commit_discovery_failed ms s) = rt_backend s"
  "rt_backend (commit_order om ms s) = rt_backend s"
  "rt_backend (commit_order_unknown ms s) = rt_backend s"
  "rt_backend (commit_voice v l ow ms s) = rt_backend s"
  "rt_backend (on_snapshot f s) = rt_backend s"
  "rt_backend (bump ms s) = rt_backend s"
  by (simp_all add: commit_t3code_def commit_herdr_def commit_discovery_failed_def commit_order_def
      commit_order_unknown_def commit_voice_def Let_def split_beta bump_def on_snapshot_def)

lemma backend_commit_if [simp]:
  "(\<And>s. rt_backend (f s) = rt_backend s) \<Longrightarrow> backend_of (commit_if b env f d) = backend_of d"
  by (simp add: commit_if_def)

lemma backend_acknowledge [simp]: "backend_of (acknowledge_review_ready env i d) = backend_of d"
  by (auto simp: acknowledge_review_ready_def commit_acknowledge_def split: option.splits if_splits)

lemma backend_agent_loop: "backend_of (agent_loop_event env sequence_joined joined event d) = backend_of d"
proof -
  have "backend_of (refresh_agents env joined e) = backend_of e" for e
    by (simp add: refresh_agents_def refresh_herdr_def refresh_t3code_def Let_def commit_if_def
        split: agent_backend.split prod.split sum.split)
  then show ?thesis by (simp add: agent_loop_event_def split: agent_event.split)
qed

lemma backend_pass: "pass d d' \<Longrightarrow> backend_of d' = backend_of d"
  by (induction rule: pass.induct)
    (simp_all add: backend_agent_loop refresh_voice_def refresh_health_def refresh_micro_def refresh_usage_def
      Let_def split: option.split)

lemma backend_disconnect [simp]: "backend_of (cancel_voice_for_disconnected_client env i d) = backend_of d"
  by (auto simp: cancel_voice_for_disconnected_client_def split: prod.split sum.split)

lemma backend_command:
  assumes "process_command env line i d = Some (r, d')" "\<not> locking_command env line"
  shows "backend_of d' = backend_of d"
proof (cases "\<exists>command. de_parse_command env line = Inr command \<and> validate_command command = Inr ()")
  case False
  with assms show ?thesis by (auto simp: process_command_def split: sum.splits)
next
  case True
  then obtain command where c: "de_parse_command env line = Inr command" "validate_command command = Inr ()"
    by blast
  have "backend_of (snd (process_restore_focus env command d)) = backend_of d"
    by (simp add: process_restore_focus_def split: prod.split sum.split)
  moreover have "process_desktop_command env command d = Some (r, d') \<Longrightarrow> backend_of d' = backend_of d"
    by (auto simp: process_desktop_command_def Let_def split: option.splits)
  moreover have "backend_of (snd (process_agent_action env command d)) = backend_of d"
    by (auto simp: process_agent_action_def process_herdr_action_def Let_def
        split: sum.splits agent_target.splits prod.splits)
  moreover have "backend_of (snd (process_voice_command env command i d)) = backend_of d"
    by (auto simp: process_voice_command_def split: prod.splits sum.splits)
  ultimately show ?thesis
    using assms c by (auto simp: process_command_def locking_command_def Let_def split: if_splits)
qed

section \<open>Every stretch is sound\<close>

lemma sound_state_refl [simp]: "sound_state s s"
  by (simp add: sound_state_def)

lemma sound_commit_unknown: "sound_state s (commit_order_unknown ms s)"
  unfolding commit_order_unknown_def
  by (rule sound_bump) (auto simp: on_snapshot_def state_ok_def default_order_def)

lemma sound_acknowledge_action: "sound d (acknowledge_action env command i target d)"
proof -
  have "sound d (if pc_action command = Open then acknowledge_review_ready env i d else d)"
    by (simp add: sound_acknowledge)
  then show ?thesis
    unfolding acknowledge_action_def by (rule sound_trans) (rule sound_frame; simp)
qed

lemma sound_t3_order: "sound d (commit_t3_order env command d)"
  unfolding commit_t3_order_def by (rule sound_state_change) (simp_all add: sound_commit_t3_order)

lemma sound_finish_order:
  assumes "finish_order env command outcome d = (r, d')" "backend_of d = Herdr"
  shows "sound d d'"
  using assms by (auto simp: finish_order_def Let_def sound_commit_unknown sound_commit_order
      intro!: sound_state_change intro: sound_frame split: order_outcome.splits if_splits)

lemma backend_finish_order:
  "finish_order env command outcome d = (r, d') \<Longrightarrow> backend_of d' = backend_of d"
  by (auto simp: finish_order_def Let_def split: order_outcome.splits if_splits)

section \<open>The invariant\<close>

text \<open>The moment a card action under way was checked: its card and target were those of its sequence.\<close>

definition was_resolved ::
  "'s tasks \<Rightarrow> 's tasks \<Rightarrow> portal_command \<Rightarrow> agent_view \<Rightarrow> herdr_target \<Rightarrow> bool" where
  "was_resolved x0 x command agent target \<longleftrightarrow>
     (\<exists>y. concurrent\<^sup>*\<^sup>* x0 y \<and> concurrent\<^sup>*\<^sup>* y x \<and>
        resolve_agent_action command (dm_state (cc_daemon y)) = Inr (agent, HerdrTarget target))"

fun flight_ok :: "'s tasks \<Rightarrow> 's tasks \<Rightarrow> flight \<Rightarrow> bool" where
  "flight_ok x0 x (Acting command agent target) = was_resolved x0 x command agent target"
| "flight_ok x0 x (Acted command agent target) = was_resolved x0 x command agent target"
| "flight_ok x0 x (OrderT3 command) = (backend_of (cc_daemon x) = T3code)"
| "flight_ok x0 x (OrderHerdr command order) = (backend_of (cc_daemon x) = Herdr)"
| "flight_ok x0 x (OrderDone command outcome) = (backend_of (cc_daemon x) = Herdr)"
| "flight_ok x0 x _ = True"

definition order_flights :: "flight list \<Rightarrow> nat" where
  "order_flights fs = length (filter order_flight fs)"

definition tasks_ok :: "'s tasks \<Rightarrow> 's tasks \<Rightarrow> bool" where
  "tasks_ok x0 x \<longleftrightarrow> concurrent\<^sup>*\<^sup>* x0 x \<and> sound (cc_daemon x0) (cc_daemon x) \<and>
     order_flights (cc_flights x) \<le> 1 \<and> (\<forall>f \<in> set (cc_flights x). flight_ok x0 x f)"

lemma order_flights_simps [simp]:
  "order_flights [] = 0" "order_flights (f # fs) = (if order_flight f then 1 else 0) + order_flights fs"
  "order_flights (fs @ gs) = order_flights fs + order_flights gs"
  by (simp_all add: order_flights_def)

lemma order_flights_remove1:
  "f \<in> set fs \<Longrightarrow> order_flights (remove1 f fs) + (if order_flight f then 1 else 0) = order_flights fs"
  by (induction fs) auto

lemma order_locked_iff: "order_locked x \<longleftrightarrow> 0 < order_flights (cc_flights x)"
  by (auto simp: order_locked_def order_flights_def filter_empty_conv)

lemma tasks_reach: "tasks_ok x0 x \<Longrightarrow> concurrent x y \<Longrightarrow> concurrent\<^sup>*\<^sup>* x0 y"
  unfolding tasks_ok_def by (blast intro: rtranclp.rtrancl_into_rtrancl)

lemma was_resolved_later: "was_resolved x0 x c a t \<Longrightarrow> concurrent x y \<Longrightarrow> was_resolved x0 y c a t"
  unfolding was_resolved_def by (meson rtranclp.rtrancl_into_rtrancl)

lemma flight_ok_later:
  assumes "flight_ok x0 x f" "concurrent x y"
    and "order_flight f \<Longrightarrow> backend_of (cc_daemon y) = backend_of (cc_daemon x)"
  shows "flight_ok x0 y f"
  using assms by (cases f) (auto intro: was_resolved_later)

lemma tasks_ok_advance:
  assumes ok: "tasks_ok x0 x" and f: "f \<in> set (cc_flights x)" and step: "concurrent x (advance x f d fs rs)"
    and s: "sound (cc_daemon x) d" and b: "backend_of d = backend_of (cc_daemon x)"
    and fs: "\<And>g. g \<in> set fs \<Longrightarrow> flight_ok x0 (advance x f d fs rs) g"
    and n: "order_flights fs \<le> (if order_flight f then 1 else 0)"
  shows "tasks_ok x0 (advance x f d fs rs)"
proof -
  have "concurrent\<^sup>*\<^sup>* x0 (advance x f d fs rs)" by (rule tasks_reach [OF ok step])
  moreover have "sound (cc_daemon x0) d" using ok s sound_trans by (auto simp: tasks_ok_def)
  moreover have "order_flights (fs @ remove1 f (cc_flights x)) \<le> 1"
    using ok n order_flights_remove1 [OF f] by (auto simp: tasks_ok_def)
  moreover have "flight_ok x0 (advance x f d fs rs) g" if "g \<in> set (fs @ remove1 f (cc_flights x))" for g
  proof (cases "g \<in> set fs")
    case False
    then have "g \<in> set (cc_flights x)" using that notin_set_remove1 by fastforce
    then have "flight_ok x0 x g" using ok by (simp add: tasks_ok_def)
    then show ?thesis by (rule flight_ok_later [OF _ step]) (simp add: advance_def b)
  qed (rule fs)
  ultimately show ?thesis by (simp add: tasks_ok_def advance_def)
qed

lemma tasks_ok_daemon:
  assumes ok: "tasks_ok x0 x" and step: "concurrent x (x\<lparr>cc_daemon := d, cc_answers := rs\<rparr>)"
    and s: "sound (cc_daemon x) d" and b: "order_locked x \<Longrightarrow> backend_of d = backend_of (cc_daemon x)"
  shows "tasks_ok x0 (x\<lparr>cc_daemon := d, cc_answers := rs\<rparr>)"
proof -
  let ?y = "x\<lparr>cc_daemon := d, cc_answers := rs\<rparr>"
  have "concurrent\<^sup>*\<^sup>* x0 ?y" by (rule tasks_reach [OF ok step])
  moreover have "sound (cc_daemon x0) d" using ok s sound_trans by (auto simp: tasks_ok_def)
  moreover have "flight_ok x0 ?y f" if "f \<in> set (cc_flights x)" for f
    by (rule flight_ok_later [OF _ step]) (use ok that b in \<open>auto simp: tasks_ok_def order_locked_def\<close>)
  ultimately show ?thesis using ok by (simp add: tasks_ok_def)
qed

lemma tasks_ok_begin:
  assumes ok: "tasks_ok x0 x" and step: "concurrent x (x\<lparr>cc_flights := f # cc_flights x\<rparr>)"
    and "flight_ok x0 (x\<lparr>cc_flights := f # cc_flights x\<rparr>) f" and "order_flight f \<Longrightarrow> \<not> order_locked x"
  shows "tasks_ok x0 (x\<lparr>cc_flights := f # cc_flights x\<rparr>)"
proof -
  let ?y = "x\<lparr>cc_flights := f # cc_flights x\<rparr>"
  have "concurrent\<^sup>*\<^sup>* x0 ?y" by (rule tasks_reach [OF ok step])
  moreover have "flight_ok x0 ?y g" if "g \<in> set (cc_flights x)" for g
    by (rule flight_ok_later [OF _ step]) (use ok that in \<open>auto simp: tasks_ok_def\<close>)
  ultimately show ?thesis using assms by (auto simp: tasks_ok_def order_locked_iff)
qed

lemma tasks_ok_step: "concurrent x y \<Longrightarrow> tasks_ok x0 x \<Longrightarrow> tasks_ok x0 y"
proof (induction rule: concurrent.induct)
  case (pass x d)
  have "concurrent x (x\<lparr>cc_daemon := d, cc_answers := cc_answers x\<rparr>)"
    using concurrent.pass [OF pass.hyps] by simp
  from tasks_ok_daemon [OF pass.prems this sound_pass [OF pass.hyps]] show ?case
    using backend_pass [OF pass.hyps] by simp
next
  case (disconnect x env i)
  have "concurrent x (x\<lparr>cc_daemon := cancel_voice_for_disconnected_client env i (cc_daemon x), cc_answers := cc_answers x\<rparr>)"
    using concurrent.disconnect [of x env i] by simp
  from tasks_ok_daemon [OF disconnect.prems this sound_disconnect] show ?case by simp
next
  case (whole env line i x r d)
  show ?case
    by (rule tasks_ok_daemon [OF whole.prems concurrent.whole [OF whole.hyps] sound_command [OF whole.hyps(2)]])
      (rule backend_command [OF whole.hyps(2,1)])
next
  case (backend x env command r d)
  have "sound (cc_daemon x) d" using sound_backend [of "cc_daemon x" env command] backend.hyps(2) by simp
  from tasks_ok_daemon [OF backend.prems concurrent.backend [OF backend.hyps] this] show ?case
    using backend.hyps(1) by simp
next
  case (resolve command x agent target)
  let ?y = "x\<lparr>cc_flights := Acting command agent target # cc_flights x\<rparr>"
  have step: "concurrent x ?y" by (rule concurrent.resolve [OF resolve.hyps])
  have "concurrent\<^sup>*\<^sup>* x0 x" using resolve.prems by (simp add: tasks_ok_def)
  then have "was_resolved x0 ?y command agent target"
    unfolding was_resolved_def using resolve.hyps step by blast
  then show ?case by (intro tasks_ok_begin [OF resolve.prems step]) simp_all
next
  case (performed command agent target x env u servers)
  have "flight_ok x0 x (Acting command agent target)" using performed by (auto simp: tasks_ok_def)
  then show ?case
    by (intro tasks_ok_advance [OF performed.prems performed.hyps(1) concurrent.performed [OF performed.hyps]])
      (auto intro: sound_frame was_resolved_later [OF _ concurrent.performed [OF performed.hyps]])
next
  case (failed command agent target x env message servers)
  show ?case
    by (intro tasks_ok_advance [OF failed.prems failed.hyps(1) concurrent.failed [OF failed.hyps]])
      (auto intro: sound_frame)
next
  case (acknowledged command agent target x env)
  show ?case
    by (intro tasks_ok_advance [OF acknowledged.prems acknowledged.hyps concurrent.acknowledged [OF acknowledged.hyps]]
        sound_acknowledge_action) (simp_all add: acknowledge_action_def split: if_splits)
next
  case (activated command target x env r w)
  show ?case
    by (intro tasks_ok_advance [OF activated.prems activated.hyps(1) concurrent.activated [OF activated.hyps]])
      (auto intro: sound_frame)
next
  case (order_begins x command)
  show ?case
    by (rule tasks_ok_begin [OF order_begins.prems concurrent.order_begins [OF order_begins.hyps]])
      (simp_all add: order_begins.hyps)
next
  case (order_stale command order x)
  show ?case
    by (intro tasks_ok_advance [OF order_stale.prems order_stale.hyps(1) concurrent.order_stale [OF order_stale.hyps]])
      simp_all
next
  case (order_checked command order x)
  show ?case
    by (intro tasks_ok_advance [OF order_checked.prems order_checked.hyps(1) concurrent.order_checked [OF order_checked.hyps]])
      simp_all
next
  case (order_for_t3 command order x)
  show ?case
    by (intro tasks_ok_advance [OF order_for_t3.prems order_for_t3.hyps(1) concurrent.order_for_t3 [OF order_for_t3.hyps]])
      (simp_all add: advance_def order_for_t3.hyps)
next
  case (order_for_herdr command order x)
  have "backend_of (cc_daemon x) = Herdr" using order_for_herdr.hyps(2) by (cases "backend_of (cc_daemon x)") simp_all
  then show ?case
    by (intro tasks_ok_advance [OF order_for_herdr.prems order_for_herdr.hyps(1) concurrent.order_for_herdr [OF order_for_herdr.hyps]])
      (simp_all add: advance_def)
next
  case (order_t3 command x env)
  show ?case
    by (intro tasks_ok_advance [OF order_t3.prems order_t3.hyps concurrent.order_t3 [OF order_t3.hyps]] sound_t3_order)
      (simp_all add: commit_t3_order_def)
next
  case (order_servers command order x env outcome servers)
  have "flight_ok x0 x (OrderHerdr command order)" using order_servers by (auto simp: tasks_ok_def)
  then show ?case
    by (intro tasks_ok_advance [OF order_servers.prems order_servers.hyps(1) concurrent.order_servers [OF order_servers.hyps]])
      (auto intro: sound_frame simp: advance_def)
next
  case (order_done command outcome x env r d)
  have "flight_ok x0 x (OrderDone command outcome)" using order_done by (auto simp: tasks_ok_def)
  then have "sound (cc_daemon x) d" by (intro sound_finish_order [OF order_done.hyps(2)]) simp
  then show ?case
    by (intro tasks_ok_advance [OF order_done.prems order_done.hyps(1) concurrent.order_done [OF order_done.hyps]])
      (simp_all add: backend_finish_order [OF order_done.hyps(2)])
qed

lemma tasks_ok_steps: "concurrent\<^sup>*\<^sup>* x y \<Longrightarrow> tasks_ok x0 x \<Longrightarrow> tasks_ok x0 y"
  by (induction rule: rtranclp_induct) (auto dest: tasks_ok_step)

lemma tasks_ok_start [simp]: "tasks_ok (start_tasks d) (start_tasks d)"
  by (simp add: tasks_ok_def start_tasks_def)

section \<open>The whole commands are among the interleavings\<close>

lemma order_command_stretches:
  "process_agent_order_command env command d =
     (if pc_sequence command \<noteq> ps_sequence (rt_snapshot (dm_state d)) \<or>
         \<not> os_available (ps_agent_order (rt_snapshot (dm_state d)))
      then (order_stale command, d)
      else if backend_of d = T3code
      then (action_ok (pc_request_id command) ''agent_order_updated'', commit_t3_order env command d)
      else (case synchronize_order (de_herdr env) (os_mode (ps_agent_order (rt_snapshot (dm_state d))))
                (wanted_order command) (dm_servers d) of
          (outcome, servers) \<Rightarrow> finish_order env command outcome (d\<lparr>dm_servers := servers\<rparr>)))"
  by (simp add: process_agent_order_command_def order_stale_def commit_t3_order_def wanted_order_def finish_order_def
      Let_def cong: order_outcome.case_cong split: prod.split)

lemma advance_head [simp]:
  "advance (x\<lparr>cc_flights := f # fs\<rparr>) f d gs rs = x\<lparr>cc_daemon := d, cc_flights := gs @ fs, cc_answers := rs @ cc_answers x\<rparr>"
  by (simp add: advance_def)

lemma order_command_run:
  assumes "\<not> order_locked x" and "process_agent_order_command env command (cc_daemon x) = (r, d)"
  shows "concurrent\<^sup>*\<^sup>* x (x\<lparr>cc_daemon := d, cc_answers := r # cc_answers x\<rparr>)"
proof -
  let ?d = "cc_daemon x" and ?s = "dm_state (cc_daemon x)"
  let ?order = "ps_agent_order (rt_snapshot ?s)"
  let ?x = "\<lambda>f. x\<lparr>cc_flights := f # cc_flights x\<rparr>"
  have begins: "concurrent x (?x (OrderRead command ?order))" by (rule concurrent.order_begins [OF assms(1)])
  show ?thesis
  proof (cases "pc_sequence command \<noteq> ps_sequence (rt_snapshot ?s) \<or> \<not> os_available ?order")
    case True
    then have "concurrent (?x (OrderRead command ?order)) (advance (?x (OrderRead command ?order)) (OrderRead command ?order) ?d [] [order_stale command])"
      using concurrent.order_stale [of command ?order "?x (OrderRead command ?order)"] by simp
    with begins True assms(2) show ?thesis
      by (simp add: order_command_stretches converse_rtranclp_into_rtranclp)
  next
    case False
    then have "concurrent (?x (OrderRead command ?order)) (?x (OrderChecked command ?order))"
      using concurrent.order_checked [of command ?order "?x (OrderRead command ?order)"] by simp
    with begins have checked: "concurrent\<^sup>*\<^sup>* x (?x (OrderChecked command ?order))" by simp
    show ?thesis
    proof (cases "backend_of ?d = T3code")
      case True
      then have "concurrent (?x (OrderChecked command ?order)) (?x (OrderT3 command))"
        using concurrent.order_for_t3 [of command ?order "?x (OrderChecked command ?order)"] by simp
      moreover have "concurrent (?x (OrderT3 command)) (x\<lparr>cc_daemon := commit_t3_order env command ?d,
          cc_answers := action_ok (pc_request_id command) ''agent_order_updated'' # cc_answers x\<rparr>)"
        using concurrent.order_t3 [of command "?x (OrderT3 command)" env] by simp
      ultimately show ?thesis
        using checked assms(2) True False
        by (simp add: order_command_stretches rtranclp.rtrancl_into_rtrancl)
    next
      case herdr: False
      obtain outcome servers where o: "synchronize_order (de_herdr env) (os_mode ?order) (wanted_order command)
          (dm_servers ?d) = (outcome, servers)" by fastforce
      let ?e = "?d\<lparr>dm_servers := servers\<rparr>"
      have "concurrent (?x (OrderChecked command ?order)) (?x (OrderHerdr command ?order))"
        using concurrent.order_for_herdr [of command ?order "?x (OrderChecked command ?order)"] herdr by simp
      moreover have "concurrent (?x (OrderHerdr command ?order)) (x\<lparr>cc_daemon := ?e, cc_flights := OrderDone command outcome # cc_flights x\<rparr>)"
        using concurrent.order_servers [of command ?order "?x (OrderHerdr command ?order)" env outcome servers] o by simp
      moreover have "finish_order env command outcome ?e = (r, d)"
        using assms(2) False herdr o by (simp add: order_command_stretches)
      then have "concurrent (x\<lparr>cc_daemon := ?e, cc_flights := OrderDone command outcome # cc_flights x\<rparr>)
          (x\<lparr>cc_daemon := d, cc_answers := r # cc_answers x\<rparr>)"
        using concurrent.order_done [of command outcome "x\<lparr>cc_daemon := ?e, cc_flights := OrderDone command outcome # cc_flights x\<rparr>"
            env r d] by (simp add: advance_def)
      ultimately show ?thesis
        using checked by (meson rtranclp.rtrancl_into_rtrancl)
    qed
  qed
qed

lemma command_run:
  assumes "\<not> order_locked x" and "process_command env line i (cc_daemon x) = Some (r, d)"
  shows "concurrent\<^sup>*\<^sup>* x (x\<lparr>cc_daemon := d, cc_answers := r # cc_answers x\<rparr>)"
proof (cases "locking_command env line")
  case False
  then show ?thesis using concurrent.whole [OF False assms(2)] by blast
next
  case True
  then obtain command where c: "de_parse_command env line = Inr command" "validate_command command = Inr ()"
    "pc_action command \<in> {OrderGrouped, OrderPriority, BackendHerdr, BackendT3code}"
    by (auto simp: locking_command_def split: sum.splits)
  then show ?thesis
    using assms order_command_run [OF assms(1), of env command r d] concurrent.backend [OF assms(1), of env command r d]
    by (auto simp: process_command_def Let_def)
qed

section \<open>The other invariants\<close>

context gate_invariant
begin

lemma holds_concurrent: "concurrent x y \<Longrightarrow> holds (cc_daemon x) \<Longrightarrow> holds (cc_daemon y)"
proof (induction rule: concurrent.induct)
  case (pass x d)
  then show ?case using holds_pass by simp
next
  case (disconnect x env i)
  then show ?case using holds_step [OF step.disconnect] by simp
next
  case (whole env line i x r d)
  then show ?case using holds_command by simp
next
  case (backend x env command r d)
  have "holds (snd (process_backend_command env command (cc_daemon x)))"
    using backend.prems by (simp add: process_backend_command_def Let_def holds_on_state keeps_backend)
  with backend.hyps(2) show ?case by simp
next
  case (acknowledged command agent target x env)
  then show ?case by (simp add: advance_def acknowledge_action_def holds_acknowledge)
next
  case (order_t3 command x env)
  have "inv s \<Longrightarrow> inv (commit_order mode ms (s\<lparr>rt_t3code_order := mode\<rparr>))" for s mode ms
    by (rule keeps_order) (rule gate_only [of _ s], simp_all add: gate_def)
  with order_t3 show ?case by (simp add: advance_def commit_t3_order_def holds_on_state)
next
  case (order_done command outcome x env r d)
  then have "holds d"
    by (auto simp: finish_order_def Let_def intro!: holds_on_state keeps_order keeps_order_unknown
        split: order_outcome.splits if_splits)
  then show ?case by (simp add: advance_def)
qed (simp_all add: advance_def)

lemma concurrent_invariant:
  "concurrent\<^sup>*\<^sup>* x (y :: 's tasks) \<Longrightarrow> inv (dm_state (cc_daemon x)) \<Longrightarrow> inv (dm_state (cc_daemon y))"
proof (induction rule: rtranclp_induct)
  case (step y z)
  then show ?case using holds_concurrent by (simp add: holds_def)
qed

end

section \<open>Properties\<close>

text \<open>C2 An action under way was right when it was checked. Whatever runs between the check of an action on
  a card and the request to the server (refreshes, a switch of the manager, other commands), the
  request that will be sent is for the card and the target of an earlier moment at which the
  command's sequence number was the daemon's, the card showed the action or held the capability the
  command names, and Herdr was the manager. At most one change of the order is under way.\<close>

theorem action_under_way_was_shown:
  assumes "new_daemon cfg epoch persisted voice servers = Inr d0"
    and "concurrent\<^sup>*\<^sup>* (start_tasks d0) x" and "Acting command agent target \<in> set (cc_flights x)"
  shows "length (filter order_flight (cc_flights x)) \<le> 1 \<and>
    (\<exists>y. concurrent\<^sup>*\<^sup>* (start_tasks d0) y \<and> concurrent\<^sup>*\<^sup>* y x \<and>
      (let s = dm_state (cc_daemon y) in
        pc_sequence command = ps_sequence (rt_snapshot s) \<and> pc_agent_id command = Some (av_id agent) \<and>
        agent \<in> set (ps_agents (rt_snapshot s)) \<and>
        hget (rt_targets s) (av_id agent) = Some (HerdrTarget target) \<and>
        action_enabled (pc_action command) agent \<and> command_capability_matches command agent \<and>
        rt_backend s = Herdr))"
proof -
  have ok: "tasks_ok (start_tasks d0) x" by (rule tasks_ok_steps [OF assms(2) tasks_ok_start])
  then have "flight_ok (start_tasks d0) x (Acting command agent target)" using assms(3) unfolding tasks_ok_def by blast
  then obtain y where y: "concurrent\<^sup>*\<^sup>* (start_tasks d0) y" "concurrent\<^sup>*\<^sup>* y x"
    and r: "resolve_agent_action command (dm_state (cc_daemon y)) = Inr (agent, HerdrTarget target)"
    by (auto simp: was_resolved_def)
  have "sound d0 (cc_daemon y)"
    using tasks_ok_steps [OF y(1) tasks_ok_start] by (simp add: tasks_ok_def start_tasks_def)
  then have "state_ok (dm_state (cc_daemon y))"
    using new_daemon_ok [OF assms(1)] by (simp add: sound_def daemon_ok_def)
  moreover have "hget (rt_targets (dm_state (cc_daemon y))) (av_id agent) = Some (HerdrTarget target)"
    using resolve_agent_action_Inr [OF r] by blast
  ultimately have "routed_by (rt_backend (dm_state (cc_daemon y))) (HerdrTarget target)"
    using state_ok_target by blast
  then have "rt_backend (dm_state (cc_daemon y)) = Herdr"
    by (cases "rt_backend (dm_state (cc_daemon y))") simp_all
  moreover have "length (filter order_flight (cc_flights x)) \<le> 1"
    using ok by (simp add: tasks_ok_def order_flights_def)
  ultimately show ?thesis
    using y resolve_agent_action_Inr [OF r] unfolding Let_def by (intro conjI exI [of _ y]) simp_all
qed

lemma action_under_way_was_shown_witness:
  "\<exists>(x :: nat tasks) command agent target. Acting command agent target \<in> set (cc_flights x) \<and>
     rt_backend (dm_state (cc_daemon x)) = T3code \<and> aa_open (av_actions agent) \<and>
     pc_agent_id command = Some (av_id agent)"
proof -
  let ?s = "dm_state roster_daemon"
  obtain i agent where f: "find (\<lambda>a. av_id a = i) (ps_agents (rt_snapshot ?s)) = Some agent"
    "av_id agent = i" "aa_open (av_actions agent)" using roster_daemon_card by blast
  define c where "c = example_command Open (Some i) None (ps_sequence (rt_snapshot ?s))"
  have "routable ?s" by (rule reachable_routable [OF example_daemon_new roster_daemon_step])
  moreover have "agent \<in> set (ps_agents (rt_snapshot ?s))" "av_actions agent \<noteq> default_actions"
    using f by (auto dest: find_SomeD simp: default_actions_def)
  ultimately obtain target where t: "hget (rt_targets ?s) i = Some target"
    using f(2) unfolding routable_def routed_cards by blast
  have "daemon_ok roster_daemon"
    using new_daemon_ok [OF example_daemon_new] sound_steps [OF roster_daemon_step] by (simp add: sound_def)
  then have "routed_by (rt_backend ?s) target" using state_ok_target [OF _ t] by (auto simp: daemon_ok_def)
  moreover have "rt_backend ?s = Herdr"
    by (simp add: roster_daemon_def commit_if_def example_daemon_def initial_state_def)
  ultimately obtain t' where t': "target = HerdrTarget t'" by (cases target) auto
  have r: "resolve_agent_action c ?s = Inr (agent, HerdrTarget t')"
    using f t t' by (simp add: resolve_agent_action_def c_def example_command_def action_enabled_def
        command_capability_matches_def)
  define x0 :: "nat tasks" where "x0 = start_tasks example_daemon"
  define x1 where "x1 = x0\<lparr>cc_daemon := roster_daemon\<rparr>"
  define x2 where "x2 = x1\<lparr>cc_flights := Acting c agent t' # cc_flights x1\<rparr>"
  define b where "b = process_backend_command (example_daemon_env c) (example_command BackendT3code None None (ps_sequence (rt_snapshot ?s))) roster_daemon"
  define x3 where "x3 = x2\<lparr>cc_daemon := snd b, cc_answers := fst b # cc_answers x2\<rparr>"
  have "pass example_daemon roster_daemon" by (rule roster_daemon_pass)
  then have "concurrent x0 x1"
    unfolding x1_def using concurrent.pass [of x0 roster_daemon] by (simp add: x0_def start_tasks_def)
  moreover have "concurrent x1 x2"
    unfolding x2_def by (rule concurrent.resolve) (simp add: x1_def r)
  moreover have "concurrent x2 x3"
    unfolding x3_def by (rule concurrent.backend) (simp_all add: x2_def x1_def x0_def start_tasks_def order_locked_def b_def)
  ultimately have run: "concurrent\<^sup>*\<^sup>* (start_tasks example_daemon) x3"
    unfolding x0_def by (meson converse_rtranclp_into_rtranclp rtranclp.rtrancl_refl)
  have a: "Acting c agent t' \<in> set (cc_flights x3)" by (simp add: x3_def x2_def)
  have "rt_backend (dm_state (cc_daemon x3)) = T3code"
    by (simp add: x3_def b_def process_backend_command_def example_command_def Let_def \<open>rt_backend ?s = Herdr\<close>
        commit_backend_def)
  then show ?thesis
    using a f(3) action_under_way_was_shown [OF example_daemon_new run a] unfolding Let_def by blast
qed

text \<open>C3 The invariant of the daemon survives the waiting of its commands, and that is the order lock's
  doing: in every interleaving of waiting commands with all other tasks, every private target belongs
  to a shown card and the selected manager, every card that shows an action has a target, T3 Code's
  order is the one last chosen, the sequence never falls; and while a change of the order is under
  way for a manager, that manager stays selected. A whole command is one of these interleavings.\<close>

theorem order_lock_keeps_manager:
  assumes "new_daemon cfg epoch persisted voice servers = Inr d0"
    and "concurrent\<^sup>*\<^sup>* (start_tasks d0) x"
  shows "let s = dm_state (cc_daemon x) in
    (\<forall>i t. hget (rt_targets s) i = Some t \<longrightarrow>
       routed_by (rt_backend s) t \<and> (\<exists>a \<in> set (ps_agents (rt_snapshot s)). av_id a = i)) \<and>
    (\<forall>a \<in> set (ps_agents (rt_snapshot s)).
       av_actions a = default_actions \<or> (\<exists>t. hget (rt_targets s) (av_id a) = Some t)) \<and>
    (rt_backend s = T3code \<and> os_available (ps_agent_order (rt_snapshot s)) \<longrightarrow>
       os_mode (ps_agent_order (rt_snapshot s)) = rt_t3code_order s) \<and>
    ps_sequence (rt_snapshot (dm_state d0)) \<le> ps_sequence (rt_snapshot s) \<and>
    (\<forall>command. OrderT3 command \<in> set (cc_flights x) \<longrightarrow> rt_backend s = T3code) \<and>
    (\<forall>command outcome. OrderDone command outcome \<in> set (cc_flights x) \<longrightarrow> rt_backend s = Herdr) \<and>
    (\<forall>env line i r d. \<not> order_locked x \<and> process_command env line i (cc_daemon x) = Some (r, d) \<longrightarrow>
       concurrent\<^sup>*\<^sup>* x (x\<lparr>cc_daemon := d, cc_answers := r # cc_answers x\<rparr>))"
proof -
  have ok: "tasks_ok (start_tasks d0) x" by (rule tasks_ok_steps [OF assms(2) tasks_ok_start])
  then have so: "sound d0 (cc_daemon x)" by (simp add: tasks_ok_def start_tasks_def)
  then have s: "state_ok (dm_state (cc_daemon x))"
    using new_daemon_ok [OF assms(1)] by (simp add: sound_def daemon_ok_def)
  have "routable (dm_state (cc_daemon (start_tasks d0)))"
    using new_daemon_routable [OF assms(1)] by (simp add: start_tasks_def)
  then have r: "routable (dm_state (cc_daemon x))" by (rule routes.concurrent_invariant [OF assms(2)])
  have f: "flight_ok (start_tasks d0) x g" if "g \<in> set (cc_flights x)" for g
    using ok that unfolding tasks_ok_def by blast
  show ?thesis
    unfolding Let_def
  proof (intro conjI allI impI)
    show "routed_by (rt_backend (dm_state (cc_daemon x))) t" "\<exists>a \<in> set (ps_agents (rt_snapshot (dm_state (cc_daemon x)))). av_id a = i"
      if "hget (rt_targets (dm_state (cc_daemon x))) i = Some t" for i t
      using state_ok_target [OF s that] by blast+
    show "\<forall>a \<in> set (ps_agents (rt_snapshot (dm_state (cc_daemon x)))).
        av_actions a = default_actions \<or> (\<exists>t. hget (rt_targets (dm_state (cc_daemon x))) (av_id a) = Some t)"
      using r unfolding routable_def routed_cards by blast
    show "ps_sequence (rt_snapshot (dm_state d0)) \<le> ps_sequence (rt_snapshot (dm_state (cc_daemon x)))"
      using so by (simp add: sound_def sequenced_def)
    show "rt_backend (dm_state (cc_daemon x)) = T3code" if "OrderT3 command \<in> set (cc_flights x)" for command
      using f [OF that] by simp
    show "rt_backend (dm_state (cc_daemon x)) = Herdr" if "OrderDone command outcome \<in> set (cc_flights x)" for command outcome
      using f [OF that] by simp
  qed (use state_ok_facts(3) [OF s] command_run in blast)+
qed

lemma order_lock_keeps_manager_witness:
  "concurrent\<^sup>*\<^sup>* (start_tasks example_daemon) (start_tasks example_daemon) \<and>
   (\<exists>r d. process_command (example_daemon_env (example_command BackendT3code None None 0)) [] ''c'' example_daemon = Some (r, d) \<and>
      concurrent\<^sup>*\<^sup>* (start_tasks example_daemon)
        ((start_tasks example_daemon)\<lparr>cc_daemon := d, cc_answers := [r]\<rparr>))"
proof -
  let ?c = "example_command BackendT3code None None 0"
  have "validate_command ?c = Inr ()"
    unfolding example_command_valid by (simp add: agent_action_def guarded_action_def)
  then obtain r d where p: "process_command (example_daemon_env ?c) [] ''c'' example_daemon = Some (r, d)"
    by (cases "process_backend_command (example_daemon_env ?c) ?c example_daemon")
      (simp add: process_command_def example_daemon_env_def example_command_def)
  have "cc_daemon (start_tasks example_daemon) = example_daemon" "\<not> order_locked (start_tasks example_daemon)"
    "cc_answers (start_tasks example_daemon) = []" by (simp_all add: start_tasks_def order_locked_def)
  with p order_lock_keeps_manager [OF example_daemon_new, of "start_tasks example_daemon"] show ?thesis
    unfolding Let_def by fastforce
qed

end
