(* ===== verification/Sweep.thy ===== *)
theory Sweep
  imports Routing
begin

text \<open>
  What one sweep over the Herdr sessions shows (\<open>refresh_herdr\<close> of \<open>runtime.rs\<close>): every running session
  once, in the order of discovery, the cards numbered through all of them, and targets only for
  sessions that are connected; and what the commit makes of it.
\<close>

section \<open>Observations\<close>

lemma herdr_observation_session:
  "sv_name (so_session (herdr_observation u d e off n p sn ord)) = sd_name d"
  "sv_state (so_session (herdr_observation u d e off n p sn ord)) = SessConnected"
  by (simp_all add: herdr_observation_def Let_def)

lemma herdr_observation_numbers:
  "map av_source_order (so_agents (herdr_observation u d e off n p sn ord)) =
     [off ..< off + length (so_agents (herdr_observation u d e off n p sn ord))]"
  by (rule nth_equalityI) (simp_all add: herdr_observation_def Let_def nth_enumerate_eq herdr_card_def)

text \<open>An observation is either of an incompatible server, without agents, or a connected one.\<close>

definition observed_as :: "session_descriptor \<Rightarrow> nat \<Rightarrow> session_observation \<Rightarrow> bool" where
  "observed_as d off ob \<longleftrightarrow> sv_name (so_session ob) = sd_name d \<and>
     map av_source_order (so_agents ob) = [off ..< off + length (so_agents ob)] \<and>
     (\<forall>a \<in> set (so_agents ob). av_session a = sd_name d) \<and>
     (\<forall>(i, t) \<in> set (so_targets ob). ht_session t = sd_name d) \<and>
     sv_state (so_session ob) = (if incompatible ob then SessIncompatible else SessConnected)"

lemma observe_session_observed_as:
  assumes "observe_session env d epoch off now s = (Inr ob, s')"
  shows "observed_as d off ob"
proof -
  have obs: "observed_as d off (herdr_observation u d e off n p sn ord)" for u e n p sn ord
  proof -
    let ?o = "herdr_observation u d e off n p sn ord"
    have "\<forall>a \<in> set (so_agents ?o). av_session a = sd_name d"
      by (auto elim: herdr_observation_card)
    moreover have "\<forall>(i, t) \<in> set (so_targets ?o). ht_session t = sd_name d"
    proof -
      have "set (so_targets ?o) \<subseteq> (\<lambda>raw. (herdr_agent_id u e (sd_name d) (ha_terminal_id raw),
          herdr_card_target d raw)) ` set (hs_agents sn)"
        using set_hextend by (fastforce simp: herdr_observation_def Let_def)
      then show ?thesis by (auto simp: herdr_card_target_def)
    qed
    ultimately show ?thesis
      by (simp add: observed_as_def herdr_observation_session herdr_observation_numbers incompatible_def)
  qed
  have "(\<exists>u e n p sn ord. ob = herdr_observation u d e off n p sn ord) \<or>
      so_agents ob = [] \<and> so_targets ob = [] \<and> sv_name (so_session ob) = sd_name d \<and>
      sv_state (so_session ob) = SessIncompatible"
    using assms
    by (auto simp: observe_session_def bind_io_def return_io_def split: prod.splits sum.splits if_splits; blast)
  then show ?thesis
  proof (elim disjE exE)
    fix u e n p sn ord assume "ob = herdr_observation u d e off n p sn ord"
    then show ?thesis using obs by simp
  qed (simp add: observed_as_def incompatible_def)
qed

section \<open>The sweep\<close>

definition connected :: "session_view \<Rightarrow> bool" where
  "connected s \<longleftrightarrow> sv_state s = SessConnected"

text \<open>The sweep after the sessions \<open>ds\<close>.\<close>

definition swept :: "session_descriptor list \<Rightarrow> sweep \<Rightarrow> bool" where
  "swept ds w \<longleftrightarrow> map sv_name (sw_sessions w) = map sd_name ds \<and>
     map av_source_order (sw_agents w) = [0 ..< sw_source_offset w] \<and>
     (\<forall>a \<in> set (sw_agents w). av_session a \<in> sd_name ` set ds) \<and>
     (\<forall>(i, t) \<in> set (sw_targets w). \<exists>s \<in> set (sw_sessions w). connected s \<and> sv_name s = target_session t) \<and>
     sw_connected w = length (filter connected (sw_sessions w)) \<and>
     length (sw_order_modes w) \<le> sw_connected w"

lemma upt_append: "[0 ..< m] @ [m ..< m + n] = [0 ..< m + (n :: nat)]"
  by (rule upt_add_eq_append [symmetric]) simp

lemma renumber_numbers: "map av_source_order (renumber off as) = [off ..< off + length as]"
  by (rule nth_equalityI) (simp_all add: renumber_def nth_enumerate_eq split_beta)

lemma renumber_sessions: "(\<forall>a \<in> set as. av_session a = n) \<Longrightarrow> \<forall>a \<in> set (renumber off as). av_session a = n"
  by (auto simp: renumber_def clear_actions_def enumerate_eq_zip dest: set_zip_rightD)

text \<open>Adding one session: its view, its cards in sequence, and targets only if it is connected.\<close>

lemma swept_extend:
  assumes "swept ds w" "sv_name v = sd_name d"
    and "sw_sessions w' = sw_sessions w @ [v]" "sw_agents w' = sw_agents w @ as"
    and "map av_source_order as = [sw_source_offset w ..< sw_source_offset w + length as]"
    and "sw_source_offset w' = sw_source_offset w + length as" "\<forall>a \<in> set as. av_session a = sd_name d"
    and "\<forall>(i, t) \<in> set (sw_targets w'). (i, t) \<in> set (sw_targets w) \<or> connected v \<and> target_session t = sd_name d"
    and "sw_connected w' = sw_connected w + (if connected v then 1 else 0)"
    and "length (sw_order_modes w') \<le> length (sw_order_modes w) + (if connected v then 1 else 0)"
  shows "swept (ds @ [d]) w'"
  unfolding swept_def
proof (intro conjI)
  show "map sv_name (sw_sessions w') = map sd_name (ds @ [d])"
    using assms(1-3) by (simp add: swept_def)
  show "map av_source_order (sw_agents w') = [0 ..< sw_source_offset w']"
    using assms(1) by (simp add: assms(4-6) upt_append swept_def)
  show "\<forall>a \<in> set (sw_agents w'). av_session a \<in> sd_name ` set (ds @ [d])"
    using assms(1) by (auto simp: assms(4,7) swept_def)
  have "\<forall>(i, t) \<in> set (sw_targets w). \<exists>s \<in> set (sw_sessions w). connected s \<and> sv_name s = target_session t"
    using assms(1) by (simp add: swept_def)
  then show "\<forall>(i, t) \<in> set (sw_targets w'). \<exists>s \<in> set (sw_sessions w'). connected s \<and> sv_name s = target_session t"
    using assms(8) assms(2) unfolding assms(3) by fastforce
  show "sw_connected w' = length (filter connected (sw_sessions w'))"
    using assms(1) by (simp add: assms(3,9) swept_def)
  show "length (sw_order_modes w') \<le> sw_connected w'"
    using assms(1) assms(10) unfolding assms(9) by (auto simp: swept_def split: if_splits)
qed

lemma not_connected_stale [simp]: "\<not> connected (stale_session d seen m)" "sv_name (stale_session d seen m) = sd_name d"
  by (simp_all add: connected_def stale_session_def)

lemma add_previous_fields:
  shows "sw_sessions (add_previous d previous w) =
      sw_sessions w @ [stale_session d None ''Herdr session snapshot is unavailable'']"
    and "sw_agents (add_previous d previous w) = sw_agents w @ renumber (sw_source_offset w)
        (filter (\<lambda>a. av_session a = sd_name d) previous)"
    and "sw_source_offset (add_previous d previous w) = sw_source_offset w +
        length (filter (\<lambda>a. av_session a = sd_name d) previous)"
    and "sw_targets (add_previous d previous w) = sw_targets w"
    and "sw_connected (add_previous d previous w) = sw_connected w"
    and "sw_order_modes (add_previous d previous w) = sw_order_modes w"
  by (simp_all add: add_previous_def Let_def)

lemma swept_previous:
  assumes "swept ds w"
  shows "swept (ds @ [d]) (add_previous d previous w)"
proof -
  let ?stale = "filter (\<lambda>a. av_session a = sd_name d) previous"
  have len: "length (renumber off as) = length as" for off as by (simp add: renumber_def)
  have ses: "\<forall>a \<in> set (renumber (sw_source_offset w) ?stale). av_session a = sd_name d"
    by (rule renumber_sessions) simp
  show ?thesis
  proof (rule swept_extend [OF assms _ add_previous_fields(1,2) _ _ ses])
    show "\<forall>(i, t) \<in> set (sw_targets (add_previous d previous w)). (i, t) \<in> set (sw_targets w) \<or>
        connected (stale_session d None ''Herdr session snapshot is unavailable'') \<and> target_session t = sd_name d"
      unfolding add_previous_fields by blast
  qed (simp_all only: add_previous_fields renumber_numbers len not_connected_stale if_False add_0_right order_refl)
qed

lemma swept_incompatible:
  "swept ds w \<Longrightarrow> observed_as d off ob \<Longrightarrow> incompatible ob \<Longrightarrow> swept (ds @ [d]) (add_session (so_session ob) w)"
  by (rule swept_extend [where v = "so_session ob" and as = "[]"])
    (auto simp: add_session_def observed_as_def connected_def)

lemma swept_stale:
  "swept ds w \<Longrightarrow> observed_as d (sw_source_offset w) ob \<Longrightarrow> swept (ds @ [d]) (add_stale d ob m w)"
  by (rule swept_extend [where v = "stale_session d (Some (so_session ob)) m" and as = "map clear_actions (so_agents ob)"])
    (auto simp: add_stale_def observed_as_def clear_actions_def comp_def)

lemma swept_connected:
  assumes s: "swept ds w" and o: "observed_as d (sw_source_offset w) ob" "\<not> incompatible ob"
  shows "swept (ds @ [d]) (add_connected ob w)"
proof (rule swept_extend [where v = "so_session ob" and as = "so_agents ob"])
  have "set (hextend (map (apsnd HerdrTarget) (so_targets ob)) (sw_targets w)) \<subseteq>
      set (map (apsnd HerdrTarget) (so_targets ob)) \<union> set (sw_targets w)" by (rule set_hextend)
  then show "\<forall>(i, t) \<in> set (sw_targets (add_connected ob w)). (i, t) \<in> set (sw_targets w) \<or>
      connected (so_session ob) \<and> target_session t = sd_name d"
    using o by (fastforce simp: add_connected_def observed_as_def connected_def)
  show "length (sw_order_modes (add_connected ob w)) \<le> length (sw_order_modes w) + (if connected (so_session ob) then 1 else 0)"
    using o by (simp add: add_connected_def observed_as_def connected_def split: option.split)
qed (use s o in \<open>simp_all add: add_connected_def observed_as_def connected_def\<close>)

lemma swept_session:
  assumes "swept ds (fst x)"
  shows "swept (ds @ [d]) (fst (sweep_session env epoch previous d x))"
proof -
  obtain w subs servers where x: "x = (w, subs, servers)" by (cases x)
  from assms show ?thesis
    by (auto simp: x sweep_session_def Let_def split: prod.splits sum.splits bool.splits
        intro: swept_previous swept_incompatible swept_stale swept_connected
        dest: observe_session_observed_as)
qed

lemma swept_fold: "swept seen (fst z) \<Longrightarrow> swept (seen @ ds) (fst (fold (sweep_session env epoch previous) ds z))"
proof (induction ds arbitrary: seen z)
  case (Cons d ds)
  from Cons.IH [OF swept_session [OF Cons.prems]] show ?case by simp
qed simp

lemma swept_sessions:
  assumes "sweep_sessions env epoch previous ds x = (w, y)"
  shows "swept ds w"
  using assms swept_fold [of "[]" "(empty_sweep, fst x, snd x)" ds env epoch previous]
  by (cases x) (auto simp: sweep_sessions_def swept_def empty_sweep_def split: prod.splits)


section \<open>Properties\<close>

lemma commit_herdr_roster:
  "ps_sessions (rt_snapshot (commit_herdr ds w now ms s)) = sw_sessions w"
  "ps_agent_order (rt_snapshot (commit_herdr ds w now ms s)) = agreed_order ds w"
  "rt_targets (commit_herdr ds w now ms s) = sw_targets w"
  "ps_connection (rt_snapshot (commit_herdr ds w now ms s)) =
     (if ds = [] then ConnOffline else if sw_connected w = length ds then ConnConnected
      else if 0 < sw_connected w then ConnDegraded else ConnReconnecting)"
  by (simp_all add: commit_herdr_def Let_def split_beta bump_def on_snapshot_def)

lemma swept_all_connected:
  assumes "swept ds w"
  shows "sw_connected w = length ds \<longleftrightarrow> list_all connected (sw_sessions w)"
    and "0 < sw_connected w \<longleftrightarrow> list_ex connected (sw_sessions w)"
proof -
  have len: "length ds = length (sw_sessions w)" using assms by (metis length_map swept_def)
  have c: "sw_connected w = length (filter connected (sw_sessions w))" using assms by (simp add: swept_def)
  show "sw_connected w = length ds \<longleftrightarrow> list_all connected (sw_sessions w)"
    unfolding c len by (metis filter_True length_filter_less list_all_iff nat_neq_iff)
  show "0 < sw_connected w \<longleftrightarrow> list_ex connected (sw_sessions w)"
    unfolding c by (auto simp: list_ex_iff filter_empty_conv)
qed

text \<open>C17 A refresh from the Herdr sessions shows each running session once, in the order of discovery,
  numbers the cards from zero through all sessions, attributes every card to a running session, and
  keeps a target only for a card of a session that is connected. The portal is connected when all
  sessions are, degraded when some are, reconnecting when none is, offline when none runs; and the
  order can be changed from the portal only when all are connected.\<close>

theorem sweep_shows_every_session:
  assumes "sweep_sessions env epoch previous ds x = (w, y)"
  shows "map sv_name (ps_sessions (rt_snapshot (commit_herdr ds w now ms s))) = map sd_name ds \<and>
    map av_source_order (sw_agents w) = [0 ..< length (sw_agents w)] \<and>
    (\<forall>a \<in> set (sw_agents w). av_session a \<in> sd_name ` set ds) \<and>
    (\<forall>(i, t) \<in> set (rt_targets (commit_herdr ds w now ms s)).
       \<exists>v \<in> set (ps_sessions (rt_snapshot (commit_herdr ds w now ms s))).
         sv_state v = SessConnected \<and> sv_name v = target_session t) \<and>
    ps_connection (rt_snapshot (commit_herdr ds w now ms s)) =
      (if ds = [] then ConnOffline
       else if list_all (\<lambda>v. sv_state v = SessConnected) (sw_sessions w) then ConnConnected
       else if list_ex (\<lambda>v. sv_state v = SessConnected) (sw_sessions w) then ConnDegraded
       else ConnReconnecting) \<and>
    (os_available (ps_agent_order (rt_snapshot (commit_herdr ds w now ms s))) \<longrightarrow>
       ds \<noteq> [] \<and> list_all (\<lambda>v. sv_state v = SessConnected) (sw_sessions w))"
proof -
  have sw: "swept ds w" by (rule swept_sessions [OF assms])
  have c: "connected = (\<lambda>v. sv_state v = SessConnected)" by (rule ext) (simp add: connected_def)
  have len: "sw_source_offset w = length (sw_agents w)"
    using sw unfolding swept_def by (metis length_map length_upt minus_nat.diff_0)
  have order: "os_available (agreed_order ds w) \<Longrightarrow> ds \<noteq> [] \<and> sw_connected w = length ds"
    by (auto simp: agreed_order_def default_order_def split: if_splits)
  note all = swept_all_connected [OF sw, unfolded c]
  show ?thesis
    unfolding commit_herdr_roster all
    using sw order unfolding swept_def c len all by blast
qed

lemma sweep_shows_every_session_witness:
  "map sv_name (ps_sessions (rt_snapshot (dm_state roster_daemon))) = [''default''] \<and>
   length (sw_agents roster_sweep) = 1 \<and> map av_source_order (sw_agents roster_sweep) = [0]"
proof -
  have run: "sweep_sessions roster_env ''e'' [] [example_descriptor] ([], 0) =
      (roster_sweep, snd (sweep_sessions roster_env ''e'' [] [example_descriptor] ([], 0)))"
    by (simp add: roster_sweep_def)
  have "rt_backend (dm_state example_daemon) = Herdr" by (simp add: example_daemon_def initial_state_def)
  then have d: "dm_state roster_daemon = commit_herdr [example_descriptor] roster_sweep 0 0 (dm_state example_daemon)"
    unfolding roster_daemon_def by (rule commit_if_state)
  have "length (sw_agents roster_sweep) = 1" by code_simp
  moreover have "sd_name example_descriptor = ''default''" by (simp add: example_descriptor_def)
  ultimately show ?thesis
    using sweep_shows_every_session [OF run, of 0 0 "dm_state example_daemon"] unfolding d [symmetric] by simp
qed

end
