(* ===== verification/Session.thy ===== *)
theory Session
  imports Daemon "HOL-Library.Sublist"
begin

text \<open>
  A client's connection (\<open>handle_client\<close> of \<open>runtime.rs\<close>) among the other tasks of the daemon, as a
  step relation on the daemon and the connection: commands are read and processed one by one, their
  results pass a channel of one place to the writer, which also sends the published snapshot on every
  change and heartbeat; when both halves have ended, a recording the client started is cancelled.
\<close>

section \<open>The answer to a command\<close>

definition answer_id :: "(string \<Rightarrow> portal_command result) \<Rightarrow> string \<Rightarrow> string" where
  "answer_id parse line = (case parse line of Inl _ \<Rightarrow> [] | Inr command \<Rightarrow> pc_request_id command)"

text \<open>The codes of \<open>docs/protocol.md\<close>, and the form of an answer.\<close>

definition result_codes :: "string list" where
  "result_codes = [''invalid_command'', ''stale_snapshot'', ''capability_expired'', ''agent_state_changed'',
     ''unsupported_protocol'', ''session_disconnected'', ''target_unavailable'', ''voice_unavailable'',
     ''voice_busy'', ''voice_not_owned'', ''command_error'']"

definition proper_answer :: "string \<Rightarrow> action_result \<Rightarrow> bool" where
  "proper_answer request_id r \<longleftrightarrow>
     ar_schema_version r = SCHEMA_VERSION \<and> ar_request_id r = request_id \<and>
     (if ar_ok r then ar_code r = ''ok'' else ar_code r \<in> set result_codes)"

lemma proper_action_ok [simp]: "proper_answer i (action_ok i m)"
  by (simp add: proper_answer_def action_ok_def)

lemma proper_action_error [simp]: "proper_answer i (action_error i c m) \<longleftrightarrow> c \<in> set result_codes"
  by (simp add: proper_answer_def action_error_def)

lemma proper_voice_error [simp]: "proper_answer i (voice_error_result i e)"
  by (simp add: voice_error_result_def result_codes_def split: voice_action_error.split)

lemma proper_herdr_error [simp]: "proper_answer i (herdr_error i m)"
  by (simp add: herdr_error_def Let_def result_codes_def)

lemma proper_resolve:
  "resolve_agent_action command s = Inl r \<Longrightarrow> proper_answer (pc_request_id command) r"
  by (auto simp: resolve_agent_action_def Let_def result_codes_def split: if_splits option.splits)

lemma proper_agent_action: "proper_answer (pc_request_id command) (fst (process_agent_action env command d))"
proof -
  have "proper_answer (pc_request_id command) (fst (process_herdr_action env command i t d))" for i t
    by (auto simp: process_herdr_action_def Let_def result_codes_def split: prod.splits sum.splits)
  moreover have "proper_answer (pc_request_id command) (process_t3_open env command t)" for t
    by (auto simp: process_t3_open_def Let_def result_codes_def split: option.splits sum.splits)
  ultimately show ?thesis
    using proper_resolve [of command "dm_state d"]
    by (auto simp: process_agent_action_def split: sum.splits agent_target.splits)
qed

lemma proper_order: "proper_answer (pc_request_id command) (fst (process_agent_order_command env command d))"
  by (auto simp: process_agent_order_command_def Let_def result_codes_def
      split: prod.splits order_outcome.splits)

lemma proper_command:
  assumes "process_command env line client_id d = Some (r, d')"
  shows "proper_answer (answer_id (de_parse_command env) line) r"
proof (cases "de_parse_command env line")
  case (Inr command)
  have "proper_answer (pc_request_id command) (fst (process_restore_focus env command d))"
    "proper_answer (pc_request_id command) (fst (process_voice_command env command client_id d))"
    "proper_answer (pc_request_id command) (fst (process_backend_command env command d))"
    by (auto simp: process_restore_focus_def process_voice_command_def process_backend_command_def Let_def
        result_codes_def split: prod.splits sum.splits)
  moreover have "process_desktop_command env command d = Some (r, d') \<Longrightarrow>
      proper_answer (pc_request_id command) r"
    by (auto simp: process_desktop_command_def Let_def result_codes_def
        split: option.splits sum.splits desktop_app_outcome.splits)
  ultimately show ?thesis
    using assms Inr proper_agent_action [of command env d] proper_order [of command env d]
    by (auto simp: process_command_def answer_id_def Let_def result_codes_def split: sum.splits if_splits)
qed (use assms in \<open>auto simp: process_command_def answer_id_def result_codes_def\<close>)

lemma process_command_total:
  assumes "clock_advances (de_hypr env)" and "de_poll_fuel env = 121"
  shows "process_command env line client_id d \<noteq> None"
proof -
  have "(focus_or_launch 121 (de_hypr env) app st = None) = False" for app st
    using focus_or_launch_total [OF assms(1)] by simp
  then have "process_desktop_command env command d \<noteq> None" for command
    by (simp add: process_desktop_command_def Let_def assms(2) del: not_None_eq split: option.split prod.split)
  then show ?thesis by (auto simp: process_command_def Let_def split: sum.split)
qed


section \<open>Connections\<close>

text \<open>\<open>cn_pending\<close> is the result the reading half waits to enqueue, \<open>cn_queue\<close> the channel between the
  halves, \<open>cn_sent\<close> what the writing half has written. \<open>cn_failed\<close> records that writing failed;
  \<open>cn_lines\<close> and \<open>cn_answers\<close> record the lines processed and their results.\<close>

record connection =
  cn_id :: string
  cn_pending :: "action_result option"
  cn_queue :: "action_result list"
  cn_sent :: "server_message list"
  cn_reading :: bool
  cn_writing :: bool
  cn_failed :: bool
  cn_closed :: bool
  cn_lines :: "string list"
  cn_answers :: "action_result list"

text \<open>A connection starts by sending the snapshot last published.\<close>

definition open_connection :: "string \<Rightarrow> 's daemon \<Rightarrow> connection" where
  "open_connection client_id d =
     \<lparr>cn_id = client_id, cn_pending = None, cn_queue = [], cn_sent = [Snapshot (dm_published d)],
      cn_reading = True, cn_writing = True, cn_failed = False, cn_closed = False, cn_lines = [],
      cn_answers = []\<rparr>"

text \<open>What the daemon does for others: its own passes, and the commands and ends of other clients,
  whose identifiers are fresh UUIDs.\<close>

inductive other_step :: "string \<Rightarrow> 's daemon \<Rightarrow> 's daemon \<Rightarrow> bool" for client_id where
  own: "pass d d' \<Longrightarrow> other_step client_id d d'"
| command: "process_command env line other d = Some (r, d') \<Longrightarrow> other \<noteq> client_id \<Longrightarrow>
    other_step client_id d d'"
| disconnect: "other \<noteq> client_id \<Longrightarrow>
    other_step client_id d (cancel_voice_for_disconnected_client env other d)"

inductive connection_step ::
  "(string \<Rightarrow> portal_command result) \<Rightarrow> 's daemon \<times> connection \<Rightarrow> 's daemon \<times> connection \<Rightarrow> bool"
  for parse where
  serve: "cn_reading c \<Longrightarrow> cn_pending c = None \<Longrightarrow> de_parse_command env = parse \<Longrightarrow>
    process_command env line (cn_id c) d = Some (r, d') \<Longrightarrow>
    connection_step parse (d, c) (d', c\<lparr>cn_pending := Some r, cn_lines := cn_lines c @ [line],
      cn_answers := cn_answers c @ [r]\<rparr>)"
| enqueue: "cn_pending c = Some r \<Longrightarrow> cn_writing c \<Longrightarrow> cn_queue c = [] \<Longrightarrow>
    connection_step parse (d, c) (d, c\<lparr>cn_pending := None, cn_queue := [r]\<rparr>)"
| receiver_gone: "cn_pending c = Some r \<Longrightarrow> \<not> cn_writing c \<Longrightarrow>
    connection_step parse (d, c) (d, c\<lparr>cn_pending := None, cn_reading := False\<rparr>)"
| end_of_input: "cn_reading c \<Longrightarrow> cn_pending c = None \<Longrightarrow>
    connection_step parse (d, c) (d, c\<lparr>cn_reading := False\<rparr>)"
| send_snapshot: "cn_writing c \<Longrightarrow>
    connection_step parse (d, c) (d, c\<lparr>cn_sent := cn_sent c @ [Snapshot (dm_published d)]\<rparr>)"
| send_result: "cn_writing c \<Longrightarrow> cn_queue c = r # rest \<Longrightarrow>
    connection_step parse (d, c) (d, c\<lparr>cn_sent := cn_sent c @ [ActionResult r], cn_queue := rest\<rparr>)"
| write_error: "cn_writing c \<Longrightarrow>
    connection_step parse (d, c) (d, c\<lparr>cn_writing := False, cn_failed := True, cn_queue := []\<rparr>)"
| drained: "cn_writing c \<Longrightarrow> \<not> cn_reading c \<Longrightarrow> cn_queue c = [] \<Longrightarrow>
    connection_step parse (d, c) (d, c\<lparr>cn_writing := False\<rparr>)"
| close: "\<not> cn_reading c \<Longrightarrow> \<not> cn_writing c \<Longrightarrow> \<not> cn_closed c \<Longrightarrow>
    connection_step parse (d, c) (cancel_voice_for_disconnected_client env (cn_id c) d, c\<lparr>cn_closed := True\<rparr>)"

text \<open>A client's run: the steps of its own connection, and whatever else goes on.\<close>

inductive client_step ::
  "(string \<Rightarrow> portal_command result) \<Rightarrow> 's daemon \<times> connection \<Rightarrow> 's daemon \<times> connection \<Rightarrow> bool"
  for parse where
  connection: "connection_step parse x y \<Longrightarrow> client_step parse x y"
| others: "other_step (cn_id c) d d' \<Longrightarrow> client_step parse (d, c) (d', c)"

fun sent_results :: "server_message list \<Rightarrow> action_result list" where
  "sent_results [] = []"
| "sent_results (Snapshot _ # ms) = sent_results ms"
| "sent_results (ActionResult r # ms) = r # sent_results ms"
| "sent_results (Notice _ _ _ _ # ms) = sent_results ms"

lemma sent_results_append [simp]: "sent_results (xs @ ys) = sent_results xs @ sent_results ys"
  by (induction xs rule: sent_results.induct) simp_all

section \<open>The invariant of a connection\<close>

definition waiting :: "connection \<Rightarrow> action_result list" where
  "waiting c = cn_queue c @ (case cn_pending c of Some r \<Rightarrow> [r] | None \<Rightarrow> [])"

definition connection_ok :: "(string \<Rightarrow> portal_command result) \<Rightarrow> connection \<Rightarrow> bool" where
  "connection_ok parse c \<longleftrightarrow>
     list_all2 (\<lambda>line r. proper_answer (answer_id parse line) r) (cn_lines c) (cn_answers c) \<and>
     prefix (sent_results (cn_sent c)) (cn_answers c) \<and>
     (\<not> cn_failed c \<longrightarrow> sent_results (cn_sent c) @ waiting c = cn_answers c) \<and>
     (cn_failed c \<longrightarrow> \<not> cn_writing c) \<and> length (cn_queue c) \<le> 1 \<and>
     (\<not> cn_reading c \<longrightarrow> cn_pending c = None) \<and> (\<not> cn_writing c \<longrightarrow> cn_queue c = []) \<and>
     (\<not> cn_writing c \<longrightarrow> cn_failed c \<or> \<not> cn_reading c) \<and>
     (cn_closed c \<longrightarrow> \<not> cn_reading c \<and> \<not> cn_writing c) \<and>
     (\<exists>p ms. cn_sent c = Snapshot p # ms)"

lemma connection_ok_own:
  "connection_step parse x y \<Longrightarrow> connection_ok parse (snd x) \<Longrightarrow> connection_ok parse (snd y)"
proof (induction rule: connection_step.induct)
  case (serve c env line d r d')
  have "proper_answer (answer_id parse line) r"
    using proper_command [OF serve.hyps(4)] serve.hyps(3) by simp
  with serve show ?case
    by (auto simp: connection_ok_def waiting_def list_all2_appendI)
next
  case (send_result c r rest d)
  then have rest: "rest = []" "cn_queue c = [r]" and f: "\<not> cn_failed c"
    by (auto simp: connection_ok_def)
  with send_result have "cn_answers c = sent_results (cn_sent c) @ r # (case cn_pending c of Some q \<Rightarrow> [q] | None \<Rightarrow> [])"
    by (simp add: connection_ok_def waiting_def)
  then have "prefix (sent_results (cn_sent c) @ [r]) (cn_answers c)" by (simp add: prefix_def)
  with send_result rest f show ?case by (auto simp: connection_ok_def waiting_def)
qed (auto simp: connection_ok_def waiting_def)

lemma connection_ok_step:
  "client_step parse x y \<Longrightarrow> connection_ok parse (snd x) \<Longrightarrow> connection_ok parse (snd y)"
  by (induction rule: client_step.induct) (auto dest: connection_ok_own)

lemma connection_ok_steps:
  "(client_step parse)\<^sup>*\<^sup>* x y \<Longrightarrow> connection_ok parse (snd x) \<Longrightarrow> connection_ok parse (snd y)"
  by (induction rule: rtranclp_induct) (auto dest: connection_ok_step)

lemma connection_ok_open [simp]: "connection_ok parse (open_connection i d)"
  by (simp add: connection_ok_def open_connection_def waiting_def)


section \<open>The owner of a recording\<close>

definition owner :: "'s daemon \<Rightarrow> string option" where
  "owner d = rt_voice_client_owner (dm_state d)"

lemma owner_of_state:
  "rt_voice_client_owner (dm_state d') = rt_voice_client_owner (dm_state d) \<Longrightarrow> owner d' = owner d"
  by (simp add: owner_def)

lemma owner_commit [simp]:
  "rt_voice_client_owner (commit_t3code o1 now ms s) = rt_voice_client_owner s"
  "rt_voice_client_owner (commit_herdr ds w now ms s) = rt_voice_client_owner s"
  "rt_voice_client_owner (commit_discovery_failed ms s) = rt_voice_client_owner s"
  "rt_voice_client_owner (commit_backend mode ms s) = rt_voice_client_owner s"
  "rt_voice_client_owner (commit_order om ms s) = rt_voice_client_owner s"
  "rt_voice_client_owner (commit_order_unknown ms s) = rt_voice_client_owner s"
  "rt_voice_client_owner (on_snapshot f s) = rt_voice_client_owner s"
  "rt_voice_client_owner (bump ms s) = rt_voice_client_owner s"
  by (simp_all add: commit_t3code_def commit_herdr_def commit_discovery_failed_def commit_backend_def
      commit_order_def commit_order_unknown_def Let_def split_beta bump_def on_snapshot_def)

lemma owner_frame [simp]:
  "owner (commit_if b env f d) = (if rt_backend (dm_state d) = b then rt_voice_client_owner (f (dm_state d)) else owner d)"
  "owner (publish env d) = owner d" "owner (try_invalidate n d) = owner d"
  "owner (invalidate_all xs d) = owner d" "owner (persist_backend env d) = owner d"
  "owner (on_state f d) = rt_voice_client_owner (f (dm_state d))"
  "owner (d\<lparr>dm_servers := x\<rparr>) = owner d" "owner (d\<lparr>dm_subscriptions := y\<rparr>) = owner d"
  "owner (d\<lparr>dm_desktop := w\<rparr>) = owner d"
  by (simp_all add: owner_def commit_if_def)

lemma owner_acknowledge [simp]: "owner (acknowledge_review_ready env i d) = owner d"
  by (auto simp: acknowledge_review_ready_def commit_acknowledge_def owner_def split: option.splits if_splits)

lemma owner_refresh_agents: "owner (refresh_agents env joined d) = owner d"
  by (simp add: refresh_agents_def refresh_herdr_def refresh_t3code_def Let_def owner_def commit_if_def
      split: agent_backend.split prod.split sum.split)

lemma owner_agent_loop: "owner (agent_loop_event env sequence_joined joined event d) = owner d"
proof -
  have "owner (d\<lparr>dm_invalidations := []\<rparr>) = owner d" by (simp add: owner_def)
  then show ?thesis by (simp add: agent_loop_event_def owner_refresh_agents split: agent_event.split)
qed

lemma owner_pass: "pass d d' \<Longrightarrow> owner d' = owner d"
  by (induction rule: pass.induct)
    (simp_all add: owner_agent_loop refresh_voice_def refresh_health_def refresh_micro_def refresh_usage_def
      Let_def split: option.split, simp_all add: owner_def)

lemma owner_command:
  assumes "process_command env line other d = Some (r, d')"
  shows "owner d' = owner d \<or> owner d' = None \<or> owner d' = Some other"
proof (cases "\<exists>command. de_parse_command env line = Inr command \<and> validate_command command = Inr ()")
  case False
  with assms show ?thesis by (auto simp: process_command_def split: sum.splits)
next
  case True
  then obtain command where c: "de_parse_command env line = Inr command" "validate_command command = Inr ()"
    by blast
  have "owner (snd (process_restore_focus env command d)) = owner d"
    by (simp add: process_restore_focus_def split: prod.split sum.split)
  moreover have "process_desktop_command env command d = Some (r, d') \<Longrightarrow> owner d' = owner d"
    by (auto simp: process_desktop_command_def Let_def split: option.splits)
  moreover have "owner (snd (process_agent_order_command env command d)) = owner d"
    by (auto simp: process_agent_order_command_def Let_def owner_def split: prod.splits order_outcome.splits)
  moreover have "owner (snd (process_backend_command env command d)) = owner d"
    by (auto simp: process_backend_command_def Let_def owner_def)
  moreover have "owner (snd (process_agent_action env command d)) = owner d"
    by (auto simp: process_agent_action_def process_herdr_action_def Let_def
        split: sum.splits agent_target.splits prod.splits)
  moreover have "owner (snd (process_voice_command env command other d)) \<in> {owner d, None, Some other}"
    by (auto simp: process_voice_command_def commit_voice_def owner_def split: prod.splits sum.splits)
  ultimately show ?thesis
    using assms c by (auto simp: process_command_def Let_def split: if_splits)
qed

lemma owner_disconnect: "owner (cancel_voice_for_disconnected_client env other d) =
    (if owner d = Some other then None else owner d)"
  by (auto simp: cancel_voice_for_disconnected_client_def commit_voice_def owner_def
      split: prod.split sum.split)

section \<open>Properties\<close>

text \<open>C13 A client gets one answer to each of its commands, in the order it sent them, whatever else goes
  on in the daemon: every line processed has one result, under the request id of that line and with
  a code of the protocol; the results sent are the first of these; while nothing has failed the
  others (at most two) are waiting; when the connection ends without a write error all are sent;
  and the first message of all is a snapshot.\<close>

theorem connection_answers_in_order:
  assumes "(client_step parse)\<^sup>*\<^sup>* (d0, open_connection i d0) (d, c)"
  shows "list_all2 (\<lambda>line r. proper_answer (answer_id parse line) r) (cn_lines c) (cn_answers c) \<and>
    prefix (sent_results (cn_sent c)) (cn_answers c) \<and>
    (\<not> cn_failed c \<longrightarrow> length (cn_answers c) \<le> length (sent_results (cn_sent c)) + 2) \<and>
    (\<not> cn_failed c \<and> \<not> cn_writing c \<longrightarrow> sent_results (cn_sent c) = cn_answers c) \<and>
    (\<exists>ms. cn_sent c = Snapshot (dm_published d0) # ms)"
proof -
  have ok: "connection_ok parse c" using connection_ok_steps [OF assms] by simp
  have "\<exists>ms. cn_sent (snd y) = Snapshot (dm_published d0) # ms"
    if "(client_step parse)\<^sup>*\<^sup>* (d0, open_connection i d0) y" for y
    using that
    by (induction rule: rtranclp_induct) (auto simp: open_connection_def elim!: client_step.cases connection_step.cases)
  from this [OF assms] have "\<exists>ms. cn_sent c = Snapshot (dm_published d0) # ms" by simp
  moreover have "length (waiting c) \<le> 2"
    using ok by (auto simp: connection_ok_def waiting_def split: option.split)
  then have "\<not> cn_failed c \<longrightarrow> length (cn_answers c) \<le> length (sent_results (cn_sent c)) + 2"
    using ok unfolding connection_ok_def by (metis add_left_mono length_append)
  moreover have "\<not> cn_failed c \<and> \<not> cn_writing c \<longrightarrow> sent_results (cn_sent c) = cn_answers c"
    using ok by (auto simp: connection_ok_def waiting_def)
  ultimately show ?thesis using ok unfolding connection_ok_def by blast
qed

text \<open>A run: the client sends a line that is not a command, reads the answer and leaves.\<close>

definition example_parse :: "string \<Rightarrow> portal_command result" where
  "example_parse line = Inl []"

definition example_answer :: action_result where
  "example_answer = action_error [] ''invalid_command'' ''command is not valid JSON''"

definition finished_connection :: connection where
  "finished_connection = (open_connection ''c'' example_daemon)\<lparr>
     cn_sent := [Snapshot (dm_published example_daemon), ActionResult example_answer],
     cn_reading := False, cn_writing := False, cn_closed := True, cn_lines := [''x''],
     cn_answers := [example_answer]\<rparr>"

lemma finished_connection_run:
  "(client_step example_parse)\<^sup>*\<^sup>* (example_daemon, open_connection ''c'' example_daemon)
     (example_daemon, finished_connection)"
proof -
  let ?step = "client_step example_parse" and ?d = example_daemon
  let ?env = "(example_daemon_env (example_command Open None None 0))\<lparr>de_parse_command := example_parse\<rparr>"
  define c0 where "c0 = open_connection ''c'' ?d"
  define c1 where "c1 = c0\<lparr>cn_pending := Some example_answer, cn_lines := cn_lines c0 @ [''x''],
      cn_answers := cn_answers c0 @ [example_answer]\<rparr>"
  define c2 where "c2 = c1\<lparr>cn_pending := None, cn_queue := [example_answer]\<rparr>"
  define c3 where "c3 = c2\<lparr>cn_sent := cn_sent c2 @ [ActionResult example_answer], cn_queue := []\<rparr>"
  define c4 where "c4 = c3\<lparr>cn_reading := False\<rparr>"
  define c5 where "c5 = c4\<lparr>cn_writing := False\<rparr>"
  note defs = c0_def c1_def c2_def c3_def c4_def c5_def open_connection_def
  have "process_command ?env ''x'' (cn_id c0) ?d = Some (example_answer, ?d)"
    by (simp add: process_command_def example_parse_def example_answer_def)
  then have s1: "?step (?d, c0) (?d, c1)"
    unfolding c1_def by (intro client_step.connection connection_step.serve) (simp_all add: defs)
  have s2: "?step (?d, c1) (?d, c2)"
    unfolding c2_def by (rule client_step.connection, rule connection_step.enqueue) (simp_all add: defs)
  have s3: "?step (?d, c2) (?d, c3)"
    unfolding c3_def by (rule client_step.connection, rule connection_step.send_result) (simp_all add: defs)
  have s4: "?step (?d, c3) (?d, c4)"
    unfolding c4_def by (rule client_step.connection, rule connection_step.end_of_input) (simp_all add: defs)
  have s5: "?step (?d, c4) (?d, c5)"
    unfolding c5_def by (rule client_step.connection, rule connection_step.drained) (simp_all add: defs)
  have "?step (?d, c5) (cancel_voice_for_disconnected_client ?env (cn_id c5) ?d, c5\<lparr>cn_closed := True\<rparr>)"
    by (rule client_step.connection, rule connection_step.close) (simp_all add: defs)
  moreover have "cancel_voice_for_disconnected_client ?env (cn_id c5) ?d = ?d"
    by (simp add: cancel_voice_for_disconnected_client_def example_daemon_def initial_state_def)
  moreover have "c5\<lparr>cn_closed := True\<rparr> = finished_connection"
    by (simp add: defs finished_connection_def)
  ultimately have s7: "?step (?d, c5) (?d, finished_connection)" by simp
  show ?thesis
    unfolding c0_def [symmetric]
    using s1 s2 s3 s4 s5 s7 by (meson converse_rtranclp_into_rtranclp rtranclp.rtrancl_refl)
qed

lemma connection_answers_in_order_witness:
  "(client_step example_parse)\<^sup>*\<^sup>* (example_daemon, open_connection ''c'' example_daemon)
     (example_daemon, finished_connection) \<and>
   sent_results (cn_sent finished_connection) = cn_answers finished_connection"
  using connection_answers_in_order [OF finished_connection_run] finished_connection_run
  by (simp add: finished_connection_def open_connection_def)

text \<open>C12 Every line a client sends is answered: processing a command returns, when the clock of a launch
  advances by the poll interval (every other operation is bounded), whatever state the daemon, the
  servers and the desktop are in; and the answer carries the schema version, the request id of the
  line, and \<open>ok\<close> or one of the protocol's failure codes.\<close>

theorem every_command_answered:
  assumes "clock_advances (de_hypr env)" and "de_poll_fuel env = 121"
  shows "\<exists>r d'. process_command env line client_id d = Some (r, d') \<and>
    proper_answer (answer_id (de_parse_command env) line) r"
proof -
  obtain r d' where "process_command env line client_id d = Some (r, d')"
    using process_command_total [OF assms, of line client_id d] by auto
  with proper_command [OF this] show ?thesis by blast
qed

lemma every_command_answered_witness:
  "\<exists>r d'. process_command (example_daemon_env (example_command ChatgptDesktop None None 0)) [] ''c'' example_daemon =
     Some (r, d') \<and> ar_request_id r = ''r''"
proof -
  let ?env = "example_daemon_env (example_command ChatgptDesktop None None 0)"
  have "clock_advances (de_hypr ?env)" "de_poll_fuel ?env = 121"
    by (simp_all add: clock_advances_def example_daemon_env_def example_env_def launch_poll_interval_def)
  from every_command_answered [OF this, of "[]" "''c''" example_daemon] show ?thesis
    by (auto simp: proper_answer_def answer_id_def example_daemon_env_def example_command_def)
qed

end
