(* ===== verification/Refusal.thy ===== *)
theory Refusal
  imports Session
begin

text \<open>
  What a refused command leaves behind. A failure code of the protocol tells the client whether the
  command had any effect: with the codes of the guards, the daemon's state, what it has published and
  persisted, the recording and the desktop are as they were.
\<close>

definition untouched :: "'s daemon \<Rightarrow> 's daemon \<Rightarrow> bool" where
  "untouched d d' \<longleftrightarrow> dm_state d' = dm_state d \<and> dm_published d' = dm_published d \<and>
     dm_persisted d' = dm_persisted d \<and> dm_voice d' = dm_voice d \<and> dm_desktop d' = dm_desktop d"

lemma untouched_refl [simp]: "untouched d d" "untouched d (d\<lparr>dm_servers := x\<rparr>)"
  by (simp_all add: untouched_def)

lemma untouched_invalidate [simp]:
  "untouched d (try_invalidate n e) = untouched d e" "untouched d (invalidate_all xs e) = untouched d e"
proof -
  show one: "untouched d (try_invalidate n e) = untouched d e" for n e
    by (simp add: untouched_def try_invalidate_def)
  show "untouched d (invalidate_all xs e) = untouched d e"
    unfolding invalidate_all_def by (induction xs arbitrary: e) (simp_all add: one)
qed

text \<open>The codes that guards answer with, and those of them that come before any server is asked.\<close>

definition refusal_codes :: "string set" where
  "refusal_codes = {''invalid_command'', ''stale_snapshot'', ''capability_expired'', ''session_disconnected'',
     ''agent_state_changed'', ''unsupported_protocol''}"

lemma action_ok_code [simp]: "ar_code (action_ok i m) = ''ok''"
  by (simp add: action_ok_def)

lemma action_error_code [simp]: "ar_code (action_error i c m) = c"
  by (simp add: action_error_def)

lemma ok_not_refusal [simp]: "''ok'' \<notin> refusal_codes" "''target_unavailable'' \<notin> refusal_codes"
  by (simp_all add: refusal_codes_def)

lemma voice_not_refusal [simp]: "ar_code (voice_error_result i e) \<notin> refusal_codes"
  by (simp add: voice_error_result_def refusal_codes_def split: voice_action_error.split)

lemma herdr_error_asks: "ar_code (herdr_error i m) \<noteq> ''invalid_command''"
  "ar_code (herdr_error i m) \<noteq> ''capability_expired''"
  by (simp_all add: herdr_error_def Let_def)

definition refused_cleanly :: "'s daemon \<Rightarrow> action_result \<times> 's daemon \<Rightarrow> bool" where
  "refused_cleanly d = (\<lambda>(r, d'). ar_code r \<in> refusal_codes \<longrightarrow> untouched d d' \<and>
     (ar_code r \<in> {''invalid_command'', ''capability_expired''} \<longrightarrow> d' = d))"

lemma refused_unchanged [simp]: "refused_cleanly d (r, d)"
  by (simp add: refused_cleanly_def)

lemma refused_other [simp]: "ar_code r \<notin> refusal_codes \<Longrightarrow> refused_cleanly d (r, d')"
  by (simp add: refused_cleanly_def)

lemma refused_agent_action: "refused_cleanly d (process_agent_action env command d)"
proof -
  have "refused_cleanly d (process_herdr_action env command i t d)" for i t
    by (auto simp: process_herdr_action_def Let_def refused_cleanly_def herdr_error_asks
        split: prod.splits sum.splits)
  then show ?thesis
    by (simp add: process_agent_action_def split: sum.split prod.split agent_target.split)
qed

lemma refused_order: "refused_cleanly d (process_agent_order_command env command d)"
  by (auto simp: process_agent_order_command_def Let_def refused_cleanly_def split: prod.splits order_outcome.splits)

lemma refused_command:
  assumes "process_command env line client_id d = Some x"
  shows "refused_cleanly d x"
proof (cases "\<exists>command. de_parse_command env line = Inr command \<and> validate_command command = Inr ()")
  case False
  with assms show ?thesis by (auto simp: process_command_def split: sum.splits)
next
  case True
  then obtain command where c: "de_parse_command env line = Inr command" "validate_command command = Inr ()"
    by blast
  have "refused_cleanly d (process_restore_focus env command d)"
    "refused_cleanly d (process_voice_command env command client_id d)"
    "refused_cleanly d (process_backend_command env command d)"
    by (auto simp: process_restore_focus_def process_voice_command_def process_backend_command_def Let_def
        split: prod.split sum.split)
  moreover have "process_desktop_command env command d = Some x \<Longrightarrow> refused_cleanly d x"
    by (auto simp: process_desktop_command_def Let_def split: option.splits sum.splits desktop_app_outcome.splits)
  ultimately show ?thesis
    using assms c refused_agent_action [of d env command] refused_order [of d env command]
    by (auto simp: process_command_def Let_def split: if_splits)
qed

section \<open>Properties\<close>

text \<open>C11 A command that a guard refuses has no effect. After \<open>invalid_command\<close> and \<open>capability_expired\<close>
  the daemon and the servers are as they were; after \<open>stale_snapshot\<close>, \<open>session_disconnected\<close>,
  \<open>agent_state_changed\<close> and \<open>unsupported_protocol\<close>, which may come after a server was asked, the
  daemon's state, what is published and persisted, the recording and the desktop are.\<close>

theorem refused_command_changes_nothing:
  assumes "process_command env line client_id d = Some (r, d')"
    and "ar_code r \<in> {''invalid_command'', ''stale_snapshot'', ''capability_expired'', ''session_disconnected'',
      ''agent_state_changed'', ''unsupported_protocol''}"
  shows "dm_state d' = dm_state d \<and> dm_published d' = dm_published d \<and> dm_persisted d' = dm_persisted d \<and>
    dm_voice d' = dm_voice d \<and> dm_desktop d' = dm_desktop d \<and>
    (ar_code r \<in> {''invalid_command'', ''capability_expired''} \<longrightarrow> d' = d)"
  using refused_command [OF assms(1)] assms(2)
  unfolding refused_cleanly_def refusal_codes_def [symmetric] untouched_def by simp

lemma refused_command_changes_nothing_witness:
  "let c = example_command Approve (Some ''a'') (Some ''other'') 0
   in \<exists>r. process_command (example_daemon_env c) [] ''x'' card_daemon = Some (r, card_daemon) \<and>
        ar_code r = ''capability_expired''"
proof -
  let ?c = "example_command Approve (Some ''a'') (Some ''other'') 0"
  let ?env = "example_daemon_env ?c"
  have "validate_command ?c = Inr ()"
    unfolding example_command_valid by (simp add: agent_action_def guarded_action_def)
  then have run: "process_command ?env [] ''x'' card_daemon = Some (process_agent_action ?env ?c card_daemon)"
    by (simp add: process_command_def example_daemon_env_def, simp add: example_command_def)
  have "rt_targets (dm_state card_daemon) = [(''a'', card_target)]" by (simp add: card_daemon_def)
  then have "resolve_agent_action ?c (dm_state card_daemon) = Inl (action_error ''r'' ''capability_expired''
      ''guarded action does not match the current agent capability'')"
    by (simp add: resolve_agent_action_def Let_def card_daemon_agents card_daemon_sequence card_id
        action_enabled_def command_capability_matches_def card_actions example_command_def)
  then obtain r where r: "process_agent_action ?env ?c card_daemon = (r, card_daemon)"
    "ar_code r = ''capability_expired''"
    by (simp add: process_agent_action_def)
  have "process_command ?env [] ''x'' card_daemon = Some (r, card_daemon)" using run r(1) by simp
  from this refused_command_changes_nothing [OF this] r(2) show ?thesis unfolding Let_def by blast
qed

end
