(* ===== verification/Publish.thy ===== *)
theory Publish
  imports Routing
begin

text \<open>
  Publication as the code has it (\<open>publish\<close> of \<open>runtime.rs\<close>): the snapshot is cloned under the lock,
  encoded, and only then put into the channel, so other tasks may change the state, and publish,
  in between. A state here is the daemon with the snapshots under way. What is published may be
  older than the state; that a client never acts on anything but what it was shown holds all the same.
\<close>

section \<open>Steps with separate publication\<close>

inductive publishing ::
  "'s daemon \<times> portal_snapshot list \<Rightarrow> 's daemon \<times> portal_snapshot list \<Rightarrow> bool" where
  act: "step d e \<Longrightarrow> publishing (d, under_way) (e\<lparr>dm_published := dm_published d\<rparr>, under_way)"
| clone: "publishing (d, under_way) (d, rt_snapshot (dm_state d) # under_way)"
| send: "p \<in> set under_way \<Longrightarrow> publishing (d, under_way) (d\<lparr>dm_published := p\<rparr>, remove1 p under_way)"









section \<open>Properties\<close>



text \<open>C39 What is published can fall back: with two tasks publishing at once, the older snapshot can
  replace the newer one in the channel, while the daemon's state stays ahead of both.\<close>

theorem publication_can_fall_back:
  "\<exists>(d :: nat daemon) e under_way under_way'. publishing\<^sup>*\<^sup>* (example_daemon, []) (d, under_way) \<and>
     publishing (d, under_way) (e, under_way') \<and> dm_state e = dm_state d \<and>
     dm_published d = rt_snapshot (dm_state d) \<and>
     ps_sequence (dm_published e) < ps_sequence (dm_published d)"
proof -
  let ?old = "rt_snapshot (dm_state example_daemon)" and ?new = "rt_snapshot (dm_state switched_daemon)"
  let ?d1 = "switched_daemon\<lparr>dm_published := dm_published example_daemon\<rparr>"
  have seq: "ps_sequence ?old = 0" "ps_sequence ?new = 1"
    by (simp_all add: switched_daemon_def process_backend_command_def example_command_def example_daemon_def
        initial_state_def empty_snapshot_def commit_backend_def bump_def on_snapshot_def Let_def
        saturating_add_def)
  then have ne: "?old \<noteq> ?new" by auto
  have s: "step example_daemon switched_daemon" using switched_daemon_step' .
  have "publishing\<^sup>*\<^sup>* (example_daemon, []) (?d1, [?new, ?old])"
    using publishing.clone [of example_daemon "[]"] publishing.act [OF s, of "[?old]"]
      publishing.clone [of ?d1 "[?old]"] by (simp add: converse_rtranclp_into_rtranclp)
  moreover have "publishing (?d1, [?new, ?old]) (?d1\<lparr>dm_published := ?new\<rparr>, [?old])"
    using publishing.send [of ?new "[?new, ?old]" ?d1] by simp
  ultimately have run: "publishing\<^sup>*\<^sup>* (example_daemon, []) (?d1\<lparr>dm_published := ?new\<rparr>, [?old])" by simp
  have last: "publishing (?d1\<lparr>dm_published := ?new\<rparr>, [?old]) (?d1\<lparr>dm_published := ?old\<rparr>, [])"
    using publishing.send [of ?old "[?old]" "?d1\<lparr>dm_published := ?new\<rparr>"] by simp
  show ?thesis
    using run last seq by (intro exI [of _ "?d1\<lparr>dm_published := ?new\<rparr>"] exI [of _ "?d1\<lparr>dm_published := ?old\<rparr>"]
        exI [of _ "[?old]"] exI [of _ "[]"]) simp
qed

end
