(* ===== verification/Service.thy ===== *)
theory Service
  imports Session
begin

text \<open>
  The whole service (\<open>run\<close> and \<open>handle_client\<close> of \<open>runtime.rs\<close>): the collectors' passes, the clients as
  they are accepted, each with its own connection, and the errors that end it. Every interleaving is
  a run of \<open>serving\<close>; for each client it is a run of \<open>client_step\<close>, for the daemon one of \<open>step\<close>.
\<close>

section \<open>The service\<close>

datatype collector = Auxiliary | Agents | UsageCards

definition collector_name :: "collector \<Rightarrow> string" where
  "collector_name c = (case c of Auxiliary \<Rightarrow> ''auxiliary'' | Agents \<Rightarrow> ''agent'' | UsageCards \<Rightarrow> ''usage'')"

text \<open>The error of \<open>run\<close> when a collector's task has ended: it never does unless it panics.\<close>

definition collector_error :: "collector \<Rightarrow> bool \<Rightarrow> string" where
  "collector_error c panicked =
     (if panicked then ''joining '' @ collector_name c @ '' state collector''
      else collector_name c @ '' state collector stopped unexpectedly'')"

record 's service =
  srv_daemon :: "'s daemon"
  srv_clients :: "connection list"
  srv_ended :: "string option"

definition new_service :: "'s daemon \<Rightarrow> 's service" where
  "new_service d = \<lparr>srv_daemon = d, srv_clients = [], srv_ended = None\<rparr>"

text \<open>A client's identifier is a fresh UUID. \<open>unwritable\<close> is a client that has gone before its first
  snapshot could be written.\<close>

inductive serving ::
  "(string \<Rightarrow> portal_command result) \<Rightarrow> 's service \<Rightarrow> 's service \<Rightarrow> bool" for parse where
  collect: "srv_ended x = None \<Longrightarrow> pass (srv_daemon x) d \<Longrightarrow> serving parse x (x\<lparr>srv_daemon := d\<rparr>)"
| accept: "srv_ended x = None \<Longrightarrow> i \<notin> cn_id ` set (srv_clients x) \<Longrightarrow>
    serving parse x (x\<lparr>srv_clients := srv_clients x @ [open_connection i (srv_daemon x)]\<rparr>)"
| unwritable: "srv_ended x = None \<Longrightarrow> i \<notin> cn_id ` set (srv_clients x) \<Longrightarrow>
    serving parse x (x\<lparr>srv_daemon := cancel_voice_for_disconnected_client env i (srv_daemon x)\<rparr>)"
| client: "srv_ended x = None \<Longrightarrow> n < length (srv_clients x) \<Longrightarrow>
    connection_step parse (srv_daemon x, srv_clients x ! n) (d, c) \<Longrightarrow>
    serving parse x (x\<lparr>srv_daemon := d, srv_clients := (srv_clients x)[n := c]\<rparr>)"
| accept_error: "srv_ended x = None \<Longrightarrow>
    serving parse x (x\<lparr>srv_ended := Some ''accepting portal client''\<rparr>)"
| collector_ended: "srv_ended x = None \<Longrightarrow>
    serving parse x (x\<lparr>srv_ended := Some (collector_error collector panicked)\<rparr>)"

section \<open>One connection's step, seen from outside\<close>

lemma connection_step_id: "connection_step parse x y \<Longrightarrow> cn_id (snd y) = cn_id (snd x)"
  by (induction rule: connection_step.induct) simp_all

lemma connection_step_daemon: "connection_step parse x y \<Longrightarrow> fst y = fst x \<or> step (fst x) (fst y)"
  by (induction rule: connection_step.induct) (auto intro: step.intros)

lemma connection_step_other:
  "connection_step parse x y \<Longrightarrow> cn_id (snd x) \<noteq> i \<Longrightarrow> fst y = fst x \<or> other_step i (fst x) (fst y)"
  by (induction rule: connection_step.induct) (auto intro: other_step.intros)

lemma connection_step_owner:
  "connection_step parse x y \<Longrightarrow> connection_ok parse (snd x) \<Longrightarrow>
     owner (fst y) = owner (fst x) \<and> cn_closed (snd y) = cn_closed (snd x) \<or>
     owner (fst y) = Some (cn_id (snd x)) \<and> \<not> cn_closed (snd y) \<or>
     owner (fst y) = None \<or> owner (fst y) = owner (fst x) \<and> owner (fst y) \<noteq> Some (cn_id (snd x))"
proof (induction rule: connection_step.induct)
  case (serve c env line d r d')
  then show ?case using owner_command [OF serve.hyps(4)] by (auto simp: connection_ok_def)
qed (auto simp: owner_disconnect)

section \<open>The invariant\<close>

definition client_run ::
  "(string \<Rightarrow> portal_command result) \<Rightarrow> 's daemon \<Rightarrow> 's daemon \<Rightarrow> connection \<Rightarrow> bool" where
  "client_run parse d0 d c \<longleftrightarrow>
     (\<exists>d1. step\<^sup>*\<^sup>* d0 d1 \<and> (client_step parse)\<^sup>*\<^sup>* (d1, open_connection (cn_id c) d1) (d, c))"

definition service_ok :: "(string \<Rightarrow> portal_command result) \<Rightarrow> 's daemon \<Rightarrow> 's service \<Rightarrow> bool" where
  "service_ok parse d0 x \<longleftrightarrow> step\<^sup>*\<^sup>* d0 (srv_daemon x) \<and> distinct (map cn_id (srv_clients x)) \<and>
     (\<forall>c \<in> set (srv_clients x). client_run parse d0 (srv_daemon x) c) \<and>
     (\<forall>i. owner (srv_daemon x) = Some i \<longrightarrow>
        (\<exists>c \<in> set (srv_clients x). cn_id c = i \<and> \<not> cn_closed c))"

lemma client_run_ok: "client_run parse d0 d c \<Longrightarrow> connection_ok parse c"
  unfolding client_run_def using connection_ok_steps by fastforce

lemma client_run_other: "client_run parse d0 d c \<Longrightarrow> other_step (cn_id c) d e \<Longrightarrow> client_run parse d0 e c"
  unfolding client_run_def by (meson client_step.others rtranclp.rtrancl_into_rtrancl)

lemma client_run_own:
  assumes "client_run parse d0 d c" "connection_step parse (d, c) (e, c')"
  shows "client_run parse d0 e c'"
proof -
  have "cn_id c' = cn_id c" using connection_step_id [OF assms(2)] by simp
  with assms show ?thesis
    unfolding client_run_def by (metis client_step.connection rtranclp.rtrancl_into_rtrancl)
qed

lemma client_run_open: "step\<^sup>*\<^sup>* d0 d \<Longrightarrow> client_run parse d0 d (open_connection i d)"
  unfolding client_run_def by (intro exI [of _ d]) (simp add: open_connection_def)

lemma owner_cancel_fresh:
  "owner d \<noteq> Some i \<Longrightarrow> owner (cancel_voice_for_disconnected_client env i d) = owner d"
  by (simp add: owner_disconnect)

lemma service_ok_daemon:
  assumes "service_ok parse d0 x" "step (srv_daemon x) d" "owner d = owner (srv_daemon x)"
    and "\<And>c. c \<in> set (srv_clients x) \<Longrightarrow> other_step (cn_id c) (srv_daemon x) d"
  shows "service_ok parse d0 (x\<lparr>srv_daemon := d\<rparr>)"
  using assms by (auto simp: service_ok_def intro: client_run_other)

lemma service_ok_client:
  assumes ok: "service_ok parse d0 x" and n: "n < length (srv_clients x)"
    and s: "connection_step parse (srv_daemon x, srv_clients x ! n) (d, c)"
  shows "service_ok parse d0 (x\<lparr>srv_daemon := d, srv_clients := (srv_clients x)[n := c]\<rparr>)"
proof -
  let ?d = "srv_daemon x" and ?cs = "srv_clients x"
  have id: "cn_id c = cn_id (?cs ! n)" using connection_step_id [OF s] by simp
  have mem: "?cs ! n \<in> set ?cs" using n by simp
  have run: "client_run parse d0 ?d (?cs ! n)" using ok mem by (simp add: service_ok_def)
  have dist: "distinct (map cn_id ?cs)" using ok by (simp add: service_ok_def)
  have "step\<^sup>*\<^sup>* d0 d"
    using ok connection_step_daemon [OF s] by (auto simp: service_ok_def)
  moreover have "map cn_id (?cs[n := c]) = map cn_id ?cs" using n id by (simp add: map_update list_update_same_conv)
  then have "distinct (map cn_id (?cs[n := c]))" using dist by (simp only:)
  moreover have "client_run parse d0 d e" if "e \<in> set (?cs[n := c])" for e
  proof (cases "e = c")
    case True
    then show ?thesis using client_run_own [OF run s] by simp
  next
    case False
    with that n obtain m where m: "m < length ?cs" "m \<noteq> n" "e = ?cs ! m"
      by (auto simp: in_set_conv_nth nth_list_update split: if_splits)
    then have "cn_id (?cs ! n) \<noteq> cn_id e"
      using dist n by (simp add: distinct_conv_nth)
    moreover have "client_run parse d0 ?d e" using ok m by (simp add: service_ok_def)
    ultimately show ?thesis using connection_step_other [OF s, of "cn_id e"] client_run_other by auto
  qed
  moreover have "\<exists>e \<in> set (?cs[n := c]). cn_id e = i \<and> \<not> cn_closed e" if o: "owner d = Some i" for i
  proof (cases "i = cn_id c \<and> \<not> cn_closed c")
    case True
    moreover have "c \<in> set (?cs[n := c])" using n by (rule set_update_memI)
    ultimately show ?thesis by blast
  next
    case False
    then have d: "owner ?d = Some i"
      and c: "cn_closed c = cn_closed (?cs ! n) \<or> i \<noteq> cn_id c"
      using connection_step_owner [OF s] client_run_ok [OF run] o id by auto
    then obtain e where e: "e \<in> set ?cs" "cn_id e = i" "\<not> cn_closed e" using ok by (auto simp: service_ok_def)
    then obtain m where m: "m < length ?cs" "e = ?cs ! m" by (auto simp: in_set_conv_nth)
    have "m \<noteq> n" using c False e m id by auto
    then show ?thesis using m e n by (metis length_list_update nth_list_update_neq nth_mem)
  qed
  ultimately show ?thesis by (simp add: service_ok_def)
qed

lemma service_ok_step: "serving parse x y \<Longrightarrow> service_ok parse d0 x \<Longrightarrow> service_ok parse d0 y"
proof (induction rule: serving.induct)
  case (collect x d)
  then show ?case
    by (intro service_ok_daemon) (auto intro: step.pass other_step.own simp: owner_pass)
next
  case (accept x i)
  then show ?case by (auto simp: service_ok_def client_run_open) (auto simp: open_connection_def)
next
  case (unwritable x i env)
  have "owner (srv_daemon x) \<noteq> Some i" using unwritable by (auto simp: service_ok_def)
  with unwritable show ?case
    by (intro service_ok_daemon) (auto intro: step.disconnect other_step.disconnect simp: owner_cancel_fresh)
next
  case (client x n d c)
  then show ?case by (blast intro: service_ok_client)
qed (simp_all add: service_ok_def)

lemma service_ok_steps: "(serving parse)\<^sup>*\<^sup>* x y \<Longrightarrow> service_ok parse d0 x \<Longrightarrow> service_ok parse d0 y"
  by (induction rule: rtranclp_induct) (auto dest: service_ok_step)

lemma service_ok_new: "owner d0 = None \<Longrightarrow> service_ok parse d0 (new_service d0)"
  by (simp add: service_ok_def new_service_def)

lemma new_daemon_no_owner: "new_daemon cfg epoch persisted voice servers = Inr d0 \<Longrightarrow> owner d0 = None"
  by (auto simp: new_daemon_def Let_def initial_state_def owner_def split: sum.splits)

section \<open>The end of a connection\<close>

text \<open>The \<open>n\<close>th connection, of the client \<open>i\<close>, has ended.\<close>

definition client_gone :: "nat \<Rightarrow> string \<Rightarrow> 's service \<Rightarrow> bool" where
  "client_gone n i x \<longleftrightarrow> n < length (srv_clients x) \<and> cn_id (srv_clients x ! n) = i \<and>
     cn_closed (srv_clients x ! n)"

lemma connection_step_stays_closed:
  "connection_step parse x y \<Longrightarrow> cn_closed (snd x) \<Longrightarrow> cn_closed (snd y)"
  by (induction rule: connection_step.induct) simp_all

lemma client_gone_step: "serving parse x y \<Longrightarrow> client_gone n i x \<Longrightarrow> client_gone n i y"
proof (induction rule: serving.induct)
  case (client x m d c)
  then show ?case
    using connection_step_id [OF client.hyps(3)] connection_step_stays_closed [OF client.hyps(3)]
    by (auto simp: client_gone_def nth_list_update)
qed (auto simp: client_gone_def nth_append)

lemma client_gone_steps: "(serving parse)\<^sup>*\<^sup>* x y \<Longrightarrow> client_gone n i x \<Longrightarrow> client_gone n i y"
  by (induction rule: rtranclp_induct) (auto dest: client_gone_step)

lemma client_gone_owner: "client_gone n i x \<Longrightarrow> service_ok parse d0 x \<Longrightarrow> owner (srv_daemon x) \<noteq> Some i"
  by (auto simp: client_gone_def service_ok_def distinct_conv_nth in_set_conv_nth) metis

lemma connection_step_closes:
  "connection_step parse x y \<Longrightarrow> \<not> cn_closed (snd x) \<Longrightarrow> cn_closed (snd y) \<Longrightarrow>
     \<exists>env. fst y = cancel_voice_for_disconnected_client env (cn_id (snd x)) (fst x)"
  by (induction rule: connection_step.induct) auto

lemma serving_closes:
  assumes "serving parse x y" "n < length (srv_clients x)" "\<not> cn_closed (srv_clients x ! n)"
    "cn_closed (srv_clients y ! n)"
  shows "\<exists>env. srv_daemon y = cancel_voice_for_disconnected_client env (cn_id (srv_clients x ! n)) (srv_daemon x) \<and>
    client_gone n (cn_id (srv_clients x ! n)) y"
  using assms
proof (induction rule: serving.induct)
  case (client x m d c)
  then have "m = n" by (auto simp: nth_list_update split: if_splits)
  with client connection_step_closes [OF client.hyps(3)] connection_step_id [OF client.hyps(3)]
  show ?case by (simp add: client_gone_def)
qed (auto simp: nth_append)

lemma finish_commands:
  "finish voxtype fs token act st w = (r, w') \<Longrightarrow> owns_marker token w \<Longrightarrow>
     vw_commands w' = vw_commands w @ [[''record'', act]]"
  by (auto simp: code_defs split: prod.splits sum.splits if_splits bool.splits)

lemma cancel_ends_recording:
  fixes d :: "'s daemon" and env :: "'s daemon_env"
  assumes "rt_voice_client_owner (dm_state d) = Some i" "owns_marker (voice_token d) (dm_voice d)"
  defines "e \<equiv> cancel_voice_for_disconnected_client env i d"
  shows "vw_commands (dm_voice e) = vw_commands (dm_voice d) @ [[''record'', ''cancel'']] \<and>
    rt_voice_client_owner (dm_state e) = None \<and>
    (vw_marker (dm_voice e) = NoMarker \<and>
       ps_voice (rt_snapshot (dm_state e)) = \<lparr>vs_state = VIdle, vs_owned = False\<rparr> \<and>
       \<not> rt_voice_error_latched (dm_state e) \<or>
     vw_marker (dm_voice e) = Marker (Some (voice_token d)) \<and>
       ps_voice (rt_snapshot (dm_state e)) = \<lparr>vs_state = VError, vs_owned = True\<rparr> \<and>
       rt_voice_error_latched (dm_state e))"
proof -
  obtain r w where p: "perform_voice (de_voxtype env) (de_marker_fs env) (voice_token d) VoiceCancel
      (dm_voice d) = (r, w)" by fastforce
  then have f: "finish (de_voxtype env) (de_marker_fs env) (voice_token d) ''cancel'' VIdle (dm_voice d) = (r, w)"
    by (simp add: perform_voice_def)
  show ?thesis
  proof (cases r)
    case (Inl error)
    have "owns_marker (voice_token d) w" using perform_voice_error_keeps_marker p assms(2) Inl by blast
    with Inl show ?thesis
      using finish_commands [OF f assms(2)] assms(1)
      by (simp add: e_def cancel_voice_for_disconnected_client_def p commit_voice_def bump_def
          on_snapshot_def snapshot_def owns_marker_def)
  next
    case (Inr s)
    with f finish_ok [of "de_voxtype env" "de_marker_fs env" "voice_token d" "''cancel''" VIdle "dm_voice d" s w]
    show ?thesis
      using assms(1) by (simp add: e_def cancel_voice_for_disconnected_client_def p commit_voice_def
          bump_def on_snapshot_def)
  qed
qed

lemma recording_has_marker:
  assumes "new_daemon cfg epoch persisted voice servers = Inr d0" "step\<^sup>*\<^sup>* d0 d"
    and "rt_voice_client_owner (dm_state d) \<noteq> None"
  shows "owns_marker (voice_token d) (dm_voice d)"
  using sound_steps [OF assms(2)] new_daemon_ok [OF assms(1)] assms(3) by (auto simp: sound_def daemon_ok_def)

section \<open>Properties\<close>

text \<open>C15 The recorded owner of a dictation is a connected client. In every state the service can reach,
  with any number of clients and in any interleaving of their commands, their disconnects and the
  collectors, a client that owns the recording is one that was accepted and whose cleanup has not
  run; no two connections share an identifier. So when all clients are gone nobody owns a recording.\<close>

theorem recording_owner_connected:
  assumes "new_daemon cfg epoch persisted voice servers = Inr d0"
    and "(serving parse)\<^sup>*\<^sup>* (new_service d0) x"
  shows "distinct (map cn_id (srv_clients x)) \<and>
    (\<forall>i. rt_voice_client_owner (dm_state (srv_daemon x)) = Some i \<longrightarrow>
       (\<exists>c \<in> set (srv_clients x). cn_id c = i \<and> \<not> cn_closed c)) \<and>
    ((\<forall>c \<in> set (srv_clients x). cn_closed c) \<longrightarrow> rt_voice_client_owner (dm_state (srv_daemon x)) = None)"
proof -
  have "service_ok parse d0 (new_service d0)" by (rule service_ok_new) (rule new_daemon_no_owner [OF assms(1)])
  then have "service_ok parse d0 x" by (rule service_ok_steps [OF assms(2)])
  then have ok: "distinct (map cn_id (srv_clients x))"
    "\<And>i. rt_voice_client_owner (dm_state (srv_daemon x)) = Some i \<Longrightarrow>
       \<exists>c \<in> set (srv_clients x). cn_id c = i \<and> \<not> cn_closed c"
    unfolding service_ok_def owner_def by blast+
  then show ?thesis by fastforce
qed

text \<open>A run: a client connects, and its command starts a dictation.\<close>

definition recording_env :: "nat daemon_env" where
  "recording_env = example_daemon_env (example_command VoiceStart None None 0)"

definition accepted_service :: "nat service" where
  "accepted_service = (new_service example_daemon)\<lparr>srv_clients := [open_connection ''c'' example_daemon]\<rparr>"

lemma accepted_service_run: "serving parse (new_service example_daemon) accepted_service"
  unfolding accepted_service_def
  using serving.accept [of "new_service example_daemon" "''c''" parse] by (simp add: new_service_def)

lemma recording_starts:
  obtains r d where "process_command recording_env ''x'' ''c'' example_daemon = Some (r, d)" "owner d = Some ''c''"
proof -
  let ?c = "example_command VoiceStart None None 0"
  have valid: "validate_command ?c = Inr ()"
    unfolding example_command_valid by (simp add: agent_action_def guarded_action_def)
  have "fst (perform_voice (\<lambda>_ st. (st, True)) (de_marker_fs recording_env) ''e'' VoiceStart example_voice) =
      Inr \<lparr>vs_state = VRecording, vs_owned = True\<rparr>" by code_simp
  moreover have "voice_token example_daemon = ''e''"
    by (simp add: voice_token_def example_daemon_def initial_state_def empty_snapshot_def)
  ultimately obtain w where p: "perform_voice (de_voxtype recording_env) (de_marker_fs recording_env)
      (voice_token example_daemon) VoiceStart (dm_voice example_daemon) = (Inr \<lparr>vs_state = VRecording, vs_owned = True\<rparr>, w)"
    by (simp add: recording_env_def example_daemon_env_def example_daemon_def prod_eq_iff)
  obtain r d where rd: "process_voice_command recording_env ?c ''c'' example_daemon = (r, d)" by fastforce
  have a: "pc_action ?c = VoiceStart" by (simp add: example_command_def)
  have "process_command recording_env ''x'' ''c'' example_daemon = Some (r, d)"
    using valid rd by (simp add: process_command_def recording_env_def example_daemon_env_def a)
  moreover have "owner d = Some ''c''"
    using rd by (auto simp: process_voice_command_def a p commit_voice_def bump_def)
  ultimately show ?thesis using that by blast
qed

lemma recording_service_run:
  obtains x and c :: connection where "(serving (de_parse_command recording_env))\<^sup>*\<^sup>* (new_service example_daemon) x"
    "owner (srv_daemon x) = Some ''c''" "srv_clients x = [c]" "srv_ended x = None" "cn_id c = ''c''"
    "cn_pending c \<noteq> None" "cn_writing c" "\<not> cn_closed c"
proof -
  obtain r d where p: "process_command recording_env ''x'' ''c'' example_daemon = Some (r, d)"
    and o: "owner d = Some ''c''" by (rule recording_starts)
  let ?c = "open_connection ''c'' example_daemon"
  let ?c' = "?c\<lparr>cn_pending := Some r, cn_lines := cn_lines ?c @ [''x''], cn_answers := cn_answers ?c @ [r]\<rparr>"
  have "connection_step (de_parse_command recording_env) (example_daemon, ?c) (d, ?c')"
    by (rule connection_step.serve [OF _ _ refl]) (simp_all add: open_connection_def p)
  then have "serving (de_parse_command recording_env) accepted_service
      (accepted_service\<lparr>srv_daemon := d, srv_clients := (srv_clients accepted_service)[0 := ?c']\<rparr>)"
    by (intro serving.client) (simp_all add: accepted_service_def new_service_def)
  then have "(serving (de_parse_command recording_env))\<^sup>*\<^sup>* (new_service example_daemon)
      (accepted_service\<lparr>srv_daemon := d, srv_clients := (srv_clients accepted_service)[0 := ?c']\<rparr>)"
    using accepted_service_run by (meson r_into_rtranclp rtranclp.rtrancl_into_rtrancl)
  then show ?thesis
    by (rule that [of _ ?c']) (simp_all add: o accepted_service_def new_service_def open_connection_def)
qed

lemma recording_owner_connected_witness:
  "\<exists>x :: nat service. rt_voice_client_owner (dm_state (srv_daemon x)) = Some ''c'' \<and>
     (\<exists>c \<in> set (srv_clients x). cn_id c = ''c'' \<and> \<not> cn_closed c)"
proof -
  obtain x where x: "(serving (de_parse_command recording_env))\<^sup>*\<^sup>* (new_service example_daemon) x"
    "owner (srv_daemon x) = Some ''c''" by (rule recording_service_run)
  then show ?thesis
    using recording_owner_connected [OF example_daemon_new x(1)] unfolding owner_def by blast
qed

text \<open>C14 A dictation does not outlive the client that started it. Whenever a connection of the running
  service ends, with any number of clients in any interleaving: if it owned the recording, exactly one
  cancel command is issued, nobody owns the recording any more, and either the marker is gone and the
  voice card idle, or Voxtype or the marker failed, and then the marker stays and the card shows a
  latched error; if it did not own the recording, nothing of the daemon changes. And from then on that
  client is never the owner again.\<close>

theorem disconnect_ends_recording:
  fixes d0 :: "'s daemon"
  assumes "new_daemon cfg epoch persisted voice servers = Inr d0"
    and "(serving parse)\<^sup>*\<^sup>* (new_service d0) x" and "serving parse x y"
    and "n < length (srv_clients x)" and "\<not> cn_closed (srv_clients x ! n)"
    and "cn_closed (srv_clients y ! n)"
  shows "let i = cn_id (srv_clients x ! n); d = srv_daemon x; e = srv_daemon y;
      card = ps_voice (rt_snapshot (dm_state e))
    in (if rt_voice_client_owner (dm_state d) = Some i
        then vw_commands (dm_voice e) = vw_commands (dm_voice d) @ [[''record'', ''cancel'']] \<and>
          rt_voice_client_owner (dm_state e) = None \<and>
          (vw_marker (dm_voice e) = NoMarker \<and> card = \<lparr>vs_state = VIdle, vs_owned = False\<rparr> \<and>
             \<not> rt_voice_error_latched (dm_state e) \<or>
           vw_marker (dm_voice e) = Marker (Some (voice_token d)) \<and>
             card = \<lparr>vs_state = VError, vs_owned = True\<rparr> \<and> rt_voice_error_latched (dm_state e))
        else e = d) \<and>
      (\<forall>z. (serving parse)\<^sup>*\<^sup>* y z \<longrightarrow> rt_voice_client_owner (dm_state (srv_daemon z)) \<noteq> Some i)"
proof -
  let ?c = "srv_clients x ! n"
  have "service_ok parse d0 (new_service d0)" by (rule service_ok_new) (rule new_daemon_no_owner [OF assms(1)])
  then have ok: "service_ok parse d0 x" by (rule service_ok_steps [OF assms(2)])
  then have y: "service_ok parse d0 y" by (rule service_ok_step [OF assms(3)])
  obtain env where cancel: "srv_daemon y = cancel_voice_for_disconnected_client env (cn_id ?c) (srv_daemon x)"
    and gone: "client_gone n (cn_id ?c) y"
    using serving_closes [OF assms(3-6)] by blast
  have "owner (srv_daemon z) \<noteq> Some (cn_id ?c)" if "(serving parse)\<^sup>*\<^sup>* y z" for z
    using client_gone_steps [OF that gone] service_ok_steps [OF that y] by (rule client_gone_owner)
  moreover have "owns_marker (voice_token (srv_daemon x)) (dm_voice (srv_daemon x))"
    if "owner (srv_daemon x) = Some (cn_id ?c)"
    using ok that assms(1) unfolding service_ok_def owner_def by (metis option.discI recording_has_marker)
  ultimately show ?thesis
    using cancel_ends_recording [where d = "srv_daemon x" and i = "cn_id ?c" and env = env]
    by (simp add: Let_def cancel owner_def) (auto simp: cancel_voice_for_disconnected_client_def)
qed

lemma disconnect_ends_recording_witness:
  "\<exists>(x :: nat service) (y :: nat service). rt_voice_client_owner (dm_state (srv_daemon x)) = Some ''c'' \<and>
     rt_voice_client_owner (dm_state (srv_daemon y)) = None \<and>
     vw_commands (dm_voice (srv_daemon y)) = vw_commands (dm_voice (srv_daemon x)) @ [[''record'', ''cancel'']]"
proof -
  let ?p = "de_parse_command recording_env"
  obtain x and c :: connection where x: "(serving ?p)\<^sup>*\<^sup>* (new_service example_daemon) x"
    "owner (srv_daemon x) = Some ''c''" "srv_clients x = [c]" "srv_ended x = None" "cn_id c = ''c''"
    "cn_pending c \<noteq> None" "cn_writing c" "\<not> cn_closed c" by (rule recording_service_run)
  define c1 where "c1 = c\<lparr>cn_writing := False, cn_failed := True, cn_queue := []\<rparr>"
  define c2 where "c2 = c1\<lparr>cn_pending := None, cn_reading := False\<rparr>"
  define st where "st = (\<lambda>d c. x\<lparr>srv_daemon := d, srv_clients := [c]\<rparr> :: nat service)"
  have next_state: "serving ?p (st d e) (st d' e')" if "connection_step ?p (d, e) (d', e')" for d d' e e'
    using serving.client [of "st d e" 0 ?p d' e'] that x(4) by (simp add: st_def)
  have "st (srv_daemon x) c = x" using x(3) by (simp add: st_def)
  moreover have "serving ?p (st (srv_daemon x) c) (st (srv_daemon x) c1)"
    unfolding c1_def by (rule next_state, rule connection_step.write_error) (rule x(7))
  moreover obtain r where r: "cn_pending c = Some r" using x(6) by blast
  have "serving ?p (st (srv_daemon x) c1) (st (srv_daemon x) c2)"
    unfolding c2_def by (intro next_state connection_step.receiver_gone [of _ r]) (simp_all add: c1_def r)
  ultimately have run: "(serving ?p)\<^sup>*\<^sup>* (new_service example_daemon) (st (srv_daemon x) c2)"
    using x(1) by (metis rtranclp.rtrancl_into_rtrancl)
  let ?d = "cancel_voice_for_disconnected_client recording_env (cn_id c2) (srv_daemon x)"
  have "serving ?p (st (srv_daemon x) c2) (st ?d (c2\<lparr>cn_closed := True\<rparr>))"
    using x(8) by (intro next_state connection_step.close) (simp_all add: c2_def c1_def)
  from disconnect_ends_recording [OF example_daemon_new run this, of 0]
  have "rt_voice_client_owner (dm_state (srv_daemon x)) = Some ''c'' \<and>
      rt_voice_client_owner (dm_state ?d) = None \<and>
      vw_commands (dm_voice ?d) = vw_commands (dm_voice (srv_daemon x)) @ [[''record'', ''cancel'']]"
    using x(2,5,8) by (simp add: st_def c2_def c1_def owner_def Let_def)
  then show ?thesis
    by - (rule exI [of _ x], rule exI [of _ "st ?d (c2\<lparr>cn_closed := True\<rparr>)"], simp add: st_def)
qed

end
