(* ===== verification/Startup.thy ===== *)
theory Startup
  imports Daemon
begin

text \<open>
  The start of the daemon (\<open>main.rs\<close> of \<open>xeneon-agentd\<close>, and the functions of \<open>runtime.rs\<close> it calls):
  where its socket is and how it is taken over, and how the selection of the agent manager survives
  a restart. The file system is an argument: what each operation finds, and whether it succeeds.
\<close>

section \<open>Paths\<close>

definition BACKEND_STATE_FILE_NAME :: string where
  "BACKEND_STATE_FILE_NAME = ''xeneon-edge-agents/agent-backend.toml''"

definition default_backend_state_path :: "string option \<Rightarrow> string option \<Rightarrow> string option" where
  "default_backend_state_path xdg_state_home home =
     map_option (\<lambda>state_home. path_join state_home BACKEND_STATE_FILE_NAME)
       (case xdg_state_home of Some p \<Rightarrow> Some p
        | None \<Rightarrow> map_option (\<lambda>h. path_join h ''.local/state'') home)"

definition socket_path :: "string option \<Rightarrow> string option \<Rightarrow> string result" where
  "socket_path explicit xdg_runtime_dir =
     (case explicit of
        Some path \<Rightarrow> Inr path
      | None \<Rightarrow>
          (case xdg_runtime_dir of
             None \<Rightarrow> Inl ''XDG_RUNTIME_DIR is not set''
           | Some runtime \<Rightarrow> Inr (path_join runtime ''xeneon-edge-agents/agentd.sock'')))"

section \<open>Taking over the socket\<close>

text \<open>What \<open>symlink_metadata\<close> finds at the path, and what connecting to a socket there comes to.\<close>

datatype entry = NothingThere | SocketThere | OtherThere | StatFailed string

datatype connecting = Connects | ConnectionRefused | NotFound | ConnectFailed string

record socket_env =
  se_create_dir :: bool
  se_chmod_dir :: bool
  se_entry :: entry
  se_connect :: connecting
  se_remove :: bool
  se_bind :: bool
  se_chmod :: bool

datatype fs_op = CreateDirAll string | SetMode string nat | RemoveFile string | BindSocket string

text \<open>One fallible operation, then the rest; the list holds the operations attempted. The modes are
  octal 700 and 600.\<close>

definition attempt :: "fs_op \<Rightarrow> bool \<Rightarrow> string \<Rightarrow> unit result \<times> fs_op list \<Rightarrow> unit result \<times> fs_op list" where
  "attempt op ok e rest = (if ok then apsnd (\<lambda>ops. op # ops) rest else (Inl e, [op]))"

definition user_only_dir :: nat where "user_only_dir = 7 * 64"
definition user_only_file :: nat where "user_only_file = 6 * 64"

definition bind_socket :: "socket_env \<Rightarrow> string \<Rightarrow> unit result \<times> fs_op list" where
  "bind_socket env path =
     (case path_parent path of
        None \<Rightarrow> (Inl ''socket path has no parent'', [])
      | Some parent \<Rightarrow>
          let bind = attempt (BindSocket path) (se_bind env) (''binding daemon socket '' @ path)
                (attempt (SetMode path user_only_file) (se_chmod env) ''setting permissions'' (Inr (), []))
          in attempt (CreateDirAll parent) (se_create_dir env) (''creating runtime directory '' @ parent)
            (attempt (SetMode parent user_only_dir) (se_chmod_dir env) ''setting permissions''
              (case se_entry env of
                 SocketThere \<Rightarrow>
                   (case se_connect env of
                      Connects \<Rightarrow> (Inl ''daemon socket is already active'', [])
                    | ConnectFailed e \<Rightarrow> (Inl e, [])
                    | _ \<Rightarrow> attempt (RemoveFile path) (se_remove env) (''removing stale '' @ path) bind)
               | OtherThere \<Rightarrow> (Inl (''refusing to replace non-socket runtime path '' @ path), [])
               | NothingThere \<Rightarrow> bind
               | StatFailed e \<Rightarrow> (Inl e, []))))"

definition replaceable :: "socket_env \<Rightarrow> bool" where
  "replaceable env \<longleftrightarrow> se_entry env = SocketThere \<and> se_connect env \<in> {ConnectionRefused, NotFound}"

lemma fst_attempt [simp]: "fst (attempt op ok e rest) = Inr () \<longleftrightarrow> ok \<and> fst rest = Inr ()"
  by (simp add: attempt_def)

lemma snd_attempt [simp]: "snd (attempt op ok e rest) = op # (if ok then snd rest else [])"
  by (simp add: attempt_def)

lemma bind_socket_ok:
  "fst (bind_socket env path) = Inr () \<longleftrightarrow>
     path_parent path \<noteq> None \<and> se_create_dir env \<and> se_chmod_dir env \<and> se_bind env \<and> se_chmod env \<and>
     (se_entry env = NothingThere \<or> replaceable env \<and> se_remove env)"
  by (auto simp: bind_socket_def replaceable_def Let_def split: option.split entry.split connecting.split)

lemma bind_socket_removes:
  "RemoveFile p \<in> set (snd (bind_socket env path)) \<Longrightarrow> p = path \<and> replaceable env"
  by (auto simp: bind_socket_def replaceable_def Let_def split: option.splits entry.splits connecting.splits if_splits)

lemma bind_socket_ops:
  "fst (bind_socket env path) = Inr () \<Longrightarrow> path_parent path = Some parent \<Longrightarrow>
     snd (bind_socket env path) = [CreateDirAll parent, SetMode parent user_only_dir] @
       (if se_entry env = SocketThere then [RemoveFile path] else []) @
       [BindSocket path, SetMode path user_only_file]"
  unfolding bind_socket_ok
  by (auto simp: bind_socket_def replaceable_def Let_def)

lemma bind_socket_binds:
  "BindSocket p \<in> set (snd (bind_socket env path)) \<Longrightarrow>
     p = path \<and> (se_entry env = NothingThere \<or> replaceable env \<and> se_remove env)"
  by (auto simp: bind_socket_def replaceable_def Let_def split: option.splits entry.splits connecting.splits if_splits)

section \<open>The persisted selection\<close>

type_synonym files = "string \<Rightarrow> string option"

text \<open>\<open>sp_partial\<close> is what a failed write leaves at the temporary path.\<close>

record save_env =
  sp_create_dir :: bool
  sp_encode :: "persisted_backend \<Rightarrow> string result"
  sp_write :: bool
  sp_partial :: "string option"
  sp_chmod :: bool
  sp_rename :: bool

definition temporary_path :: "string \<Rightarrow> string" where
  "temporary_path parent = path_join parent ''.agent-backend.toml.tmp''"

definition save_persisted_backend ::
  "save_env \<Rightarrow> string \<Rightarrow> persisted_backend \<Rightarrow> files \<Rightarrow> unit result \<times> files" where
  "save_persisted_backend env path persisted files =
     (case path_parent path of
        None \<Rightarrow> (Inl ''agent backend state path has no parent'', files)
      | Some parent \<Rightarrow>
          if \<not> sp_create_dir env then (Inl (''creating state directory '' @ parent), files)
          else (case sp_encode env persisted of
              Inl e \<Rightarrow> (Inl e, files)
            | Inr encoded \<Rightarrow>
                let temporary = temporary_path parent in
                if \<not> sp_write env
                then (Inl (''writing '' @ temporary), files(temporary := sp_partial env))
                else let files = files(temporary \<mapsto> encoded) in
                  if \<not> sp_chmod env then (Inl ''setting permissions'', files)
                  else if \<not> sp_rename env then (Inl (''replacing '' @ path), files)
                  else (Inr (), files(temporary := None, path \<mapsto> encoded))))"

definition load_persisted_backend ::
  "(string \<Rightarrow> persisted_backend result) \<Rightarrow> string \<Rightarrow> files \<Rightarrow> persisted_backend option" where
  "load_persisted_backend decode path files =
     Option.bind (files path) (\<lambda>contents. case decode contents of Inr p \<Rightarrow> Some p | Inl _ \<Rightarrow> None)"

lemma new_daemon_selected:
  "new_daemon cfg epoch (Some p) voice servers = Inr d \<Longrightarrow>
     rt_backend (dm_state d) = pb_backend p \<and> rt_t3code_order (dm_state d) = pb_t3code_order p"
  by (auto simp: new_daemon_def Let_def initial_state_def split: sum.splits)

section \<open>The main program\<close>

datatype started = Serving "fs_op list" | CleanedUp | StartFailed string

text \<open>\<open>main\<close>: the configuration first; then either the cleanup, or the socket's path, the daemon, and
  only then the socket.\<close>

definition agentd_main ::
  "config result \<Rightarrow> bool \<Rightarrow> (string + unit) \<Rightarrow> string option \<Rightarrow> string option \<Rightarrow> string \<Rightarrow>
     persisted_backend option \<Rightarrow> voice_world \<Rightarrow> 's \<Rightarrow> socket_env \<Rightarrow> started \<times> 's daemon option" where
  "agentd_main cfg cleanup cleanup_outcome socket xdg_runtime_dir epoch persisted voice servers env =
     (case cfg of
        Inl e \<Rightarrow> (StartFailed e, None)
      | Inr cfg \<Rightarrow>
          if cleanup then (case cleanup_outcome of Inl e \<Rightarrow> (StartFailed e, None) | Inr _ \<Rightarrow> (CleanedUp, None))
          else (case socket_path socket xdg_runtime_dir of
              Inl e \<Rightarrow> (StartFailed e, None)
            | Inr path \<Rightarrow>
                (case new_daemon cfg epoch persisted voice servers of
                   Inl e \<Rightarrow> (StartFailed e, None)
                 | Inr d \<Rightarrow>
                     (case bind_socket env path of
                        (Inl e, _) \<Rightarrow> (StartFailed e, None)
                      | (Inr _, ops) \<Rightarrow> (Serving ops, Some d)))))"


section \<open>Properties\<close>

text \<open>C20 The daemon takes over its socket safely. It comes to serve only with a valid configuration, not
  asked for a cleanup, with a daemon in a valid initial state; then the directory is made accessible
  to the user only before anything else, and the socket is bound and made accessible to the user
  only. Whether or not the start succeeds, a file is removed only at the socket's path, and only if it
  is a socket whose connection is refused or gone: never another kind of file, never the socket of a
  running daemon, and none whose connection failed in another way.\<close>

theorem socket_taken_over_safely:
  assumes "agentd_main cfg cleanup outcome explicit runtime epoch persisted voice servers env = (Serving ops, Some d)"
  shows "\<exists>c path parent. cfg = Inr c \<and> validate c = Inr () \<and> \<not> cleanup \<and>
    new_daemon c epoch persisted voice servers = Inr d \<and> daemon_ok d \<and>
    (explicit = Some path \<or>
       explicit = None \<and> map_option (\<lambda>r. path_join r ''xeneon-edge-agents/agentd.sock'') runtime = Some path) \<and>
    path_parent path = Some parent \<and>
    (case se_entry env of
       NothingThere \<Rightarrow> ops = [CreateDirAll parent, SetMode parent user_only_dir, BindSocket path,
         SetMode path user_only_file]
     | SocketThere \<Rightarrow> se_connect env \<in> {ConnectionRefused, NotFound} \<and> se_remove env \<and>
         ops = [CreateDirAll parent, SetMode parent user_only_dir, RemoveFile path, BindSocket path,
           SetMode path user_only_file]
     | _ \<Rightarrow> False) \<and>
    (\<forall>env path p. RemoveFile p \<in> set (snd (bind_socket env path)) \<longrightarrow>
       p = path \<and> se_entry env = SocketThere \<and> se_connect env \<in> {ConnectionRefused, NotFound})"
proof -
  from assms obtain c path where c: "cfg = Inr c" "\<not> cleanup" "socket_path explicit runtime = Inr path"
    "new_daemon c epoch persisted voice servers = Inr d" "bind_socket env path = (Inr (), ops)"
    by (auto simp: agentd_main_def split: sum.splits if_splits prod.splits)
  then have b: "fst (bind_socket env path) = Inr ()" "snd (bind_socket env path) = ops" by simp_all
  then obtain parent where parent: "path_parent path = Some parent" unfolding bind_socket_ok by blast
  have "validate c = Inr ()" using c(4) by (auto simp: new_daemon_def split: sum.splits)
  moreover have "daemon_ok d" by (rule new_daemon_ok [OF c(4)])
  moreover have "explicit = Some path \<or>
      explicit = None \<and> map_option (\<lambda>r. path_join r ''xeneon-edge-agents/agentd.sock'') runtime = Some path"
    using c(3) by (auto simp: socket_path_def split: option.splits)
  moreover have "case se_entry env of
       NothingThere \<Rightarrow> ops = [CreateDirAll parent, SetMode parent user_only_dir, BindSocket path,
         SetMode path user_only_file]
     | SocketThere \<Rightarrow> se_connect env \<in> {ConnectionRefused, NotFound} \<and> se_remove env \<and>
         ops = [CreateDirAll parent, SetMode parent user_only_dir, RemoveFile path, BindSocket path,
           SetMode path user_only_file]
     | _ \<Rightarrow> False"
    using bind_socket_ops [OF b(1) parent] b unfolding bind_socket_ok
    by (auto simp: replaceable_def split: entry.split)
  moreover have "p = path \<and> se_entry env = SocketThere \<and> se_connect env \<in> {ConnectionRefused, NotFound}"
    if "RemoveFile p \<in> set (snd (bind_socket env path))" for env path p
    using bind_socket_removes [OF that] by (simp add: replaceable_def)
  ultimately show ?thesis using c(1,2,4) parent by blast
qed

definition example_socket :: socket_env where
  "example_socket = \<lparr>se_create_dir = True, se_chmod_dir = True, se_entry = SocketThere,
     se_connect = ConnectionRefused, se_remove = True, se_bind = True, se_chmod = True\<rparr>"

lemma socket_taken_over_safely_witness:
  "\<exists>ops. agentd_main (Inr default_config) False (Inr ()) (Some ''/run/x/agentd.sock'') None ''e'' None example_voice
       (0 :: nat) example_socket = (Serving ops, Some example_daemon) \<and>
     RemoveFile ''/run/x/agentd.sock'' \<in> set ops \<and> daemon_ok example_daemon"
proof -
  have "fst (bind_socket example_socket ''/run/x/agentd.sock'') = Inr ()" by code_simp
  then obtain ops where "bind_socket example_socket ''/run/x/agentd.sock'' = (Inr (), ops)"
    by (cases "bind_socket example_socket ''/run/x/agentd.sock''") simp
  then have run: "agentd_main (Inr default_config) False (Inr ()) (Some ''/run/x/agentd.sock'') None ''e'' None
      example_voice (0 :: nat) example_socket = (Serving ops, Some example_daemon)"
    by (simp add: agentd_main_def socket_path_def example_daemon_new)
  have "se_entry example_socket = SocketThere" by (simp add: example_socket_def)
  with socket_taken_over_safely [OF run]
  have "RemoveFile ''/run/x/agentd.sock'' \<in> set ops \<and> daemon_ok example_daemon" by auto
  with run show ?thesis by blast
qed

text \<open>C21 The selection of the agent manager survives a restart. When saving it succeeds, the next start
  reads exactly it, and begins with that manager and that order, whatever the configuration says;
  when saving fails at any step, the file that is read still holds what it held. No other file than
  it and the temporary beside it is touched. (The TOML codec reads back what it wrote.)\<close>

theorem selection_survives_restart:
  assumes "\<forall>p text. sp_encode env p = Inr text \<longrightarrow> decode text = Inr p"
    and "path_parent path = Some parent" and "temporary_path parent \<noteq> path"
    and "save_persisted_backend env path p files = (r, files')"
  shows "(if r = Inr ()
     then load_persisted_backend decode path files' = Some p \<and>
       (\<forall>cfg epoch voice servers d.
          new_daemon cfg epoch (load_persisted_backend decode path files') voice servers = Inr d \<longrightarrow>
            rt_backend (dm_state d) = pb_backend p \<and> rt_t3code_order (dm_state d) = pb_t3code_order p)
     else load_persisted_backend decode path files' = load_persisted_backend decode path files) \<and>
    (\<forall>q. q \<noteq> path \<and> q \<noteq> temporary_path parent \<longrightarrow> files' q = files q)"
proof -
  have "r = Inr () \<Longrightarrow> load_persisted_backend decode path files' = Some p"
    using assms by (auto simp: save_persisted_backend_def load_persisted_backend_def Let_def
        split: if_splits sum.splits)
  moreover have "r \<noteq> Inr () \<Longrightarrow> files' path = files path"
    using assms by (auto simp: save_persisted_backend_def Let_def split: if_splits sum.splits)
  moreover have "\<forall>q. q \<noteq> path \<and> q \<noteq> temporary_path parent \<longrightarrow> files' q = files q"
    using assms by (auto simp: save_persisted_backend_def Let_def split: if_splits sum.splits)
  ultimately show ?thesis by (auto simp: load_persisted_backend_def dest: new_daemon_selected)
qed

definition example_encode :: "persisted_backend \<Rightarrow> string result" where
  "example_encode p = Inr (backend_as_str (pb_backend p) @
     (case pb_t3code_order p of Grouped \<Rightarrow> ''g'' | Priority \<Rightarrow> ''p''))"

definition example_decode :: "string \<Rightarrow> persisted_backend result" where
  "example_decode text =
     (case map_of (map (\<lambda>p. (projr (example_encode p), p))
         [\<lparr>pb_backend = b, pb_t3code_order = m\<rparr>. b \<leftarrow> [Herdr, T3code], m \<leftarrow> [Grouped, Priority]]) text of
        Some p \<Rightarrow> Inr p | None \<Rightarrow> Inl [])"

lemma selection_survives_restart_witness:
  "let p = \<lparr>pb_backend = T3code, pb_t3code_order = Priority\<rparr>;
       env = \<lparr>sp_create_dir = True, sp_encode = example_encode, sp_write = True, sp_partial = None,
              sp_chmod = True, sp_rename = True\<rparr>;
       files' = snd (save_persisted_backend env ''/s/agent-backend.toml'' p (\<lambda>_. None))
   in load_persisted_backend example_decode ''/s/agent-backend.toml'' files' = Some p"
proof -
  define p where "p = \<lparr>pb_backend = T3code, pb_t3code_order = Priority\<rparr>"
  define env where "env = \<lparr>sp_create_dir = True, sp_encode = example_encode, sp_write = True, sp_partial = None,
      sp_chmod = True, sp_rename = True\<rparr>"
  have codec: "\<forall>p text. sp_encode env p = Inr text \<longrightarrow> example_decode text = Inr p"
  proof (intro allI impI)
    fix p t assume "sp_encode env p = Inr t"
    then have "t = projr (example_encode p)" by (simp add: env_def example_encode_def)
    moreover have "p = \<lparr>pb_backend = pb_backend p, pb_t3code_order = pb_t3code_order p\<rparr>" by simp
    ultimately show "example_decode t = Inr p"
      by (cases "pb_backend p"; cases "pb_t3code_order p")
        (simp_all add: example_decode_def example_encode_def)
  qed
  have parent: "path_parent ''/s/agent-backend.toml'' = Some ''/s''" by code_simp
  have tmp: "temporary_path ''/s'' \<noteq> ''/s/agent-backend.toml''" by code_simp
  have ok: "fst (save_persisted_backend env ''/s/agent-backend.toml'' p (\<lambda>_. None)) = Inr ()"
    unfolding env_def p_def by code_simp
  obtain r files' where s: "save_persisted_backend env ''/s/agent-backend.toml'' p (\<lambda>_. None) = (r, files')"
    by fastforce
  with ok have "r = Inr ()" by simp
  with selection_survives_restart [OF codec parent tmp s]
  have "load_persisted_backend example_decode ''/s/agent-backend.toml'' files' = Some p"
    unfolding if_P [OF \<open>r = Inr ()\<close>] by blast
  with s show ?thesis unfolding Let_def p_def [symmetric] env_def [symmetric] by simp
qed

end
