(* ===== verification/Wire.thy ===== *)
theory Wire
  imports Model "HOL-Library.Monad_Syntax"
begin

text \<open>
  The messages of the portal protocol: the encoding and decoding serde derives for the structs and
  enums of \<open>model.rs\<close>, to and from a JSON value. Names are snake case; \<open>serde(other)\<close> is the variant for
  an unknown name, \<open>serde(default)\<close> the value of an absent member, and \<open>skip_serializing_if\<close> leaves a
  \<open>None\<close> out. A derived decoder takes an object, ignoring members it does not know, or an array of the
  fields in order, and an enum as its name or as an object from its name to null. A float that is
  not finite is written as null. Text is the JSON library's: a message is a value here.
\<close>

section \<open>Codecs\<close>

text \<open>The contract of an encoder and its decoder, for the values \<open>ok\<close> admits: decoding what was encoded
  gives it back, and no such value is encoded as null, which is how \<open>None\<close> is read.\<close>

locale codec =
  fixes enc :: "'a \<Rightarrow> json" and dec :: "json \<Rightarrow> 'a option" and ok :: "'a \<Rightarrow> bool"
  assumes decodes [simp]: "ok x \<Longrightarrow> dec (enc x) = Some x"
    and not_null [simp]: "ok x \<Longrightarrow> enc x \<noteq> JNull"

text \<open>A required member, one with a default, and an optional one; \<open>v\<close> is what the object holds.\<close>

definition req :: "(json \<Rightarrow> 'a option) \<Rightarrow> json option \<Rightarrow> 'a option" where
  "req dec v = Option.bind v dec"

definition dflt :: "'a \<Rightarrow> (json \<Rightarrow> 'a option) \<Rightarrow> json option \<Rightarrow> 'a option" where
  "dflt d dec v = (case v of None \<Rightarrow> Some d | Some v \<Rightarrow> dec v)"

definition opt :: "(json \<Rightarrow> 'a option) \<Rightarrow> json option \<Rightarrow> 'a option option" where
  "opt dec v = (case v of None \<Rightarrow> Some None
     | Some v \<Rightarrow> if v = JNull then Some None else map_option Some (dec v))"

definition opt_field :: "string \<Rightarrow> ('a \<Rightarrow> json) \<Rightarrow> 'a option \<Rightarrow> (string \<times> json) list" where
  "opt_field k enc x = (case x of None \<Rightarrow> [] | Some v \<Rightarrow> [(k, enc v)])"

definition enc_list :: "('a \<Rightarrow> json) \<Rightarrow> 'a list \<Rightarrow> json" where
  "enc_list enc xs = JArr (map enc xs)"

definition dec_list :: "(json \<Rightarrow> 'a option) \<Rightarrow> json \<Rightarrow> 'a list option" where
  "dec_list dec v = Option.bind (as_array v) (\<lambda>vs. those (map dec vs))"

text \<open>The members of a struct: by name from an object, by position from an array no longer than it.\<close>

fun struct_fields :: "string list \<Rightarrow> json \<Rightarrow> (string \<Rightarrow> json option) option" where
  "struct_fields names (JObj m) = Some (map_of m)"
| "struct_fields names (JArr vs) = (if length vs \<le> length names then Some (map_of (zip names vs)) else None)"
| "struct_fields names _ = None"

lemma req_Some [simp]: "req dec (Some v) = dec v"
  by (simp add: req_def)

lemma dflt_Some [simp]: "dflt d dec (Some v) = dec v"
  by (simp add: dflt_def)

lemma map_of_opt_field [simp]:
  "map_of rest k = None \<Longrightarrow> map_of (opt_field k enc x @ rest) k = map_option enc x"
  "j \<noteq> k \<Longrightarrow> map_of (opt_field k enc x @ rest) j = map_of rest j"
  "map_of (opt_field k enc x) j = (if j = k then map_option enc x else None)"
  by (cases x; simp add: opt_field_def)+

context codec
begin

lemma opt_decodes [simp]: "pred_option ok x \<Longrightarrow> opt dec (map_option enc x) = Some x"
  by (cases x) (auto simp: opt_def dest: not_null)

lemma list_decodes [simp]: "list_all ok xs \<Longrightarrow> dec_list dec (enc_list enc xs) = Some xs"
  unfolding dec_list_def enc_list_def by (induction xs) simp_all

end

section \<open>Scalars\<close>

definition enc_word :: "'w::len word \<Rightarrow> json" where
  "enc_word n = JNum (PosInt (ucast n))"

definition dec_word :: "json \<Rightarrow> 'w::len word option" where
  "dec_word v = Option.bind (as_u64 v) (\<lambda>n. if unat n < 2 ^ LENGTH('w) then Some (ucast n) else None)"

text \<open>\<open>u64\<close> and \<open>usize\<close> fields the model keeps as natural numbers.\<close>

definition enc_nat :: "nat \<Rightarrow> json" where
  "enc_nat n = JNum (PosInt (of_nat n))"

definition dec_nat :: "json \<Rightarrow> nat option" where
  "dec_nat v = map_option unat (as_u64 v)"

fun finite_f64 :: "f64 \<Rightarrow> bool" where
  "finite_f64 (Fin _) = True"
| "finite_f64 _ = False"

definition enc_f64 :: "f64 \<Rightarrow> json" where
  "enc_f64 f = (if finite_f64 f then JNum (Float f) else JNull)"

interpretation string_codec: codec JStr as_str "\<lambda>_. True"
  by unfold_locales simp_all

interpretation bool_codec: codec JBool as_bool "\<lambda>_. True"
  by unfold_locales simp_all

lemma word_decodes: "LENGTH('w::len) \<le> 64 \<Longrightarrow> dec_word (enc_word (n :: 'w word)) = Some n"
proof -
  assume "LENGTH('w) \<le> 64"
  then have "(2 :: nat) ^ LENGTH('w) \<le> 2 ^ 64" by (rule power_increasing) simp
  moreover have n: "unat n < 2 ^ LENGTH('w)" by (rule unsigned_less)
  ultimately have "unat n < 2 ^ 64" by (rule less_le_trans [rotated])
  then have u: "unat (ucast n :: u64) = unat n" by (simp add: unsigned_ucast_eq take_bit_nat_eq_self)
  have "unat (ucast (ucast n :: u64) :: 'w word) = unat n"
    unfolding unsigned_ucast_eq [of "ucast n :: u64"] u using n by (simp add: take_bit_nat_eq_self)
  then have "ucast (ucast n :: u64) = n" by (rule unsigned_word_eqI)
  with n u show ?thesis by (simp add: enc_word_def dec_word_def)
qed

interpretation u64_codec: codec "enc_word :: u64 \<Rightarrow> json" dec_word "\<lambda>_. True"
  by unfold_locales (simp_all add: word_decodes, simp add: enc_word_def)

interpretation u32_codec: codec "enc_word :: u32 \<Rightarrow> json" dec_word "\<lambda>_. True"
  by unfold_locales (simp_all add: word_decodes, simp add: enc_word_def)

interpretation u8_codec: codec "enc_word :: u8 \<Rightarrow> json" dec_word "\<lambda>_. True"
  by unfold_locales (simp_all add: word_decodes, simp add: enc_word_def)

interpretation nat_codec: codec enc_nat dec_nat "\<lambda>n. n < 2 ^ 64"
  by unfold_locales (simp_all add: enc_nat_def dec_nat_def unat_of_nat take_bit_nat_eq_self)

interpretation f64_codec: codec enc_f64 as_f64 finite_f64
  by unfold_locales (simp_all add: enc_f64_def)


section \<open>Enums\<close>

text \<open>The name of a unit variant; \<open>table\<close> lists the variants a decoder knows.\<close>

fun enum_tag :: "json \<Rightarrow> string option" where
  "enum_tag (JStr s) = Some s"
| "enum_tag (JObj [(s, JNull)]) = Some s"
| "enum_tag _ = None"

definition dec_enum :: "('a \<Rightarrow> string) \<Rightarrow> 'a list \<Rightarrow> 'a option \<Rightarrow> json \<Rightarrow> 'a option" where
  "dec_enum enum_name variants other v = Option.bind (enum_tag v) (\<lambda>s.
     case find (\<lambda>x. enum_name x = s) variants of Some x \<Rightarrow> Some x | None \<Rightarrow> other)"

fun agent_status_name :: "agent_status \<Rightarrow> string" where
  "agent_status_name Blocked = ''blocked''"
| "agent_status_name Done = ''done''"
| "agent_status_name Working = ''working''"
| "agent_status_name Idle = ''idle''"
| "agent_status_name Unknown = ''unknown''"

definition enc_agent_status :: "agent_status \<Rightarrow> json" where
  "enc_agent_status x = JStr (agent_status_name x)"

definition dec_agent_status :: "json \<Rightarrow> agent_status option" where
  "dec_agent_status = dec_enum agent_status_name [Blocked, Done, Working, Idle, Unknown] (Some Unknown)"

fun connection_state_name :: "connection_state \<Rightarrow> string" where
  "connection_state_name ConnConnected = ''connected''"
| "connection_state_name ConnDegraded = ''degraded''"
| "connection_state_name ConnReconnecting = ''reconnecting''"
| "connection_state_name ConnOffline = ''offline''"

definition enc_connection_state :: "connection_state \<Rightarrow> json" where
  "enc_connection_state x = JStr (connection_state_name x)"

definition dec_connection_state :: "json \<Rightarrow> connection_state option" where
  "dec_connection_state =
     dec_enum connection_state_name [ConnConnected, ConnDegraded, ConnReconnecting, ConnOffline] None"

fun session_state_name :: "session_state \<Rightarrow> string" where
  "session_state_name SessConnected = ''connected''"
| "session_state_name SessStale = ''stale''"
| "session_state_name SessIncompatible = ''incompatible''"
| "session_state_name SessOffline = ''offline''"

definition enc_session_state :: "session_state \<Rightarrow> json" where
  "enc_session_state x = JStr (session_state_name x)"

definition dec_session_state :: "json \<Rightarrow> session_state option" where
  "dec_session_state =
     dec_enum session_state_name [SessConnected, SessStale, SessIncompatible, SessOffline] None"

fun voice_state_name :: "voice_state \<Rightarrow> string" where
  "voice_state_name VIdle = ''idle''"
| "voice_state_name VRecording = ''recording''"
| "voice_state_name VProcessing = ''processing''"
| "voice_state_name VError = ''error''"
| "voice_state_name VUnavailable = ''unavailable''"

definition enc_voice_state :: "voice_state \<Rightarrow> json" where
  "enc_voice_state x = JStr (voice_state_name x)"

definition dec_voice_state :: "json \<Rightarrow> voice_state option" where
  "dec_voice_state =
     dec_enum voice_state_name [VIdle, VRecording, VProcessing, VError, VUnavailable] (Some VUnavailable)"

fun action_kind_name :: "action_kind \<Rightarrow> string" where
  "action_kind_name Open = ''open''"
| "action_kind_name Zoom = ''zoom''"
| "action_kind_name Approve = ''approve''"
| "action_kind_name Interrupt = ''interrupt''"
| "action_kind_name RestoreFocus = ''restore_focus''"
| "action_kind_name ChatgptDesktop = ''chatgpt_desktop''"
| "action_kind_name ClaudeDesktop = ''claude_desktop''"
| "action_kind_name VoiceStart = ''voice_start''"
| "action_kind_name VoiceStop = ''voice_stop''"
| "action_kind_name VoiceCancel = ''voice_cancel''"
| "action_kind_name OrderGrouped = ''order_grouped''"
| "action_kind_name OrderPriority = ''order_priority''"
| "action_kind_name BackendHerdr = ''backend_herdr''"
| "action_kind_name BackendT3code = ''backend_t3code''"

definition action_kinds :: "action_kind list" where
  "action_kinds = [Open, Zoom, Approve, Interrupt, RestoreFocus, ChatgptDesktop, ClaudeDesktop,
     VoiceStart, VoiceStop, VoiceCancel, OrderGrouped, OrderPriority, BackendHerdr, BackendT3code]"

definition enc_action_kind :: "action_kind \<Rightarrow> json" where
  "enc_action_kind x = JStr (action_kind_name x)"

definition dec_action_kind :: "json \<Rightarrow> action_kind option" where
  "dec_action_kind = dec_enum action_kind_name action_kinds None"

definition enc_agent_backend :: "agent_backend \<Rightarrow> json" where
  "enc_agent_backend x = JStr (backend_as_str x)"

definition dec_agent_backend :: "json \<Rightarrow> agent_backend option" where
  "dec_agent_backend = dec_enum backend_as_str [Herdr, T3code] None"

fun order_mode_name :: "agent_order_mode \<Rightarrow> string" where
  "order_mode_name Grouped = ''grouped''"
| "order_mode_name Priority = ''priority''"

definition enc_order_mode :: "agent_order_mode \<Rightarrow> json" where
  "enc_order_mode x = JStr (order_mode_name x)"

definition dec_order_mode :: "json \<Rightarrow> agent_order_mode option" where
  "dec_order_mode = dec_enum order_mode_name [Grouped, Priority] None"

fun usage_kind_name :: "usage_kind \<Rightarrow> string" where
  "usage_kind_name Quota = ''quota''"
| "usage_kind_name LocalBudget = ''local_budget''"

definition enc_usage_kind :: "usage_kind \<Rightarrow> json" where
  "enc_usage_kind x = JStr (usage_kind_name x)"

definition dec_usage_kind :: "json \<Rightarrow> usage_kind option" where
  "dec_usage_kind = dec_enum usage_kind_name [Quota, LocalBudget] None"

lemma dec_enum_codec:
  assumes "\<And>x. enc x = JStr (enum_name x)" and "dec = dec_enum enum_name variants other"
    and "\<And>x. find (\<lambda>y. enum_name y = enum_name x) variants = Some x"
  shows "codec enc dec (\<lambda>_. True)"
  by unfold_locales (simp_all add: assms dec_enum_def)

interpretation agent_status_codec: codec enc_agent_status dec_agent_status "\<lambda>_. True"
  by (rule dec_enum_codec [OF enc_agent_status_def dec_agent_status_def]) (case_tac x; simp)

interpretation connection_state_codec: codec enc_connection_state dec_connection_state "\<lambda>_. True"
  by (rule dec_enum_codec [OF enc_connection_state_def dec_connection_state_def]) (case_tac x; simp)

interpretation session_state_codec: codec enc_session_state dec_session_state "\<lambda>_. True"
  by (rule dec_enum_codec [OF enc_session_state_def dec_session_state_def]) (case_tac x; simp)

interpretation voice_state_codec: codec enc_voice_state dec_voice_state "\<lambda>_. True"
  by (rule dec_enum_codec [OF enc_voice_state_def dec_voice_state_def]) (case_tac x; simp)

interpretation action_kind_codec: codec enc_action_kind dec_action_kind "\<lambda>_. True"
  by (rule dec_enum_codec [OF enc_action_kind_def dec_action_kind_def]) (case_tac x; simp add: action_kinds_def)

interpretation agent_backend_codec: codec enc_agent_backend dec_agent_backend "\<lambda>_. True"
  by (rule dec_enum_codec [OF enc_agent_backend_def dec_agent_backend_def]) (case_tac x; simp)

interpretation order_mode_codec: codec enc_order_mode dec_order_mode "\<lambda>_. True"
  by (rule dec_enum_codec [OF enc_order_mode_def dec_order_mode_def]) (case_tac x; simp)

interpretation usage_kind_codec: codec enc_usage_kind dec_usage_kind "\<lambda>_. True"
  by (rule dec_enum_codec [OF enc_usage_kind_def dec_usage_kind_def]) (case_tac x; simp)



section \<open>Structs\<close>

declare option.pred_True [simp] list.pred_True [simp]

definition agent_ok :: "agent_view \<Rightarrow> bool" where
  "agent_ok a \<longleftrightarrow> av_observed_for_seconds a < 2 ^ 64 \<and> av_source_order a < 2 ^ 64"

definition enc_voice :: "voice_snapshot \<Rightarrow> json" where
  "enc_voice x = JObj (
     [(''state'', enc_voice_state (vs_state x)), (''owned'', JBool (vs_owned x))])"

definition voice_fields :: "string list" where
  "voice_fields =
     [''state'', ''owned'']"

definition dec_voice :: "json \<Rightarrow> voice_snapshot option" where
  "dec_voice v = do {
     m \<leftarrow> struct_fields voice_fields v;
     x_state \<leftarrow> req dec_voice_state (m ''state'');
     x_owned \<leftarrow> dflt False as_bool (m ''owned'');
     Some \<lparr>
       vs_state = x_state, vs_owned = x_owned\<rparr>}"

definition enc_backend :: "agent_backend_snapshot \<Rightarrow> json" where
  "enc_backend x = JObj (
     [(''mode'', enc_agent_backend (bs_mode x)), (''switchable'', JBool (bs_switchable x))])"

definition backend_fields :: "string list" where
  "backend_fields =
     [''mode'', ''switchable'']"

definition dec_backend :: "json \<Rightarrow> agent_backend_snapshot option" where
  "dec_backend v = do {
     m \<leftarrow> struct_fields backend_fields v;
     x_mode \<leftarrow> req dec_agent_backend (m ''mode'');
     x_switchable \<leftarrow> dflt False as_bool (m ''switchable'');
     Some \<lparr>
       bs_mode = x_mode, bs_switchable = x_switchable\<rparr>}"

definition enc_order :: "agent_order_snapshot \<Rightarrow> json" where
  "enc_order x = JObj (
     [(''available'', JBool (os_available x)), (''mode'', enc_order_mode (os_mode x))])"

definition order_fields :: "string list" where
  "order_fields =
     [''available'', ''mode'']"

definition dec_order :: "json \<Rightarrow> agent_order_snapshot option" where
  "dec_order v = do {
     m \<leftarrow> struct_fields order_fields v;
     x_available \<leftarrow> req as_bool (m ''available'');
     x_mode \<leftarrow> req dec_order_mode (m ''mode'');
     Some \<lparr>
       os_available = x_available, os_mode = x_mode\<rparr>}"

definition enc_capability :: "action_capability \<Rightarrow> json" where
  "enc_capability x = JObj (
     [(''capability_id'', JStr (cap_id x)), (''kind'', enc_action_kind (cap_kind x)),
      (''expires_at_ms'', enc_word (cap_expires_at_ms x)),
      (''expected_revision'', enc_word (cap_expected_revision x))])"

definition capability_fields :: "string list" where
  "capability_fields =
     [''capability_id'', ''kind'', ''expires_at_ms'', ''expected_revision'']"

definition dec_capability :: "json \<Rightarrow> action_capability option" where
  "dec_capability v = do {
     m \<leftarrow> struct_fields capability_fields v;
     x_capability_id \<leftarrow> req as_str (m ''capability_id'');
     x_kind \<leftarrow> req dec_action_kind (m ''kind'');
     x_expires_at_ms \<leftarrow> req dec_word (m ''expires_at_ms'');
     x_expected_revision \<leftarrow> req dec_word (m ''expected_revision'');
     Some \<lparr>
       cap_id = x_capability_id, cap_kind = x_kind, cap_expires_at_ms = x_expires_at_ms,
       cap_expected_revision = x_expected_revision\<rparr>}"

definition enc_actions :: "agent_actions \<Rightarrow> json" where
  "enc_actions x = JObj (
     [(''open'', JBool (aa_open x)), (''zoom'', JBool (aa_zoom x))] @
     opt_field ''approve'' enc_capability (aa_approve x) @
     opt_field ''interrupt'' enc_capability (aa_interrupt x))"

definition actions_fields :: "string list" where
  "actions_fields =
     [''open'', ''zoom'', ''approve'', ''interrupt'']"

definition dec_actions :: "json \<Rightarrow> agent_actions option" where
  "dec_actions v = do {
     m \<leftarrow> struct_fields actions_fields v;
     x_open \<leftarrow> dflt False as_bool (m ''open'');
     x_zoom \<leftarrow> dflt False as_bool (m ''zoom'');
     x_approve \<leftarrow> opt dec_capability (m ''approve'');
     x_interrupt \<leftarrow> opt dec_capability (m ''interrupt'');
     Some \<lparr>
       aa_open = x_open, aa_zoom = x_zoom, aa_approve = x_approve, aa_interrupt = x_interrupt\<rparr>}"

definition enc_agent :: "agent_view \<Rightarrow> json" where
  "enc_agent x = JObj (
     [(''id'', JStr (av_id x)), (''display_name'', JStr (av_display_name x)),
      (''agent'', JStr (av_agent x)), (''status'', enc_agent_status (av_status x)),
      (''review_ready'', JBool (av_review_ready x)),
      (''launch_pending'', JBool (av_launch_pending x)), (''workspace'', JStr (av_workspace x))] @
     opt_field ''repository'' JStr (av_repository x) @
     opt_field ''worktree'' JStr (av_worktree x) @
     [(''session'', JStr (av_session x)), (''focused'', JBool (av_focused x)),
      (''observed_for_seconds'', enc_nat (av_observed_for_seconds x)),
      (''state_change_seq'', enc_word (av_state_change_seq x)),
      (''source_order'', enc_nat (av_source_order x)),
      (''actions'', enc_actions (av_actions x))])"

definition agent_fields :: "string list" where
  "agent_fields =
     [''id'', ''display_name'', ''agent'', ''status'', ''review_ready'', ''launch_pending'',
       ''workspace'', ''repository'', ''worktree'', ''session'', ''focused'',
       ''observed_for_seconds'', ''state_change_seq'', ''source_order'', ''actions'']"

definition dec_agent :: "json \<Rightarrow> agent_view option" where
  "dec_agent v = do {
     m \<leftarrow> struct_fields agent_fields v;
     x_id \<leftarrow> req as_str (m ''id'');
     x_display_name \<leftarrow> req as_str (m ''display_name'');
     x_agent \<leftarrow> req as_str (m ''agent'');
     x_status \<leftarrow> req dec_agent_status (m ''status'');
     x_review_ready \<leftarrow> dflt False as_bool (m ''review_ready'');
     x_launch_pending \<leftarrow> dflt False as_bool (m ''launch_pending'');
     x_workspace \<leftarrow> req as_str (m ''workspace'');
     x_repository \<leftarrow> opt as_str (m ''repository'');
     x_worktree \<leftarrow> opt as_str (m ''worktree'');
     x_session \<leftarrow> req as_str (m ''session'');
     x_focused \<leftarrow> req as_bool (m ''focused'');
     x_observed_for_seconds \<leftarrow> req dec_nat (m ''observed_for_seconds'');
     x_state_change_seq \<leftarrow> dflt 0 dec_word (m ''state_change_seq'');
     x_source_order \<leftarrow> req dec_nat (m ''source_order'');
     x_actions \<leftarrow> req dec_actions (m ''actions'');
     Some \<lparr>
       av_id = x_id, av_display_name = x_display_name, av_agent = x_agent,
       av_status = x_status, av_review_ready = x_review_ready,
       av_launch_pending = x_launch_pending, av_workspace = x_workspace,
       av_repository = x_repository, av_worktree = x_worktree, av_session = x_session,
       av_focused = x_focused, av_observed_for_seconds = x_observed_for_seconds,
       av_state_change_seq = x_state_change_seq, av_source_order = x_source_order,
       av_actions = x_actions\<rparr>}"


interpretation voice_codec: codec enc_voice dec_voice "\<lambda>_. True"
  by unfold_locales (simp_all add: enc_voice_def dec_voice_def del: map_of_append)

interpretation backend_codec: codec enc_backend dec_backend "\<lambda>_. True"
  by unfold_locales (simp_all add: enc_backend_def dec_backend_def del: map_of_append)

interpretation order_codec: codec enc_order dec_order "\<lambda>_. True"
  by unfold_locales (simp_all add: enc_order_def dec_order_def del: map_of_append)

interpretation capability_codec: codec enc_capability dec_capability "\<lambda>_. True"
  by unfold_locales (simp_all add: enc_capability_def dec_capability_def del: map_of_append)

interpretation actions_codec: codec enc_actions dec_actions "\<lambda>_. True"
  by unfold_locales (simp_all add: enc_actions_def dec_actions_def del: map_of_append)

interpretation agent_codec: codec enc_agent dec_agent agent_ok
  by unfold_locales (simp_all add: enc_agent_def dec_agent_def agent_ok_def del: map_of_append)


text \<open>Usage, the keyboard, sessions and health. A window or a metric reads back only with a finite number.\<close>

definition window_ok :: "usage_window \<Rightarrow> bool" where
  "window_ok w \<longleftrightarrow> finite_f64 (uw_utilization w)"

definition provider_ok :: "provider_usage \<Rightarrow> bool" where
  "provider_ok p \<longleftrightarrow> pred_option window_ok (pu_primary p) \<and> pred_option window_ok (pu_secondary p)"

definition usage_ok :: "ai_usage_snapshot \<Rightarrow> bool" where
  "usage_ok u \<longleftrightarrow> list_all provider_ok (us_providers u)"

definition metric_ok :: "metric \<Rightarrow> bool" where
  "metric_ok m \<longleftrightarrow> pred_option finite_f64 (m_value m)"

definition health_ok :: "health_snapshot \<Rightarrow> bool" where
  "health_ok h \<longleftrightarrow> metric_ok (hs_cpu h) \<and> metric_ok (hs_cpu_temperature h) \<and> metric_ok (hs_gpu h) \<and>
     metric_ok (hs_gpu_temperature h) \<and> metric_ok (hs_memory h) \<and> metric_ok (hs_network_down h) \<and>
     metric_ok (hs_network_up h) \<and> metric_ok (hs_battery h)"

definition enc_window :: "usage_window \<Rightarrow> json" where
  "enc_window x = JObj (
     [(''label'', JStr (uw_label x)), (''utilization'', enc_f64 (uw_utilization x))] @
     opt_field ''reset_at_ms'' enc_word (uw_reset_at_ms x))"

definition window_fields :: "string list" where
  "window_fields =
     [''label'', ''utilization'', ''reset_at_ms'']"

definition dec_window :: "json \<Rightarrow> usage_window option" where
  "dec_window v = do {
     m \<leftarrow> struct_fields window_fields v;
     x_label \<leftarrow> req as_str (m ''label'');
     x_utilization \<leftarrow> req as_f64 (m ''utilization'');
     x_reset_at_ms \<leftarrow> opt dec_word (m ''reset_at_ms'');
     Some \<lparr>
       uw_label = x_label, uw_utilization = x_utilization, uw_reset_at_ms = x_reset_at_ms\<rparr>}"

definition enc_provider :: "provider_usage \<Rightarrow> json" where
  "enc_provider x = JObj (
     [(''id'', JStr (pu_id x)), (''label'', JStr (pu_label x)),
      (''kind'', enc_usage_kind (pu_kind x)), (''available'', JBool (pu_available x)),
      (''stale'', JBool (pu_stale x)), (''source'', JStr (pu_source x)),
      (''status'', JStr (pu_status x))] @
     opt_field ''plan'' JStr (pu_plan x) @
     opt_field ''model'' JStr (pu_model x) @
     opt_field ''primary'' enc_window (pu_primary x) @
     opt_field ''secondary'' enc_window (pu_secondary x) @
     opt_field ''today_tokens'' enc_word (pu_today_tokens x) @
     opt_field ''tokens_per_hour'' enc_word (pu_tokens_per_hour x) @
     opt_field ''last_updated_ms'' enc_word (pu_last_updated_ms x))"

definition provider_fields :: "string list" where
  "provider_fields =
     [''id'', ''label'', ''kind'', ''available'', ''stale'', ''source'', ''status'', ''plan'',
       ''model'', ''primary'', ''secondary'', ''today_tokens'', ''tokens_per_hour'',
       ''last_updated_ms'']"

definition dec_provider :: "json \<Rightarrow> provider_usage option" where
  "dec_provider v = do {
     m \<leftarrow> struct_fields provider_fields v;
     x_id \<leftarrow> req as_str (m ''id'');
     x_label \<leftarrow> req as_str (m ''label'');
     x_kind \<leftarrow> req dec_usage_kind (m ''kind'');
     x_available \<leftarrow> req as_bool (m ''available'');
     x_stale \<leftarrow> req as_bool (m ''stale'');
     x_source \<leftarrow> req as_str (m ''source'');
     x_status \<leftarrow> req as_str (m ''status'');
     x_plan \<leftarrow> opt as_str (m ''plan'');
     x_model \<leftarrow> opt as_str (m ''model'');
     x_primary \<leftarrow> opt dec_window (m ''primary'');
     x_secondary \<leftarrow> opt dec_window (m ''secondary'');
     x_today_tokens \<leftarrow> opt dec_word (m ''today_tokens'');
     x_tokens_per_hour \<leftarrow> opt dec_word (m ''tokens_per_hour'');
     x_last_updated_ms \<leftarrow> opt dec_word (m ''last_updated_ms'');
     Some \<lparr>
       pu_id = x_id, pu_label = x_label, pu_kind = x_kind, pu_available = x_available,
       pu_stale = x_stale, pu_source = x_source, pu_status = x_status, pu_plan = x_plan,
       pu_model = x_model, pu_primary = x_primary, pu_secondary = x_secondary,
       pu_today_tokens = x_today_tokens, pu_tokens_per_hour = x_tokens_per_hour,
       pu_last_updated_ms = x_last_updated_ms\<rparr>}"

definition enc_usage :: "ai_usage_snapshot \<Rightarrow> json" where
  "enc_usage x = JObj (
     [(''providers'', enc_list enc_provider (us_providers x))])"

definition usage_fields :: "string list" where
  "usage_fields =
     [''providers'']"

definition dec_usage :: "json \<Rightarrow> ai_usage_snapshot option" where
  "dec_usage v = do {
     m \<leftarrow> struct_fields usage_fields v;
     x_providers \<leftarrow> req (dec_list dec_provider) (m ''providers'');
     Some \<lparr>
       us_providers = x_providers\<rparr>}"

definition enc_micro :: "micro_snapshot \<Rightarrow> json" where
  "enc_micro x = JObj (
     [(''connected'', JBool (ms_connected x)), (''controlled'', JBool (ms_controlled x)),
      (''slots'', enc_list JStr (ms_slots x))] @
     opt_field ''firmware'' JStr (ms_firmware x) @
     opt_field ''battery'' enc_word (ms_battery x) @
     [(''charging'', JBool (ms_charging x))] @
     opt_field ''layer'' enc_word (ms_layer x) @
     opt_field ''profile'' enc_word (ms_profile x) @
     opt_field ''last_updated_ms'' enc_word (ms_last_updated_ms x))"

definition micro_fields :: "string list" where
  "micro_fields =
     [''connected'', ''controlled'', ''slots'', ''firmware'', ''battery'', ''charging'',
       ''layer'', ''profile'', ''last_updated_ms'']"

definition dec_micro :: "json \<Rightarrow> micro_snapshot option" where
  "dec_micro v = do {
     m \<leftarrow> struct_fields micro_fields v;
     x_connected \<leftarrow> req as_bool (m ''connected'');
     x_controlled \<leftarrow> dflt False as_bool (m ''controlled'');
     x_slots \<leftarrow> dflt [] (dec_list as_str) (m ''slots'');
     x_firmware \<leftarrow> opt as_str (m ''firmware'');
     x_battery \<leftarrow> opt dec_word (m ''battery'');
     x_charging \<leftarrow> dflt False as_bool (m ''charging'');
     x_layer \<leftarrow> opt dec_word (m ''layer'');
     x_profile \<leftarrow> opt dec_word (m ''profile'');
     x_last_updated_ms \<leftarrow> opt dec_word (m ''last_updated_ms'');
     Some \<lparr>
       ms_connected = x_connected, ms_controlled = x_controlled, ms_slots = x_slots,
       ms_firmware = x_firmware, ms_battery = x_battery, ms_charging = x_charging,
       ms_layer = x_layer, ms_profile = x_profile, ms_last_updated_ms = x_last_updated_ms\<rparr>}"

definition enc_session :: "session_view \<Rightarrow> json" where
  "enc_session x = JObj (
     [(''name'', JStr (sv_name x)), (''state'', enc_session_state (sv_state x))] @
     opt_field ''version'' JStr (sv_version x) @
     opt_field ''protocol'' enc_word (sv_protocol x) @
     opt_field ''last_sync_ms'' enc_word (sv_last_sync_ms x) @
     opt_field ''message'' JStr (sv_message x))"

definition session_fields :: "string list" where
  "session_fields =
     [''name'', ''state'', ''version'', ''protocol'', ''last_sync_ms'', ''message'']"

definition dec_session :: "json \<Rightarrow> session_view option" where
  "dec_session v = do {
     m \<leftarrow> struct_fields session_fields v;
     x_name \<leftarrow> req as_str (m ''name'');
     x_state \<leftarrow> req dec_session_state (m ''state'');
     x_version \<leftarrow> opt as_str (m ''version'');
     x_protocol \<leftarrow> opt dec_word (m ''protocol'');
     x_last_sync_ms \<leftarrow> opt dec_word (m ''last_sync_ms'');
     x_message \<leftarrow> opt as_str (m ''message'');
     Some \<lparr>
       sv_name = x_name, sv_state = x_state, sv_version = x_version, sv_protocol = x_protocol,
       sv_last_sync_ms = x_last_sync_ms, sv_message = x_message\<rparr>}"

definition enc_metric :: "metric \<Rightarrow> json" where
  "enc_metric x = JObj (
     [(''available'', JBool (m_available x))] @
     opt_field ''value'' enc_f64 (m_value x) @
     [(''unit'', JStr (m_unit x))])"

definition metric_fields :: "string list" where
  "metric_fields =
     [''available'', ''value'', ''unit'']"

definition dec_metric :: "json \<Rightarrow> metric option" where
  "dec_metric v = do {
     m \<leftarrow> struct_fields metric_fields v;
     x_available \<leftarrow> req as_bool (m ''available'');
     x_value \<leftarrow> opt as_f64 (m ''value'');
     x_unit \<leftarrow> req as_str (m ''unit'');
     Some \<lparr>
       m_available = x_available, m_value = x_value, m_unit = x_unit\<rparr>}"

definition enc_health :: "health_snapshot \<Rightarrow> json" where
  "enc_health x = JObj (
     [(''cpu'', enc_metric (hs_cpu x)),
      (''cpu_temperature'', enc_metric (hs_cpu_temperature x)),
      (''gpu'', enc_metric (hs_gpu x)),
      (''gpu_temperature'', enc_metric (hs_gpu_temperature x)),
      (''memory'', enc_metric (hs_memory x)),
      (''network_down'', enc_metric (hs_network_down x)),
      (''network_up'', enc_metric (hs_network_up x)), (''battery'', enc_metric (hs_battery x))])"

definition health_fields :: "string list" where
  "health_fields =
     [''cpu'', ''cpu_temperature'', ''gpu'', ''gpu_temperature'', ''memory'',
       ''network_down'', ''network_up'', ''battery'']"

definition dec_health :: "json \<Rightarrow> health_snapshot option" where
  "dec_health v = do {
     m \<leftarrow> struct_fields health_fields v;
     x_cpu \<leftarrow> req dec_metric (m ''cpu'');
     x_cpu_temperature \<leftarrow> req dec_metric (m ''cpu_temperature'');
     x_gpu \<leftarrow> req dec_metric (m ''gpu'');
     x_gpu_temperature \<leftarrow> req dec_metric (m ''gpu_temperature'');
     x_memory \<leftarrow> req dec_metric (m ''memory'');
     x_network_down \<leftarrow> req dec_metric (m ''network_down'');
     x_network_up \<leftarrow> req dec_metric (m ''network_up'');
     x_battery \<leftarrow> req dec_metric (m ''battery'');
     Some \<lparr>
       hs_cpu = x_cpu, hs_cpu_temperature = x_cpu_temperature, hs_gpu = x_gpu,
       hs_gpu_temperature = x_gpu_temperature, hs_memory = x_memory,
       hs_network_down = x_network_down, hs_network_up = x_network_up, hs_battery = x_battery\<rparr>}"


interpretation window_codec: codec enc_window dec_window window_ok
  by unfold_locales (simp_all add: enc_window_def dec_window_def window_ok_def del: map_of_append)

interpretation provider_codec: codec enc_provider dec_provider provider_ok
  by unfold_locales (simp_all add: enc_provider_def dec_provider_def provider_ok_def del: map_of_append)

interpretation usage_codec: codec enc_usage dec_usage usage_ok
  by unfold_locales (simp_all add: enc_usage_def dec_usage_def usage_ok_def del: map_of_append)

interpretation metric_codec: codec enc_metric dec_metric metric_ok
  by unfold_locales (simp_all add: enc_metric_def dec_metric_def metric_ok_def del: map_of_append)

interpretation health_codec: codec enc_health dec_health health_ok
  by unfold_locales (simp_all add: enc_health_def dec_health_def health_ok_def del: map_of_append)

interpretation micro_codec: codec enc_micro dec_micro "\<lambda>_. True"
  by unfold_locales (simp_all add: enc_micro_def dec_micro_def del: map_of_append)

interpretation session_codec: codec enc_session dec_session "\<lambda>_. True"
  by unfold_locales (simp_all add: enc_session_def dec_session_def del: map_of_append)


section \<open>Messages\<close>

definition snapshot_ok :: "portal_snapshot \<Rightarrow> bool" where
  "snapshot_ok p \<longleftrightarrow> list_all agent_ok (ps_agents p) \<and> usage_ok (ps_usage p) \<and> health_ok (ps_health p)"

definition snapshot_members :: "portal_snapshot \<Rightarrow> (string \<times> json) list" where
  "snapshot_members x = (
     [(''schema_version'', enc_word (ps_schema_version x)),
      (''sequence'', enc_word (ps_sequence x)), (''daemon_epoch'', JStr (ps_daemon_epoch x)),
      (''generated_at_ms'', enc_word (ps_generated_at_ms x)),
      (''connection'', enc_connection_state (ps_connection x)),
      (''sessions'', enc_list enc_session (ps_sessions x)),
      (''agents'', enc_list enc_agent (ps_agents x)),
      (''agent_order'', enc_order (ps_agent_order x)),
      (''backend'', enc_backend (ps_backend x)), (''voice'', enc_voice (ps_voice x)),
      (''usage'', enc_usage (ps_usage x)), (''micro'', enc_micro (ps_micro x)),
      (''health'', enc_health (ps_health x))])"

definition snapshot_fields :: "string list" where
  "snapshot_fields =
     [''schema_version'', ''sequence'', ''daemon_epoch'', ''generated_at_ms'', ''connection'',
       ''sessions'', ''agents'', ''agent_order'', ''backend'', ''voice'', ''usage'', ''micro'',
       ''health'']"

definition dec_snapshot :: "json \<Rightarrow> portal_snapshot option" where
  "dec_snapshot v = do {
     m \<leftarrow> struct_fields snapshot_fields v;
     x_schema_version \<leftarrow> req dec_word (m ''schema_version'');
     x_sequence \<leftarrow> req dec_word (m ''sequence'');
     x_daemon_epoch \<leftarrow> req as_str (m ''daemon_epoch'');
     x_generated_at_ms \<leftarrow> req dec_word (m ''generated_at_ms'');
     x_connection \<leftarrow> req dec_connection_state (m ''connection'');
     x_sessions \<leftarrow> req (dec_list dec_session) (m ''sessions'');
     x_agents \<leftarrow> req (dec_list dec_agent) (m ''agents'');
     x_agent_order \<leftarrow> dflt default_order dec_order (m ''agent_order'');
     x_backend \<leftarrow> dflt \<lparr>bs_mode = Herdr, bs_switchable = False\<rparr> dec_backend (m ''backend'');
     x_voice \<leftarrow> req dec_voice (m ''voice'');
     x_usage \<leftarrow> req dec_usage (m ''usage'');
     x_micro \<leftarrow> req dec_micro (m ''micro'');
     x_health \<leftarrow> req dec_health (m ''health'');
     Some \<lparr>
       ps_schema_version = x_schema_version, ps_sequence = x_sequence,
       ps_daemon_epoch = x_daemon_epoch, ps_generated_at_ms = x_generated_at_ms,
       ps_connection = x_connection, ps_sessions = x_sessions, ps_agents = x_agents,
       ps_agent_order = x_agent_order, ps_backend = x_backend, ps_voice = x_voice,
       ps_usage = x_usage, ps_micro = x_micro, ps_health = x_health\<rparr>}"

definition enc_command :: "portal_command \<Rightarrow> json" where
  "enc_command x = JObj (
     [(''schema_version'', enc_word (pc_schema_version x)),
      (''request_id'', JStr (pc_request_id x)), (''sequence'', enc_word (pc_sequence x))] @
     opt_field ''agent_id'' JStr (pc_agent_id x) @
     [(''action'', enc_action_kind (pc_action x))] @
     opt_field ''capability_id'' JStr (pc_capability_id x))"

definition command_fields :: "string list" where
  "command_fields =
     [''schema_version'', ''request_id'', ''sequence'', ''agent_id'', ''action'',
       ''capability_id'']"

definition dec_command :: "json \<Rightarrow> portal_command option" where
  "dec_command v = do {
     m \<leftarrow> struct_fields command_fields v;
     x_schema_version \<leftarrow> req dec_word (m ''schema_version'');
     x_request_id \<leftarrow> dflt [] as_str (m ''request_id'');
     x_sequence \<leftarrow> req dec_word (m ''sequence'');
     x_agent_id \<leftarrow> opt as_str (m ''agent_id'');
     x_action \<leftarrow> req dec_action_kind (m ''action'');
     x_capability_id \<leftarrow> opt as_str (m ''capability_id'');
     Some \<lparr>
       pc_schema_version = x_schema_version, pc_request_id = x_request_id,
       pc_sequence = x_sequence, pc_agent_id = x_agent_id, pc_action = x_action,
       pc_capability_id = x_capability_id\<rparr>}"

definition action_result_members :: "action_result \<Rightarrow> (string \<times> json) list" where
  "action_result_members x = (
     [(''schema_version'', enc_word (ar_schema_version x)),
      (''request_id'', JStr (ar_request_id x)), (''ok'', JBool (ar_ok x)),
      (''code'', JStr (ar_code x)), (''message'', JStr (ar_message x))])"

definition action_result_fields :: "string list" where
  "action_result_fields =
     [''schema_version'', ''request_id'', ''ok'', ''code'', ''message'']"

definition dec_action_result :: "json \<Rightarrow> action_result option" where
  "dec_action_result v = do {
     m \<leftarrow> struct_fields action_result_fields v;
     x_schema_version \<leftarrow> req dec_word (m ''schema_version'');
     x_request_id \<leftarrow> req as_str (m ''request_id'');
     x_ok \<leftarrow> req as_bool (m ''ok'');
     x_code \<leftarrow> req as_str (m ''code'');
     x_message \<leftarrow> req as_str (m ''message'');
     Some \<lparr>
       ar_schema_version = x_schema_version, ar_request_id = x_request_id, ar_ok = x_ok,
       ar_code = x_code, ar_message = x_message\<rparr>}"


text \<open>\<open>ServerMessage\<close> is tagged by its type beside the flattened members of its content. (A tagged message
  as an array is not modelled.)\<close>

fun enc_server_message :: "server_message \<Rightarrow> json" where
  "enc_server_message (Snapshot p) = JObj ((''type'', JStr ''snapshot'') # snapshot_members p)"
| "enc_server_message (ActionResult r) = JObj ((''type'', JStr ''action_result'') # action_result_members r)"
| "enc_server_message (Notice version level code message) = JObj [(''type'', JStr ''notice''),
     (''schema_version'', enc_word version), (''level'', JStr level), (''code'', JStr code),
     (''message'', JStr message)]"

definition dec_notice :: "json \<Rightarrow> server_message option" where
  "dec_notice v = do {
     m \<leftarrow> struct_fields [''schema_version'', ''level'', ''code'', ''message''] v;
     version \<leftarrow> req dec_word (m ''schema_version'');
     level \<leftarrow> req as_str (m ''level'');
     code \<leftarrow> req as_str (m ''code'');
     message \<leftarrow> req as_str (m ''message'');
     Some (Notice version level code message)}"

definition dec_server_message :: "json \<Rightarrow> server_message option" where
  "dec_server_message v = do {
     m \<leftarrow> as_object v;
     tag \<leftarrow> get_str ''type'' m;
     if tag = ''snapshot'' then map_option Snapshot (dec_snapshot m)
     else if tag = ''action_result'' then map_option ActionResult (dec_action_result m)
     else if tag = ''notice'' then dec_notice m
     else None}"

fun message_ok :: "server_message \<Rightarrow> bool" where
  "message_ok (Snapshot p) = snapshot_ok p"
| "message_ok _ = True"

lemma dec_snapshot_members:
  "snapshot_ok p \<Longrightarrow> dec_snapshot (JObj ((''type'', t) # snapshot_members p)) = Some p"
  by (simp add: dec_snapshot_def snapshot_members_def snapshot_ok_def)

lemma dec_action_result_members:
  "dec_action_result (JObj ((''type'', t) # action_result_members r)) = Some r"
  by (simp add: dec_action_result_def action_result_members_def)

interpretation command_codec: codec enc_command dec_command "\<lambda>_. True"
  by unfold_locales (simp_all add: enc_command_def dec_command_def del: map_of_append)

interpretation message_codec: codec enc_server_message dec_server_message message_ok
proof
  fix m assume "message_ok m"
  then show "dec_server_message (enc_server_message m) = Some m"
    by (cases m) (simp_all add: dec_server_message_def get_str_def dec_snapshot_members
        dec_action_result_members dec_notice_def)
  show "enc_server_message m \<noteq> JNull" by (cases m) simp_all
qed


section \<open>Properties\<close>

lemma command_type_ignored: "dec_command (JObj ((''type'', t) # m)) = dec_command (JObj m)"
  by (simp add: dec_command_def)

text \<open>C18 What is written to the socket can be read back: a message whose floats are finite and whose
  counts fit 64 bits decodes to itself, so the display loses nothing of the daemon's snapshot, of a
  result or of a notice; a command decodes to itself whatever other members are sent along. A \<open>type\<close> member of a command
  is one of those: whatever it says, the daemon decodes the rest.\<close>

theorem protocol_roundtrip:
  assumes "message_ok message" and "\<forall>k \<in> fst ` set extra. k \<notin> set command_fields"
  shows "dec_server_message (enc_server_message message) = Some message \<and>
    dec_command (enc_command command) = Some command \<and>
    (case enc_command command of JObj m \<Rightarrow> dec_command (JObj (extra @ m)) = Some command | _ \<Rightarrow> False) \<and>
    dec_command (JObj ((''type'', t) # members)) = dec_command (JObj members)"
proof -
  have skip: "map_of (extra @ m) k = map_of m k" if "k \<in> set command_fields" for m k
  proof -
    have "map_of extra k = None" using assms(2) that by (auto simp: map_of_eq_None_iff)
    then show ?thesis by (simp add: map_add_def)
  qed
  then have "dec_command (JObj (extra @ m)) = dec_command (JObj m)" for m
    by (simp add: dec_command_def command_fields_def)
  then show ?thesis
    using message_codec.decodes [OF assms(1)] command_codec.decodes [of command]
    by (simp add: enc_command_def command_type_ignored)
qed

definition example_message :: server_message where
  "example_message = Snapshot ((empty_snapshot ''e'')\<lparr>ps_sequence := 7,
     ps_health := default_health\<lparr>hs_cpu := metric_available (Fin (1 / 2)) ''%''\<rparr>\<rparr>)"

lemma protocol_roundtrip_witness:
  "dec_server_message (enc_server_message example_message) = Some example_message"
proof -
  have "message_ok example_message"
    by (simp add: example_message_def snapshot_ok_def empty_snapshot_def usage_ok_def health_ok_def
        default_health_def metric_ok_def metric_unavailable_def metric_available_def)
  then show ?thesis using protocol_roundtrip [of example_message "[(''type'', JStr ''command'')]"]
    by (simp add: command_fields_def)
qed

end
