(* ===== verification/Replies.thy ===== *)
theory Replies
  imports Wire Herdr Desktop T3code Config Runtime
begin

text \<open>
  What the servers, the compositor and the files say, decoded as serde derives it for the private
  structs of \<open>herdr.rs\<close>, \<open>desktop.rs\<close> and \<open>t3code.rs\<close> and for the configuration, from a JSON value. The
  adapters take these decoders as arguments; \<open>json_herdr_env\<close> and its siblings put them in. A TOML
  document is a JSON object here: no field is a date. Text becomes a value in the libraries.
\<close>

section \<open>Scalars\<close>

text \<open>\<open>i64\<close> and \<open>i32\<close> from a number without a fraction, in range.\<close>

fun as_int :: "json \<Rightarrow> int option" where
  "as_int (JNum (PosInt n)) = Some (uint n)"
| "as_int (JNum (NegInt i)) = Some i"
| "as_int _ = None"

definition dec_signed :: "nat \<Rightarrow> json \<Rightarrow> int option" where
  "dec_signed w v = Option.bind (as_int v) (\<lambda>i.
     if - (2 ^ (w - 1)) \<le> i \<and> i < 2 ^ (w - 1) then Some i else None)"

text \<open>A struct with a flattened member is read from an object only.\<close>

fun object_members :: "json \<Rightarrow> (string \<times> json) list option" where
  "object_members (JObj m) = Some m"
| "object_members _ = None"

text \<open>A struct with an optional field that has no default is read from a full array only.\<close>

fun full_fields :: "string list \<Rightarrow> json \<Rightarrow> (string \<Rightarrow> json option) option" where
  "full_fields names (JArr vs) = (if length vs = length names then struct_fields names (JArr vs) else None)"
| "full_fields names v = struct_fields names v"

section \<open>Herdr\<close>

definition dec_session_descriptor :: "json \<Rightarrow> session_descriptor option" where
  "dec_session_descriptor v = do {
     f \<leftarrow> struct_fields [''name'', ''running'', ''socket_path''] v;
     x_name \<leftarrow> req as_str (f ''name'');
     x_running \<leftarrow> req as_bool (f ''running'');
     x_socket_path \<leftarrow> req as_str (f ''socket_path'');
     Some \<lparr>
       sd_name = x_name, sd_running = x_running, sd_socket_path = x_socket_path\<rparr>}"

definition dec_session_list :: "json \<Rightarrow> session_descriptor list option" where
  "dec_session_list v = do {
     f \<leftarrow> struct_fields [''sessions''] v;
     req (dec_list dec_session_descriptor) (f ''sessions'')}"

definition dec_pong :: "json \<Rightarrow> pong option" where
  "dec_pong v = do {
     f \<leftarrow> struct_fields [''version'', ''protocol''] v;
     x_version \<leftarrow> req as_str (f ''version'');
     x_protocol \<leftarrow> req dec_word (f ''protocol'');
     Some \<lparr>
       pg_version = x_version, pg_protocol = x_protocol\<rparr>}"

definition dec_ping_result :: "json \<Rightarrow> pong option" where
  "dec_ping_result v = do {
     f \<leftarrow> struct_fields [''result''] v;
     req dec_pong (f ''result'')}"

definition dec_worktree :: "json \<Rightarrow> herdr_worktree option" where
  "dec_worktree v = do {
     f \<leftarrow> struct_fields [''repo_name'', ''checkout_path'', ''is_linked_worktree''] v;
     x_repo_name \<leftarrow> req as_str (f ''repo_name'');
     x_checkout_path \<leftarrow> req as_str (f ''checkout_path'');
     x_is_linked_worktree \<leftarrow> dflt False as_bool (f ''is_linked_worktree'');
     Some \<lparr>
       hw_repo_name = x_repo_name, hw_checkout_path = x_checkout_path, hw_is_linked_worktree
       = x_is_linked_worktree\<rparr>}"

definition dec_workspace :: "json \<Rightarrow> herdr_workspace option" where
  "dec_workspace v = do {
     f \<leftarrow> struct_fields [''workspace_id'', ''number'', ''label'', ''worktree''] v;
     x_workspace_id \<leftarrow> req as_str (f ''workspace_id'');
     x_number \<leftarrow> req dec_word (f ''number'');
     x_label \<leftarrow> req as_str (f ''label'');
     x_worktree \<leftarrow> opt dec_worktree (f ''worktree'');
     Some \<lparr>
       ws_workspace_id = x_workspace_id, ws_number = x_number, ws_label = x_label,
       ws_worktree = x_worktree\<rparr>}"

definition dec_tab :: "json \<Rightarrow> herdr_tab option" where
  "dec_tab v = do {
     f \<leftarrow> struct_fields [''tab_id'', ''label''] v;
     x_tab_id \<leftarrow> req as_str (f ''tab_id'');
     x_label \<leftarrow> dflt [] as_str (f ''label'');
     Some \<lparr>
       tab_id = x_tab_id, tab_label = x_label\<rparr>}"

definition agent_fields :: "string list" where
  "agent_fields = [''terminal_id'', ''agent'', ''display_agent'', ''name'', ''agent_status'', ''workspace_id'',
     ''tab_id'', ''pane_id'', ''focused'', ''launch_pending'', ''state_change_seq'', ''cwd'',
     ''foreground_cwd'', ''revision'']"

text \<open>The members that are no field of the struct are collected in \<open>extra\<close>.\<close>

definition dec_herdr_agent :: "json \<Rightarrow> herdr_agent option" where
  "dec_herdr_agent v = do {
     m \<leftarrow> object_members v;
     x_terminal_id \<leftarrow> req as_str (map_of m ''terminal_id'');
     x_agent \<leftarrow> opt as_str (map_of m ''agent'');
     x_display_agent \<leftarrow> opt as_str (map_of m ''display_agent'');
     x_name \<leftarrow> opt as_str (map_of m ''name'');
     x_agent_status \<leftarrow> dflt Unknown dec_agent_status (map_of m ''agent_status'');
     x_workspace_id \<leftarrow> req as_str (map_of m ''workspace_id'');
     x_tab_id \<leftarrow> dflt [] as_str (map_of m ''tab_id'');
     x_pane_id \<leftarrow> req as_str (map_of m ''pane_id'');
     x_focused \<leftarrow> dflt False as_bool (map_of m ''focused'');
     x_launch_pending \<leftarrow> dflt False as_bool (map_of m ''launch_pending'');
     x_state_change_seq \<leftarrow> dflt 0 dec_word (map_of m ''state_change_seq'');
     x_cwd \<leftarrow> opt as_str (map_of m ''cwd'');
     x_foreground_cwd \<leftarrow> opt as_str (map_of m ''foreground_cwd'');
     x_revision \<leftarrow> dflt 0 dec_word (map_of m ''revision'');
     Some \<lparr>
       ha_terminal_id = x_terminal_id, ha_agent = x_agent, ha_display_agent =
       x_display_agent, ha_name = x_name, ha_agent_status = x_agent_status, ha_workspace_id
       = x_workspace_id, ha_tab_id = x_tab_id, ha_pane_id = x_pane_id, ha_focused =
       x_focused, ha_launch_pending = x_launch_pending, ha_state_change_seq =
       x_state_change_seq, ha_cwd = x_cwd, ha_foreground_cwd = x_foreground_cwd, ha_revision
       = x_revision, ha_extra = filter (\<lambda>(k, _). k \<notin> set agent_fields) m\<rparr>}"

definition dec_herdr_snapshot :: "json \<Rightarrow> herdr_snapshot option" where
  "dec_herdr_snapshot v = do {
     f \<leftarrow> struct_fields [''workspaces'', ''tabs'', ''agents''] v;
     x_workspaces \<leftarrow> dflt [] (dec_list dec_workspace) (f ''workspaces'');
     x_tabs \<leftarrow> dflt [] (dec_list dec_tab) (f ''tabs'');
     x_agents \<leftarrow> dflt [] (dec_list dec_herdr_agent) (f ''agents'');
     Some \<lparr>
       hs_workspaces = x_workspaces, hs_tabs = x_tabs, hs_agents = x_agents\<rparr>}"

definition dec_snapshot_result :: "json \<Rightarrow> herdr_snapshot option" where
  "dec_snapshot_result v = do {
     f \<leftarrow> struct_fields [''snapshot''] v;
     req dec_herdr_snapshot (f ''snapshot'')}"

definition dec_snapshot_response :: "json \<Rightarrow> herdr_snapshot option" where
  "dec_snapshot_response v = do {
     f \<leftarrow> struct_fields [''result''] v;
     req dec_snapshot_result (f ''result'')}"

section \<open>Hyprland\<close>

definition dec_hypr_client :: "json \<Rightarrow> hypr_client option" where
  "dec_hypr_client v = do {
     f \<leftarrow> struct_fields [''address'', ''class'', ''initialClass'', ''title'', ''initialTitle'', ''pid'', ''monitor'', ''floating'', ''focusHistoryID''] v;
     x_address \<leftarrow> req as_str (f ''address'');
     x_class \<leftarrow> dflt [] as_str (f ''class'');
     x_initialclass \<leftarrow> dflt [] as_str (f ''initialClass'');
     x_title \<leftarrow> dflt [] as_str (f ''title'');
     x_initialtitle \<leftarrow> dflt [] as_str (f ''initialTitle'');
     x_pid \<leftarrow> req (dec_signed 32) (f ''pid'');
     x_monitor \<leftarrow> req (dec_signed 64) (f ''monitor'');
     x_floating \<leftarrow> dflt False as_bool (f ''floating'');
     x_focushistoryid \<leftarrow> opt (dec_signed 64) (f ''focusHistoryID'');
     Some \<lparr>
       hc_address = x_address, hc_class = x_class, hc_initial_class = x_initialclass,
       hc_title = x_title, hc_initial_title = x_initialtitle, hc_pid = x_pid, hc_monitor =
       x_monitor, hc_floating = x_floating, hc_focus_history_id = x_focushistoryid\<rparr>}"

definition dec_hypr_monitor :: "json \<Rightarrow> hypr_monitor option" where
  "dec_hypr_monitor v = do {
     f \<leftarrow> struct_fields [''id'', ''name'', ''focused''] v;
     x_id \<leftarrow> req (dec_signed 64) (f ''id'');
     x_name \<leftarrow> req as_str (f ''name'');
     x_focused \<leftarrow> dflt False as_bool (f ''focused'');
     Some \<lparr>
       hm_id = x_id, hm_name = x_name, hm_focused = x_focused\<rparr>}"

section \<open>T3 Code\<close>

definition dec_server_runtime :: "json \<Rightarrow> (u32 \<times> int) option" where
  "dec_server_runtime v = do {
     f \<leftarrow> struct_fields [''version'', ''pid''] v;
     version \<leftarrow> req dec_word (f ''version'');
     pid \<leftarrow> req (dec_signed 64) (f ''pid'');
     Some (version, pid)}"

definition dec_status_thread :: "json \<Rightarrow> status_thread option" where
  "dec_status_thread v = do {
     f \<leftarrow> full_fields [''thread_id'', ''title'', ''project_title'', ''workspace_root'', ''branch'', ''worktree_path'', ''provider'', ''status'', ''settled'', ''snoozed'', ''pending_input'', ''background_work'', ''updated_at'', ''latest_run_completed_at'', ''last_visited_at''] v;
     x_thread_id \<leftarrow> req as_str (f ''thread_id'');
     x_title \<leftarrow> req as_str (f ''title'');
     x_project_title \<leftarrow> req as_str (f ''project_title'');
     x_workspace_root \<leftarrow> req as_str (f ''workspace_root'');
     x_branch \<leftarrow> opt as_str (f ''branch'');
     x_worktree_path \<leftarrow> opt as_str (f ''worktree_path'');
     x_provider \<leftarrow> req as_str (f ''provider'');
     x_status \<leftarrow> req as_str (f ''status'');
     x_settled \<leftarrow> req as_bool (f ''settled'');
     x_snoozed \<leftarrow> req as_bool (f ''snoozed'');
     x_pending_input \<leftarrow> req as_bool (f ''pending_input'');
     x_background_work \<leftarrow> req as_bool (f ''background_work'');
     x_updated_at \<leftarrow> req as_str (f ''updated_at'');
     x_latest_run_completed_at \<leftarrow> opt as_str (f ''latest_run_completed_at'');
     x_last_visited_at \<leftarrow> opt as_str (f ''last_visited_at'');
     Some \<lparr>
       st_thread_id = x_thread_id, st_title = x_title, st_project_title = x_project_title,
       st_workspace_root = x_workspace_root, st_branch = x_branch, st_worktree_path =
       x_worktree_path, st_provider = x_provider, st_status = x_status, st_settled =
       x_settled, st_snoozed = x_snoozed, st_pending_input = x_pending_input,
       st_background_work = x_background_work, st_updated_at = x_updated_at,
       st_latest_run_completed_at = x_latest_run_completed_at, st_last_visited_at =
       x_last_visited_at\<rparr>}"

definition dec_status_snapshot :: "json \<Rightarrow> status_snapshot option" where
  "dec_status_snapshot v = do {
     f \<leftarrow> struct_fields [''schema_version'', ''environment_id'', ''generated_at_ms'', ''threads''] v;
     x_schema_version \<leftarrow> req dec_word (f ''schema_version'');
     x_environment_id \<leftarrow> req as_str (f ''environment_id'');
     x_generated_at_ms \<leftarrow> req dec_word (f ''generated_at_ms'');
     x_threads \<leftarrow> req (dec_list dec_status_thread) (f ''threads'');
     Some \<lparr>
       ss_schema_version = x_schema_version, ss_environment_id = x_environment_id,
       ss_generated_at_ms = x_generated_at_ms, ss_threads = x_threads\<rparr>}"

section \<open>The configuration and the persisted selection\<close>

text \<open>\<open>serde(default)\<close> on a struct: an absent member keeps the value of the struct's default.\<close>

definition dec_screen_config :: "json \<Rightarrow> screen_config option" where
  "dec_screen_config v = do {
     f \<leftarrow> struct_fields [''connector'', ''serial'', ''model'', ''touch_device''] v;
     x_connector \<leftarrow> opt as_str (f ''connector'');
     x_serial \<leftarrow> opt as_str (f ''serial'');
     x_model \<leftarrow> opt as_str (f ''model'');
     x_touch_device \<leftarrow> opt as_str (f ''touch_device'');
     Some \<lparr>
       sc_connector = x_connector, sc_serial = x_serial, sc_model = x_model, sc_touch_device
       = x_touch_device\<rparr>}"

definition dec_desktop_config :: "json \<Rightarrow> desktop_config option" where
  "dec_desktop_config v = do {
     f \<leftarrow> struct_fields [''edge_output'', ''herdr_class''] v;
     x_edge_output \<leftarrow> opt as_str (f ''edge_output'');
     x_herdr_class \<leftarrow> dflt (dc_herdr_class default_desktop_config) as_str (f ''herdr_class'');
     Some \<lparr>
       dc_edge_output = x_edge_output, dc_herdr_class = x_herdr_class\<rparr>}"

definition dec_t3code_config :: "json \<Rightarrow> t3code_config option" where
  "dec_t3code_config v = do {
     f \<leftarrow> struct_fields [''app_bin'', ''status_file'', ''home'', ''refresh_ms''] v;
     x_app_bin \<leftarrow> opt as_str (f ''app_bin'');
     x_status_file \<leftarrow> opt as_str (f ''status_file'');
     x_home \<leftarrow> opt as_str (f ''home'');
     x_refresh_ms \<leftarrow> dflt (tc_refresh_ms default_t3code_config) dec_word (f ''refresh_ms'');
     Some \<lparr>
       tc_app_bin = x_app_bin, tc_status_file = x_status_file, tc_home = x_home,
       tc_refresh_ms = x_refresh_ms\<rparr>}"

definition dec_config :: "json \<Rightarrow> config option" where
  "dec_config v = do {
     f \<leftarrow> struct_fields [''agent_backend'', ''herdr_bin'', ''voxtype_bin'', ''herdr_refresh_ms'', ''health_refresh_ms'', ''voice_refresh_ms'', ''usage_refresh_ms'', ''micro_refresh_ms'', ''screen'', ''desktop'', ''t3code''] v;
     x_agent_backend \<leftarrow> dflt (cfg_agent_backend default_config) dec_agent_backend (f ''agent_backend'');
     x_herdr_bin \<leftarrow> dflt (cfg_herdr_bin default_config) as_str (f ''herdr_bin'');
     x_voxtype_bin \<leftarrow> dflt (cfg_voxtype_bin default_config) as_str (f ''voxtype_bin'');
     x_herdr_refresh_ms \<leftarrow> dflt (cfg_herdr_refresh_ms default_config) dec_word (f ''herdr_refresh_ms'');
     x_health_refresh_ms \<leftarrow> dflt (cfg_health_refresh_ms default_config) dec_word (f ''health_refresh_ms'');
     x_voice_refresh_ms \<leftarrow> dflt (cfg_voice_refresh_ms default_config) dec_word (f ''voice_refresh_ms'');
     x_usage_refresh_ms \<leftarrow> dflt (cfg_usage_refresh_ms default_config) dec_word (f ''usage_refresh_ms'');
     x_micro_refresh_ms \<leftarrow> dflt (cfg_micro_refresh_ms default_config) dec_word (f ''micro_refresh_ms'');
     x_screen \<leftarrow> dflt (cfg_screen default_config) dec_screen_config (f ''screen'');
     x_desktop \<leftarrow> dflt (cfg_desktop default_config) dec_desktop_config (f ''desktop'');
     x_t3code \<leftarrow> dflt (cfg_t3code default_config) dec_t3code_config (f ''t3code'');
     Some \<lparr>
       cfg_agent_backend = x_agent_backend, cfg_herdr_bin = x_herdr_bin, cfg_voxtype_bin =
       x_voxtype_bin, cfg_herdr_refresh_ms = x_herdr_refresh_ms, cfg_health_refresh_ms =
       x_health_refresh_ms, cfg_voice_refresh_ms = x_voice_refresh_ms, cfg_usage_refresh_ms
       = x_usage_refresh_ms, cfg_micro_refresh_ms = x_micro_refresh_ms, cfg_screen =
       x_screen, cfg_desktop = x_desktop, cfg_t3code = x_t3code\<rparr>}"

definition dec_persisted_backend :: "json \<Rightarrow> persisted_backend option" where
  "dec_persisted_backend v = do {
     f \<leftarrow> struct_fields [''backend'', ''t3code_order''] v;
     x_backend \<leftarrow> dflt Herdr dec_agent_backend (f ''backend'');
     x_t3code_order \<leftarrow> dflt Grouped dec_order_mode (f ''t3code_order'');
     Some \<lparr>
       pb_backend = x_backend, pb_t3code_order = x_t3code_order\<rparr>}"

section \<open>The environments\<close>

definition of_json :: "(json \<Rightarrow> 'a option) \<Rightarrow> (string \<Rightarrow> json result) \<Rightarrow> string \<Rightarrow> 'a result" where
  "of_json dec parse contents =
     (case parse contents of
        Inl e \<Rightarrow> Inl e
      | Inr v \<Rightarrow> (case dec v of None \<Rightarrow> Inl ''invalid data'' | Some x \<Rightarrow> Inr x))"

definition json_herdr_env :: "(string \<Rightarrow> json result) \<Rightarrow> 's herdr_env \<Rightarrow> 's herdr_env" where
  "json_herdr_env parse env = env\<lparr>hv_parse_ping := of_json dec_ping_result parse,
     hv_parse_snapshot := of_json dec_snapshot_response parse, hv_parse_value := parse\<rparr>"

definition json_t3_env ::
  "(string \<Rightarrow> json result) \<Rightarrow> (string \<Rightarrow> u64 \<Rightarrow> string result) \<Rightarrow> t3_env \<Rightarrow> t3_env" where
  "json_t3_env parse read_limited env = env\<lparr>te_parse_json := parse,
     te_parse_runtime := of_json dec_server_runtime parse,
     te_read_feed := (\<lambda>path n. case read_limited path n of
       Inl e \<Rightarrow> Inl e | Inr contents \<Rightarrow> of_json dec_status_snapshot parse contents)\<rparr>"

definition hypr_json :: "(json \<Rightarrow> 'a option) \<Rightarrow> (string \<Rightarrow> json result) \<Rightarrow> string result \<Rightarrow> 'a result" where
  "hypr_json dec parse output = and_then output (of_json dec parse)"

definition json_hypr_env ::
  "(string \<Rightarrow> json result) \<Rightarrow> (nat \<Rightarrow> string result) \<Rightarrow> string result \<Rightarrow> string result \<Rightarrow> hypr_env \<Rightarrow> hypr_env" where
  "json_hypr_env parse clients monitors active env =
     env\<lparr>he_clients := (\<lambda>n. hypr_json (dec_list dec_hypr_client) parse (clients n)),
         he_monitors := hypr_json (dec_list dec_hypr_monitor) parse monitors,
         he_active := hypr_json dec_hypr_client parse active\<rparr>"

definition enc_persisted_backend :: "persisted_backend \<Rightarrow> json" where
  "enc_persisted_backend x = JObj [(''backend'', enc_agent_backend (pb_backend x)),
     (''t3code_order'', enc_order_mode (pb_t3code_order x))]"

interpretation persisted_codec: codec enc_persisted_backend dec_persisted_backend "\<lambda>_. True"
  by unfold_locales (simp_all add: enc_persisted_backend_def dec_persisted_backend_def)

section \<open>What a decoder accepts\<close>

lemma of_json_Inr: "of_json dec parse contents = Inr x \<longleftrightarrow> (\<exists>v. parse contents = Inr v \<and> dec v = Some x)"
  by (auto simp: of_json_def split: sum.splits option.splits)

lemma req_iff: "req dec v = Some x \<longleftrightarrow> (\<exists>w. v = Some w \<and> dec w = Some x)"
  by (auto simp: req_def bind_eq_Some_conv)

lemma dflt_iff: "dflt d dec v = Some x \<longleftrightarrow> v = None \<and> x = d \<or> (\<exists>w. v = Some w \<and> dec w = Some x)"
  by (auto simp: dflt_def split: option.splits)

lemma those_nth: "those xs = Some ys \<Longrightarrow> length ys = length xs \<and> (\<forall>i < length xs. xs ! i = Some (ys ! i))"
proof (induction xs arbitrary: ys)
  case (Cons x xs)
  then obtain y zs where "x = Some y" "those xs = Some zs" "ys = y # zs" by (auto split: option.splits)
  with Cons.IH [of zs] show ?case by (auto simp: nth_Cons split: nat.split)
qed simp

lemma dec_list_nth:
  assumes "dec_list dec (JArr vs) = Some xs"
  shows "length xs = length vs \<and> (\<forall>i < length vs. dec (vs ! i) = Some (xs ! i))"
  using those_nth [of "map dec vs" xs] assms by (simp add: dec_list_def)

lemma struct_fields_jget: "struct_fields names v = Some f \<Longrightarrow> jget k v = Some x \<Longrightarrow> f k = Some x"
  by (cases v) auto

text \<open>What the decoded agent says of the members it was read from.\<close>

lemma dec_herdr_agent_members:
  assumes "dec_herdr_agent v = Some a"
  shows "get_str ''terminal_id'' v = Some (ha_terminal_id a)" "get_str ''pane_id'' v = Some (ha_pane_id a)"
    "ha_focused a \<longleftrightarrow> get_bool ''focused'' v = Some True"
    "(case jget ''agent_status'' v of None \<Rightarrow> Some Unknown | Some x \<Rightarrow> dec_agent_status x) = Some (ha_agent_status a)"
    "Option.bind (hget (ha_extra a) ''actions'') as_array = get_array ''actions'' v"
proof -
  obtain m where v: "v = JObj m" using assms by (cases v) (simp_all add: dec_herdr_agent_def)
  have f: "map_of (filter (\<lambda>(k, _). k \<notin> set agent_fields) m) ''actions'' = map_of m ''actions''"
    by (induction m) (auto simp: agent_fields_def)
  have members: "req as_str (map_of m ''terminal_id'') = Some (ha_terminal_id a) \<and>
      req as_str (map_of m ''pane_id'') = Some (ha_pane_id a) \<and>
      dflt False as_bool (map_of m ''focused'') = Some (ha_focused a) \<and>
      dflt Unknown dec_agent_status (map_of m ''agent_status'') = Some (ha_agent_status a) \<and>
      ha_extra a = filter (\<lambda>(k, _). k \<notin> set agent_fields) m"
    using assms unfolding v by (clarsimp simp: dec_herdr_agent_def bind_eq_Some_conv)
  then show "get_str ''terminal_id'' v = Some (ha_terminal_id a)" "get_str ''pane_id'' v = Some (ha_pane_id a)"
    unfolding v by (auto simp: req_iff json_access)
  show "ha_focused a \<longleftrightarrow> get_bool ''focused'' v = Some True"
    using members unfolding v by (auto simp: dflt_iff json_access)
  show "(case jget ''agent_status'' v of None \<Rightarrow> Some Unknown | Some x \<Rightarrow> dec_agent_status x) = Some (ha_agent_status a)"
    using members unfolding v by (auto simp: dflt_iff)
  show "Option.bind (hget (ha_extra a) ''actions'') as_array = get_array ''actions'' v"
    using members f unfolding v by (simp add: get_array_def)
qed

lemma dec_snapshot_response_agents:
  assumes "dec_snapshot_response reply = Some snap" and "jget ''result'' reply = Some answer"
    and "jget ''snapshot'' answer = Some shot" and "jget ''agents'' shot = Some (JArr vs)"
  shows "dec_list dec_herdr_agent (JArr vs) = Some (hs_agents snap)"
  using assms
  by (auto simp: dec_snapshot_response_def dec_snapshot_result_def dec_herdr_snapshot_def bind_eq_Some_conv
      req_iff dflt_iff dest!: struct_fields_jget)

lemma empty_documents:
  "dec_config (JObj []) = Some default_config"
  "dec_persisted_backend (JObj []) = Some \<lparr>pb_backend = Herdr, pb_t3code_order = Grouped\<rparr>"
  by (simp_all add: dec_config_def dec_persisted_backend_def dflt_def)

section \<open>Properties\<close>

text \<open>The card of the agent object at a place in the reply.\<close>

definition card_of_object ::
  "(string \<Rightarrow> string) \<Rightarrow> string \<Rightarrow> session_descriptor \<Rightarrow> nat \<Rightarrow> json \<Rightarrow> agent_view \<Rightarrow> bool" where
  "card_of_object uuid epoch d number v a \<longleftrightarrow>
     (\<exists>t. get_str ''terminal_id'' v = Some t \<and> av_id a = herdr_agent_id uuid epoch (sd_name d) t) \<and>
     (case jget ''agent_status'' v of None \<Rightarrow> Some Unknown | Some x \<Rightarrow> dec_agent_status x) = Some (av_status a) \<and>
     (av_focused a \<longleftrightarrow> get_bool ''focused'' v = Some True) \<and> av_source_order a = number \<and>
     (case get_array ''actions'' v of
        None \<Rightarrow> aa_approve (av_actions a) = None \<and> aa_interrupt (av_actions a) = None
      | Some values \<Rightarrow> offered values (aa_approve (av_actions a)) Approve ''approve'' \<and>
          offered values (aa_interrupt (av_actions a)) Interrupt ''interrupt'')"

lemma herdr_card_of_object:
  assumes "dec_herdr_agent v = Some raw"
  shows "card_of_object uuid epoch d (off + i) v (herdr_card uuid epoch d off ws tabs i raw)"
proof -
  note m = dec_herdr_agent_members [OF assms]
  have "(case get_array ''actions'' v of
      None \<Rightarrow> aa_approve (av_actions a) = None \<and> aa_interrupt (av_actions a) = None
    | Some values \<Rightarrow> offered values (aa_approve (av_actions a)) Approve ''approve'' \<and>
        offered values (aa_interrupt (av_actions a)) Interrupt ''interrupt'')"
    if "a = herdr_card uuid epoch d off ws tabs i raw" for a
    using actions_from_extra_offered [of "ha_extra raw" "ha_revision raw"]
    unfolding that m(5) by (auto simp: herdr_card_def Let_def split: option.splits)
  from this [OF refl] show ?thesis
    using m(1-4) unfolding card_of_object_def by (simp add: herdr_card_def Let_def)
qed

text \<open>C29 From Herdr's reply to the cards. When the reply to \<open>session.snapshot\<close> is accepted, the cards are
  one per object of its agents, in their order: the card's id is that of the object's terminal, its
  status the object's (unknown when it names none or one the daemon does not know), it is focused
  exactly when the object says so, it is numbered by its place, and it holds only capabilities the
  object's own actions offer. When one object lacks its terminal or its pane, the reply as a whole
  is refused: no card of it is shown.\<close>

theorem herdr_reply_to_cards:
  assumes "parse contents = Inr reply" and "jget ''result'' reply = Some answer"
    and "jget ''snapshot'' answer = Some shot" and "jget ''agents'' shot = Some (JArr vs)"
  shows "(hv_parse_snapshot (json_herdr_env parse env) contents = Inr snap \<and>
        ob = herdr_observation uuid d epoch off now ping snap ord \<longrightarrow>
      length (so_agents ob) = length vs \<and>
      (\<forall>i < length vs. card_of_object uuid epoch d (off + i) (vs ! i) (so_agents ob ! i))) \<and>
    ((\<exists>v \<in> set vs. get_str ''terminal_id'' v = None \<or> get_str ''pane_id'' v = None) \<longrightarrow>
       isl (hv_parse_snapshot (json_herdr_env parse env) contents))"
proof -
  let ?parsed = "hv_parse_snapshot (json_herdr_env parse env) contents"
  have agents: "length (hs_agents sn) = length vs"
    "\<And>i. i < length vs \<Longrightarrow> dec_herdr_agent (vs ! i) = Some (hs_agents sn ! i)"
    if "?parsed = Inr sn" for sn
  proof -
    have "dec_snapshot_response reply = Some sn"
      using that assms(1) by (simp add: json_herdr_env_def of_json_Inr)
    from dec_list_nth [OF dec_snapshot_response_agents [OF this assms(2-4)]]
    show "length (hs_agents sn) = length vs"
      "\<And>i. i < length vs \<Longrightarrow> dec_herdr_agent (vs ! i) = Some (hs_agents sn ! i)" by simp_all
  qed
  have "isl ?parsed"
    if v: "v \<in> set vs" "get_str ''terminal_id'' v = None \<or> get_str ''pane_id'' v = None" for v
  proof (rule ccontr)
    assume "\<not> isl ?parsed"
    then obtain sn where "?parsed = Inr sn" by (cases ?parsed) auto
    moreover obtain i where "i < length vs" "v = vs ! i" using v(1) by (auto simp: in_set_conv_nth)
    ultimately show False using agents(2) dec_herdr_agent_members(1,2) v(2) by fastforce
  qed
  moreover have "length (so_agents ob) = length vs \<and>
      (\<forall>i < length vs. card_of_object uuid epoch d (off + i) (vs ! i) (so_agents ob ! i))"
    if "?parsed = Inr snap" "ob = herdr_observation uuid d epoch off now ping snap ord"
    using agents [OF that(1)]
    by (simp add: that(2) herdr_observation_def Let_def nth_enumerate_eq herdr_card_of_object)
  ultimately show ?thesis by blast
qed

text \<open>A reply with one agent that offers an approval.\<close>

definition example_reply :: json where
  "example_reply = JObj [(''id'', JStr ''1''), (''result'', JObj [(''snapshot'', JObj [(''agents'', JArr [JObj
     [(''terminal_id'', JStr ''t''), (''workspace_id'', JStr ''w''), (''pane_id'', JStr ''p''),
      (''focused'', JBool True), (''agent_status'', JStr ''blocked''),
      (''actions'', JArr [JObj [(''action'', JStr ''approve''), (''capability_id'', JStr ''c''),
         (''expires_at_ms'', JNum (PosInt 9)), (''expected_revision'', JNum (PosInt 0))]])]])])])]"

lemma herdr_reply_to_cards_witness:
  "\<exists>snap. dec_snapshot_response example_reply = Some snap \<and>
     (let ob = herdr_observation (\<lambda>s. s) example_descriptor ''e'' 0 0 \<lparr>pg_version = ''1'', pg_protocol = 20\<rparr> snap None
      in length (so_agents ob) = 1 \<and> av_focused (so_agents ob ! 0))"
proof -
  let ?ping = "\<lparr>pg_version = ''1'', pg_protocol = 20\<rparr>"
  have "map_option (\<lambda>_. ()) (dec_snapshot_response example_reply) = Some ()" by code_simp
  then obtain snap where s: "dec_snapshot_response example_reply = Some snap" by auto
  have p: "hv_parse_snapshot (json_herdr_env (\<lambda>_. Inr example_reply) example_herdr) [] = Inr snap"
    by (simp add: json_herdr_env_def of_json_Inr s)
  obtain v where v: "jget ''result'' example_reply = Some (JObj [(''snapshot'', JObj [(''agents'', JArr [v])])])"
    "get_bool ''focused'' v = Some True"
    by (simp add: example_reply_def json_access)
  from herdr_reply_to_cards [OF refl v(1), of "JObj [(''agents'', JArr [v])]" "[v]" example_herdr "[]" snap
      "herdr_observation (\<lambda>s. s) example_descriptor ''e'' 0 0 ?ping snap None"
      "\<lambda>s. s" example_descriptor "''e''" 0 0 ?ping None] p v(2)
  show ?thesis using s by (auto simp: Let_def card_of_object_def)
qed

end
