(* ===== verification/Ctl.thy ===== *)
theory Ctl
  imports Session Wire
begin

text \<open>
  \<open>xeneon-agentctl\<close> (its \<open>main.rs\<close>): the diagnostics a user runs against the daemon's socket, the
  fixture server that stands in for a daemon, and the bridge between the display and the daemon. Text
  becomes JSON through the library's parser.
\<close>

section \<open>Reading the daemon\<close>

text \<open>\<open>value["type"] == "snapshot"\<close> and \<open>value["schema_version"] == 1\<close>.\<close>

definition is_snapshot :: "json \<Rightarrow> bool" where
  "is_snapshot v \<longleftrightarrow> jindex v ''type'' = JStr ''snapshot''"

definition schema_one :: "json \<Rightarrow> bool" where
  "schema_one v \<longleftrightarrow> jindex v ''schema_version'' = JNum (PosInt 1)"

fun print_snapshot :: "(string \<Rightarrow> json result) \<Rightarrow> string list \<Rightarrow> string result" where
  "print_snapshot parse [] = Inl ''daemon closed before sending a snapshot''"
| "print_snapshot parse (line # rest) =
     (case parse line of
        Inl e \<Rightarrow> Inl e
      | Inr v \<Rightarrow> if is_snapshot v then Inr line else print_snapshot parse rest)"

definition count_of :: "string \<Rightarrow> json \<Rightarrow> nat" where
  "count_of k v = (case as_array (jindex v k) of Some xs \<Rightarrow> length xs | None \<Rightarrow> 0)"

definition doctor :: "(string \<Rightarrow> json result) \<Rightarrow> (json \<Rightarrow> string) \<Rightarrow> string list \<Rightarrow> string result" where
  "doctor parse show_json received =
     (case received of
        [] \<Rightarrow> Inl ''daemon closed before protocol handshake''
      | line # _ \<Rightarrow>
          (case parse line of
             Inl _ \<Rightarrow> Inl ''daemon returned invalid JSON''
           | Inr v \<Rightarrow>
               if \<not> is_snapshot v \<or> \<not> schema_one v
               then Inl (''unsupported daemon protocol: '' @ show_json v)
               else Inr (''ok: schema=1 backend='' @
                 (case as_str (jindex (jindex v ''backend'') ''mode'') of Some s \<Rightarrow> s | None \<Rightarrow> ''herdr'') @
                 '' connection='' @
                 (case as_str (jindex v ''connection'') of Some s \<Rightarrow> s | None \<Rightarrow> ''unknown'') @
                 '' sessions='' @ nat_to_string (count_of ''sessions'' v) @
                 '' agents='' @ nat_to_string (count_of ''agents'' v))))"

section \<open>The fixture server\<close>

definition fixture_action_result :: "(string \<Rightarrow> json result) \<Rightarrow> string \<Rightarrow> string \<Rightarrow> server_message result" where
  "fixture_action_result parse uuid line =
     (case parse line of
        Inl e \<Rightarrow> Inl e
      | Inr command \<Rightarrow> Inr (ActionResult \<lparr>ar_schema_version = 1,
          ar_request_id = (case as_str (jindex command ''request_id'') of Some i \<Rightarrow> i | None \<Rightarrow> uuid),
          ar_ok = True, ar_code = ''fixture'', ar_message = ''fixture action accepted''\<rparr>))"

datatype fixture_event = Line string | Tick

text \<open>The loop after the first message: an answer to each line, and the fixture again on each tick, of
  which there is none when \<open>repeat_ms\<close> is zero. It ends with the input, or with a line that is not JSON.\<close>

fun fixture_loop ::
  "(string \<Rightarrow> json result) \<Rightarrow> (server_message \<Rightarrow> string) \<Rightarrow> string \<Rightarrow> string \<Rightarrow> nat \<Rightarrow>
     fixture_event list \<Rightarrow> unit result \<times> string list" where
  "fixture_loop parse print uuid encoded repeat_ms [] = (Inr (), [])"
| "fixture_loop parse print uuid encoded repeat_ms (Line line # events) =
     (case fixture_action_result parse uuid line of
        Inl e \<Rightarrow> (Inl e, [])
      | Inr message \<Rightarrow>
          apsnd (\<lambda>out. print message # out) (fixture_loop parse print uuid encoded repeat_ms events))"
| "fixture_loop parse print uuid encoded repeat_ms (Tick # events) =
     (if repeat_ms = 0 then fixture_loop parse print uuid encoded repeat_ms events
      else apsnd (\<lambda>out. encoded # out) (fixture_loop parse print uuid encoded repeat_ms events))"

definition fixture ::
  "(string \<Rightarrow> json result) \<Rightarrow> (json \<Rightarrow> string) \<Rightarrow> (server_message \<Rightarrow> string) \<Rightarrow> string \<Rightarrow> string result \<Rightarrow>
     nat \<Rightarrow> fixture_event list \<Rightarrow> unit result \<times> string list" where
  "fixture parse show_json print uuid contents repeat_ms events =
     (case contents of
        Inl e \<Rightarrow> (Inl e, [])
      | Inr contents \<Rightarrow>
          (case parse (trim contents) of
             Inl e \<Rightarrow> (Inl e, [])
           | Inr v \<Rightarrow>
               if \<not> is_snapshot v \<or> \<not> schema_one v
               then (Inl ''fixture must be a schema-v1 snapshot envelope'', [])
               else apsnd (\<lambda>out. show_json v # out)
                      (fixture_loop parse print uuid (show_json v) repeat_ms events)))"

section \<open>The published snapshot\<close>

definition schema_ok :: "'s daemon \<Rightarrow> bool" where
  "schema_ok d \<longleftrightarrow> ps_schema_version (rt_snapshot (dm_state d)) = SCHEMA_VERSION \<and>
     ps_schema_version (dm_published d) = SCHEMA_VERSION"

abbreviation state_schema :: "runtime_state \<Rightarrow> u32" where
  "state_schema s \<equiv> ps_schema_version (rt_snapshot s)"

lemma schema_commit [simp]:
  "state_schema (commit_t3code o1 now ms s) = state_schema s"
  "state_schema (commit_herdr ds w now ms s) = state_schema s"
  "state_schema (commit_discovery_failed ms s) = state_schema s"
  "state_schema (commit_backend mode ms s) = state_schema s"
  "state_schema (commit_order om ms s) = state_schema s"
  "state_schema (commit_order_unknown ms s) = state_schema s"
  "state_schema (commit_voice v l ow ms s) = state_schema s"
  "state_schema (bump ms s) = state_schema s"
  by (simp_all add: commit_t3code_def commit_herdr_def commit_discovery_failed_def commit_backend_def
      commit_order_def commit_order_unknown_def commit_voice_def Let_def split_beta bump_def on_snapshot_def)

lemma schema_frame [simp]:
  "schema_ok d \<Longrightarrow> schema_ok (publish env d)"
  "schema_ok d \<Longrightarrow> state_schema (f (dm_state d)) = state_schema (dm_state d) \<Longrightarrow> schema_ok (on_state f d)"
  "schema_ok (try_invalidate n d) = schema_ok d"
  "schema_ok (persist_backend env d) = schema_ok d"
  "schema_ok (d\<lparr>dm_servers := x\<rparr>) = schema_ok d" "schema_ok (d\<lparr>dm_subscriptions := y\<rparr>) = schema_ok d"
  "schema_ok (d\<lparr>dm_desktop := w\<rparr>) = schema_ok d" "schema_ok (d\<lparr>dm_voice := v\<rparr>) = schema_ok d"
  "schema_ok (d\<lparr>dm_invalidations := z\<rparr>) = schema_ok d"
  by (auto simp: schema_ok_def publish_def on_state_def try_invalidate_def persist_backend_def Let_def)

lemma schema_invalidate_all [simp]: "schema_ok (invalidate_all xs d) = schema_ok d"
  unfolding invalidate_all_def by (induction xs arbitrary: d) simp_all

lemma schema_commit_if [simp]:
  "schema_ok d \<Longrightarrow> (\<And>s. state_schema (f s) = state_schema s) \<Longrightarrow> schema_ok (commit_if b env f d)"
  by (simp add: commit_if_def)


lemma schema_refresh_agents: "schema_ok d \<Longrightarrow> schema_ok (refresh_agents env joined d)"
  by (simp add: refresh_agents_def refresh_herdr_def refresh_t3code_def Let_def
      split: agent_backend.split prod.split sum.split)

lemma schema_acknowledge: "schema_ok d \<Longrightarrow> schema_ok (acknowledge_review_ready env i d)"
  by (auto simp: acknowledge_review_ready_def commit_acknowledge_def schema_ok_def publish_def Let_def
      bump_def on_snapshot_def split: option.splits if_splits)

lemma schema_pass: "pass d d' \<Longrightarrow> schema_ok d \<Longrightarrow> schema_ok d'"
proof (induction rule: pass.induct)
  case (agents d env sequence_joined joined event)
  then show ?case
    by (simp add: agent_loop_event_def schema_refresh_agents split: agent_event.split)
qed (simp_all add: schema_acknowledge refresh_voice_def refresh_health_def refresh_micro_def refresh_usage_def
    Let_def on_snapshot_def split: option.split)

lemma schema_voice: "schema_ok d \<Longrightarrow> schema_ok (snd (process_voice_command env command client_id d))"
  by (simp add: process_voice_command_def split: prod.split sum.split)

lemma schema_disconnect: "schema_ok d \<Longrightarrow> schema_ok (cancel_voice_for_disconnected_client env i d)"
  by (simp add: cancel_voice_for_disconnected_client_def split: prod.split sum.split)

lemma schema_order: "schema_ok d \<Longrightarrow> schema_ok (snd (process_agent_order_command env command d))"
  by (auto simp: process_agent_order_command_def Let_def split: prod.splits order_outcome.splits)

lemma schema_herdr_action: "schema_ok d \<Longrightarrow> schema_ok (snd (process_herdr_action env command i t d))"
  by (auto simp: process_herdr_action_def Let_def schema_acknowledge split: prod.splits sum.splits)

lemma schema_command:
  assumes "process_command env line client_id d = Some (r, d')" "schema_ok d"
  shows "schema_ok d'"
proof (cases "\<exists>command. de_parse_command env line = Inr command \<and> validate_command command = Inr ()")
  case False
  with assms show ?thesis by (auto simp: process_command_def split: sum.splits)
next
  case True
  then obtain command where c: "de_parse_command env line = Inr command" "validate_command command = Inr ()"
    by blast
  have "schema_ok (snd (process_restore_focus env command d))"
    using assms(2) by (simp add: process_restore_focus_def split: prod.split sum.split)
  moreover have "process_desktop_command env command d = Some (r, d') \<Longrightarrow> schema_ok d'"
    using assms(2) by (auto simp: process_desktop_command_def Let_def split: option.splits)
  moreover have "schema_ok (snd (process_backend_command env command d))"
    using assms(2) by (simp add: process_backend_command_def Let_def)
  moreover have "schema_ok (snd (process_agent_action env command d))"
    using assms(2) schema_herdr_action [of d env command]
    by (auto simp: process_agent_action_def split: sum.splits agent_target.splits)
  ultimately show ?thesis
    using assms c schema_voice [of d env command client_id] schema_order [of d env command]
    by (auto simp: process_command_def Let_def split: if_splits)
qed

lemma schema_step: "step d d' \<Longrightarrow> schema_ok d \<Longrightarrow> schema_ok d'"
  by (induction rule: step.induct) (auto intro: schema_pass schema_disconnect elim: schema_command)

lemma schema_steps: "step\<^sup>*\<^sup>* d d' \<Longrightarrow> schema_ok d \<Longrightarrow> schema_ok d'"
  by (induction rule: rtranclp_induct) (auto dest: schema_step)

lemma schema_new_daemon: "new_daemon cfg epoch persisted voice servers = Inr d0 \<Longrightarrow> schema_ok d0"
  by (auto simp: new_daemon_def Let_def initial_state_def empty_snapshot_def schema_ok_def split: sum.splits)

section \<open>Properties\<close>

lemma snapshot_message_members:
  "is_snapshot (enc_server_message (Snapshot p))"
  "schema_one (enc_server_message (Snapshot p)) \<longleftrightarrow> ps_schema_version p = 1"
  "jindex (enc_server_message (Snapshot p)) ''backend'' = enc_backend (ps_backend p)"
  "jindex (enc_server_message (Snapshot p)) ''connection'' = enc_connection_state (ps_connection p)"
  "count_of ''sessions'' (enc_server_message (Snapshot p)) = length (ps_sessions p)"
  "count_of ''agents'' (enc_server_message (Snapshot p)) = length (ps_agents p)"
proof -
  have "ucast (ps_schema_version p) = (1 :: u64) \<longleftrightarrow> ps_schema_version p = 1"
  proof
    assume "ucast (ps_schema_version p) = (1 :: u64)"
    then have "enc_word (ps_schema_version p) = enc_word (1 :: u32)" by (simp add: enc_word_def)
    then show "ps_schema_version p = 1" by (metis option.inject u32_codec.decodes)
  qed simp
  then show "schema_one (enc_server_message (Snapshot p)) \<longleftrightarrow> ps_schema_version p = 1"
    by (simp add: schema_one_def jindex_def snapshot_members_def enc_word_def)
qed (simp_all add: is_snapshot_def jindex_def snapshot_members_def count_of_def enc_list_def)

text \<open>C40 The two binaries agree on the protocol. In every state the daemon reaches, the first message a
  client gets is what \<open>agentctl doctor\<close> takes for a healthy daemon, and it reports the published
  manager, connection and numbers of sessions and cards; and \<open>agentctl snapshot\<close> prints that line.
  (The JSON library's parser reads what its printer wrote.)\<close>

theorem doctor_accepts_daemon:
  assumes "new_daemon cfg epoch persisted voice servers = Inr d0" and "step\<^sup>*\<^sup>* d0 d"
    and "parse (print (enc_server_message (Snapshot (dm_published d)))) =
      Inr (enc_server_message (Snapshot (dm_published d)))"
  shows "\<exists>p line. cn_sent (open_connection i d) = [Snapshot p] \<and>
    line = print (enc_server_message (Snapshot p)) \<and>
    print_snapshot parse (line # rest) = Inr line \<and>
    doctor parse show_json (line # rest) = Inr (''ok: schema=1 backend='' @ backend_as_str (bs_mode (ps_backend p)) @
      '' connection='' @ connection_state_name (ps_connection p) @
      '' sessions='' @ nat_to_string (length (ps_sessions p)) @
      '' agents='' @ nat_to_string (length (ps_agents p)))"
proof -
  let ?p = "dm_published d"
  have v: "ps_schema_version ?p = 1"
    using schema_steps [OF assms(2) schema_new_daemon [OF assms(1)]] by (simp add: schema_ok_def SCHEMA_VERSION_def)
  have mode: "as_str (jindex (enc_backend b) ''mode'') = Some (backend_as_str (bs_mode b))" for b
    by (simp add: enc_backend_def jindex_def enc_agent_backend_def)
  have con: "as_str (enc_connection_state c) = Some (connection_state_name c)" for c
    by (simp add: enc_connection_state_def)
  note m = snapshot_message_members [of ?p]
  have "doctor parse show_json (print (enc_server_message (Snapshot ?p)) # rest) =
      Inr (''ok: schema=1 backend='' @ backend_as_str (bs_mode (ps_backend ?p)) @
      '' connection='' @ connection_state_name (ps_connection ?p) @
      '' sessions='' @ nat_to_string (length (ps_sessions ?p)) @
      '' agents='' @ nat_to_string (length (ps_agents ?p)))"
    unfolding doctor_def list.case assms(3) sum.case m mode con option.case
    by (simp add: m(1,2) v del: enc_server_message.simps)
  moreover have "print_snapshot parse (print (enc_server_message (Snapshot ?p)) # rest) =
      Inr (print (enc_server_message (Snapshot ?p)))"
    unfolding print_snapshot.simps assms(3) sum.case if_P [OF m(1)] ..
  ultimately show ?thesis
    unfolding open_connection_def by (auto simp del: enc_server_message.simps print_snapshot.simps)
qed


lemma doctor_accepts_daemon_witness:
  "let m = enc_server_message (Snapshot (dm_published example_daemon))
   in doctor (\<lambda>_. Inr m) (\<lambda>_. []) [''{...}''] =
        Inr ''ok: schema=1 backend=herdr connection=offline sessions=0 agents=0''"
proof -
  let ?m = "enc_server_message (Snapshot (dm_published example_daemon))"
  have p: "dm_published example_daemon = (empty_snapshot ''e'')\<lparr>ps_backend := \<lparr>bs_mode = Herdr, bs_switchable = True\<rparr>\<rparr>"
    by (simp add: example_daemon_def initial_state_def)
  have z: "nat_to_string 0 = ''0''" by code_simp
  have "doctor (\<lambda>_. Inr ?m) (\<lambda>_. []) [''{...}''] =
      Inr (''ok: schema=1 backend='' @ backend_as_str (bs_mode (ps_backend (dm_published example_daemon))) @
        '' connection='' @ connection_state_name (ps_connection (dm_published example_daemon)) @
        '' sessions='' @ nat_to_string (length (ps_sessions (dm_published example_daemon))) @
        '' agents='' @ nat_to_string (length (ps_agents (dm_published example_daemon))))"
    using doctor_accepts_daemon [OF example_daemon_new rtranclp.rtrancl_refl, of "\<lambda>_. Inr ?m" "\<lambda>_. ''{...}''"
        "''c''" "[]" "\<lambda>_. []"]
    by (simp add: open_connection_def del: enc_server_message.simps print_snapshot.simps)
  then show ?thesis unfolding Let_def by (simp add: p z empty_snapshot_def del: enc_server_message.simps)
qed

section \<open>The bridge\<close>

text \<open>What \<open>AsyncBufReadExt::lines\<close> yields until the end of a stream, and whether it ends without an
  error: a line that is not UTF-8 fails.\<close>

definition read_lines :: "string \<Rightarrow> string list \<times> bool" where
  "read_lines bytes = (takeWhile utf8_valid (lines bytes), list_all utf8_valid (lines bytes))"

definition write_lines :: "string list \<Rightarrow> string" where
  "write_lines ls = concat (map (\<lambda>l. l @ [CHR 0x0A]) ls)"

text \<open>\<open>qml_bridge\<close>: what is written to the standard output for the daemon's bytes, and to the daemon for
  the bytes of the standard input. The copying of the input stops when the daemon's stream ends,
  after \<open>copied\<close> bytes.\<close>

definition qml_bridge :: "string \<Rightarrow> string \<Rightarrow> nat \<Rightarrow> string \<times> bool \<times> string" where
  "qml_bridge from_daemon stdin copied =
     (case read_lines from_daemon of (ls, ok) \<Rightarrow> (write_lines ls, ok, take copied stdin))"

text \<open>A text that fits into a line: UTF-8, without a line feed, and not ending in a carriage return.\<close>

definition line_text :: "string \<Rightarrow> bool" where
  "line_text l \<longleftrightarrow> utf8_valid l \<and> CHR 0x0A \<notin> set l \<and> (l \<noteq> [] \<longrightarrow> last l \<noteq> CHR 0x0D)"

lemma split_by_append_sep: "p x \<Longrightarrow> (\<forall>y \<in> set l. \<not> p y) \<Longrightarrow> split_by p (l @ x # s) = l # split_by p s"
  by (induction l) (auto split: list.splits)

lemma split_write_lines:
  "\<forall>l \<in> set ls. CHR 0x0A \<notin> set l \<Longrightarrow> CHR 0x0A \<notin> set rest \<Longrightarrow>
     split_by (\<lambda>b. b = CHR 0x0A) (write_lines ls @ rest) = ls @ [rest]"
proof (induction ls)
  case Nil
  then show ?case by (simp add: write_lines_def) (induction rest; auto)
next
  case (Cons l ls)
  then have "\<forall>y \<in> set l. y \<noteq> CHR 0x0A" by auto
  then show ?case
    using Cons split_by_append_sep [of "\<lambda>b. b = CHR 0x0A" "CHR 0x0A" l "write_lines ls @ rest"]
    by (simp add: write_lines_def)
qed

lemma lines_write_lines_rest:
  assumes "\<forall>l \<in> set ls. line_text l" "CHR 0x0A \<notin> set rest"
  shows "lines (write_lines ls @ rest) = ls @ (if rest = [] then [] else [rest])"
proof -
  have "split_by (\<lambda>b. b = CHR 0x0A) (write_lines ls @ rest) = ls @ [rest]"
    by (rule split_write_lines) (use assms in \<open>auto simp: line_text_def\<close>)
  moreover have "map strip_cr ls = ls"
    by (rule map_idI) (use assms in \<open>auto simp: line_text_def strip_cr_def\<close>)
  ultimately show ?thesis by (simp add: lines_def)
qed

lemma lines_write_lines: "\<forall>l \<in> set ls. line_text l \<Longrightarrow> lines (write_lines ls) = ls"
  using lines_write_lines_rest [of ls "[]"] by simp

lemma read_write_lines: "\<forall>l \<in> set ls. line_text l \<Longrightarrow> read_lines (write_lines ls) = (ls, True)"
  by (auto simp: read_lines_def lines_write_lines line_text_def list_all_iff takeWhile_eq_all_conv)

lemma read_write_lines_rest:
  assumes "\<forall>l \<in> set ls. line_text l" "CHR 0x0A \<notin> set rest"
  shows "\<exists>cut. fst (read_lines (write_lines ls @ rest)) = ls @ cut \<and> length cut \<le> (if rest = [] then 0 else 1)"
proof -
  have "takeWhile utf8_valid (ls @ xs) = ls @ takeWhile utf8_valid xs" for xs
    by (rule takeWhile_append2) (use assms(1) in \<open>simp add: line_text_def\<close>)
  then show ?thesis by (simp add: read_lines_def lines_write_lines_rest [OF assms])
qed

text \<open>Every prefix of some lines is the first of them, whole, and what was begun of the next.\<close>

lemma take_write_lines:
  "\<exists>k rest. k \<le> length ls \<and> take n (write_lines ls) = write_lines (take k ls) @ rest \<and>
     (if k = length ls then rest = [] else prefix rest (ls ! k))"
proof (induction ls arbitrary: n)
  case Nil
  show ?case by (intro exI [of _ 0] exI [of _ "[]"]) (simp add: write_lines_def)
next
  case (Cons l ls)
  show ?case
  proof (cases "n \<le> length l")
    case True
    then have "take n (write_lines (l # ls)) = take n l" by (simp add: write_lines_def)
    then show ?thesis
      by (intro exI [of _ 0] exI [of _ "take n l"]) (simp add: write_lines_def take_is_prefix)
  next
    case False
    obtain k rest where k: "k \<le> length ls"
      "take (n - Suc (length l)) (write_lines ls) = write_lines (take k ls) @ rest"
      "if k = length ls then rest = [] else prefix rest (ls ! k)"
      using Cons.IH by blast
    have "write_lines (l # ls) = (l @ [CHR 0x0A]) @ write_lines ls" by (simp add: write_lines_def)
    then have "take n (write_lines (l # ls)) = l @ [CHR 0x0A] @ take (n - Suc (length l)) (write_lines ls)"
      using False by (simp add: take_Cons')
    also have "\<dots> = write_lines (take (Suc k) (l # ls)) @ rest" by (simp add: k(2)) (simp add: write_lines_def)
    finally show ?thesis
      by (intro exI [of _ "Suc k"] exI [of _ rest]) (use k(1,3) in simp)
  qed
qed

text \<open>C19 The bridge of \<open>agentctl\<close> alters nothing between the daemon and the display. Every message of a
  connection arrives byte for byte and decodes to the message sent, in order. The daemon gets the
  beginning of what the display wrote: its first commands as whole lines, which decode to those
  commands in order, and at most one cut line after them, the beginning of the next command; and it gets all
  of them when the copying came to the end of the input. When the daemon's stream ends first, the copying is
  aborted and the rest is lost. (A printed message or command is a line: the JSON library escapes control
  characters; and its parser reads what it wrote.)\<close>

theorem bridge_transparent:
  assumes "\<forall>m \<in> set messages. message_ok m \<and> line_text (print (enc_server_message m)) \<and>
      parse (print (enc_server_message m)) = Inr (enc_server_message m)"
    and "\<forall>c \<in> set commands. line_text (print (enc_command c)) \<and> parse (print (enc_command c)) = Inr (enc_command c)"
    and "qml_bridge (write_lines (map (\<lambda>m. print (enc_server_message m)) messages))
      (write_lines (map (\<lambda>c. print (enc_command c)) commands)) copied = (out, ok, to_daemon)"
  shows "ok \<and> out = write_lines (map (\<lambda>m. print (enc_server_message m)) messages) \<and>
    map (\<lambda>line. case parse line of Inl _ \<Rightarrow> None | Inr v \<Rightarrow> dec_server_message v) (fst (read_lines out)) =
      map Some messages \<and>
    (\<exists>k rest. k \<le> length commands \<and>
       to_daemon = write_lines (map (\<lambda>c. print (enc_command c)) (take k commands)) @ rest \<and>
       (if k = length commands then rest = [] else prefix rest (print (enc_command (commands ! k)))) \<and>
       length to_daemon = min copied (length (write_lines (map (\<lambda>c. print (enc_command c)) commands))) \<and>
       (\<exists>cut. length cut \<le> (if rest = [] then 0 else 1) \<and>
          map (\<lambda>line. case parse line of Inl _ \<Rightarrow> None | Inr v \<Rightarrow> dec_command v) (fst (read_lines to_daemon)) =
            map Some (take k commands) @ cut) \<and>
       (length (write_lines (map (\<lambda>c. print (enc_command c)) commands)) \<le> copied \<longrightarrow> k = length commands))"
proof -
  let ?message = "\<lambda>line. case parse line of Inl _ \<Rightarrow> None | Inr v \<Rightarrow> dec_server_message v"
  let ?command = "\<lambda>line. case parse line of Inl _ \<Rightarrow> None | Inr v \<Rightarrow> dec_command v"
  let ?lines = "map (\<lambda>c. print (enc_command c)) commands"
  have ms: "read_lines (write_lines (map (\<lambda>m. print (enc_server_message m)) messages)) =
      (map (\<lambda>m. print (enc_server_message m)) messages, True)"
    by (rule read_write_lines) (use assms(1) in simp)
  have out: "ok" "out = write_lines (map (\<lambda>m. print (enc_server_message m)) messages)"
    and td: "to_daemon = take copied (write_lines ?lines)"
    using assms(3) unfolding qml_bridge_def ms by simp_all
  have "map ?message (fst (read_lines out)) = map Some messages"
    unfolding out(2) ms by (rule nth_equalityI) (use assms(1) in \<open>simp_all del: enc_server_message.simps\<close>)
  moreover
  obtain k rest where k: "k \<le> length commands" "to_daemon = write_lines (take k ?lines) @ rest"
    "if k = length commands then rest = [] else prefix rest (?lines ! k)"
    using take_write_lines [of ?lines copied] unfolding td length_map by blast
  have texts: "\<forall>l \<in> set ?lines. line_text l" using assms(2) by simp
  then have "CHR 0x0A \<notin> set rest"
    using k(1,3) set_mono_prefix [of rest "?lines ! k"] by (auto simp: line_text_def split: if_splits)
  then obtain cut where cut: "fst (read_lines to_daemon) = take k ?lines @ cut"
    "length cut \<le> (if rest = [] then 0 else 1)"
    using read_write_lines_rest [of "take k ?lines" rest] texts unfolding k(2) by (meson in_set_takeD)
  have "map ?command (take k ?lines) = map Some (take k commands)"
    by (rule nth_equalityI) (use assms(2) k(1) in \<open>simp_all\<close>)
  then have "map ?command (fst (read_lines to_daemon)) = map Some (take k commands) @ map ?command cut"
    by (simp add: cut(1))
  moreover have "k = length commands" if "length (write_lines ?lines) \<le> copied"
  proof (rule ccontr)
    assume "k \<noteq> length commands"
    then have less: "k < length commands" and "prefix rest (?lines ! k)" using k(1,3) by auto
    then have "length rest \<le> length (?lines ! k)" by (simp add: prefix_length_le)
    moreover have "?lines = take k ?lines @ ?lines ! k # drop (Suc k) ?lines"
      by (rule id_take_nth_drop) (use less in simp)
    then have "write_lines ?lines = write_lines (take k ?lines) @ ?lines ! k @ CHR 0x0A # write_lines (drop (Suc k) ?lines)"
      unfolding write_lines_def by (metis (no_types, lifting) append.assoc append_Cons append_Nil concat.simps(2) concat_append list.simps(9) map_append)
    ultimately show False using that td k(2) by simp
  qed
  moreover have "length to_daemon = min copied (length (write_lines ?lines))"
    unfolding td by simp
  moreover have "if k = length commands then rest = [] else prefix rest (print (enc_command (commands ! k)))"
    using k(1,3) by (auto split: if_splits)
  ultimately show ?thesis
    using out k(1,2) cut(2) by (intro conjI exI [of _ k] exI [of _ rest] exI [of _ "map ?command cut"])
      (simp_all add: take_map)
qed

lemma bridge_transparent_witness:
  "let m = Snapshot (empty_snapshot ''e''); c = example_command Open (Some ''a'') None 0;
       print = (\<lambda>v. if v = enc_command c then ''c'' else ''m'');
       parse = (\<lambda>l. Inr (if l = ''c'' then enc_command c else enc_server_message m))
   in \<exists>out ok to_daemon. qml_bridge (write_lines [''m'']) (write_lines [''c'']) 2 = (out, ok, to_daemon) \<and> ok \<and>
      map (\<lambda>line. case parse line of Inl (_ :: string) \<Rightarrow> None | Inr v \<Rightarrow> dec_command v) (fst (read_lines to_daemon)) = [Some c]"
proof -
  define m where "m = Snapshot (empty_snapshot ''e'')"
  define c where "c = example_command Open (Some ''a'') None 0"
  define print where "print v = (if v = enc_command c then ''c'' else ''m'')" for v
  define parse :: "string \<Rightarrow> json result"
    where "parse l = Inr (if l = ''c'' then enc_command c else enc_server_message m)" for l
  have ne: "enc_server_message m \<noteq> enc_command c"
    by (simp add: m_def enc_command_def snapshot_members_def)
  have ok: "message_ok m"
    by (simp add: m_def snapshot_ok_def empty_snapshot_def usage_ok_def health_ok_def
        default_health_def metric_ok_def metric_unavailable_def)
  have line: "line_text ''m''" "line_text ''c''" by code_simp+
  have pm: "print (enc_server_message m) = ''m''" "print (enc_command c) = ''c''"
    using ne by (simp_all add: print_def)
  obtain out b td where q: "qml_bridge (write_lines [''m'']) (write_lines [''c'']) 2 = (out, b, td)"
    by (cases "qml_bridge (write_lines [''m'']) (write_lines [''c'']) 2")
  have "map (\<lambda>line. case parse line of Inl _ \<Rightarrow> None | Inr v \<Rightarrow> dec_command v) (fst (read_lines td)) = [Some c] \<and> b"
    using bridge_transparent [of "[m]" print parse "[c]" 2 out b td] ok line q
    by (auto simp: pm parse_def write_lines_def prefix_Cons simp del: enc_server_message.simps)
  then show ?thesis
    using q unfolding Let_def m_def [symmetric] c_def [symmetric] by (auto simp: parse_def)
qed

end
