(* ===== verification/Queries.thy ===== *)
theory Queries
  imports T3code Sql
begin

text \<open>
  The statements \<open>t3code.rs\<close> prepares, evaluated on the tables of a projection database: what
  \<open>T3code\<close> takes as the answers of a connection (\<open>t3_db\<close>) is here computed from the rows of the tables.
  A table that is absent, or lacks a column the statements name, is \<open>None\<close>: preparing a statement on
  it fails. A \<open>payload_json\<close> column is \<open>NULL\<close> or a document; a row whose payload is no JSON fails
  the statement, which is an error answer of \<open>t3_db\<close> and not modelled again here. The tables stay as they
  are while one observation reads them.
\<close>

section \<open>Tables\<close>

record v2_thread =
  th_thread_id :: sql_value
  th_project_id :: sql_value
  th_title :: sql_value
  th_provider_instance_id :: sql_value
  th_default_provider :: sql_value
  th_created_at :: sql_value
  th_updated_at :: sql_value
  th_deleted_at :: sql_value
  th_archived_at :: sql_value
  th_payload :: "json option"

record v2_run =
  rn_run_id :: sql_value
  rn_thread_id :: sql_value
  rn_status :: sql_value
  rn_ordinal :: sql_value
  rn_requested_at :: sql_value
  rn_completed_at :: sql_value
  rn_payload :: "json option"

text \<open>The rows of the runtime requests and of the subagents: the thread and the status.\<close>

record v2_work =
  wk_thread_id :: sql_value
  wk_status :: sql_value

record v2_metadata =
  md_projection_name :: sql_value
  md_schema_version :: sql_value
  md_last_sequence :: sql_value

record project =
  pj_project_id :: sql_value
  pj_title :: sql_value
  pj_workspace_root :: sql_value
  pj_updated_at :: sql_value
  pj_deleted_at :: sql_value

record v1_thread =
  ot_thread_id :: sql_value
  ot_project_id :: sql_value
  ot_title :: sql_value
  ot_branch :: sql_value
  ot_worktree_path :: sql_value
  ot_created_at :: sql_value
  ot_updated_at :: sql_value
  ot_deleted_at :: sql_value
  ot_archived_at :: sql_value
  ot_pending_approval_count :: sql_value
  ot_pending_user_input_count :: sql_value
  ot_has_actionable_proposed_plan :: sql_value
  ot_settled_at :: sql_value
  ot_snoozed_until :: sql_value

record v1_session =
  se_thread_id :: sql_value
  se_status :: sql_value
  se_provider_name :: sql_value

record v1_turn_entry =
  tu_thread_id :: sql_value
  tu_state :: sql_value
  tu_requested_at :: sql_value
  tu_started_at :: sql_value
  tu_completed_at :: sql_value

record t3_tables =
  tb_projects :: "project list option"
  tb_v2_threads :: "v2_thread list option"
  tb_v2_runs :: "v2_run list option"
  tb_v2_requests :: "v2_work list option"
  tb_v2_subagents :: "v2_work list option"
  tb_v2_metadata :: "v2_metadata list option"
  tb_v1_threads :: "v1_thread list option"
  tb_v1_sessions :: "v1_session list option"
  tb_v1_turns :: "v1_turn_entry list option"
  tb_v1_sequences :: "sql_value list option"

text \<open>The tables the current statement reads, all present.\<close>

record v2_db =
  vd_projects :: "project list"
  vd_threads :: "v2_thread list"
  vd_runs :: "v2_run list"
  vd_requests :: "v2_work list"
  vd_subagents :: "v2_work list"

definition no_such_table :: string where
  "no_such_table = ''no such table''"

definition table :: "'a list option \<Rightarrow> 'a list result" where
  "table t = (case t of None \<Rightarrow> Inl no_such_table | Some rows \<Rightarrow> Inr rows)"

definition v2_db_of :: "t3_tables \<Rightarrow> v2_db result" where
  "v2_db_of tb =
     and_then (table (tb_projects tb)) (\<lambda>projects.
     and_then (table (tb_v2_threads tb)) (\<lambda>threads.
     and_then (table (tb_v2_runs tb)) (\<lambda>runs.
     and_then (table (tb_v2_requests tb)) (\<lambda>requests.
     and_then (table (tb_v2_subagents tb)) (\<lambda>subagents.
       Inr \<lparr>vd_projects = projects, vd_threads = threads, vd_runs = runs,
            vd_requests = requests, vd_subagents = subagents\<rparr>)))))"

section \<open>The statement of \<open>read_v2_threads\<close>\<close>

definition pending_request :: "v2_db \<Rightarrow> v2_thread \<Rightarrow> bool" where
  "pending_request db t \<longleftrightarrow>
     exists3 (\<lambda>q. and3 (eq3 (wk_thread_id q) (th_thread_id t)) (eq3 (wk_status q) (SqlText ''pending'')))
       (vd_requests db)"

definition queue_held :: "(json \<Rightarrow> string) \<Rightarrow> v2_run \<Rightarrow> bool" where
  "queue_held minify a \<longleftrightarrow> sql_is (json_extract minify [''queueHeld''] (rn_payload a)) (SqlInteger 1)"

definition active_work :: "(json \<Rightarrow> string) \<Rightarrow> v2_db \<Rightarrow> v2_thread \<Rightarrow> bool" where
  "active_work minify db t \<longleftrightarrow>
     exists3 (\<lambda>a. and3 (eq3 (rn_thread_id a) (th_thread_id t))
         (or3 (in3 (rn_status a) [''preparing'', ''starting'', ''running'', ''waiting''])
              (and3 (eq3 (rn_status a) (SqlText ''queued'')) (Some (\<not> queue_held minify a)))))
       (vd_runs db) \<or>
     exists3 (\<lambda>a. and3 (eq3 (wk_thread_id a) (th_thread_id t))
         (in3 (wk_status a) [''pending'', ''running'', ''waiting'']))
       (vd_subagents db)"

text \<open>The scalar subquery: the id of the newest run that is not held in the queue.\<close>

definition latest_run_id :: "(json \<Rightarrow> string) \<Rightarrow> v2_db \<Rightarrow> v2_thread \<Rightarrow> sql_value" where
  "latest_run_id minify db t =
     (case order_by [descending rn_ordinal, descending rn_run_id]
        (where3 (\<lambda>candidate. and3 (eq3 (rn_thread_id candidate) (th_thread_id t))
            (not3 (and3 (eq3 (rn_status candidate) (SqlText ''queued'')) (Some (queue_held minify candidate)))))
          (vd_runs db)) of
        [] \<Rightarrow> SqlNull | run # _ \<Rightarrow> rn_run_id run)"

type_synonym v2_joined = "v2_thread \<times> project option \<times> v2_run option"

definition v2_joined_rows :: "(json \<Rightarrow> string) \<Rightarrow> v2_db \<Rightarrow> v2_thread \<Rightarrow> v2_joined list" where
  "v2_joined_rows minify db t =
     concat (map (\<lambda>p. map (\<lambda>r. (t, p, r))
         (left_join (\<lambda>t r. eq3 (rn_run_id r) (latest_run_id minify db t)) (vd_runs db) t))
       (left_join (\<lambda>t p. eq3 (pj_project_id p) (th_project_id t)) (vd_projects db) t))"

definition v2_condition :: "(json \<Rightarrow> string) \<Rightarrow> v2_db \<Rightarrow> v2_joined \<Rightarrow> bool" where
  "v2_condition minify db = (\<lambda>(t, p, r).
     is_null (th_deleted_at t) \<and> is_null (th_archived_at t) \<and>
     (is_null (column pj_project_id p) \<or> is_null (column pj_deleted_at p)) \<and>
     (\<not> sql_is (json_extract minify [''settledOverride''] (th_payload t)) (SqlText ''settled'') \<or>
        pending_request db t \<or> active_work minify db t) \<and>
     (\<not> sql_is (json_extract minify [''lineage'', ''relationshipToParent''] (th_payload t)) (SqlText ''subagent'') \<or>
        pending_request db t))"

definition flag :: "bool \<Rightarrow> sql_value" where
  "flag b = SqlInteger (of_bool b)"

definition v2_selected :: "(json \<Rightarrow> string) \<Rightarrow> v2_db \<Rightarrow> nat \<Rightarrow> v2_joined list" where
  "v2_selected minify db limit =
     take limit (order_by
       [descending (\<lambda>(t, p, r). flag (pending_request db t)),
        descending (\<lambda>(t, p, r). flag (active_work minify db t)),
        descending (\<lambda>(t, p, r). th_updated_at t),
        ascending (\<lambda>(t, p, r). th_thread_id t)]
       (filter (v2_condition minify db) (concat (map (v2_joined_rows minify db) (vd_threads db)))))"

definition v2_columns :: "(json \<Rightarrow> string) \<Rightarrow> v2_db \<Rightarrow> v2_joined \<Rightarrow> v2_row" where
  "v2_columns minify db = (\<lambda>(t, p, r).
     let member = (\<lambda>k. json_extract minify [k] (th_payload t)) in
     \<lparr>v2_thread_id = get_text (th_thread_id t),
      v2_title = get_text (th_title t),
      v2_branch = get_opt get_text (member ''branch''),
      v2_worktree_path = get_opt get_text (member ''worktreePath''),
      v2_pending = get_i64 (flag (pending_request db t)),
      v2_settled_at = get_opt get_text (member ''settledAt''),
      v2_snoozed_until = get_opt get_text (member ''snoozedUntil''),
      v2_created_at = get_text (th_created_at t),
      v2_provider = get_opt get_text (coalesce (th_provider_instance_id t) (th_default_provider t)),
      v2_project_title = get_opt get_text (column pj_title p),
      v2_workspace_root = get_opt get_text (column pj_workspace_root p),
      v2_run_state = get_opt get_text (column rn_status r),
      v2_requested_at = get_opt get_text (column rn_requested_at r),
      v2_completed_at = get_opt get_text (column rn_completed_at r),
      v2_active_work = get_flag (flag (active_work minify db t)),
      v2_visited_at = get_opt get_text (member ''lastVisitedAt''),
      v2_settled_override = get_opt get_text (member ''settledOverride'')\<rparr>)"

section \<open>The statements of \<open>read_threads\<close> on the older schema\<close>

type_synonym v1_joined = "v1_thread \<times> v1_session option \<times> project option"

definition v1_joined_rows :: "v1_session list \<Rightarrow> project list \<Rightarrow> v1_thread \<Rightarrow> v1_joined list" where
  "v1_joined_rows sessions projects t =
     concat (map (\<lambda>s. map (\<lambda>p. (t, s, p))
         (left_join (\<lambda>t p. eq3 (pj_project_id p) (ot_project_id t)) projects t))
       (left_join (\<lambda>t s. eq3 (se_thread_id s) (ot_thread_id t)) sessions t))"

definition v1_condition :: "v1_joined \<Rightarrow> bool" where
  "v1_condition = (\<lambda>(t, s, p). is_null (ot_deleted_at t) \<and> is_null (ot_archived_at t) \<and>
     (is_null (column pj_project_id p) \<or> is_null (column pj_deleted_at p)))"

definition v1_selected ::
  "v1_thread list \<Rightarrow> v1_session list \<Rightarrow> project list \<Rightarrow> nat \<Rightarrow> v1_joined list" where
  "v1_selected threads sessions projects limit =
     take limit (order_by [descending (\<lambda>(t, s, p). column pj_updated_at p),
                           descending (\<lambda>(t, s, p). ot_updated_at t)]
       (filter v1_condition (concat (map (v1_joined_rows sessions projects) threads))))"

definition v1_columns :: "v1_joined \<Rightarrow> v1_row" where
  "v1_columns = (\<lambda>(t, s, p).
     \<lparr>v1_thread_id = get_text (ot_thread_id t),
      v1_title = get_opt get_text (ot_title t),
      v1_branch = get_opt get_text (ot_branch t),
      v1_worktree_path = get_opt get_text (ot_worktree_path t),
      v1_pending_approval_count = get_opt get_i64 (ot_pending_approval_count t),
      v1_pending_user_input_count = get_opt get_i64 (ot_pending_user_input_count t),
      v1_has_actionable_proposed_plan = get_opt get_i64 (ot_has_actionable_proposed_plan t),
      v1_settled_at = get_opt get_text (ot_settled_at t),
      v1_snoozed_until = get_opt get_text (ot_snoozed_until t),
      v1_created_at = get_opt get_text (ot_created_at t),
      v1_session_status = get_opt get_text (column se_status s),
      v1_provider_name = get_opt get_text (column se_provider_name s),
      v1_project_title = get_opt get_text (column pj_title p),
      v1_workspace_root = get_opt get_text (column pj_workspace_root p)\<rparr>)"

definition latest_turn :: "v1_turn_entry list \<Rightarrow> string \<Rightarrow> v1_turn option" where
  "latest_turn turns thread_id =
     (case order_by [descending tu_requested_at]
        (where3 (\<lambda>e. eq3 (tu_thread_id e) (SqlText thread_id)) turns) of
        [] \<Rightarrow> None
      | e # _ \<Rightarrow> Some \<lparr>v1t_state = get_opt get_text (tu_state e),
          v1t_requested_at = get_opt get_text (tu_requested_at e),
          v1t_started_at = get_opt get_text (tu_started_at e),
          v1t_completed_at = get_opt get_text (tu_completed_at e)\<rparr>)"

section \<open>The answers of a connection to these tables\<close>

definition metadata_sequence :: "v2_metadata list \<Rightarrow> int option result" where
  "metadata_sequence rows =
     (case where3 (\<lambda>m. and3 (eq3 (md_projection_name m) (SqlText ''thread-projections''))
                            (eq3 (md_schema_version m) (SqlInteger 2))) rows of
        [] \<Rightarrow> Inr None | m # _ \<Rightarrow> map_sum id Some (get_i64 (md_last_sequence m)))"

definition t3_db_of :: "(json \<Rightarrow> string) \<Rightarrow> t3_tables \<Rightarrow> t3_db" where
  "t3_db_of minify tb =
     \<lparr>db_is_v2 = Inr (tb_v2_threads tb \<noteq> None),
      db_v2_sequence = and_then (table (tb_v2_metadata tb)) metadata_sequence,
      db_v1_sequence = and_then (table (tb_v1_sequences tb)) (\<lambda>vs. get_opt get_i64 (sql_max vs)),
      db_v2_rows = (\<lambda>limit. and_then (v2_db_of tb) (\<lambda>db.
        Inr (map (\<lambda>j. Inr (v2_columns minify db j)) (v2_selected minify db limit)))),
      db_v1_rows = (\<lambda>limit.
        and_then (table (tb_v1_threads tb)) (\<lambda>threads.
        and_then (table (tb_v1_sessions tb)) (\<lambda>sessions.
        and_then (table (tb_projects tb)) (\<lambda>projects.
          Inr (map (\<lambda>j. Inr (v1_columns j)) (v1_selected threads sessions projects limit)))))),
      db_v1_turn = and_then (table (tb_v1_turns tb)) (\<lambda>turns.
        Inr (\<lambda>thread_id. Inr (latest_turn turns thread_id)))\<rparr>"

section \<open>What the rows are\<close>

lemma get_text_Inr [simp]: "get_text v = Inr s \<longleftrightarrow> v = SqlText s"
  by (cases v) auto

lemma flag_reads [simp]: "get_i64 (flag b) = Inr (of_bool b)" "get_flag (flag b) = Inr b"
  by (simp_all add: flag_def)

lemma flag_cmp: "sql_cmp (flag a) (flag b) \<noteq> Greater \<longleftrightarrow> (a \<longrightarrow> b)"
  by (auto simp: flag_def cmp_def)

lemma v2_thread_row_Inr:
  assumes "v2_thread_row row = Inr thread"
  shows "v2_thread_id row = Inr (tr_thread_id thread)"
    and "v2_pending row = Inr (tr_pending_approval_count thread)"
    and "v2_active_work row = Inr (tr_active_work thread)"
    and "row_session_status thread \<in> {''running'', ''ready''}"
proof -
  note read = assms [unfolded v2_thread_row_def and_then_Inr]
  show "v2_thread_id row = Inr (tr_thread_id thread)" using read by (elim exE conjE) auto
  show "v2_pending row = Inr (tr_pending_approval_count thread)" using read by (elim exE conjE) auto
  show "v2_active_work row = Inr (tr_active_work thread)" using read by (elim exE conjE) auto
  show "row_session_status thread \<in> {''running'', ''ready''}"
    using read by (elim exE conjE) (auto simp: row_session_status_def split: if_splits)
qed

lemma v2_thread_row_columns:
  assumes "v2_thread_row (v2_columns minify db (t, p, r)) = Inr row"
  shows "th_thread_id t = SqlText (tr_thread_id row)"
    and "tr_pending_approval_count row = of_bool (pending_request db t)"
    and "tr_active_work row = active_work minify db t"
    and "row_session_status row \<in> {''running'', ''ready''}"
  using v2_thread_row_Inr [OF assms] by (simp_all add: v2_columns_def Let_def)

lemma read_v2_rows:
  assumes "read_threads (t3_db_of minify tb) = Inr rows" "v2_db_of tb = Inr db"
  shows "list_all2 (\<lambda>j row. v2_thread_row (v2_columns minify db j) = Inr row)
    (v2_selected minify db MAX_CANDIDATES) rows"
proof -
  have "tb_v2_threads tb \<noteq> None"
    using assms(2) by (auto simp: v2_db_of_def table_def and_then_Inr split: option.splits)
  with assms show ?thesis
    by (simp add: read_threads_def read_v2_threads_def t3_db_of_def and_then_Inr
        collect_results_Inr list_all2_conv_all_nth and_then_def split: if_splits sum.splits)
qed

text \<open>A thread is listed when it, and a project it has, is not deleted, it is not archived, and it is
  neither settled with no work left nor a subagent's that waits for nobody.\<close>

definition v2_listed :: "(json \<Rightarrow> string) \<Rightarrow> v2_db \<Rightarrow> v2_thread \<Rightarrow> bool" where
  "v2_listed minify db t \<longleftrightarrow>
     is_null (th_deleted_at t) \<and> is_null (th_archived_at t) \<and>
     ((\<exists>p \<in> set (vd_projects db). eq3 (pj_project_id p) (th_project_id t) = Some True) \<longrightarrow>
      (\<exists>p \<in> set (vd_projects db). eq3 (pj_project_id p) (th_project_id t) = Some True \<and> is_null (pj_deleted_at p))) \<and>
     (json_extract minify [''settledOverride''] (th_payload t) = SqlText ''settled'' \<longrightarrow>
      pending_request db t \<or> active_work minify db t) \<and>
     (json_extract minify [''lineage'', ''relationshipToParent''] (th_payload t) = SqlText ''subagent'' \<longrightarrow>
      pending_request db t)"

lemma left_join_nonempty: "\<exists>r. r \<in> set (left_join on right row)"
  by (auto simp: set_left_join)

lemma eq3_not_null: "eq3 a b = Some True \<Longrightarrow> \<not> is_null a"
  by (auto simp: eq3_def split: if_splits)

lemma v2_joined_rows_listed:
  "(\<exists>p r. (t, p, r) \<in> set (v2_joined_rows minify db u) \<and> v2_condition minify db (t, p, r)) \<longleftrightarrow>
     t = u \<and> v2_listed minify db t"
proof -
  have mem: "(t, p, r) \<in> set (v2_joined_rows minify db u) \<longleftrightarrow> t = u \<and>
      p \<in> set (left_join (\<lambda>t p. eq3 (pj_project_id p) (th_project_id t)) (vd_projects db) u) \<and>
      r \<in> set (left_join (\<lambda>t r. eq3 (rn_run_id r) (latest_run_id minify db t)) (vd_runs db) u)" for p r
    by (auto simp: v2_joined_rows_def)
  obtain r0 where r0: "r0 \<in> set (left_join (\<lambda>t r. eq3 (rn_run_id r) (latest_run_id minify db t)) (vd_runs db) u)"
    by (rule exE [OF left_join_nonempty])
  show ?thesis
    unfolding mem using r0
    by (auto simp: v2_condition_def v2_listed_def set_left_join column_def dest: eq3_not_null split: if_splits)
qed

end
