(* ===== verification/Projection.thy ===== *)
theory Projection
  imports Queries
begin

text \<open>
  What the T3 Code cards are, from the tables of the projection database to the roster (\<open>t3code.rs\<close>):
  which threads the statements of \<open>Queries\<close> leave for the classification, that a thread waiting for a
  human is never crowded out, and that nothing else of a payload reaches the daemon.
\<close>

section \<open>The order of the rows\<close>

lemma v2_order_keys:
  "list_all total_cmp
     [descending (\<lambda>(t, p, r). flag (pending_request db t)),
      descending (\<lambda>(t, p, r). flag (active_work minify db t)),
      descending (\<lambda>(t, p, r). th_updated_at t),
      ascending (\<lambda>(t, p, r). th_thread_id t)]"
  by (simp add: total_cmp_ascending total_cmp_descending)

text \<open>The sorted rows before the limit.\<close>

definition v2_sorted :: "(json \<Rightarrow> string) \<Rightarrow> v2_db \<Rightarrow> v2_joined list" where
  "v2_sorted minify db = order_by
     [descending (\<lambda>(t, p, r). flag (pending_request db t)),
      descending (\<lambda>(t, p, r). flag (active_work minify db t)),
      descending (\<lambda>(t, p, r). th_updated_at t),
      ascending (\<lambda>(t, p, r). th_thread_id t)]
     (filter (v2_condition minify db) (concat (map (v2_joined_rows minify db) (vd_threads db))))"

lemma v2_selected_sorted: "v2_selected minify db limit = take limit (v2_sorted minify db)"
  by (simp add: v2_selected_def v2_sorted_def)

lemma set_v2_sorted:
  "(\<exists>p r. (t, p, r) \<in> set (v2_sorted minify db)) \<longleftrightarrow> t \<in> set (vd_threads db) \<and> v2_listed minify db t"
proof -
  have "(\<exists>p r. (t, p, r) \<in> set (v2_sorted minify db)) \<longleftrightarrow>
      (\<exists>u \<in> set (vd_threads db). \<exists>p r. (t, p, r) \<in> set (v2_joined_rows minify db u) \<and> v2_condition minify db (t, p, r))"
    by (auto simp: v2_sorted_def)
  then show ?thesis unfolding v2_joined_rows_listed by blast
qed

lemma pending_rows_first:
  assumes "i < length (v2_sorted minify db)" "k \<le> i"
    and "pending_request db (fst (v2_sorted minify db ! i))"
  shows "pending_request db (fst (v2_sorted minify db ! k))"
proof -
  let ?key = "\<lambda>(t, p, r). flag (pending_request db t)"
  have "descending ?key (v2_sorted minify db ! k) (v2_sorted minify db ! i) \<noteq> Greater"
    unfolding v2_sorted_def
    by (rule order_by_first_key [OF v2_order_keys]) (use assms(1,2) in \<open>simp_all add: v2_sorted_def\<close>)
  then have "sql_cmp (flag (pending_request db (fst (v2_sorted minify db ! i))))
      (flag (pending_request db (fst (v2_sorted minify db ! k)))) \<noteq> Greater"
    by (simp add: descending_def split_beta)
  with assms(3) show ?thesis by (simp only: flag_cmp)
qed

section \<open>Waiting threads\<close>

lemma shown_rows_append:
  "shown_rows rfc now (xs @ ys) = shown_rows rfc now xs @ shown_rows rfc now ys"
  by (induction xs) (auto split: option.splits)

lemma shown_rows_all:
  "\<forall>row \<in> set rows. classify rfc row now \<noteq> None \<Longrightarrow>
     shown_rows rfc now rows = map (\<lambda>row. (row, the (classify rfc row now))) rows"
  by (induction rows) auto

lemma pending_row_blocked:
  assumes "v2_thread_row (v2_columns minify db j) = Inr row" "pending_request db (fst j)"
  shows "\<exists>c. classify rfc row now = Some c \<and> cl_status c = Blocked"
proof -
  obtain t p r where j: "j = (t, p, r)" by (cases j)
  note row = v2_thread_row_columns [OF assms(1) [unfolded j]]
  have pending: "tr_pending_approval_count row = 1" using assms(2) row(2) by (simp add: j)
  then have human: "needs_human row" by (simp add: needs_human_def)
  have "classify rfc row now \<noteq> None"
    using row(4) pending by (auto simp: classify_None snoozed_def)
  then show ?thesis using classify_needs_human human by blast
qed

text \<open>The rows of a prefix that all classify come first on the roster.\<close>

lemma roster_prefix:
  assumes "i < length rows" "\<forall>k \<le> i. \<exists>c. classify rfc (rows ! k) now = Some c \<and> P c"
  shows "i < MAX_ROSTER \<and> (\<exists>c. P c \<and> (rows ! i, c) \<in> set (take MAX_ROSTER (shown_rows rfc now rows))) \<or>
    length (shown_rows rfc now rows) \<ge> MAX_ROSTER \<and>
      (\<forall>(row, c) \<in> set (take MAX_ROSTER (shown_rows rfc now rows)). P c)"
proof -
  define front where "front = map (\<lambda>row. (row, the (classify rfc row now))) (take (Suc i) rows)"
  have "\<forall>row \<in> set (take (Suc i) rows). \<exists>c. classify rfc row now = Some c \<and> P c"
    using assms by (auto simp: in_set_conv_nth)
  then have all: "\<forall>row \<in> set (take (Suc i) rows). classify rfc row now \<noteq> None"
    and blocked: "\<forall>row \<in> set (take (Suc i) rows). P (the (classify rfc row now))"
    by force+
  have front: "shown_rows rfc now (take (Suc i) rows) = front" "\<forall>(row, c) \<in> set front. P c"
    using shown_rows_all [OF all] blocked by (auto simp: front_def)
  have shown: "shown_rows rfc now rows = front @ shown_rows rfc now (drop (Suc i) rows)"
    by (subst append_take_drop_id [of "Suc i" rows, symmetric]) (simp only: shown_rows_append front)
  have len: "length front = Suc i" using assms(1) by (simp add: front_def)
  show ?thesis
  proof (cases "i < MAX_ROSTER")
    case True
    have "front ! i = (rows ! i, the (classify rfc (rows ! i) now))"
      using assms(1) by (simp add: front_def)
    moreover have "take MAX_ROSTER (shown_rows rfc now rows) ! i = front ! i"
      using True len by (simp add: shown nth_append)
    moreover have "i < length (take MAX_ROSTER (shown_rows rfc now rows))"
      using True len by (simp add: shown)
    ultimately have "(rows ! i, the (classify rfc (rows ! i) now)) \<in> set (take MAX_ROSTER (shown_rows rfc now rows))"
      by (metis nth_mem)
    moreover have "P (the (classify rfc (rows ! i) now))" using assms(2) by force
    ultimately show ?thesis using True by blast
  next
    case False
    then have "take MAX_ROSTER (shown_rows rfc now rows) = take MAX_ROSTER front"
      using len by (simp add: shown)
    moreover have "MAX_ROSTER \<le> length (shown_rows rfc now rows)" using False len by (simp add: shown)
    ultimately show ?thesis using front(2) by (auto dest: in_set_takeD)
  qed
qed

lemma observe_database_rows:
  assumes "tk_status_file client = None" "client_liveness env client = Running v"
    and "te_open_db env (database_path env client) = Inr (t3_db_of minify tb)"
    and "sv_state (to_session (t3_observe env client epoch now)) = SessConnected"
  obtains rows s where "read_threads (t3_db_of minify tb) = Inr rows"
    "t3_observe env client epoch now =
       observation_from_rows (te_rfc3339 env) (te_uuid5 env) rows epoch now (Some v) s"
  using assms
  by (auto simp: t3_observe_def observe_database_def t3_empty_observation_def t3_session_def Let_def
      split: sum.splits)

lemma read_v2_nth:
  assumes "read_threads (t3_db_of minify tb) = Inr rows" "v2_db_of tb = Inr db"
  shows "length rows = min 512 (length (v2_sorted minify db))"
    and "k < length rows \<Longrightarrow> v2_thread_row (v2_columns minify db (v2_sorted minify db ! k)) = Inr (rows ! k)"
proof -
  note all = read_v2_rows [OF assms, unfolded list_all2_conv_all_nth v2_selected_sorted]
  show len: "length rows = min 512 (length (v2_sorted minify db))" using all by (simp add: MAX_CANDIDATES_def min.commute)
  show "k < length rows \<Longrightarrow> v2_thread_row (v2_columns minify db (v2_sorted minify db ! k)) = Inr (rows ! k)"
    using all len by (simp add: MAX_CANDIDATES_def)
qed

text \<open>Rows and cards of the roster correspond.\<close>

lemma observation_nth:
  assumes "shown = take MAX_ROSTER (shown_rows rfc now rows)"
    and "cards = to_agents (observation_from_rows rfc uuid rows epoch now p s)"
  shows "length cards = length shown"
    and "k < length shown \<Longrightarrow> shown ! k = (row, c) \<Longrightarrow>
      cards ! k = thread_card (opaque_agent_id uuid epoch (tr_thread_id row)) row c k"
proof -
  have cards: "cards = map (\<lambda>(i, row, c). thread_card (opaque_agent_id uuid epoch (tr_thread_id row)) row c i)
      (enumerate 0 shown)"
    by (simp add: assms observation_agents)
  show "length cards = length shown" by (simp add: cards)
  show "k < length shown \<Longrightarrow> shown ! k = (row, c) \<Longrightarrow>
      cards ! k = thread_card (opaque_agent_id uuid epoch (tr_thread_id row)) row c k"
    by (simp add: cards nth_enumerate_eq)
qed

lemma observation_shows:
  assumes "(row, c) \<in> set (take MAX_ROSTER (shown_rows rfc now rows))"
  shows "\<exists>i. thread_card (opaque_agent_id uuid epoch (tr_thread_id row)) row c i \<in>
    set (to_agents (observation_from_rows rfc uuid rows epoch now p s))"
proof -
  obtain i where "i < length (take MAX_ROSTER (shown_rows rfc now rows))"
    "take MAX_ROSTER (shown_rows rfc now rows) ! i = (row, c)"
    using assms unfolding in_set_conv_nth by blast
  then show ?thesis
    using observation_nth [OF refl refl] by (metis nth_mem)
qed

lemma observation_shown:
  assumes "a \<in> set (to_agents (observation_from_rows rfc uuid rows epoch now p s))"
  shows "\<exists>row c. (row, c) \<in> set (take MAX_ROSTER (shown_rows rfc now rows)) \<and> av_status a = cl_status c"
proof -
  let ?shown = "take MAX_ROSTER (shown_rows rfc now rows)"
  obtain i where i: "i < length ?shown"
    "to_agents (observation_from_rows rfc uuid rows epoch now p s) ! i = a"
    using assms observation_nth(1) [OF refl refl, of rfc uuid rows epoch now p s]
    unfolding in_set_conv_nth by auto
  obtain row c where "?shown ! i = (row, c)" by fastforce
  moreover from this have "(row, c) \<in> set ?shown" using i(1) by (metis nth_mem)
  moreover from calculation have "av_status a = cl_status c"
    using i(2) observation_nth(2) [OF refl refl i(1)] by (force simp: thread_card_def)
  ultimately show ?thesis by blast
qed

text \<open>A waiting thread's row is on the roster, or the roster is full of waiting threads.\<close>

lemma waiting_row_on_roster:
  assumes rows: "read_threads (t3_db_of minify tb) = Inr rows" "v2_db_of tb = Inr db"
    and t: "t \<in> set (vd_threads db)" "v2_listed minify db t" "pending_request db t"
  shows "(\<exists>row c. th_thread_id t = SqlText (tr_thread_id row) \<and> cl_status c = Blocked \<and>
      (row, c) \<in> set (take MAX_ROSTER (shown_rows rfc now rows))) \<or>
    length (shown_rows rfc now rows) \<ge> MAX_ROSTER \<and>
      (\<forall>(row, c) \<in> set (take MAX_ROSTER (shown_rows rfc now rows)). cl_status c = Blocked)"
proof -
  let ?sorted = "v2_sorted minify db"
  note row = read_v2_nth [OF rows]
  obtain p r where "(t, p, r) \<in> set ?sorted" using set_v2_sorted t(1,2) by blast
  then obtain i where i: "i < length ?sorted" "?sorted ! i = (t, p, r)" by (auto simp: in_set_conv_nth)
  define n where "n = min i 511"
  have n: "n < length rows" "n \<le> i" using i(1) row(1) by (auto simp: n_def)
  have pending: "pending_request db (fst (?sorted ! k))" if "k \<le> n" for k
    by (rule pending_rows_first [OF i(1)]) (use that n i(2) t(3) in auto)
  have blocked: "\<forall>k \<le> n. \<exists>c. classify rfc (rows ! k) now = Some c \<and> cl_status c = Blocked"
    using pending_row_blocked [OF row(2) pending] n(1) by auto
  show ?thesis
  proof (cases "n < MAX_ROSTER")
    case True
    then have "n = i" by (simp add: n_def MAX_ROSTER_def min_def split: if_splits)
    then have "th_thread_id t = SqlText (tr_thread_id (rows ! n))"
      using v2_thread_row_columns(1) row(2) [OF n(1)] i(2) by simp
    then show ?thesis using roster_prefix [OF n(1) blocked] by blast
  next
    case False
    then show ?thesis using roster_prefix [OF n(1) blocked] by blast
  qed
qed

text \<open>C22 In the current projection a thread that waits for an answer is never crowded out: however many
  threads the database holds, a listed thread with a pending request has a blocked card under its own
  id, unless all 64 cards of the roster are blocked ones.\<close>

theorem waiting_thread_is_shown:
  assumes client: "tk_status_file client = None" "client_liveness env client = Running v"
    and db: "te_open_db env (database_path env client) = Inr (t3_db_of minify tb)" "v2_db_of tb = Inr db"
    and ob: "ob = t3_observe env client epoch now" "sv_state (to_session ob) = SessConnected"
    and t: "t \<in> set (vd_threads db)" "v2_listed minify db t" "pending_request db t"
  shows "(\<exists>thread_id a. th_thread_id t = SqlText thread_id \<and> a \<in> set (to_agents ob) \<and>
      av_id a = opaque_agent_id (te_uuid5 env) epoch thread_id \<and> av_status a = Blocked) \<or>
    length (to_agents ob) = 64 \<and> (\<forall>a \<in> set (to_agents ob). av_status a = Blocked)"
proof -
  let ?rfc = "te_rfc3339 env" and ?id = "opaque_agent_id (te_uuid5 env) epoch"
  obtain rows s where rows: "read_threads (t3_db_of minify tb) = Inr rows"
    and obs: "ob = observation_from_rows ?rfc (te_uuid5 env) rows epoch now (Some v) s"
    using observe_database_rows [OF client db(1)] ob by metis
  from waiting_row_on_roster [OF rows db(2) t, of ?rfc now] show ?thesis
  proof (elim disjE exE conjE)
    fix row c
    assume row: "th_thread_id t = SqlText (tr_thread_id row)" "cl_status c = Blocked"
      "(row, c) \<in> set (take MAX_ROSTER (shown_rows ?rfc now rows))"
    from observation_shows [OF row(3)] obtain i
      where "thread_card (opaque_agent_id (te_uuid5 env) epoch (tr_thread_id row)) row c i \<in> set (to_agents ob)"
      unfolding obs by blast
    with row show ?thesis by (force simp: thread_card_def)
  next
    assume full: "length (shown_rows ?rfc now rows) \<ge> MAX_ROSTER"
      and blocked: "\<forall>(row, c) \<in> set (take MAX_ROSTER (shown_rows ?rfc now rows)). cl_status c = Blocked"
    have "length (to_agents ob) = 64" using full by (simp add: obs observation_agents MAX_ROSTER_def)
    moreover have "\<forall>a \<in> set (to_agents ob). av_status a = Blocked"
      using blocked observation_shown unfolding obs by fastforce
    ultimately show ?thesis by blast
  qed
qed

definition example_v2_thread :: "string \<Rightarrow> string \<Rightarrow> v2_thread" where
  "example_v2_thread i updated =
     \<lparr>th_thread_id = SqlText i, th_project_id = SqlText ''p'', th_title = SqlText ''Fix it'',
      th_provider_instance_id = SqlNull, th_default_provider = SqlText ''codex'',
      th_created_at = SqlText ''2026'', th_updated_at = SqlText updated, th_deleted_at = SqlNull,
      th_archived_at = SqlNull, th_payload = Some (JObj [(''private'', JStr ''prompt'')])\<rparr>"

definition example_tables :: t3_tables where
  "example_tables =
     \<lparr>tb_projects = Some [],
      tb_v2_threads = Some [example_v2_thread ''new'' ''2026-02'', example_v2_thread ''old'' ''2026-01''],
      tb_v2_runs = Some [],
      tb_v2_requests = Some [\<lparr>wk_thread_id = SqlText ''old'', wk_status = SqlText ''pending''\<rparr>],
      tb_v2_subagents = Some [],
      tb_v2_metadata = Some [\<lparr>md_projection_name = SqlText ''thread-projections'',
        md_schema_version = SqlInteger 2, md_last_sequence = SqlInteger 99\<rparr>],
      tb_v1_threads = None, tb_v1_sessions = None, tb_v1_turns = None, tb_v1_sequences = None\<rparr>"

definition projection_env :: "t3_tables \<Rightarrow> t3_env" where
  "projection_env tb = example_t3_env\<lparr>te_parse_runtime := (\<lambda>_. Inr (1, 7)),
     te_read_to_string := (\<lambda>path. Inr ''t3code''), te_open_db := (\<lambda>_. Inr (t3_db_of (\<lambda>_. []) tb))\<rparr>"

lemma example_observation:
  "map (\<lambda>a. (av_id a, av_status a)) (to_agents (t3_observe (projection_env example_tables) (t3_client_new ''/h'') ''e'' 0)) =
     [(opaque_agent_id (\<lambda>s. s) ''e'' ''old'', Blocked), (opaque_agent_id (\<lambda>s. s) ''e'' ''new'', Idle)]"
  "sv_state (to_session (t3_observe (projection_env example_tables) (t3_client_new ''/h'') ''e'' 0)) = SessConnected"
  "client_liveness (projection_env example_tables) (t3_client_new ''/h'') = Running 1"
  by code_simp+

lemma waiting_thread_is_shown_witness:
  "\<exists>a \<in> set (to_agents (t3_observe (projection_env example_tables) (t3_client_new ''/h'') ''e'' 0)).
     av_id a = opaque_agent_id (\<lambda>s. s) ''e'' ''old'' \<and> av_status a = Blocked"
proof -
  define env where "env = projection_env example_tables"
  define db where "db = \<lparr>vd_projects = [], vd_threads = [example_v2_thread ''new'' ''2026-02'', example_v2_thread ''old'' ''2026-01''],
    vd_runs = [], vd_requests = [\<lparr>wk_thread_id = SqlText ''old'', wk_status = SqlText ''pending''\<rparr>], vd_subagents = []\<rparr>"
  have "v2_db_of example_tables = Inr db"
    by (simp add: db_def v2_db_of_def example_tables_def table_def and_then_def)
  moreover have "te_open_db env (database_path env (t3_client_new ''/h'')) = Inr (t3_db_of (\<lambda>_. []) example_tables)"
    by (simp add: env_def projection_env_def)
  moreover have "pending_request db (example_v2_thread ''old'' ''2026-01'')"
    "v2_listed (\<lambda>_. []) db (example_v2_thread ''old'' ''2026-01'')"
    by (simp_all add: db_def pending_request_def v2_listed_def example_v2_thread_def json_extract_def)
  ultimately show ?thesis
    using waiting_thread_is_shown [of "t3_client_new ''/h''" env 1 "\<lambda>_. []" example_tables db _ "''e''" 0
        "example_v2_thread ''old'' ''2026-01''", OF _ _ _ _ refl] example_observation
      arg_cong [OF example_observation(1), of length]
    by (auto simp: env_def db_def example_v2_thread_def projection_env_def example_t3_env_def t3_client_new_def)
qed

section \<open>What is read of a payload\<close>

text \<open>A payload holds the whole record of a thread or a run, private content included. The members the
  statements name, and the payloads reduced to them.\<close>

definition thread_members :: "string list" where
  "thread_members = [''branch'', ''worktreePath'', ''settledAt'', ''snoozedUntil'', ''lastVisitedAt'', ''settledOverride'']"

definition keep_member :: "json \<Rightarrow> string \<Rightarrow> (string \<times> json) list" where
  "keep_member v k = (case jget k v of None \<Rightarrow> [] | Some x \<Rightarrow> [(k, x)])"

definition public_thread_payload :: "json \<Rightarrow> json" where
  "public_thread_payload v = JObj (concat (map (keep_member v) thread_members) @
     (case json_path [''lineage'', ''relationshipToParent''] v of
        None \<Rightarrow> [] | Some x \<Rightarrow> [(''lineage'', JObj [(''relationshipToParent'', x)])]))"

definition public_run_payload :: "json \<Rightarrow> json" where
  "public_run_payload v = JObj (keep_member v ''queueHeld'')"

definition public_thread :: "v2_thread \<Rightarrow> v2_thread" where
  "public_thread t = t\<lparr>th_payload := map_option public_thread_payload (th_payload t)\<rparr>"

definition public_run :: "v2_run \<Rightarrow> v2_run" where
  "public_run r = r\<lparr>rn_payload := map_option public_run_payload (rn_payload r)\<rparr>"

definition public_tables :: "t3_tables \<Rightarrow> t3_tables" where
  "public_tables tb = tb\<lparr>tb_v2_threads := map_option (map public_thread) (tb_v2_threads tb),
     tb_v2_runs := map_option (map public_run) (tb_v2_runs tb)\<rparr>"

definition public_db :: "v2_db \<Rightarrow> v2_db" where
  "public_db db = db\<lparr>vd_threads := map public_thread (vd_threads db), vd_runs := map public_run (vd_runs db)\<rparr>"

lemma hget_keep_member: "hget (keep_member v k) k' = (if k' = k then jget k v else None)"
  by (simp add: keep_member_def split: option.split)

lemma extract_public_thread:
  "k \<in> set thread_members \<Longrightarrow> json_extract minify [k] (th_payload (public_thread t)) = json_extract minify [k] (th_payload t)"
  "json_extract minify [''lineage'', ''relationshipToParent''] (th_payload (public_thread t)) =
     json_extract minify [''lineage'', ''relationshipToParent''] (th_payload t)"
proof -
  have "jget k (public_thread_payload v) = jget k v" if "k \<in> set thread_members" for k v
    using that
    by (auto simp: public_thread_payload_def thread_members_def hget_keep_member map_add_def split: option.splits)
  then show "k \<in> set thread_members \<Longrightarrow>
      json_extract minify [k] (th_payload (public_thread t)) = json_extract minify [k] (th_payload t)"
    by (cases "th_payload t") (simp_all add: json_extract_def public_thread_def)
  have "jget ''lineage'' (public_thread_payload v) =
      map_option (\<lambda>x. JObj [(''relationshipToParent'', x)]) (json_path [''lineage'', ''relationshipToParent''] v)" for v
    by (simp add: public_thread_payload_def thread_members_def hget_keep_member map_add_def split: option.split)
  then show "json_extract minify [''lineage'', ''relationshipToParent''] (th_payload (public_thread t)) =
     json_extract minify [''lineage'', ''relationshipToParent''] (th_payload t)"
    by (cases "th_payload t")
      (simp_all add: json_extract_def public_thread_def bind_map_option comp_def split: option.split)
qed

lemma public_thread_columns [simp]:
  "th_thread_id (public_thread t) = th_thread_id t" "th_project_id (public_thread t) = th_project_id t"
  "th_title (public_thread t) = th_title t" "th_provider_instance_id (public_thread t) = th_provider_instance_id t"
  "th_default_provider (public_thread t) = th_default_provider t" "th_created_at (public_thread t) = th_created_at t"
  "th_updated_at (public_thread t) = th_updated_at t" "th_deleted_at (public_thread t) = th_deleted_at t"
  "th_archived_at (public_thread t) = th_archived_at t"
  by (simp_all add: public_thread_def)

lemma public_run_columns [simp]:
  "rn_run_id (public_run r) = rn_run_id r" "rn_thread_id (public_run r) = rn_thread_id r"
  "rn_status (public_run r) = rn_status r" "rn_ordinal (public_run r) = rn_ordinal r"
  "rn_requested_at (public_run r) = rn_requested_at r" "rn_completed_at (public_run r) = rn_completed_at r"
  by (simp_all add: public_run_def)

lemma queue_held_public [simp]: "queue_held minify (public_run r) = queue_held minify r"
proof -
  have "jget ''queueHeld'' (public_run_payload v) = jget ''queueHeld'' v" for v
    by (simp add: public_run_payload_def keep_member_def split: option.split)
  then show ?thesis
    by (cases "rn_payload r") (simp_all add: queue_held_def json_extract_def public_run_def)
qed

lemma clauses_map:
  "where3 p (map f xs) = map f (where3 (\<lambda>x. p (f x)) xs)"
  "exists3 p (map f xs) = exists3 (\<lambda>x. p (f x)) xs"
  "left_join on (map f ys) x = map (map_option f) (left_join (\<lambda>x y. on x (f y)) ys x)"
  "order_by ks (map f xs) = map f (order_by (map (\<lambda>k a b. k (f a) (f b)) ks) xs)"
proof -
  show w: "where3 p (map f xs) = map f (where3 (\<lambda>x. p (f x)) xs)" for p :: "'a \<Rightarrow> bool option" and f :: "'b \<Rightarrow> 'a" and xs
    by (simp add: where3_def filter_map comp_def)
  show "exists3 p (map f xs) = exists3 (\<lambda>x. p (f x)) xs"
    by (simp add: exists3_def list_ex_iff)
  show "left_join on (map f ys) x = map (map_option f) (left_join (\<lambda>x y. on x (f y)) ys x)"
    by (simp add: left_join_def w Let_def)
  have "in_turn ks (f a) (f b) = in_turn (map (\<lambda>k a b. k (f a) (f b)) ks) a b" for a b
    by (induction ks) simp_all
  then show "order_by ks (map f xs) = map f (order_by (map (\<lambda>k a b. k (f a) (f b)) ks) xs)"
    by (simp add: order_by_def sort_by_map)
qed

lemma order_runs_public:
  "order_by [descending rn_ordinal, descending rn_run_id] (map public_run rs) =
     map public_run (order_by [descending rn_ordinal, descending rn_run_id] rs)"
  by (simp add: clauses_map(4) descending_def [abs_def])

lemma case_list_map:
  "(case map f xs of [] \<Rightarrow> z | x # _ \<Rightarrow> g x) = (case xs of [] \<Rightarrow> z | x # _ \<Rightarrow> g (f x))"
  by (cases xs) simp_all

lemma public_db_tables [simp]:
  "vd_projects (public_db db) = vd_projects db" "vd_requests (public_db db) = vd_requests db"
  "vd_subagents (public_db db) = vd_subagents db" "vd_threads (public_db db) = map public_thread (vd_threads db)"
  "vd_runs (public_db db) = map public_run (vd_runs db)"
  by (simp_all add: public_db_def)

lemma conditions_public [simp]:
  "pending_request (public_db db) (public_thread t) = pending_request db t"
  "active_work minify (public_db db) (public_thread t) = active_work minify db t"
  "latest_run_id minify (public_db db) (public_thread t) = latest_run_id minify db t"
proof -
  show "pending_request (public_db db) (public_thread t) = pending_request db t"
    by (simp add: pending_request_def)
  show "active_work minify (public_db db) (public_thread t) = active_work minify db t"
    by (simp only: active_work_def public_db_tables clauses_map public_run_columns public_thread_columns
        queue_held_public)
  show "latest_run_id minify (public_db db) (public_thread t) = latest_run_id minify db t"
    by (simp add: latest_run_id_def clauses_map(1) order_runs_public case_list_map cong: list.case_cong)
qed

definition public_joined :: "v2_joined \<Rightarrow> v2_joined" where
  "public_joined = (\<lambda>(t, p, r). (public_thread t, p, map_option public_run r))"

lemma v2_joined_rows_public:
  "v2_joined_rows minify (public_db db) (public_thread t) = map public_joined (v2_joined_rows minify db t)"
  by (simp add: v2_joined_rows_def clauses_map map_concat comp_def public_joined_def left_join_def)

lemma v2_condition_public [simp]:
  "v2_condition minify (public_db db) (public_joined j) = v2_condition minify db j"
  by (cases j) (simp add: public_joined_def v2_condition_def extract_public_thread thread_members_def)

lemma v2_columns_public [simp]:
  "v2_columns minify (public_db db) (public_joined j) = v2_columns minify db j"
proof (cases j)
  case (fields t p r)
  have "column rn_status (map_option public_run r) = column rn_status r"
    "column rn_requested_at (map_option public_run r) = column rn_requested_at r"
    "column rn_completed_at (map_option public_run r) = column rn_completed_at r"
    by (simp_all add: column_def split: option.split)
  then show ?thesis
    by (simp add: fields public_joined_def v2_columns_def Let_def extract_public_thread thread_members_def)
qed

lemma order_joined_public:
  "order_by
     [descending (\<lambda>(t, p, r). flag (pending_request (public_db db) t)),
      descending (\<lambda>(t, p, r). flag (active_work minify (public_db db) t)),
      descending (\<lambda>(t, p, r). th_updated_at t),
      ascending (\<lambda>(t, p, r). th_thread_id t)] (map public_joined js) =
   map public_joined (order_by
     [descending (\<lambda>(t, p, r). flag (pending_request db t)),
      descending (\<lambda>(t, p, r). flag (active_work minify db t)),
      descending (\<lambda>(t, p, r). th_updated_at t),
      ascending (\<lambda>(t, p, r). th_thread_id t)] js)"
  by (simp add: clauses_map(4) descending_def [abs_def] ascending_def [abs_def] public_joined_def case_prod_unfold)

lemma v2_selected_public:
  "v2_selected minify (public_db db) n = map public_joined (v2_selected minify db n)"
proof -
  have "concat (map (v2_joined_rows minify (public_db db)) (vd_threads (public_db db))) =
      map public_joined (concat (map (v2_joined_rows minify db) (vd_threads db)))"
    by (simp add: map_concat comp_def v2_joined_rows_public)
  then show ?thesis
    by (simp only: v2_selected_def filter_map comp_def v2_condition_public order_joined_public take_map)
qed

text \<open>C23 Nothing of a thread's or a run's payload but the listed members reaches the daemon: a database
  whose payloads are reduced to those members answers every statement the same, so the cards, the
  targets, the session and the change signal are the same, whatever private content is removed.\<close>

theorem private_payload_never_read:
  "t3_db_of minify (public_tables tb) = t3_db_of minify tb"
proof -
  have "v2_db_of (public_tables tb) = map_sum id public_db (v2_db_of tb)"
    by (auto simp: v2_db_of_def public_tables_def public_db_def table_def and_then_def split: option.split)
  then have "db_v2_rows (t3_db_of minify (public_tables tb)) = db_v2_rows (t3_db_of minify tb)"
    by (cases "v2_db_of tb") (simp_all add: t3_db_of_def fun_eq_iff and_then_def v2_selected_public)
  then show ?thesis by (simp add: t3_db_of_def public_tables_def)
qed

section \<open>Which threads reach the classification\<close>

text \<open>A primary key: no two rows have equal keys.\<close>

definition unique_key :: "('a \<Rightarrow> sql_value) \<Rightarrow> 'a list \<Rightarrow> bool" where
  "unique_key key rows = sorted_wrt (\<lambda>a b. eq3 (key a) (key b) \<noteq> Some True) rows"

lemma eq3_same: "eq3 a v = Some True \<Longrightarrow> eq3 b v = Some True \<Longrightarrow> eq3 a b = Some True"
proof -
  assume "eq3 a v = Some True" "eq3 b v = Some True"
  then have nn: "\<not> is_null a" "\<not> is_null b" and av: "sql_cmp a v = Equal" and bv: "sql_cmp b v = Equal"
    by (auto simp: eq3_def split: if_splits)
  have vb: "sql_cmp v b = Equal" and va: "sql_cmp v a = Equal"
    using av bv sql_order.c_Equal_sym by blast+
  have "sql_cmp a b \<noteq> Greater" by (rule sql_order.c_trans [of a v b]) (simp_all add: av vb)
  moreover have "sql_cmp b a \<noteq> Greater" by (rule sql_order.c_trans [of b v a]) (simp_all add: bv va)
  ultimately have "sql_cmp a b = Equal" using sql_order.c_swap by (cases "sql_cmp a b") auto
  with nn show ?thesis by (simp add: eq3_def)
qed

lemma unique_key_match:
  "unique_key key rows \<Longrightarrow> length (where3 (\<lambda>r. eq3 (key r) v) rows) \<le> 1"
proof (induction rows)
  case (Cons r rows)
  then have first: "\<forall>s \<in> set rows. eq3 (key r) (key s) \<noteq> Some True" and rest: "unique_key key rows"
    by (simp_all add: unique_key_def)
  show ?case
  proof (cases "eq3 (key r) v = Some True")
    case True
    then have "where3 (\<lambda>r. eq3 (key r) v) rows = []"
      unfolding where3_Nil using first by (metis eq3_same)
    with True show ?thesis by (simp add: where3_def)
  next
    case False
    with Cons.IH [OF rest] show ?thesis by (simp add: where3_def)
  qed
qed (simp add: where3_def)

lemma left_join_unique:
  assumes "unique_key key rows"
  shows "\<exists>m. left_join (\<lambda>t r. eq3 (key r) (v t)) rows t = [m]"
proof -
  have "length (where3 (\<lambda>r. eq3 (key r) (v t)) rows) \<le> 1" by (rule unique_key_match [OF assms])
  then show ?thesis
    by (cases "where3 (\<lambda>r. eq3 (key r) (v t)) rows") (auto simp: left_join_def)
qed

text \<open>With primary keys a thread has one joined row.\<close>

lemma joined_threads:
  assumes "unique_key pj_project_id (vd_projects db)" "unique_key rn_run_id (vd_runs db)"
  shows "map fst (concat (map (v2_joined_rows minify db) threads)) = threads"
proof (induction threads)
  case (Cons t threads)
  obtain p where "left_join (\<lambda>t p. eq3 (pj_project_id p) (th_project_id t)) (vd_projects db) t = [p]"
    by (rule exE [OF left_join_unique [OF assms(1)]])
  moreover obtain r where "left_join (\<lambda>t r. eq3 (rn_run_id r) (latest_run_id minify db t)) (vd_runs db) t = [r]"
    by (rule exE [OF left_join_unique [OF assms(2)]])
  ultimately show ?case using Cons by (simp add: v2_joined_rows_def)
qed simp

lemma distinct_sorted:
  assumes "unique_key pj_project_id (vd_projects db)" "unique_key rn_run_id (vd_runs db)"
    and "distinct (map th_thread_id (vd_threads db))"
  shows "distinct (map (\<lambda>j. th_thread_id (fst j)) (v2_sorted minify db))"
proof -
  have "map (\<lambda>j. th_thread_id (fst j)) (concat (map (v2_joined_rows minify db) (vd_threads db))) =
      map th_thread_id (vd_threads db)"
    using joined_threads [OF assms(1,2), of minify "vd_threads db"]
    by (metis (no_types, lifting) comp_def map_eq_conv map_map)
  then have "distinct (map (\<lambda>j. th_thread_id (fst j)) (concat (map (v2_joined_rows minify db) (vd_threads db))))"
    using assms(3) by simp
  then show ?thesis by (simp add: v2_sorted_def order_by_def distinct_map_filter)
qed

text \<open>C24 With the keys of its schema, the current projection hands the classification each listed thread
  once: the rows have distinct threads, every row is a listed thread of the table, at most 512 are
  read, and when fewer are, every listed thread is among them.\<close>

theorem rows_are_listed_threads:
  assumes rows: "read_threads (t3_db_of minify tb) = Inr rows" "v2_db_of tb = Inr db"
    and keys: "unique_key pj_project_id (vd_projects db)" "unique_key rn_run_id (vd_runs db)"
      "distinct (map th_thread_id (vd_threads db))"
  shows "distinct (map tr_thread_id rows) \<and> length rows \<le> 512 \<and>
    (\<forall>row \<in> set rows. \<exists>t \<in> set (vd_threads db). v2_listed minify db t \<and>
       th_thread_id t = SqlText (tr_thread_id row)) \<and>
    (length rows < 512 \<longrightarrow> (\<forall>t \<in> set (vd_threads db). v2_listed minify db t \<longrightarrow>
       (\<exists>row \<in> set rows. th_thread_id t = SqlText (tr_thread_id row))))"
proof -
  let ?sorted = "v2_sorted minify db"
  note row = read_v2_nth [OF rows]
  have ident: "th_thread_id (fst (?sorted ! k)) = SqlText (tr_thread_id (rows ! k))" if "k < length rows" for k
    using v2_thread_row_columns(1) [of minify db "fst (?sorted ! k)" "fst (snd (?sorted ! k))" "snd (snd (?sorted ! k))"]
      row(2) [OF that] by simp
  then have ids: "map (\<lambda>j. th_thread_id (fst j)) (take 512 ?sorted) = map SqlText (map tr_thread_id rows)"
    using row(1) by (intro nth_equalityI) (simp_all add: min.commute)
  have "distinct (map (\<lambda>j. th_thread_id (fst j)) (take 512 ?sorted))"
    using distinct_sorted [OF keys] by (simp add: take_map [symmetric] distinct_take)
  then have "distinct (map tr_thread_id rows)" unfolding ids distinct_map [of SqlText] by blast
  moreover have "length rows \<le> 512" using row(1) by simp
  moreover have "\<exists>t \<in> set (vd_threads db). v2_listed minify db t \<and> th_thread_id t = SqlText (tr_thread_id row)"
    if "row \<in> set rows" for row
  proof -
    from that obtain k where k: "k < length rows" "rows ! k = row" by (auto simp: in_set_conv_nth)
    then have "?sorted ! k \<in> set ?sorted" using row(1) by simp
    then have "fst (?sorted ! k) \<in> set (vd_threads db) \<and> v2_listed minify db (fst (?sorted ! k))"
      using set_v2_sorted by (metis prod.collapse)
    then show ?thesis using ident k by blast
  qed
  moreover have "\<exists>row \<in> set rows. th_thread_id t = SqlText (tr_thread_id row)"
    if few: "length rows < 512" and t: "t \<in> set (vd_threads db)" "v2_listed minify db t" for t
  proof -
    obtain p r where "(t, p, r) \<in> set ?sorted" using set_v2_sorted t by blast
    then obtain k where "k < length ?sorted" "?sorted ! k = (t, p, r)" by (auto simp: in_set_conv_nth)
    then show ?thesis using ident [of k] row(1) few by (auto intro!: bexI [of _ "rows ! k"])
  qed
  ultimately show ?thesis by blast
qed

lemma rows_are_listed_threads_witness:
  "\<exists>rows. read_threads (t3_db_of (\<lambda>_. []) example_tables) = Inr rows \<and>
     map tr_thread_id rows = [''old'', ''new''] \<and> distinct (map tr_thread_id rows)"
proof -
  define db where "db = \<lparr>vd_projects = [], vd_threads = [example_v2_thread ''new'' ''2026-02'', example_v2_thread ''old'' ''2026-01''],
    vd_runs = [], vd_requests = [\<lparr>wk_thread_id = SqlText ''old'', wk_status = SqlText ''pending''\<rparr>], vd_subagents = []\<rparr>"
  have "v2_db_of example_tables = Inr db"
    by (simp add: db_def v2_db_of_def example_tables_def table_def and_then_def)
  moreover have "map_sum id (map tr_thread_id) (read_threads (t3_db_of (\<lambda>_. []) example_tables)) = Inr [''old'', ''new'']"
    by code_simp
  then obtain rows where "read_threads (t3_db_of (\<lambda>_. []) example_tables) = Inr rows" "map tr_thread_id rows = [''old'', ''new'']"
    by (cases "read_threads (t3_db_of (\<lambda>_. []) example_tables)") auto
  ultimately show ?thesis
    using rows_are_listed_threads [of "\<lambda>_. []" example_tables rows db]
    by (simp add: db_def unique_key_def example_v2_thread_def)
qed

end
