(* ===== verification/Messages.thy ===== *)
theory Messages
  imports Usage
begin

text \<open>
  The statement of \<open>collect_opencode_usage_bounded\<close> (\<open>usage.rs\<close>) on the rows of the message table: what
  \<open>Usage\<close> takes as the answer of \<open>ue_query_messages\<close> is here computed. The statement narrows the pass to
  the recent rows and caps their number; the property shows that the narrowing loses nothing. The
  parameters are SQLite's: \<open>parse\<close> is the document of a valid JSON text, \<open>minify\<close> and \<open>render\<close> the texts
  of a document's part and of a number. The text of a message is the column's, never a blob.
\<close>

section \<open>The statement\<close>

record message =
  mg_rowid :: int
  mg_time_created :: sql_value
  mg_time_updated :: sql_value
  mg_data :: string

fun sql_text :: "(sql_value \<Rightarrow> string) \<Rightarrow> sql_value \<Rightarrow> string" where
  "sql_text render (SqlText s) = s"
| "sql_text render v = render v"

text \<open>\<open>substr(v, 1, n)\<close>\<close>

definition substr :: "(sql_value \<Rightarrow> string) \<Rightarrow> sql_value \<Rightarrow> nat \<Rightarrow> sql_value" where
  "substr render v n = (if is_null v then SqlNull else SqlText (concat (take n (chars (sql_text render v)))))"

definition message_member ::
  "(string \<Rightarrow> json option) \<Rightarrow> (json \<Rightarrow> string) \<Rightarrow> int \<Rightarrow> message \<Rightarrow> string list \<Rightarrow> sql_value" where
  "message_member parse minify bytes_limit m path =
     (if int (length (mg_data m)) \<le> bytes_limit \<and> parse (mg_data m) \<noteq> None
      then json_extract minify path (parse (mg_data m)) else SqlNull)"

definition ok :: "'a result \<Rightarrow> 'a option" where
  "ok r = (case r of Inl _ \<Rightarrow> None | Inr x \<Rightarrow> Some x)"

definition message_columns ::
  "(string \<Rightarrow> json option) \<Rightarrow> (json \<Rightarrow> string) \<Rightarrow> (sql_value \<Rightarrow> string) \<Rightarrow> int \<Rightarrow> message \<Rightarrow> message_row" where
  "message_columns parse minify render bytes_limit m =
     (let member = message_member parse minify bytes_limit m in
      \<lparr>mr_time_created = ok (get_i64 (mg_time_created m)),
       mr_time_updated = ok (get_i64 (mg_time_updated m)),
       mr_role = ok (get_opt get_text (substr render (member [''role'']) 10)),
       mr_model_id = ok (get_opt get_text (substr render (member [''modelID'']) 49)),
       mr_provider_id = ok (get_opt get_text (substr render (member [''providerID'']) 25)),
       mr_tokens = [Some (member [''tokens'', ''input'']), Some (member [''tokens'', ''output'']),
         Some (member [''tokens'', ''reasoning'']), Some (member [''tokens'', ''cache'', ''write''])]\<rparr>)"

definition recent_message :: "int \<Rightarrow> message \<Rightarrow> bool option" where
  "recent_message since m =
     or3 (ge3 (mg_time_updated m) (SqlInteger since)) (ge3 (mg_time_created m) (SqlInteger since))"

definition newest_first :: "message list \<Rightarrow> message list" where
  "newest_first messages = order_by [descending (\<lambda>m. SqlInteger (mg_rowid m))] messages"

definition query_messages ::
  "(string \<Rightarrow> json option) \<Rightarrow> (json \<Rightarrow> string) \<Rightarrow> (sql_value \<Rightarrow> string) \<Rightarrow> message list \<Rightarrow>
     int \<Rightarrow> int \<Rightarrow> int \<Rightarrow> message_row list" where
  "query_messages parse minify render messages rows_limit bytes_limit since =
     map (message_columns parse minify render bytes_limit)
       (take (nat rows_limit) (newest_first (where3 (recent_message since) messages)))"

section \<open>The pass over the rows\<close>

text \<open>The pass without a row budget.\<close>

fun pass_rows :: "u64 \<Rightarrow> message_row list \<Rightarrow> opencode_totals \<Rightarrow> opencode_totals option" where
  "pass_rows now [] t = Some t"
| "pass_rows now (r # rows) t =
     (case read_row r of
        None \<Rightarrow> None
      | Some None \<Rightarrow> pass_rows now rows t
      | Some (Some m) \<Rightarrow> Option.bind (add_message now m t) (pass_rows now rows))"

lemma collect_rows_within:
  "k + length rows \<le> budget \<Longrightarrow> collect_rows now budget k (map Some rows) t = pass_rows now rows t"
proof (induction rows arbitrary: k t)
  case (Cons r rows)
  then have "collect_rows now budget (k + 1) (map Some rows) = pass_rows now rows"
    by (simp add: fun_eq_iff)
  with Cons.prems show ?case by (simp split: option.split)
qed simp

lemma collect_rows_beyond:
  "k \<le> budget \<Longrightarrow> budget < k + length rows \<Longrightarrow> collect_rows now budget k (map Some rows) t = None"
proof (induction rows arbitrary: k t)
  case (Cons r rows)
  show ?case
  proof (cases "budget < k + 1")
    case False
    then have "collect_rows now budget (k + 1) (map Some rows) = (\<lambda>_. None)"
      using Cons by (simp add: fun_eq_iff)
    then show ?thesis by (simp split: option.split)
  qed simp
qed simp

lemma pass_rows_skip:
  assumes "\<forall>x \<in> set xs. \<not> P x \<longrightarrow>
    (\<exists>m. read_row (f x) = Some m \<and> (\<forall>t. \<forall>m' \<in> set_option m. add_message now m' t = Some t))"
  shows "pass_rows now (map f (filter P xs)) t = pass_rows now (map f xs) t"
  using assms
proof (induction xs arbitrary: t)
  case (Cons x xs)
  then have IH: "pass_rows now (map f (filter P xs)) = pass_rows now (map f xs)" by (simp add: fun_eq_iff)
  show ?case
  proof (cases "P x")
    case True
    then show ?thesis by (simp add: IH split: option.split)
  next
    case False
    with Cons.prems obtain m where "read_row (f x) = Some m" "\<forall>t. \<forall>m' \<in> set_option m. add_message now m' t = Some t"
      by auto
    with False show ?thesis by (cases m) (simp_all add: IH)
  qed
qed simp

section \<open>Old rows\<close>

lemma read_message_text:
  "\<exists>s. ok (get_opt get_text (substr render v n)) = Some s"
  by (cases "is_null v") (simp_all add: substr_def ok_def get_opt_def)

lemma read_message_row:
  assumes "mg_time_created m = SqlInteger created" "mg_time_updated m = SqlInteger updated"
  shows "\<exists>role model provider tokens. read_row (message_columns parse minify render bytes_limit m) =
    Some (parse_opencode_scalars created updated role model provider tokens)"
proof -
  let ?member = "message_member parse minify bytes_limit m"
  obtain role model provider where
    "ok (get_opt get_text (substr render (?member [''role'']) 10)) = Some role"
    "ok (get_opt get_text (substr render (?member [''modelID'']) 49)) = Some model"
    "ok (get_opt get_text (substr render (?member [''providerID'']) 25)) = Some provider"
    using read_message_text by metis
  then show ?thesis
    using assms by (auto simp: read_row_def message_columns_def Let_def ok_def [of "Inr _"])
qed

lemma parse_opencode_time:
  "parse_opencode_scalars created updated role model provider tokens = Some m \<Longrightarrow>
     u64_try_from (max updated created) = Some (om_updated_ms m)"
  by (auto simp: parse_opencode_scalars_def Let_def bind_eq_Some_conv split: if_splits)

text \<open>A row before the period counts for nothing.\<close>

lemma old_row_skipped:
  assumes m: "mg_time_created m = SqlInteger created" "mg_time_updated m = SqlInteger updated"
    and old: "recent_message (uint (saturating_sub now SEVEN_DAYS_MS)) m \<noteq> Some True"
  shows "\<exists>x. read_row (message_columns parse minify render bytes_limit m) = Some x \<and>
    (\<forall>t. \<forall>y \<in> set_option x. add_message now y t = Some t)"
proof -
  let ?since = "saturating_sub now SEVEN_DAYS_MS"
  obtain role model provider tokens where row: "read_row (message_columns parse minify render bytes_limit m) =
      Some (parse_opencode_scalars created updated role model provider tokens)"
    using read_message_row [OF m] by blast
  have early: "max updated created < uint ?since"
    using old m by (auto simp: recent_message_def ge3_def cmp_def split: if_splits)
  have "om_updated_ms y < ?since" if "parse_opencode_scalars created updated role model provider tokens = Some y" for y
  proof -
    have y: "0 \<le> max updated created" "max updated created < 2 ^ 64" "om_updated_ms y = word_of_int (max updated created)"
      using parse_opencode_time [OF that] by (simp_all add: u64_try_from_def split: if_splits)
    have "uint (om_updated_ms y) = max updated created"
      unfolding y(3) uint_word_of_int using y(1,2) by simp
    with early show ?thesis by (simp add: word_less_def)
  qed
  then show ?thesis using row by (auto simp: add_message_def)
qed

text \<open>C34 Reading the recent rows only, newest first and at most the budget of them, loses nothing: while
  the recent rows fit the budget, the totals are what a pass over the whole table gives; when they
  do not, there is no result instead of a partial one.\<close>

theorem recent_query_exact:
  assumes query: "\<And>limit bytes since. ue_query_messages env path limit bytes since =
      Some (map Some (query_messages parse minify render messages limit bytes since))"
    and typed: "\<forall>m \<in> set messages. \<exists>created updated. mg_time_created m = SqlInteger created \<and> mg_time_updated m = SqlInteger updated"
    and fits: "budget + 1 < 2 ^ 63" "unat (saturating_sub (ue_now_query env) SEVEN_DAYS_MS) < 2 ^ 63"
    and recent: "recent = length (where3 (recent_message (uint (saturating_sub (ue_now_query env) SEVEN_DAYS_MS))) messages)"
  shows "collect_opencode_usage_bounded env path budget =
    (if budget < recent then None
     else pass_rows (ue_now_query env)
       (map (message_columns parse minify render (int MAX_CACHE_BYTES)) (newest_first messages))
       \<lparr>ot_5h = 0, ot_7d = 0, ot_1h = 0, ot_latest = None\<rparr>)"
proof -
  let ?now = "ue_now_query env" and ?zero = "\<lparr>ot_5h = 0, ot_7d = 0, ot_1h = 0, ot_latest = None\<rparr>"
  let ?is_recent = "recent_message (uint (saturating_sub ?now SEVEN_DAYS_MS))"
  let ?columns = "message_columns parse minify render (int MAX_CACHE_BYTES)"
  have "i64_try_from MAX_CACHE_BYTES = Some (int MAX_CACHE_BYTES)"
    by (simp add: i64_try_from_def MAX_CACHE_BYTES_def)
  then have run: "collect_opencode_usage_bounded env path budget = collect_rows ?now budget 0
      (map Some (map ?columns (take (budget + 1) (newest_first (where3 ?is_recent messages))))) ?zero"
    using fits by (simp add: collect_opencode_usage_bounded_def i64_try_from_def query query_messages_def
        nat_add_distrib Let_def)
  have len: "length (newest_first (where3 ?is_recent messages)) = recent"
    by (simp add: newest_first_def recent)
  show ?thesis
  proof (cases "budget < recent")
    case True
    then have "collect_rows ?now budget 0
        (map Some (map ?columns (take (budget + 1) (newest_first (where3 ?is_recent messages))))) ?zero = None"
      by (intro collect_rows_beyond) (simp_all add: len)
    with True show ?thesis unfolding run by simp
  next
    case False
    have "newest_first (where3 ?is_recent messages) = filter (\<lambda>m. ?is_recent m = Some True) (newest_first messages)"
      by (simp add: newest_first_def where3_order_by total_cmp_descending) (simp add: where3_def)
    moreover have "\<forall>m \<in> set (newest_first messages). \<not> ?is_recent m = Some True \<longrightarrow>
        (\<exists>x. read_row (?columns m) = Some x \<and> (\<forall>t. \<forall>y \<in> set_option x. add_message ?now y t = Some t))"
      using typed old_row_skipped by (force simp: newest_first_def)
    ultimately have "pass_rows ?now (map ?columns (newest_first (where3 ?is_recent messages))) ?zero =
        pass_rows ?now (map ?columns (newest_first messages)) ?zero"
      using pass_rows_skip by simp
    with False show ?thesis
      unfolding run by (subst collect_rows_within) (simp_all add: len)
  qed
qed

definition example_message :: "int \<Rightarrow> int \<Rightarrow> message" where
  "example_message rowid time = \<lparr>mg_rowid = rowid, mg_time_created = SqlInteger time,
     mg_time_updated = SqlInteger time, mg_data = ''{}''\<rparr>"

definition example_document :: json where
  "example_document = JObj [(''role'', JStr ''assistant''), (''modelID'', JStr ''m''),
     (''tokens'', JObj [(''input'', JNum (PosInt 12))])]"

definition message_env :: usage_env where
  "message_env = example_usage_env\<lparr>ue_now_query := 700000000,
     ue_query_messages := (\<lambda>_ limit bytes since. Some (map Some (query_messages (\<lambda>_. Some example_document)
       (\<lambda>_. []) (\<lambda>_. []) [example_message 1 5, example_message 2 650000000] limit bytes since)))\<rparr>"

lemma example_texts: "concat (take 10 (chars ''assistant'')) = ''assistant''" "concat (take 49 (chars ''m'')) = ''m''"
proof -
  have "chars ''assistant'' = map (\<lambda>b. [b]) ''assistant''" "chars ''m'' = map (\<lambda>b. [b]) ''m''"
    by (rule chars_ascii; simp)+
  then show "concat (take 10 (chars ''assistant'')) = ''assistant''" "concat (take 49 (chars ''m'')) = ''m''"
    by simp_all
qed

lemma example_message_row:
  assumes "0 \<le> time" "time < 2 ^ 64"
  shows "read_row (message_columns (\<lambda>_. Some example_document) minify render (int MAX_CACHE_BYTES) (example_message i time)) =
    Some (Some \<lparr>om_updated_ms = word_of_int time, om_tokens = 12, om_model = Some ''m''\<rparr>)"
  using assms example_bounded [of 47] example_bounded [of 79]
  by (simp add: read_row_def message_columns_def example_message_def message_member_def MAX_CACHE_BYTES_def
      json_extract_def example_document_def substr_def ok_def get_opt_def example_texts parse_opencode_scalars_def
      bounded_def [of None] sql_aggregate_tokens_def u64_try_from_def bounded_add_def checked_add_def
      MAX_AGGREGATE_TOKENS_def)

lemma recent_query_exact_witness:
  "map_option ot_7d (collect_opencode_usage_bounded message_env ''db'' 1) = Some 12 \<and>
   collect_opencode_usage_bounded message_env ''db'' 1 =
     pass_rows 700000000 (map (message_columns (\<lambda>_. Some example_document) (\<lambda>_. []) (\<lambda>_. []) (int MAX_CACHE_BYTES))
       [example_message 2 650000000, example_message 1 5])
       \<lparr>ot_5h = 0, ot_7d = 0, ot_1h = 0, ot_latest = None\<rparr>"
proof -
  let ?messages = "[example_message 1 5, example_message 2 650000000]"
  have sub: "saturating_sub 700000000 SEVEN_DAYS_MS = 95200000"
    by code_simp
  have "newest_first ?messages = [example_message 2 650000000, example_message 1 5]"
    by (simp add: newest_first_def order_by_def descending_def example_message_def cmp_def)
  moreover have "where3 (recent_message 95200000) ?messages = [example_message 2 650000000]"
    by (simp add: where3_def recent_message_def ge3_def example_message_def cmp_def)
  moreover have "map_option ot_7d (pass_rows 700000000 (map (message_columns (\<lambda>_. Some example_document) (\<lambda>_. []) (\<lambda>_. []) (int MAX_CACHE_BYTES))
      [example_message 2 650000000, example_message 1 5]) \<lparr>ot_5h = 0, ot_7d = 0, ot_1h = 0, ot_latest = None\<rparr>) = Some 12"
    by (simp add: example_message_row add_message_def add_tokens_def bounded_add_def checked_add_def
        saturating_add_def SEVEN_DAYS_MS_def MAX_AGGREGATE_TOKENS_def FRESH_FOR_MS_def saturating_sub_def FIVE_HOURS_MS_def ONE_HOUR_MS_def)
  moreover have "ue_now_query message_env = 700000000" by (simp add: message_env_def)
  ultimately show ?thesis
    using recent_query_exact [of message_env "''db''" "\<lambda>_. Some example_document" "\<lambda>_. []" "\<lambda>_. []" ?messages 1 1]
    by (simp add: sub) (simp add: message_env_def example_message_def)
qed

end
