(* ===== verification/Fixtures.thy ===== *)
theory Fixtures
  imports Commands
begin

text \<open>
  The fixtures that several unit tests of \<open>runtime.rs\<close> share.
\<close>

definition test_agent :: "string \<Rightarrow> agent_status \<Rightarrow> bool \<Rightarrow> agent_view" where
  "test_agent agent_id status focused =
     \<lparr>av_id = agent_id,
      av_display_name = agent_id,
      av_agent = ''codex'',
      av_status = status,
      av_review_ready = False,
      av_launch_pending = False,
      av_workspace = ''workspace'',
      av_repository = None,
      av_worktree = None,
      av_session = ''default'',
      av_focused = focused,
      av_observed_for_seconds = 0,
      av_state_change_seq = 0,
      av_source_order = 0,
      av_actions = default_actions\<rparr>"

definition test_target :: "string \<Rightarrow> u64 \<Rightarrow> agent_target" where
  "test_target pane_id state_change_seq = HerdrTarget
     \<lparr>ht_session = ''default'',
      ht_socket_path = ''/tmp/herdr.sock'',
      ht_pane_id = pane_id,
      ht_terminal_id = ''terminal'',
      ht_state_change_seq = state_change_seq,
      ht_revision = 1\<rparr>"

definition t3code_target :: "u64 \<Rightarrow> bool \<Rightarrow> agent_target" where
  "t3code_target state_change_seq acknowledged = T3codeTarget
     \<lparr>tt_thread_id = ''thread'',
      tt_state_change_seq = state_change_seq,
      tt_acknowledged = acknowledged\<rparr>"

definition backend_command :: "action_kind \<Rightarrow> u64 \<Rightarrow> portal_command" where
  "backend_command action sequence =
     \<lparr>pc_schema_version = SCHEMA_VERSION,
      pc_request_id = ''backend'',
      pc_sequence = sequence,
      pc_agent_id = None,
      pc_action = action,
      pc_capability_id = None\<rparr>"

end
