(* ===== verification/Evaluation.thy ===== *)
theory Evaluation
  imports Wire "HOL-Library.Code_Target_Nat"
begin

text \<open>
  Code equations with which the replays of the tests evaluate quickly: natural numbers as binary
  integers, bounds of words compared as integers, and the common cases of rounding decided first.
\<close>

text \<open>The bounds of words, compared as integers.\<close>

lemma saturating_add_integers [code]:
  "saturating_add a b = (if uint a + uint b < 2 ^ LENGTH('w) then a + b else - 1)" for a b :: "'w::len word"
proof -
  have "unat a + unat b < 2 ^ LENGTH('w) \<longleftrightarrow> uint a + uint b < 2 ^ LENGTH('w)"
    unfolding uint_nat by (metis of_nat_add of_nat_less_iff of_nat_numeral of_nat_power)
  then show ?thesis by (simp add: saturating_add_def)
qed

lemma dec_word_integers [code]:
  "(dec_word v :: 'w::len word option) =
     Option.bind (as_u64 v) (\<lambda>n. if uint n < 2 ^ LENGTH('w) then Some (ucast n) else None)"
proof -
  have "unat n < 2 ^ LENGTH('w) \<longleftrightarrow> uint n < 2 ^ LENGTH('w)" for n :: u64
    unfolding uint_nat by (metis of_nat_less_iff of_nat_numeral of_nat_power)
  then show ?thesis by (simp add: dec_word_def)
qed

text \<open>Small whole numbers are their own rounding, and only large numbers can round to infinity.\<close>

lemma f64_round_small [code]:
  "f64_round q = (case quotient_of q of (n, d) \<Rightarrow>
     if d = 1 \<and> 0 \<le> n \<and> n < 2 ^ 53 then Fin q
     else if q = 0 then Fin 0
     else let u = pow2 (max (flog2 \<bar>q\<bar>) (- 1022) - 52);
              v = of_int (round_half_even (q / u)) * u
          in if \<bar>v\<bar> < 18446744073709551616 then Fin v
             else if pow2 1024 \<le> \<bar>v\<bar> then Inf (v < 0) else Fin v)"
proof (cases "quotient_of q")
  case (Pair n d)
  have "pow2 64 \<le> pow2 1024" by (rule pow2_mono) simp
  then have large: "\<bar>v\<bar> < 18446744073709551616 \<Longrightarrow> \<not> pow2 1024 \<le> \<bar>v\<bar>" for v :: rat
    by (simp add: pow2_def [of 64])
  show ?thesis
  proof (cases "d = 1 \<and> 0 \<le> n \<and> n < 2 ^ 53")
    case True
    then have "q = of_nat (nat n)" "nat n < 2 ^ 53" using quotient_of_div [OF Pair] by (simp_all add: nat_less_iff)
    then have "f64_round q = Fin q" using f64_of_nat_exact by (metis f64_of_nat_def)
    with True Pair show ?thesis by simp
  next
    case False
    then show ?thesis using large by (auto simp: Pair f64_round_def Let_def)
  qed
qed

end
