(* ===== verification/Replays.thy ===== *)
theory Replays
  imports Fixtures Evaluation Replies Daemon
begin

text \<open>
  The unit tests whose fixtures are servers and processes, replayed on the model: a scripted server
  stands for the socket a test binds, a function for the shell script it writes. As in \<open>Conformance\<close>,
  a lemma carries the name of its test.
\<close>

section \<open>Scripted servers\<close>

text \<open>What is left to answer, at which socket, and what has been asked so far.\<close>

record script =
  sc_replies :: "(string \<times> exchange) list"
  sc_requests :: "(string \<times> json) list"

fun take_reply :: "string \<Rightarrow> (string \<times> exchange) list \<Rightarrow> exchange \<times> (string \<times> exchange) list" where
  "take_reply socket [] = (ConnectTimeout, [])"
| "take_reply socket ((s, r) # rest) =
     (if s = socket then (r, rest) else apsnd ((#) (s, r)) (take_reply socket rest))"

definition served :: "string \<Rightarrow> json \<Rightarrow> script \<Rightarrow> exchange \<times> script" where
  "served socket line s =
     (case take_reply socket (sc_replies s) of
        (r, rest) \<Rightarrow> (r, \<lparr>sc_replies = rest, sc_requests = sc_requests s @ [(socket, line)]\<rparr>))"

text \<open>The lines the tests' servers write, by a name for each.\<close>

definition order_reply :: "string \<Rightarrow> string \<Rightarrow> json" where
  "order_reply kind order = JObj [(''result'', JObj [(''type'', JStr kind), (''order'', JStr order)])]"

definition pong_reply :: "string \<Rightarrow> nat \<Rightarrow> json" where
  "pong_reply version protocol =
     JObj [(''result'', JObj [(''version'', JStr version), (''protocol'', JNum (PosInt (of_nat protocol)))])]"

definition snapshot_reply :: "json list \<Rightarrow> json list \<Rightarrow> json list \<Rightarrow> json" where
  "snapshot_reply workspaces tabs agents = JObj [(''result'', JObj [(''snapshot'', JObj
     [(''workspaces'', JArr workspaces), (''tabs'', JArr tabs), (''agents'', JArr agents)])])]"

definition v08_snapshot :: json where
  "v08_snapshot = snapshot_reply
     [JObj [(''workspace_id'', JStr ''w1''), (''number'', JNum (PosInt 1)), (''label'', JStr ''xeneon'')]]
     [JObj [(''tab_id'', JStr ''w1:t1''), (''label'', JStr ''review'')]]
     [JObj [(''terminal_id'', JStr ''term-1''), (''agent'', JStr ''codex''), (''agent_status'', JStr ''blocked''),
        (''workspace_id'', JStr ''w1''), (''tab_id'', JStr ''w1:t1''), (''pane_id'', JStr ''w1:p1''),
        (''revision'', JNum (PosInt 4)), (''state_change_seq'', JNum (PosInt 9)),
        (''actions'', JArr [JObj [(''capability_id'', JStr ''interrupt-1''), (''action'', JStr ''interrupt''),
           (''expires_at_unix_ms'', JNum (PosInt 999)), (''revision'', JNum (PosInt 4))]])]]"

definition reply_lines :: "(string \<times> json) list" where
  "reply_lines =
     [(''grouped'', order_reply ''agent_order'' ''grouped''), (''priority'', order_reply ''agent_order'' ''priority''),
      (''wrong type'', order_reply ''agent_view'' ''grouped''),
      (''unknown method'', JObj [(''error'', JObj [(''code'', JStr ''unknown_method''), (''message'', JStr ''unsupported'')])]),
      (''pong'', pong_reply ''0.8.0'' 20), (''pong 19'', pong_reply ''unsupported'' 19),
      (''pong 999'', pong_reply ''unsupported'' 999),
      (''empty snapshot'', snapshot_reply [] [] []), (''snapshot'', v08_snapshot),
      (''started'', JObj [(''id'', JStr ''sub''), (''result'', JObj [(''type'', JStr ''subscription_started'')])]),
      (''invalid'', JObj [(''id'', JStr ''sub''), (''error'', JObj [(''code'', JStr ''invalid'')])]),
      (''status changed'', JObj [(''event'', JStr ''pane.agent_status_changed''),
         (''data'', JObj [(''pane_id'', JStr ''w1:p1'')])])]"

definition read_line :: "string \<Rightarrow> json result" where
  "read_line line = (case map_of reply_lines line of None \<Rightarrow> Inl ''expected value'' | Some v \<Rightarrow> Inr v)"

definition scripted_herdr :: "session_list_output \<Rightarrow> script herdr_env" where
  "scripted_herdr session_list = json_herdr_env read_line
     \<lparr>hv_binary = ''herdr'', hv_session_list = (\<lambda>s. (session_list, s)), hv_exchange = served,
      hv_request_id = (\<lambda>_. ''xeneon-1''), hv_parse_ping = (\<lambda>_. Inl ''''), hv_parse_snapshot = (\<lambda>_. Inl ''''),
      hv_parse_value = (\<lambda>_. Inl ''''), hv_show_value = (\<lambda>_. ''''), hv_uuid5 = (\<lambda>s. s)\<rparr>"

definition test_session_at :: "string \<Rightarrow> string \<Rightarrow> session_descriptor" where
  "test_session_at name socket = \<lparr>sd_name = name, sd_running = True, sd_socket_path = socket\<rparr>"

definition listed :: "session_descriptor list \<Rightarrow> session_list_output" where
  "listed descriptors = SessionListOutput True '''' (Inr descriptors)"

definition scripted :: "(string \<times> string) list \<Rightarrow> script" where
  "scripted replies = \<lparr>sc_replies = map (apsnd Reply) replies, sc_requests = []\<rparr>"

text \<open>The methods asked for, with the order each asked to set.\<close>

definition asked :: "script \<Rightarrow> (string \<times> string \<times> string) list" where
  "asked s = map (\<lambda>(socket, r). (socket,
     (case as_str (jindex r ''method'') of None \<Rightarrow> '''' | Some m \<Rightarrow> m),
     (case as_str (jindex (jindex r ''params'') ''order'') of None \<Rightarrow> '''' | Some m \<Rightarrow> m))) (sc_requests s)"

section \<open>\<open>herdr.rs\<close>\<close>

lemma observe_session_run:
  assumes "call env (hv_parse_ping env) (sd_socket_path d) ''ping'' [] s = (Inr ping, s1)"
  shows "pg_protocol ping \<noteq> SUPPORTED_HERDR_PROTOCOL \<Longrightarrow> \<exists>seen. observe_session env d epoch offset now s = (Inr seen, s1) \<and>
      sv_state (so_session seen) = SessIncompatible \<and> sv_protocol (so_session seen) = Some (pg_protocol ping) \<and>
      so_agents seen = [] \<and> so_targets seen = [] \<and> so_pane_ids seen = [] \<and> so_agent_order seen = None"
    and "pg_protocol ping = SUPPORTED_HERDR_PROTOCOL \<Longrightarrow>
      call env (hv_parse_snapshot env) (sd_socket_path d) ''session.snapshot'' [] s1 = (Inr snap, s2) \<Longrightarrow>
      get_agent_order env d s2 = (r, s3) \<Longrightarrow>
      observe_session env d epoch offset now s = (Inr (herdr_observation (hv_uuid5 env) d epoch offset now ping snap
        (case r of Inr mode \<Rightarrow> Some mode | Inl _ \<Rightarrow> None)), s3)"
  using assms by (simp_all add: observe_session_def bind_io_def return_io_def)

abbreviation test_herdr :: "script herdr_env" where
  "test_herdr \<equiv> scripted_herdr (listed [])"

abbreviation herdr_sock :: session_descriptor where
  "herdr_sock \<equiv> test_session_at ''default'' ''herdr.sock''"

text \<open>The servers answer on one socket, line after line.\<close>

definition answering :: "string list \<Rightarrow> script" where
  "answering replies = scripted (map (Pair ''herdr.sock'') replies)"

definition after :: "string list \<Rightarrow> script \<Rightarrow> script" where
  "after methods s = s\<lparr>sc_replies := drop (length methods) (sc_replies s), sc_requests := sc_requests s @
     map (\<lambda>m. (''herdr.sock'', payload test_herdr s m [])) methods\<rparr>"

lemma unsupported_protocols_never_request_or_surface_session_data:
  "list_all (\<lambda>(line, protocol). \<exists>seen. observe_session test_herdr herdr_sock ''epoch'' 0 1234 (answering [line]) =
       (Inr seen, after [''ping''] (answering [line])) \<and>
     sv_state (so_session seen) = SessIncompatible \<and> sv_protocol (so_session seen) = Some protocol \<and>
     so_agents seen = [] \<and> so_targets seen = [] \<and> so_pane_ids seen = [] \<and> so_agent_order seen = None)
     [(''pong 19'', 19), (''pong 999'', 999)]"
proof -
  have p: "call test_herdr (hv_parse_ping test_herdr) (sd_socket_path herdr_sock) ''ping'' [] (answering [''pong 19'']) =
      (Inr \<lparr>pg_version = ''unsupported'', pg_protocol = 19\<rparr>, after [''ping''] (answering [''pong 19'']))"
    "call test_herdr (hv_parse_ping test_herdr) (sd_socket_path herdr_sock) ''ping'' [] (answering [''pong 999'']) =
      (Inr \<lparr>pg_version = ''unsupported'', pg_protocol = 999\<rparr>, after [''ping''] (answering [''pong 999'']))"
    by code_simp+
  show ?thesis
    using observe_session_run(1) [OF p(1)] observe_session_run(1) [OF p(2)] by (simp add: SUPPORTED_HERDR_PROTOCOL_def)
qed

lemma herdr_v0_8_protocol_20_requests_and_parses_the_snapshot:
  "\<exists>seen. observe_session test_herdr herdr_sock ''epoch'' 0 1234 (answering [''pong'', ''snapshot'', ''grouped'']) =
       (Inr seen, after [''ping'', ''session.snapshot'', ''agent.order.get''] (answering [''pong'', ''snapshot'', ''grouped''])) \<and>
     sv_state (so_session seen) = SessConnected \<and> sv_version (so_session seen) = Some ''0.8.0'' \<and>
     sv_protocol (so_session seen) = Some 20 \<and> so_agent_order seen = Some Grouped \<and>
     map (\<lambda>a. (av_display_name a, av_status a, map_option cap_id (aa_interrupt (av_actions a)))) (so_agents seen) =
       [(''review'', Blocked, Some ''interrupt-1'')]"
proof -
  let ?s = "answering [''pong'', ''snapshot'', ''grouped'']"
  let ?ping = "\<lparr>pg_version = ''0.8.0'', pg_protocol = 20\<rparr>"
  have p: "call test_herdr (hv_parse_ping test_herdr) (sd_socket_path herdr_sock) ''ping'' [] ?s = (Inr ?ping, after [''ping''] ?s)"
    by code_simp
  have c: "pg_protocol ?ping = SUPPORTED_HERDR_PROTOCOL" by code_simp
  have n: "call test_herdr (hv_parse_snapshot test_herdr) (sd_socket_path herdr_sock) ''session.snapshot'' [] (after [''ping''] ?s) =
      (Inr (projr (hv_parse_snapshot test_herdr ''snapshot'')), after [''ping'', ''session.snapshot''] ?s)"
    by code_simp
  have g: "get_agent_order test_herdr herdr_sock (after [''ping'', ''session.snapshot''] ?s) =
      (Inr Grouped, after [''ping'', ''session.snapshot'', ''agent.order.get''] ?s)"
    by code_simp
  show ?thesis
    unfolding observe_session_run(2) [OF p c n g] sum.case
    by (intro exI conjI, rule refl) code_simp+
qed

lemma missing_agent_order_api_disables_only_ordering:
  "\<exists>seen s. observe_session test_herdr herdr_sock ''epoch'' 0 1234
       (answering [''pong'', ''empty snapshot'', ''unknown method'']) = (Inr seen, s) \<and>
     sv_state (so_session seen) = SessConnected \<and> so_agent_order seen = None"
proof -
  let ?s = "answering [''pong'', ''empty snapshot'', ''unknown method'']"
  let ?ping = "\<lparr>pg_version = ''0.8.0'', pg_protocol = 20\<rparr>"
  have p: "call test_herdr (hv_parse_ping test_herdr) (sd_socket_path herdr_sock) ''ping'' [] ?s = (Inr ?ping, after [''ping''] ?s)"
    by code_simp
  have c: "pg_protocol ?ping = SUPPORTED_HERDR_PROTOCOL" by code_simp
  have n: "call test_herdr (hv_parse_snapshot test_herdr) (sd_socket_path herdr_sock) ''session.snapshot'' [] (after [''ping''] ?s) =
      (Inr \<lparr>hs_workspaces = [], hs_tabs = [], hs_agents = []\<rparr>, after [''ping'', ''session.snapshot''] ?s)"
    by code_simp
  have g: "get_agent_order test_herdr herdr_sock (after [''ping'', ''session.snapshot''] ?s) =
      (Inl ''Herdr agent ordering failed: '', after [''ping'', ''session.snapshot'', ''agent.order.get''] ?s)"
    by code_simp
  show ?thesis unfolding observe_session_run(2) [OF p c n g] sum.case
    by (simp add: herdr_observation_def Let_def)
qed

lemma set_agent_order_sends_only_the_typed_idempotent_mode:
  "case set_agent_order test_herdr herdr_sock Priority
      (answering [''priority'']) of
     (r, s) \<Rightarrow> r = Inr () \<and> map (\<lambda>(_, q). (jindex q ''method'', jindex q ''params'')) (sc_requests s) =
       [(JStr ''agent.order.set'', JObj [(''order'', JStr ''priority'')])]"
  by code_simp

lemma get_agent_order_rejects_a_wrong_result_type:
  "fst (get_agent_order test_herdr herdr_sock
      (answering [''wrong type''])) = Inl ''unexpected Herdr agent ordering response''"
  by code_simp

definition test_watch :: "string \<Rightarrow> string list \<Rightarrow> unit result option \<times> nat \<times> string" where
  "test_watch acknowledgement events = watch_events read_line (\<lambda>_. '''')
     (test_session_at ''default'' ''herdr.sock'')
     \<lparr>si_connect = Completed (), si_write = Inr (), si_acknowledgement = Completed (Some acknowledgement),
      si_events = events, si_read_error = None\<rparr>"

lemma subscription_acknowledges_before_forwarding_invalidations:
  "test_watch ''started'' [''status changed''] = (Some (Inr ()), 1, ''Herdr subscription reached EOF'')"
  "list_all (\<lambda>t. t \<notin> set event_types) [''pane.updated'', ''layout.updated'', ''workspace.metadata_updated'']"
  "JObj [(''type'', JStr ''pane.agent_status_changed''), (''pane_id'', JStr ''w1:p1'')] \<in> set (subscriptions [''w1:p1''])"
  by code_simp+

lemma bad_subscription_ack_never_becomes_ready:
  "case test_watch ''invalid'' [] of (ready, n, _) \<Rightarrow> (case ready of Some r \<Rightarrow> isl r | None \<Rightarrow> False) \<and> n = 0"
  by code_simp

section \<open>\<open>runtime.rs\<close>\<close>

text \<open>The daemon of a test: the servers of its script, a world that answers nothing else.\<close>

definition test_env :: "session_list_output \<Rightarrow> script daemon_env" where
  "test_env session_list =
     \<lparr>de_config = default_config, de_herdr = scripted_herdr session_list, de_subscribe = (\<lambda>_ _ s. (Inr (), s)),
      de_subscription_finished = (\<lambda>_. False), de_t3 = example_t3_env, de_t3_client = t3_client_new ''/h'',
      de_hypr = example_env, de_proc = None, de_poll_fuel = 121, de_open_url = (\<lambda>_. Inl []),
      de_run_native = (\<lambda>_ _. Inl []), de_userdata_parent = None, de_voxtype = (\<lambda>_ st. (st, True)),
      de_marker_fs = \<lparr>fs_has_parent = True, fs_create_dir = True, fs_chmod = True, fs_open = True,
        fs_write = True, fs_partial = [], fs_remove = True\<rparr>,
      de_persist_ok = True, de_persists = False, de_parse_command = (\<lambda>_. Inl []), de_encode_ok = (\<lambda>_. True),
      de_observed_ms = 0, de_now_ms = 0, de_instant = 0\<rparr>"

definition test_daemon :: "agent_backend \<Rightarrow> u64 \<Rightarrow> agent_view list \<Rightarrow> script \<Rightarrow> script daemon" where
  "test_daemon backend sequence agents servers =
     (let state = initial_state ''owner'' \<lparr>pb_backend = backend, pb_t3code_order = Grouped\<rparr>;
          state = on_snapshot (\<lambda>p. p\<lparr>ps_sequence := sequence, ps_agents := agents,
            ps_agent_order := \<lparr>os_available = True, os_mode = Grouped\<rparr>\<rparr>) state
      in \<lparr>dm_state = state, dm_desktop = new_desktop_state,
          dm_voice = \<lparr>vw_state_file = Some ''idle'', vw_marker = NoMarker, vw_commands = []\<rparr>,
          dm_servers = servers, dm_persisted = None, dm_subscriptions = [], dm_invalidations = [],
          dm_published = rt_snapshot state\<rparr>)"

definition two_agents :: "agent_view list" where
  "two_agents = [test_agent ''workspace-first'' Idle False,
     (test_agent ''attention-first'' Blocked False)\<lparr>av_source_order := 1\<rparr>]"

definition order_shown :: "script daemon \<Rightarrow> bool \<times> agent_order_mode \<times> string list \<times> u64" where
  "order_shown d = (let p = rt_snapshot (dm_state d) in
     (os_available (ps_agent_order p), os_mode (ps_agent_order p), map av_id (ps_agents p), ps_sequence p))"

lemma discovery_failure_clears_stale_ordering_and_restores_fallback_sort:
  "let d = refresh_herdr (test_env (SessionListOutput False [] (Inr []))) (test_daemon Herdr 0 two_agents (scripted []))
   in ps_connection (rt_snapshot (dm_state d)) = ConnOffline \<and>
      order_shown d = (False, Grouped, [''attention-first'', ''workspace-first''], 1)"
  by code_simp

definition order_run :: "session_list_output \<Rightarrow> script daemon \<Rightarrow> action_result \<times> script daemon" where
  "order_run session_list = process_agent_order_command (test_env session_list) (backend_command OrderPriority 7)"

lemma order_command_updates_herdr_and_the_published_card_order_once:
  "case order_run (listed [herdr_sock]) (test_daemon Herdr 7 two_agents (answering [''grouped'', ''priority''])) of
     (r, d) \<Rightarrow> ar_ok r \<and> order_shown d = (True, Priority, [''attention-first'', ''workspace-first''], 8) \<and>
       asked (dm_servers d) = [(''herdr.sock'', ''agent.order.get'', []), (''herdr.sock'', ''agent.order.set'', ''priority'')] \<and>
       sc_replies (dm_servers d) = []"
  by code_simp

text \<open>The second server closes without a reply to the change; both are set back and read again.\<close>

definition failing_servers :: script where
  "failing_servers =
     \<lparr>sc_replies =
        [(''first.sock'', Reply ''grouped''), (''first.sock'', Reply ''priority''),
         (''first.sock'', Reply ''grouped''), (''first.sock'', Reply ''grouped''),
         (''second.sock'', Reply ''grouped''), (''second.sock'', ReplyClosed),
         (''second.sock'', Reply ''grouped''), (''second.sock'', Reply ''grouped'')],
      sc_requests = []\<rparr>"

lemma order_command_compensates_a_partial_multi_session_failure:
  "case order_run (listed [test_session_at ''first'' ''first.sock'', test_session_at ''second'' ''second.sock''])
       (test_daemon Herdr 7 [] failing_servers) of
     (r, d) \<Rightarrow> \<not> ar_ok r \<and> ar_code r = ''target_unavailable'' \<and> order_shown d = (True, Grouped, [], 7) \<and>
       sc_replies (dm_servers d) = [] \<and>
       list_all (\<lambda>socket. map snd (filter (\<lambda>a. fst a = socket) (asked (dm_servers d))) =
           [(''agent.order.get'', []), (''agent.order.set'', ''priority''),
            (''agent.order.set'', ''grouped''), (''agent.order.get'', [])])
         [''first.sock'', ''second.sock'']"
  by code_simp

text \<open>The order lock makes the second command wait for the end of the first.\<close>

lemma concurrent_order_commands_serialize_and_recheck_sequence:
  "case order_run (listed [herdr_sock]) (test_daemon Herdr 7 [] (answering [''grouped'', ''priority''])) of
     (r1, d1) \<Rightarrow> ar_ok r1 \<and> (case order_run (listed [herdr_sock]) d1 of
       (r2, d2) \<Rightarrow> ar_code r2 = ''stale_snapshot'' \<and> \<not> ar_ok r2 \<and> ps_sequence (rt_snapshot (dm_state d2)) = 8 \<and>
         length (asked (dm_servers d2)) = 2)"
  by code_simp

lemma voice_only_refresh_does_not_invalidate_agent_commands:
  "let d = test_daemon Herdr 42 [] (scripted []);
       d' = refresh_voice (test_env (listed [])) (d\<lparr>dm_voice := (dm_voice d)\<lparr>vw_state_file := Some ''recording''\<rparr>\<rparr>)
   in ps_sequence (rt_snapshot (dm_state d')) = 42 \<and> vs_state (ps_voice (rt_snapshot (dm_state d'))) = VRecording"
  by code_simp

lemma disconnect_cancels_only_that_clients_owned_recording:
  "let env = test_env (listed []);
       (r, d) = process_voice_command env (backend_command VoiceStart 0) ''client'' (test_daemon Herdr 0 [] (scripted []));
       d' = cancel_voice_for_disconnected_client env ''client'' d
   in ar_ok r \<and> vw_marker (dm_voice d) = Marker (Some ''owner'') \<and>
      ps_voice (rt_snapshot (dm_state d')) = \<lparr>vs_state = VIdle, vs_owned = False\<rparr> \<and>
      rt_voice_client_owner (dm_state d') = None \<and> vw_marker (dm_voice d') = NoMarker \<and>
      vw_commands (dm_voice d') = [start_args, cancel_args]"
  by code_simp

definition thread_daemon_at :: "u64 \<Rightarrow> script daemon" where
  "thread_daemon_at sequence = on_state (\<lambda>s. s\<lparr>rt_targets := [(''thread'', t3code_target 1 False)]\<rparr>)
     (test_daemon T3code sequence [(test_agent ''thread'' Idle False)\<lparr>av_actions :=
        \<lparr>aa_open = True, aa_zoom = False, aa_approve = None, aa_interrupt = None\<rparr>\<rparr>] (scripted []))"

definition thread_command :: "action_kind \<Rightarrow> string option \<Rightarrow> (action_result \<times> script daemon) option" where
  "thread_command action capability = process_command
     ((test_env (listed []))\<lparr>de_parse_command := (\<lambda>_. Inr ((backend_command action 3)
        \<lparr>pc_agent_id := Some ''thread'', pc_capability_id := capability\<rparr>))\<rparr>) [] ''client'' (thread_daemon_at 3)"

lemma t3code_agent_actions_never_reach_herdr_or_launch_applications:
  "map_option (\<lambda>(r, d). (ar_code r, sc_requests (dm_servers d))) (thread_command Zoom None) =
     Some (''target_unavailable'', [])"
  "map_option (\<lambda>(r, d). (ar_code r, sc_requests (dm_servers d))) (thread_command Approve (Some ''forged'')) =
     Some (''capability_expired'', [])"
  by code_simp+

lemma late_herdr_refresh_never_commits_over_a_t3code_roster:
  "refresh_herdr (test_env (listed [herdr_sock])) (thread_daemon_at 9) = thread_daemon_at 9"
  by (simp add: refresh_herdr_def thread_daemon_at_def test_daemon_def on_state_def on_snapshot_def
      initial_state_def Let_def)

lemma snapshot_envelope_has_one_type_tag:
  "case enc_server_message (Snapshot (empty_snapshot ''epoch'')) of JObj members \<Rightarrow>
     filter (\<lambda>m. fst m = ''type'') members = [(''type'', JStr ''snapshot'')] \<and>
     jindex (jindex (JObj members) ''voice'') ''state'' = JStr ''unavailable'' \<and>
     jindex (jindex (JObj members) ''agent_order'') ''available'' = JBool False | _ \<Rightarrow> False"
  by code_simp

section \<open>\<open>voice.rs\<close>\<close>

text \<open>The script that stands for Voxtype only records its arguments; the state file stays.\<close>

definition fake_voxtype :: "bool \<Rightarrow> voxtype" where
  "fake_voxtype success = (\<lambda>_ st. (st, success))"

definition sound_fs :: marker_fs where
  "sound_fs = \<lparr>fs_has_parent = True, fs_create_dir = True, fs_chmod = True, fs_open = True,
     fs_write = True, fs_partial = [], fs_remove = True\<rparr>"

definition voice_files :: "string \<Rightarrow> marker \<Rightarrow> voice_world" where
  "voice_files st m = \<lparr>vw_state_file = Some st, vw_marker = m, vw_commands = []\<rparr>"

lemma start_uses_exact_safe_args_once_and_claims_ownership:
  "perform_voice (fake_voxtype True) sound_fs ''owner'' VoiceStart (voice_files ''idle'' NoMarker) =
     (Inr \<lparr>vs_state = VRecording, vs_owned = True\<rparr>,
      \<lparr>vw_state_file = Some ''idle'', vw_marker = Marker (Some ''owner''),
       vw_commands = [[''record'', ''start'', ''--type'', ''--no-auto-submit'', ''--no-smart-auto-submit'']]\<rparr>)"
  by code_simp

lemma failed_start_is_static_not_retried_and_releases_marker:
  "perform_voice (fake_voxtype False) sound_fs ''owner'' VoiceStart (voice_files ''idle'' NoMarker) =
     (Inl CommandFailed, \<lparr>vw_state_file = Some ''idle'', vw_marker = NoMarker,
       vw_commands = [[''record'', ''start'', ''--type'', ''--no-auto-submit'', ''--no-smart-auto-submit''],
         [''record'', ''cancel'']]\<rparr>)"
  by code_simp

lemma stop_and_cancel_require_the_current_daemon_owner:
  "perform_voice (fake_voxtype True) sound_fs ''owner'' VoiceStop
     (voice_files ''recording'' (Marker (Some ''different-owner''))) =
     (Inl NotOwned, voice_files ''recording'' (Marker (Some ''different-owner'')))"
  by code_simp

lemma stale_owned_recording_is_cancelled_before_marker_removal:
  "cleanup_owned_dictation_at (fake_voxtype True) sound_fs True
     (voice_files ''recording'' (Marker (Some ''stale-owner''))) =
     (Inr (), (voice_files ''recording'' NoMarker)\<lparr>vw_commands := [[''record'', ''cancel'']]\<rparr>)"
  by code_simp

end
