(* ===== verification/Samples.thy ===== *)
theory Samples
  imports Evaluation Health Messages
begin

text \<open>
  The unit tests of the collectors, replayed on the model: a table of paths stands for the directory a
  test fills, a list of messages for its database. A lemma carries the name of its test.
\<close>

section \<open>\<open>health.rs\<close>\<close>

text \<open>A directory of the test: its files with their contents, and the entries of its directories.\<close>

definition health_files :: "(string \<times> string) list \<Rightarrow> (string \<times> directory_entry list) list \<Rightarrow> health_env" where
  "health_files files dirs = \<lparr>he_read = map_of files,
     he_entries = (\<lambda>d. case map_of dirs d of None \<Rightarrow> [] | Some es \<Rightarrow> es)\<rparr>"

definition dir_named :: "string \<Rightarrow> directory_entry" where
  "dir_named name = \<lparr>hd_name = name, hd_is_dir = True, hd_leads_to_dir = True\<rparr>"

definition nl :: string where "nl = [CHR 0x0A]"

definition net_dev :: "string list \<Rightarrow> string" where
  "net_dev interfaces = concat (map (\<lambda>l. l @ nl) ([''Inter-| Receive | Transmit'', '' face |''] @ interfaces))"

lemma unavailable_is_distinct_from_zero:
  "let h = fst (sample_health (health_files [] []) 0 (new_health_collector ''/proc'' ''/sys''))
   in \<not> m_available (hs_cpu h) \<and> m_value (hs_cpu h) = None \<and> \<not> m_available (hs_battery h)"
  by code_simp

definition first_files :: health_env where
  "first_files = health_files
     [(''/proc/stat'', ''cpu  100 0 50 850 0 0 0 0'' @ nl),
      (''/proc/meminfo'', ''MemTotal: 1000 kB'' @ nl @ ''MemAvailable: 600 kB'' @ nl),
      (''/proc/net/dev'', net_dev [''eth0: 1000 0 0 0 0 0 0 0 500 0 0 0 0 0 0 0'']),
      (''/sys/class/power_supply/BAT0/type'', ''Battery'' @ nl),
      (''/sys/class/power_supply/BAT0/capacity'', ''82'' @ nl),
      (''/sys/class/thermal/thermal_zone0/temp'', ''45000'' @ nl)]
     [(''/sys/class/power_supply'', [dir_named ''BAT0'']), (''/sys/class/thermal'', [dir_named ''thermal_zone0''])]"

definition second_files :: health_env where
  "second_files = first_files\<lparr>he_read := (he_read first_files)
     (''/proc/stat'' \<mapsto> ''cpu  150 0 50 900 0 0 0 0'' @ nl,
      ''/proc/net/dev'' \<mapsto> net_dev [''eth0: 2000 0 0 0 0 0 0 0 1500 0 0 0 0 0 0 0''])\<rparr>"

lemma samples_proc_and_sys_metrics:
  "let h = fst (sample_health first_files 0 (new_health_collector ''/proc'' ''/sys''))
   in m_value (hs_memory h) = Some (Fin 40) \<and> m_value (hs_battery h) = Some (Fin 82) \<and>
      m_value (hs_cpu_temperature h) = Some (Fin 45) \<and> \<not> m_available (hs_cpu h)"
  by code_simp

lemma second_sample_has_rates:
  "let c = snd (sample_health first_files 0 (new_health_collector ''/proc'' ''/sys''));
       h = fst (sample_health second_files 2000000000 c)
   in m_available (hs_cpu h) \<and> m_available (hs_network_down h) \<and> m_available (hs_network_up h)"
  by code_simp

lemma malformed_network_interfaces_do_not_hide_valid_totals:
  "read_network_totals (health_files [(''/net/dev'', net_dev [''missing separator'',
       ''bad0: nope 0 0 0 0 0 0 0 12 0 0 0 0 0 0 0'', ''eth0: 1000 0 0 0 0 0 0 0 500 0 0 0 0 0 0 0''])] [])
     ''/net/dev'' = Some \<lparr>nt_down = 1000, nt_up = 500\<rparr>"
  by code_simp

lemma reads_bounded_drm_card_metrics_without_recursive_device_walk:
  "let env = health_files [(''/sys/class/drm/card1/device/gpu_busy_percent'', ''37'' @ nl),
         (''/sys/class/drm/card1/device/hwmon/hwmon0/temp1_input'', ''51000'' @ nl),
         (''/sys/class/drm/card1/device/unrelated/nested/gpu_busy_percent'', ''99'' @ nl)]
       [(''/sys/class/drm'', [dir_named ''card1'']), (''/sys/class/drm/card1/device/hwmon'', [dir_named ''hwmon0''])]
   in gpu_busy_percent env ''/sys'' = Some (Fin 37) \<and> gpu_temperature env ''/sys'' = Some (Fin 51)"
  by code_simp

lemma ignores_connector_and_unbounded_drm_subtrees:
  "let env = health_files [(''/sys/class/drm/card0-DP-1/device/gpu_busy_percent'', ''88'' @ nl),
         (''/sys/class/drm/renderD128/nested/gpu_busy_percent'', ''77'' @ nl)]
       [(''/sys/class/drm'', [dir_named ''card0-DP-1'', dir_named ''renderD128''])]
   in gpu_busy_percent env ''/sys'' = None \<and> gpu_temperature env ''/sys'' = None"
  by code_simp

section \<open>\<open>usage.rs\<close>\<close>

text \<open>The files of a test by their documents, and the database by its messages, at one instant. The
  contents of a file, and the data of a message, are the name of the document.\<close>

definition usage_documents :: "(string \<times> json) list" where
  "usage_documents =
     [(''other'', JObj [(''schemaVersion'', JNum (PosInt 1)), (''id'', JStr ''other''), (''ready'', JBool True),
         (''usageStatusText'', JStr []), (''limits'', JArr [JObj [(''label'', JStr ''5h''), (''percent'', JNum (Float (Fin (3602879701896397 / 36028797018963968))))]])]),
      (''oauth'', JObj [(''5h-utilization'', JNum (Float (Fin (1 / 4)))), (''_source'', JStr ''oauth''), (''status'', JStr ''allowed'')]),
      (''codex unavailable'', JObj [(''schemaVersion'', JNum (PosInt 1)), (''id'', JStr ''codex''), (''ready'', JBool True),
         (''usageStatusText'', JStr ''Codex unavailable''),
         (''limits'', JArr [JObj [(''label'', JStr ''Weekly''), (''percent'', JNum (Float (Fin (1 / 2))))]])]),
      (''no status'', JObj [(''schemaVersion'', JNum (PosInt 1)), (''id'', JStr ''claude''), (''ready'', JBool True),
         (''limits'', JArr [JObj [(''label'', JStr ''5h''), (''percent'', JNum (Float (Fin (3602879701896397 / 36028797018963968))))]])]),
      (''status 42'', JObj [(''schemaVersion'', JNum (PosInt 1)), (''id'', JStr ''claude''), (''ready'', JBool True),
         (''usageStatusText'', JNum (PosInt 42)), (''limits'', JArr [JObj [(''label'', JStr ''5h''), (''percent'', JNum (Float (Fin (3602879701896397 / 36028797018963968))))]])]),
      (''status object'', JObj [(''schemaVersion'', JNum (PosInt 1)), (''id'', JStr ''claude''), (''ready'', JBool True),
         (''usageStatusText'', JObj []), (''limits'', JArr [JObj [(''label'', JStr ''5h''), (''percent'', JNum (Float (Fin (3602879701896397 / 36028797018963968))))]])]),
      (''blocked'', JObj [(''5h-utilization'', JStr ''0.25''), (''_source'', JStr ''oauth''), (''status'', JStr ''blocked''),
         (''_plan'', JStr ''injected-plan''), (''_model'', JStr ''injected-model''), (''_today_tokens'', JNum (PosInt 123)),
         (''_rate_per_hour'', JNum (PosInt 45))]),
      (''mystery'', JObj [(''windows'', JArr [JObj [(''label'', JStr ''Weekly''), (''utilization'', JNum (Float (Fin (8106479329266893 / 9007199254740992))))]]),
         (''_source'', JStr ''mystery''), (''status'', JStr ''allowed'')]),
      (''bounded'', JObj [(''role'', JStr ''assistant''), (''modelID'', JStr ''bounded''), (''tokens'', JObj [(''input'', JNum (PosInt 1))])]),
      (''old'', JObj [(''role'', JStr ''assistant''), (''modelID'', JStr ''old''), (''tokens'', JObj [(''input'', JNum (PosInt 1))])]),
      (''recent'', JObj [(''role'', JStr ''assistant''), (''modelID'', JStr ''recent''), (''tokens'', JObj [(''input'', JNum (PosInt 7))])]),
      (''gpt-test'', JObj [(''role'', JStr ''assistant''), (''modelID'', JStr ''gpt-test''), (''providerID'', JStr ''openai''),
         (''tokens'', JObj [(''input'', JNum (PosInt 100)), (''output'', JNum (PosInt 25)), (''reasoning'', JNum (PosInt 5)),
            (''cache'', JObj [(''write'', JNum (PosInt 10)), (''read'', JNum (PosInt 900))])])]),
      (''older'', JObj [(''role'', JStr ''assistant''), (''modelID'', JStr ''older''), (''providerID'', JStr ''local''),
         (''tokens'', JObj [(''input'', JNum (PosInt 200)), (''output'', JNum (PosInt 20))])]),
      (''oversized'', JObj [(''role'', JStr ''user''), (''prompt'', JStr ''x'')]),
      (''sqlite'', JObj [(''5h-utilization'', JNum (Float (Fin (3602879701896397 / 18014398509481984)))), (''_source'', JStr ''sqlite''), (''status'', JStr ''allowed'')]),
      (''strings'', JObj [(''5h-utilization'', JStr ''0.25''), (''5h-reset'', JStr ''1800000000''),
         (''7d-utilization'', JStr ''0.5''), (''7d-reset'', JStr ''1800100000''), (''_source'', JStr ''oauth''),
         (''status'', JStr ''allowed''), (''_today_tokens'', JNum (PosInt 999)), (''_rate_per_hour'', JStr ''125.9'')]),
      (''buckets'', JObj [(''buckets'', JArr [JObj [(''isGeneral'', JBool True), (''plan'', JStr ''pro''),
           (''windows'', JArr [JObj [(''label'', JStr ''Weekly''), (''utilization'', JNum (Float (Fin (3332663724254167 / 4503599627370496)))),
              (''reset'', JNum (PosInt 1800000000))]])]]),
         (''_source'', JStr ''rpc''), (''status'', JStr ''allowed'')]),
      (''oversized tokens'', JObj [(''5h-utilization'', JStr ''0.25''), (''_source'', JStr ''oauth''), (''status'', JStr ''allowed''),
         (''_today_tokens'', JNum (NegInt (- 1))), (''_rate_per_hour'', JNum (PosInt 1000000000000001))]),
      (''future'', JObj [(''role'', JStr ''assistant''), (''modelID'', JStr ''future''), (''providerID'', JStr ''untrusted''),
         (''tokens'', JObj [(''input'', JNum (PosInt 900000))])])]"

definition usage_files :: "(string \<times> string) list \<Rightarrow> message list \<Rightarrow> usage_env" where
  "usage_files files messages =
     \<lparr>ue_home = None, ue_xdg_cache_home = None, ue_xdg_state_home = None, ue_xdg_data_home = None,
      ue_exists = (\<lambda>path. map_of files path \<noteq> None),
      ue_modified = (\<lambda>path. map_option (\<lambda>_. 1000000000000) (map_of files path)),
      ue_open = (\<lambda>path. map_option (\<lambda>name. \<lparr>of_is_file = True, of_length = length name, of_contents = Some name\<rparr>)
        (map_of files path)),
      ue_parse_json = map_of usage_documents, ue_parse_rfc3339_ns = (\<lambda>_. None),
      ue_query_messages = (\<lambda>_ limit bytes since. Some (map Some
        (query_messages (map_of usage_documents) (\<lambda>_. []) (\<lambda>_. []) messages limit bytes since))),
      ue_now_quota = (\<lambda>_. 1000000000000), ue_now_query = 1000000000000, ue_now_stale = 1000000000000\<rparr>"

definition message_at :: "int \<Rightarrow> int \<Rightarrow> string \<Rightarrow> message" where
  "message_at rowid time name = \<lparr>mg_rowid = rowid, mg_time_created = SqlInteger time,
     mg_time_updated = SqlInteger time, mg_data = name\<rparr>"

definition collector_with_sources :: usage_collector where
  "collector_with_sources = \<lparr>uc_legacy_cache_dir = ''legacy'', uc_state_usage_dir = ''state'', uc_opencode_db = ''opencode.db''\<rparr>"

lemma unready_or_mismatched_omarchy_records_fail_closed:
  "map (\<lambda>p. (pu_available p, pu_primary p = None)) (take 2 (us_providers (sample_usage
     (usage_files [(''state/claude.json'', ''other''), (''legacy/claude-usage.json'', ''oauth''),
        (''state/codex.json'', ''codex unavailable'')] []) collector_with_sources))) = [(False, True), (False, True)]"
  by code_simp

lemma omarchy_status_must_be_a_present_empty_string:
  "list_all (\<lambda>record. let p = read_omarchy_provider (usage_files [(''claude.json'', record)] []) 0 ''claude.json'' ''claude'' ''Claude''
     in \<not> pu_available p \<and> pu_primary p = None) [''no status'', ''status 42'', ''status object'']"
  by code_simp

lemma absent_files_remain_explicitly_unavailable:
  "list_all (\<lambda>p. \<not> pu_available p \<and> pu_stale p) (us_providers (sample_usage
     ((usage_files [] [])\<lparr>ue_query_messages := (\<lambda>_ _ _ _. None)\<rparr>) collector_with_sources))"
  by code_simp

definition untrusted_caches :: usage_env where
  "untrusted_caches = usage_files [(''legacy/claude-usage.json'', ''blocked''), (''legacy/codex-usage.json'', ''mystery'')] []"

lemma blocked_cache_data_fails_closed:
  "let claude = read_quota_provider untrusted_caches collector_with_sources ''claude'' ''Claude'' in
     pu_status claude = ''blocked'' \<and> \<not> pu_available claude \<and> pu_stale claude \<and> pu_plan claude = None \<and>
     pu_model claude = None \<and> pu_primary claude = None \<and> pu_today_tokens claude = None \<and>
     pu_tokens_per_hour claude = None"
  by code_simp

lemma untrusted_cache_data_fails_closed:
  "let codex = read_quota_provider untrusted_caches collector_with_sources ''codex'' ''Codex'' in
     pu_source codex = ''unknown'' \<and> \<not> pu_available codex \<and> pu_stale codex \<and> pu_primary codex = None"
  by code_simp

lemma future_only_opencode_database_is_unavailable:
  "let p = read_opencode (usage_files [] [message_at 1 1000003600000 ''future'']) collector_with_sources
   in \<not> pu_available p \<and> pu_primary p = None \<and> pu_model p = None"
  by code_simp

lemma opencode_database_fails_closed_when_the_row_budget_is_exceeded:
  "collect_opencode_usage_bounded (usage_files [] (map (\<lambda>i. message_at i 999999999000 ''bounded'') [0, 1, 2])) ''opencode.db'' 2 = None"
  by code_simp

lemma old_opencode_history_does_not_consume_the_recent_row_budget:
  "map_option (\<lambda>t. (ot_5h t, ot_7d t, ot_1h t, Option.bind (ot_latest t) om_model))
     (collect_opencode_usage_bounded (usage_files [] (map (\<lambda>i. message_at i 999395199000 ''old'') [0, 1, 2] @
        [message_at 3 999999999000 ''recent''])) ''opencode.db'' 2) = Some (7, 7, 7, Some ''recent'')"
  by code_simp

lemma collector_recovers_opencode_local_budget_from_read_only_database:
  "let p = read_opencode (usage_files [(''legacy/opencode-usage.json'', ''sqlite'')]
       [message_at 1 999998200000 ''gpt-test'', message_at 2 999978400000 ''older'',
        message_at 3 1000003600000 ''future'', message_at 4 999998200000 ''oversized'']) collector_with_sources
   in pu_available p \<and> pu_source p = ''sqlite'' \<and> pu_plan p = Some ''local messages'' \<and>
      pu_model p = Some ''gpt-test (openai)'' \<and>
      map_option uw_utilization (pu_primary p) = Some (Fin (2582544170319337 / 18446744073709551616)) \<and>
      map_option uw_utilization (pu_secondary p) = Some (Fin (5312662293228351 / 295147905179352825856)) \<and> pu_tokens_per_hour p = Some 140"
  by code_simp

lemma empty_opencode_database_uses_a_valid_legacy_record:
  "let p = read_opencode (usage_files [(''legacy/opencode-usage.json'', ''sqlite'')] []) collector_with_sources
   in pu_available p \<and> pu_source p = ''sqlite'' \<and> map_option uw_utilization (pu_primary p) = Some (Fin (3602879701896397 / 18014398509481984))"
  by code_simp

lemma collector_normalizes_capacity_and_bounded_aggregate_activity:
  "let p = read_quota_provider (usage_files [(''legacy/claude-usage.json'', ''strings'')] []) collector_with_sources ''claude'' ''Claude''
   in map_option uw_utilization (pu_primary p) = Some (Fin (1 / 4)) \<and> pu_today_tokens p = Some 999 \<and>
      pu_tokens_per_hour p = Some 125"
  by code_simp

lemma collector_normalizes_buckets:
  "let p = read_quota_provider (usage_files [(''legacy/codex-usage.json'', ''buckets'')] []) collector_with_sources ''codex'' ''Codex''
   in map_option uw_label (pu_primary p) = Some ''Weekly''"
  by code_simp

lemma aggregate_activity_rejects_negative_non_finite_and_oversized_values:
  "let p = read_quota_provider (usage_files [(''legacy/claude-usage.json'', ''oversized tokens'')] []) collector_with_sources ''claude'' ''Claude''
   in pu_available p \<and> pu_today_tokens p = None \<and> pu_tokens_per_hour p = None"
  "aggregate_tokens (Some (JStr ''NaN'')) = None"
  by code_simp+

end
