(* ===== verification/Spec2Isabelle.thy ===== *)
theory Spec2Isabelle
  imports Usage Micro Health Concurrent Sweep Refusal Publish Service Startup Replies Ctl Projection Messages Conformance Replays Samples
begin

text \<open>
  A model of the XENEON EDGE agent portal, the Rust workspace under \<open>src/crates\<close>, and the theorems
  that make it correct.

  The program. A daemon (\<open>xeneon-agentd\<close>) keeps one snapshot of the coding agents on a machine and
  publishes it on a socket, as JSON lines, to a touch display. Agents come from one of two managers:
  Herdr, over its sockets, or T3 Code, over its status feed or SQLite projection. Cards are ordered by
  attention, a latch remembers which finished agents still wait for a review, and commands from the
  display open, zoom, approve, interrupt, reorder, switch the manager, dictate, and focus desktop
  windows. Collectors add usage, health and keyboard data.

  The theories, in the order of their imports:
  \<^item> \<open>Prelude\<close>: words with Rust's checked and saturating operations, hash maps (with their contract,
    \<open>map_store\<close>), results, and the stable \<open>sort_by\<close> with the contract of a comparator (\<open>total_cmp\<close>).
  \<^item> \<open>Rust_Str\<close>, \<open>Rust_Float\<close>, \<open>Json\<close>: strings as UTF-8 byte strings (characters, trimming, splitting,
    number parsing, paths), \<open>f64\<close> as a rational, an infinity or a NaN with correct rounding, and
    \<open>serde_json::Value\<close> with its accessors.
  \<^item> \<open>Model\<close> (\<open>model.rs\<close>): the data of the snapshot and the attention order \<open>sort_agents\<close>.
  \<^item> \<open>Protocol\<close> (\<open>protocol.rs\<close>), \<open>Config\<close> (\<open>config.rs\<close>), \<open>Voice\<close> (\<open>voice.rs\<close>): the command gate,
    the configuration, and dictation with its ownership marker.
  \<^item> \<open>Observations\<close>: the cards' private targets and \<open>apply_agent_observations\<close> of \<open>runtime.rs\<close>, with
    the abstract latch it refines and the contract \<open>agent_adapter\<close> both managers' adapters meet.
  \<^item> \<open>Desktop\<close> (\<open>desktop.rs\<close>): choosing, focusing and launching windows, and telling which process
    hosts which Herdr session.
  \<^item> \<open>T3code\<close> (\<open>t3code.rs\<close>), \<open>Herdr\<close> (\<open>herdr.rs\<close>): the two adapters.
  \<^item> \<open>Sql\<close>, \<open>Queries\<close>, \<open>Projection\<close>: the statements of \<open>t3code.rs\<close> as functions on the rows of its tables,
    and what the cards are from those tables on.
  \<^item> \<open>Usage\<close> (\<open>usage.rs\<close>), \<open>Micro\<close> (\<open>micro.rs\<close>), \<open>Health\<close> (\<open>health.rs\<close>): the collectors;
    \<open>Messages\<close>: the statement on OpenCode's message table.
  \<^item> \<open>Runtime\<close>, \<open>Commands\<close>, \<open>Daemon\<close> (\<open>runtime.rs\<close>): the daemon's state and refresh passes, the
    commands, and the step relation of everything that can change the daemon, with its invariant.
  \<^item> \<open>Invariants\<close>: what an invariant of those steps has to show, as the contract \<open>gate_invariant\<close>, and
    the lemmas on what a pass keeps of a card and of a sweep; \<open>Routing\<close> (every action a card shows has a
    target) and \<open>Cards\<close> (the cards are well typed) interpret it.
  \<^item> \<open>Concurrent\<close>: commands that wait, as the stretches between their awaits, and the order lock.
  \<^item> \<open>Sweep\<close>: what one refresh from the Herdr sessions shows. \<open>Publish\<close>: publication as separate steps.
  \<^item> \<open>Session\<close> (\<open>runtime.rs\<close>): a client's connection from the first snapshot to the cleanup after the
    disconnect, among the daemon's other steps.
  \<^item> \<open>Service\<close> (\<open>run\<close> of \<open>runtime.rs\<close>): any number of clients and the collectors together, and what a
    client's connection and its end do to a recording.
  \<^item> \<open>Refusal\<close>: what a refused command leaves behind.
  \<^item> \<open>Startup\<close> (\<open>main.rs\<close> of \<open>xeneon-agentd\<close>, \<open>runtime.rs\<close>): the order of the start, taking over the
    socket, the persisted selection.
  \<^item> \<open>Wire\<close> (\<open>model.rs\<close>): serde's encoding and decoding of every message, with the contract \<open>codec\<close>.
  \<^item> \<open>Replies\<close>: the decoding of what Herdr, Hyprland, T3 Code and the configuration say, for the
    arguments the adapters take.
  \<^item> \<open>Ctl\<close> (\<open>main.rs\<close> of \<open>xeneon-agentctl\<close>): the diagnostics, the fixture server and the bridge.
  \<^item> \<open>Conformance\<close>, \<open>Replays\<close>, \<open>Samples\<close>: most unit tests of the code, replayed on the definitions above under
    their own names, with scripts and tables for the servers, processes, files and databases of the
    fixtures; \<open>Fixtures\<close> and \<open>Evaluation\<close> hold what they share.

  State and effects. A struct is a record whose fields carry the struct's initials; what several tasks
  share behind locks is one record \<open>daemon\<close>, and a critical section is a function on it. The system
  outside the program (files, processes, the compositor, servers, SQLite, clocks, JSON parsers) is an
  argument: a record of functions (\<open>daemon_env\<close>, \<open>herdr_env\<close>, \<open>t3_env\<close>, \<open>hypr_env\<close>, \<open>usage_env\<close>, and so
  on) that the definitions consult. Reads of a store the program does not write are functions; the
  Herdr servers, which it does write, are a state of type \<open>'s\<close> threaded through every request. In
  \<open>step\<close> every transition may meet another environment, so an invariant of \<open>step\<close> holds whatever the
  system does. A commit of a refresh is a step of its own, taken from any earlier observation, so a
  switch of the manager between the observation and the commit is covered. Where a theorem relies on
  what a server does (\<open>order_service\<close>), that is a named hypothesis with a model that meets it.

  What the lemmas show. Component lemmas give the behaviour of each operation; the numbered
  properties are the claims built from them: safety of commands (a command acts on what its sequence
  number showed, guarded actions need the shown capability, a refused command changes nothing), the
  isolation of the managers, the all-or-nothing change of the order, the invariant of the reachable
  states, the review latch, the adapters' cards and their fail-closed behaviour, the choice of
  windows, bounds and exact sums of the collectors, the ownership of a dictation, the answers a
  connected client gets, the start, and the round trip of the messages; and, from the tables of T3 Code
  on, that a thread that waits for a human is never crowded out of the roster, that the rows read are
  the listed threads, and that no private part of a stored thread or run reaches a card. That a result is reached is
  stated as such: \<open>every_command_answered\<close>, \<open>focus_or_launch_returns\<close>.

  Bounds and fuel. The only loop whose end depends on the world polls for a launched window until a
  deadline twelve seconds away, every 100 milliseconds: \<open>wait_loop\<close> takes fuel, and
  \<open>focus_or_launch_returns\<close> shows that 121 polls are enough whenever the clock advances by the poll
  interval. All other recursion is structural or has a measure.

  Not modelled. The tokio runtime (scheduling, timeouts as such), opening and reading sockets, spawning
  processes, and JSON and TOML text (their values are). The SQL statements are evaluated on tables that
  stay as they are during one observation, with documents for the JSON columns; the order of tied rows is
  that of the list that stands for the table, which every theorem leaves open. In \<open>step\<close> a change and its publication are one step,
  and so is a command; \<open>publishing\<close> takes the publication apart as the code does, so that an older
  snapshot can be sent last, and \<open>concurrent\<close> takes the commands apart at their awaits.
  The QML interface, the packaging and the scripts are not Rust.
\<close>

section \<open>The daemon\<close>

text \<open>C1 In every state the daemon can reach from a valid start, whatever its environment does: the
  published manager is the selected one; every private target belongs to a card of the snapshot
  and to the selected manager, so a card never routes to the other manager; only a finished agent
  is remembered as ready for review; T3 Code's order is the one last chosen; and a client that is
  recorded as the owner of a recording is backed by the portal's own marker on disk.\<close>

theorem daemon_invariant:
  assumes "new_daemon cfg epoch persisted voice servers = Inr d0" and "step\<^sup>*\<^sup>* d0 d"
  shows "let s = dm_state d in
    bs_mode (ps_backend (rt_snapshot s)) = rt_backend s \<and>
    (\<forall>i t. hget (rt_targets s) i = Some t \<longrightarrow>
       routed_by (rt_backend s) t \<and> (\<exists>a \<in> set (ps_agents (rt_snapshot s)). av_id a = i)) \<and>
    (\<forall>i e. hget (rt_observed s) i = Some e \<longrightarrow> ob_review_ready e \<longrightarrow>
       ob_status e = Done \<or> ob_status e = Idle) \<and>
    (rt_backend s = T3code \<and> os_available (ps_agent_order (rt_snapshot s)) \<longrightarrow>
       os_mode (ps_agent_order (rt_snapshot s)) = rt_t3code_order s) \<and>
    (rt_voice_client_owner s \<noteq> None \<longrightarrow> vw_marker (dm_voice d) = Marker (Some (voice_token d)))"
proof -
  have "daemon_ok d0" using assms(1) by (rule new_daemon_ok)
  then have "daemon_ok d" using sound_steps [OF assms(2)] by (simp add: sound_def)
  then have s: "state_ok (dm_state d)" and
    v: "rt_voice_client_owner (dm_state d) \<noteq> None \<longrightarrow> vw_marker (dm_voice d) = Marker (Some (voice_token d))"
    by (simp_all add: daemon_ok_def owns_marker_def)
  have "latch_ok (rt_observed (dm_state d))" by (rule state_ok_facts(2) [OF s])
  then have "\<forall>i e. hget (rt_observed (dm_state d)) i = Some e \<longrightarrow> ob_review_ready e \<longrightarrow>
      ob_status e = Done \<or> ob_status e = Idle" unfolding latch_ok_hget by blast
  with v state_ok_target [OF s] state_ok_facts(1,3) [OF s] show ?thesis
    unfolding Let_def by blast
qed

lemma daemon_invariant_witness:
  "\<exists>d :: nat daemon. step\<^sup>*\<^sup>* example_daemon d \<and> rt_backend (dm_state d) = T3code \<and>
     bs_mode (ps_backend (rt_snapshot (dm_state d))) = T3code"
proof -
  have "bs_mode (ps_backend (rt_snapshot (dm_state switched_daemon))) = rt_backend (dm_state switched_daemon)"
    using daemon_invariant [OF example_daemon_new switched_daemon_step] unfolding Let_def by blast
  then show ?thesis using switched_daemon_step switched_daemon_backend by metis
qed

text \<open>The sequence number gates what a command acts on: it never falls, and between two moments
  with the same number (below the greatest) the cards, their targets, the sessions, the order and
  the manager are the same. So a command that passes the stale check acts on the card and the
  target that the snapshot with its number showed.\<close>

lemma sequence_gates_commands:
  assumes "step\<^sup>*\<^sup>* d0 d" and "ps_sequence (rt_snapshot (dm_state d0)) \<noteq> - 1"
    and "resolve_agent_action command (dm_state d) = Inr (agent, target)"
    and "pc_sequence command = ps_sequence (rt_snapshot (dm_state d0))"
  shows "ps_sequence (rt_snapshot (dm_state d0)) = ps_sequence (rt_snapshot (dm_state d)) \<and>
    agent \<in> set (ps_agents (rt_snapshot (dm_state d0))) \<and> pc_agent_id command = Some (av_id agent) \<and>
    hget (rt_targets (dm_state d0)) (av_id agent) = Some target \<and>
    rt_backend (dm_state d0) = rt_backend (dm_state d)"
proof -
  note r = resolve_agent_action_Inr [OF assms(3)]
  have "sequenced (dm_state d0) (dm_state d)" using sound_steps [OF assms(1)] by (simp add: sound_def)
  with assms(2,4) r have "gate (dm_state d) = gate (dm_state d0)" unfolding sequenced_def by auto
  with assms(4) r show ?thesis by (auto simp: gate_def)
qed

lemma sequence_gates_commands_witness:
  "let d = card_daemon; c = example_command Open (Some ''a'') None 0
   in hget (rt_targets (dm_state d)) ''a'' = Some card_target \<and>
      (\<exists>agent. resolve_agent_action c (dm_state d) = Inr (agent, card_target) \<and>
         agent \<in> set (ps_agents (rt_snapshot (dm_state d))))"
proof -
  let ?c = "example_command Open (Some ''a'') None 0"
  have r: "resolve_agent_action ?c (dm_state card_daemon) = Inr (card, card_target)"
    by (rule card_daemon_resolves) (simp_all add: example_command_def command_capability_matches_def
        action_enabled_def card_actions)
  have "ps_sequence (rt_snapshot (dm_state card_daemon)) \<noteq> - 1"
    and "pc_sequence ?c = ps_sequence (rt_snapshot (dm_state card_daemon))"
    by (simp_all add: card_daemon_sequence example_command_def)
  from sequence_gates_commands [OF rtranclp.rtrancl_refl this(1) r this(2)] r
  show ?thesis unfolding Let_def by (auto simp: card_id)
qed

text \<open>C4 A guarded action reaches a Herdr server only for the capability the card shows: when an
  approve or interrupt command changes the servers' state, the command carries the current sequence
  and the identifier of that card's capability for exactly this action, and the change is the one
  request that performs that capability on the card's own session.\<close>

theorem guarded_action_needs_capability:
  assumes "process_command env line client_id d = Some (r, d')"
    and "de_parse_command env line = Inr command"
    and "pc_action command \<in> {Approve, Interrupt}" and "dm_servers d' \<noteq> dm_servers d"
  shows "\<exists>agent target cap. agent \<in> set (ps_agents (rt_snapshot (dm_state d))) \<and>
    pc_agent_id command = Some (av_id agent) \<and>
    pc_sequence command = ps_sequence (rt_snapshot (dm_state d)) \<and>
    (if pc_action command = Approve then aa_approve (av_actions agent)
     else aa_interrupt (av_actions agent)) = Some cap \<and> pc_capability_id command = Some (cap_id cap) \<and>
    hget (rt_targets (dm_state d)) (av_id agent) = Some (HerdrTarget target) \<and>
    dm_servers d' = snd (hv_exchange (de_herdr env) (ht_socket_path target)
      (payload (de_herdr env) (dm_servers d) ''agent.perform_action''
        [(''capability_id'', JStr (cap_id cap))]) (dm_servers d))"
proof -
  have act: "(r, d') = process_agent_action env command d"
    using assms by (cases "validate_command command") (auto simp: process_command_def Let_def)
  then obtain agent t where res: "resolve_agent_action command (dm_state d) = Inr (agent, HerdrTarget t)"
    and d': "(r, d') = process_herdr_action env command (av_id agent) t d"
    using assms(4) by (auto simp: process_agent_action_def split: sum.splits agent_target.splits)
  note info = resolve_agent_action_Inr [OF res]
  have g: "guarded_action (pc_action command)" using assms(3) by (simp add: guarded_action_def)
  obtain cap where cap: "pc_capability_id command = Some (cap_id cap)"
    "(if pc_action command = Approve then aa_approve (av_actions agent)
      else aa_interrupt (av_actions agent)) = Some cap"
    using capability_matches_guarded [OF g] info by blast
  have "dm_servers d' = snd (herdr_perform (de_herdr env) t (pc_action command)
      (pc_capability_id command) (dm_servers d))"
    using process_herdr_action_servers [of env command "av_id agent" t d] d' by (metis snd_conv)
  also have "\<dots> = snd (hv_exchange (de_herdr env) (ht_socket_path t)
      (payload (de_herdr env) (dm_servers d) ''agent.perform_action''
        [(''capability_id'', JStr (cap_id cap))]) (dm_servers d))"
    using assms(3) by (auto simp: cap(1) herdr_perform_guarded)
  finally show ?thesis using info cap by blast
qed

lemma guarded_action_needs_capability_witness:
  "let c = example_command Approve (Some ''a'') (Some ''c1'') 0; env = example_daemon_env c
   in \<exists>r d'. process_command env [] ''x'' card_daemon = Some (r, d') \<and> dm_servers d' = 1 \<and>
        (\<exists>cap. aa_approve (av_actions card) = Some cap \<and> cap_id cap = ''c1'')"
proof -
  let ?c = "example_command Approve (Some ''a'') (Some ''c1'') 0"
  let ?env = "example_daemon_env ?c"
  have valid: "validate_command ?c = Inr ()"
    unfolding example_command_valid by (simp add: agent_action_def guarded_action_def)
  have fields: "pc_action ?c = Approve" "de_parse_command ?env [] = Inr ?c"
    by (simp_all add: example_command_def example_daemon_env_def)
  have run: "process_command ?env [] ''x'' card_daemon = Some (process_agent_action ?env ?c card_daemon)"
    using valid fields by (simp add: process_command_def)
  have res: "resolve_agent_action ?c (dm_state card_daemon) = Inr (card, card_target)"
    by (rule card_daemon_resolves) (simp_all add: example_command_def command_capability_matches_def
        action_enabled_def card_actions)
  have servers: "dm_servers (snd (process_agent_action ?env ?c card_daemon)) = 1"
    unfolding process_agent_action_def res card_target_def sum.case prod.case agent_target.case
      process_herdr_action_servers
    by (simp add: example_daemon_env_def example_command_def herdr_perform_guarded example_herdr_def
        card_daemon_servers)
  obtain r d' where rd: "process_agent_action ?env ?c card_daemon = (r, d')"
    by (cases "process_agent_action ?env ?c card_daemon")
  have changed: "dm_servers d' \<noteq> dm_servers card_daemon"
    using servers rd by (simp add: card_daemon_servers)
  have "\<exists>agent cap. agent \<in> set (ps_agents (rt_snapshot (dm_state card_daemon))) \<and>
      aa_approve (av_actions agent) = Some cap \<and> cap_id cap = ''c1''"
    using guarded_action_needs_capability [OF run [unfolded rd] fields(2) _ changed] fields(1)
    by (auto simp: example_command_def)
  then have "\<exists>cap. aa_approve (av_actions card) = Some cap \<and> cap_id cap = ''c1''"
    by (simp add: card_daemon_agents)
  with run rd servers show ?thesis unfolding Let_def by auto
qed

text \<open>C5 Switching the agent manager leaves nothing of the previous one: no session, card, target,
  latch or focus survives, the order is unavailable, and a refresh of the previous manager that is
  still under way commits nothing.\<close>

theorem backend_switch_isolates:
  assumes "process_backend_command env command d = (r, d')"
    and "rt_backend (dm_state d') \<noteq> rt_backend (dm_state d)"
  shows "ps_agents (rt_snapshot (dm_state d')) = [] \<and> ps_sessions (rt_snapshot (dm_state d')) = [] \<and>
    rt_targets (dm_state d') = [] \<and> rt_observed (dm_state d') = [] \<and>
    rt_focused_agents (dm_state d') = [] \<and> rt_t3code_sequence (dm_state d') = None \<and>
    \<not> os_available (ps_agent_order (rt_snapshot (dm_state d'))) \<and>
    ps_backend (rt_snapshot (dm_state d')) = \<lparr>bs_mode = rt_backend (dm_state d'), bs_switchable = True\<rparr> \<and>
    commit_if (rt_backend (dm_state d)) env' f d' = d'"
  using assms
  by (auto simp: process_backend_command_def Let_def commit_backend_def bump_def on_snapshot_def
      default_order_def commit_if_def split: if_splits)

lemma backend_switch_isolates_witness:
  "rt_targets (dm_state switched_daemon) = [] \<and> ps_agents (rt_snapshot (dm_state switched_daemon)) = []"
proof -
  have b: "rt_backend (dm_state switched_daemon) \<noteq> rt_backend (dm_state example_daemon)"
    by (simp add: switched_daemon_backend example_daemon_def initial_state_def)
  show ?thesis
    using backend_switch_isolates [OF _ b] unfolding switched_daemon_def by (metis prod.collapse)
qed

lemma mset_apply_agent_order [simp]: "mset (apply_agent_order agents order) = mset agents"
  by (simp add: apply_agent_order_def)

lemma servers_frame [simp]:
  "dm_servers (publish env d) = dm_servers d" "dm_servers (on_state f d) = dm_servers d"
  "dm_servers (try_invalidate n d) = dm_servers d" "dm_servers (persist_backend env d) = dm_servers d"
  by (simp_all add: publish_def on_state_def try_invalidate_def persist_backend_def Let_def)

lemma resolve_agent_action_Inl: "resolve_agent_action command s = Inl e \<Longrightarrow> \<not> ar_ok e"
  by (auto simp: resolve_agent_action_def Let_def action_error_def split: if_splits option.splits)

lemma process_t3_open_ok:
  "ar_ok (process_t3_open env command target) \<Longrightarrow> pc_action command = Open \<and>
     (case tc_app_bin (cfg_t3code (de_config env)) of
        Some bin \<Rightarrow> \<exists>args. open_native_args (de_t3 env) (de_t3_client env) (de_userdata_parent env)
          (tt_thread_id target) = Inr args \<and> de_run_native env bin args = Inr ()
      | None \<Rightarrow> \<exists>url. client_thread_url (de_t3 env) (de_t3_client env) (tt_thread_id target) = Inr url \<and>
          de_open_url env url = Inr ())"
  by (auto simp: process_t3_open_def action_error_def and_then_def Let_def split: if_splits option.splits sum.splits)

lemma t3_agent_action:
  assumes "state_ok (dm_state d)" "rt_backend (dm_state d) = T3code"
  shows "\<exists>r. process_agent_action env command d = (r, d) \<and>
    (ar_ok r \<longrightarrow> (\<exists>card target. resolve_agent_action command (dm_state d) = Inr (card, T3codeTarget target) \<and>
       r = process_t3_open env command target))"
proof (cases "resolve_agent_action command (dm_state d)")
  case (Inl e)
  then show ?thesis using resolve_agent_action_Inl by (auto simp: process_agent_action_def)
next
  case (Inr x)
  obtain card t where x: "x = (card, t)" by fastforce
  then have "hget (rt_targets (dm_state d)) (av_id card) = Some t"
    using resolve_agent_action_Inr Inr by blast
  then obtain target where "t = T3codeTarget target"
    using state_ok_target [OF assms(1)] assms(2) by (cases t) fastforce+
  with Inr x show ?thesis by (simp add: process_agent_action_def)
qed

text \<open>C30 While T3 Code is the agent manager, no command reaches a Herdr server, and whatever a client
  sends, opening threads included, every card keeps its review badge, its status and its target:
  unless the command switches the manager, the observations behind the badges, the targets and the
  cards are the same, up to the order of the cards. Of the actions on a card only open succeeds; it
  leaves the daemon as it was, and it succeeds only when T3 Code's own application, or the address
  of exactly that card's thread, was opened.\<close>

theorem t3_commands_keep_review:
  assumes "new_daemon cfg epoch persisted voice servers = Inr d0" and "step\<^sup>*\<^sup>* d0 d"
    and "rt_backend (dm_state d) = T3code"
    and "process_command env line client_id d = Some (r, d')"
  shows "dm_servers d' = dm_servers d \<and>
    (rt_backend (dm_state d') = T3code \<longrightarrow>
       rt_observed (dm_state d') = rt_observed (dm_state d) \<and>
       rt_targets (dm_state d') = rt_targets (dm_state d) \<and>
       mset (ps_agents (rt_snapshot (dm_state d'))) = mset (ps_agents (rt_snapshot (dm_state d)))) \<and>
    (\<forall>command. de_parse_command env line = Inr command \<longrightarrow>
       pc_action command \<in> {Open, Zoom, Approve, Interrupt} \<longrightarrow> ar_ok r \<longrightarrow>
       pc_action command = Open \<and> d' = d \<and>
       (\<exists>card \<in> set (ps_agents (rt_snapshot (dm_state d))). \<exists>target.
          pc_agent_id command = Some (av_id card) \<and>
          hget (rt_targets (dm_state d)) (av_id card) = Some (T3codeTarget target) \<and>
          (case tc_app_bin (cfg_t3code (de_config env)) of
             Some bin \<Rightarrow> \<exists>args. open_native_args (de_t3 env) (de_t3_client env) (de_userdata_parent env)
               (tt_thread_id target) = Inr args \<and> de_run_native env bin args = Inr ()
           | None \<Rightarrow> \<exists>url. client_thread_url (de_t3 env) (de_t3_client env) (tt_thread_id target) = Inr url \<and>
               de_open_url env url = Inr ())))"
proof (cases "\<exists>command. de_parse_command env line = Inr command \<and> validate_command command = Inr ()")
  case False
  with assms(4) show ?thesis by (auto simp: process_command_def action_error_def split: sum.splits)
next
  case True
  then obtain command where c: "de_parse_command env line = Inr command" "validate_command command = Inr ()"
    by blast
  have "state_ok (dm_state d)"
    using sound_steps [OF assms(2)] new_daemon_ok [OF assms(1)] by (simp add: sound_def daemon_ok_def)
  then obtain q where q: "process_agent_action env command d = (q, d)"
    "ar_ok q \<longrightarrow> (\<exists>card target. resolve_agent_action command (dm_state d) = Inr (card, T3codeTarget target) \<and>
       q = process_t3_open env command target)"
    using t3_agent_action assms(3) by blast
  show ?thesis
  proof (cases "pc_action command \<in> {Open, Zoom, Approve, Interrupt}")
    case True
    then have "r = q \<and> d' = d" using assms(4) c q(1) by (auto simp: process_command_def Let_def)
    then show ?thesis
      using c(1) q(2) resolve_agent_action_Inr process_t3_open_ok by (fastforce simp del: not_None_eq)
  next
    case other: False
    show ?thesis
      using assms(3,4) c other
      by (cases "pc_action command") (auto simp: process_command_def Let_def process_restore_focus_def process_desktop_command_def
          process_voice_command_def process_agent_order_command_def process_backend_command_def
          commit_voice_def commit_order_def commit_backend_def bump_def on_snapshot_def
          split: if_splits prod.splits sum.splits option.splits)
  qed
qed

lemma t3_commands_keep_review_witness:
  "\<exists>(d' :: nat daemon) r. process_command (example_daemon_env (example_command Open (Some ''a'') None 0)) [] ''c''
       thread_daemon = Some (r, d') \<and> rt_observed (dm_state d') = rt_observed (dm_state thread_daemon) \<and>
     dm_servers d' = dm_servers thread_daemon"
proof -
  let ?c = "example_command Open (Some ''a'') None 0"
  let ?env = "example_daemon_env ?c"
  have "state_ok (dm_state thread_daemon)"
    using sound_steps [OF thread_daemon_step] new_daemon_ok [OF example_daemon_new]
    by (simp add: sound_def daemon_ok_def)
  then obtain r where r: "process_agent_action ?env ?c thread_daemon = (r, thread_daemon)"
    using t3_agent_action thread_daemon_cards(2) by blast
  have "validate_command ?c = Inr ()"
    unfolding example_command_valid by (simp add: agent_action_def guarded_action_def)
  then have run: "process_command ?env [] ''c'' thread_daemon = Some (r, thread_daemon)"
    using r by (simp add: process_command_def example_daemon_env_def example_command_def)
  show ?thesis
    using t3_commands_keep_review [OF example_daemon_new thread_daemon_step thread_daemon_cards(2) run] run
    by blast
qed

end
